(* ===== verification/Prelude.thy ===== *)
theory Prelude
  imports Main "HOL-Library.Word" "HOL-Library.Char_ord" "HOL-Library.List_Lexorder"
    "HOL-Library.Signed_Division" "HOL-Library.AList"
begin

text \<open>
  The shared vocabulary of the development: Go's values as HOL types, Go's
  \<open>error\<close> results, the time and duration values the packages receive, the one
  durable write every record store of the program performs, and two interfaces the
  component theories rest on.

  A Go byte is a \<^typ>\<open>char\<close> (both are eight bits), so a Go \<open>string\<close> and a
  \<open>[]byte\<close> are both a \<^typ>\<open>string\<close>, the conversion between them is the identity,
  and Go's bytewise string order is the lexicographic order of \<open>List_Lexorder\<close>
  over \<open>Char_ord\<close>. Unsigned machine integers are words, so that sums of times and
  counters wrap where the program's do.
\<close>

section \<open>Values\<close>

type_synonym bytes = string
type_synonym u32 = "32 word"
type_synonym u64 = "64 word"

text \<open>
  The failures of the packages modelled. \<open>Msg\<close> is \<open>errors.New\<close> of a text written
  at the place of failure; the other constructors are the package-level sentinel errors
  callers compare with \<open>errors.Is\<close>.
\<close>

datatype err =
    Msg string
  | ErrBudgetExceeded
  | ErrPoisoned
  | ErrFinalizedQuoteMismatch
  | ErrRenderingConflict
  | ErrNegotiationsFull
  | ErrConflict
  | ErrUnknown
  | ErrNotPending
  | ErrAlreadySealed
  | ErrLeaseMismatch
  | ErrSessionConflict
  | ErrEmptyRoom
  | ErrRoomFull
  | ErrEpochExhausted
  | ErrNoChange
  | ErrStoreConflict
  | ErrStoreQuota
  | ErrLeaseNotFound
  | ErrAccessReplay
  | ErrClockRollback
  | ErrRoomRollback
  | ErrRoomGap
  | ErrApprovalUnknown
  | ErrApprovalDecided
  | ErrApprovalNotGranted
  | ErrNotAdmitted
  | ErrApplicationKind
  | ErrPendingFull
  | ErrMandateUnknown
  | ErrMandateRevoked
  | ErrMandatesFull
  | ErrSetRollback
  | ErrSetEquivocation

text \<open>
  A Go result \<open>(T, error)\<close> is \<open>err + 'a\<close>, \<open>Inl\<close> the error; a Go result
  \<open>error\<close> alone is \<open>err option\<close>, \<open>None\<close> being \<open>nil\<close>. \<open>bindE\<close> is the idiom
  \<open>if err != nil { return err }\<close>, \<open>failE\<close> the same for a bare \<open>error\<close>.
\<close>

type_synonym 'a res = "err + 'a"

definition bindE :: "'a res \<Rightarrow> ('a \<Rightarrow> 'b res) \<Rightarrow> 'b res" where
  "bindE m f = (case m of Inl e \<Rightarrow> Inl e | Inr x \<Rightarrow> f x)"

definition failE :: "err option \<Rightarrow> 'b res \<Rightarrow> 'b res" where
  "failE e r = (case e of Some x \<Rightarrow> Inl x | None \<Rightarrow> r)"

section \<open>Time\<close>

text \<open>
  A \<open>time.Time\<close> is its \<open>Unix()\<close> value, an integer number of seconds, which is all the
  program reads of it. The zero \<open>time.Time\<close> is the first second of year one.
  \<open>bad_time\<close> is the guard \<open>now.IsZero() || now.Unix() < 0\<close> the packages repeat, and
  \<open>unix\<close> the conversion \<open>uint64(now.Unix())\<close>. A \<open>time.Duration\<close> is its number of
  nanoseconds, and its division by \<open>time.Second\<close> truncates towards zero.
\<close>

type_synonym gotime = int
type_synonym duration = int

definition IsZero :: "gotime \<Rightarrow> bool" where
  "IsZero t \<longleftrightarrow> t = - 62135596800"

definition bad_time :: "gotime \<Rightarrow> bool" where
  "bad_time now \<longleftrightarrow> IsZero now \<or> now < 0"

definition unix :: "gotime \<Rightarrow> u64" where
  "unix now = word_of_int now"

definition Second :: duration where
  "Second = 1000000000"

definition Minute :: duration where
  "Minute = 60 * Second"

definition Hour :: duration where
  "Hour = 60 * Minute"

definition in_seconds :: "duration \<Rightarrow> int" where
  "in_seconds d = signed_divide d Second"

section \<open>Durable writes\<close>

text \<open>
  Every record is replaced through a temporary file and an atomic rename followed by a
  directory sync (\<open>Journal.replace\<close>). Three things can happen: the new record is on disk
  and the caller is told so; the write failed before the rename and the old record is
  still there; or the rename happened and the directory sync failed, so the caller is told
  of a failure although the new record may be what a restart finds. A crash during or
  right after a write leaves the disk in one of the same three shapes.
\<close>

datatype wout = Synced | Lost | Unsynced

text \<open>
  A directory of records, or a Go map, is an association list with distinct keys, so that
  the operations that count or list its entries compute.
\<close>

type_synonym ('k, 'v) dir = "('k \<times> 'v) list"

text \<open>A record file: it decodes, or it does not, which a crash while it is written can leave.\<close>

datatype 'v stored = Whole 'v | Broken

definition replace_file :: "wout \<Rightarrow> 'k \<Rightarrow> 'v \<Rightarrow> ('k, 'v) dir \<Rightarrow> err option \<times> ('k, 'v) dir" where
  "replace_file w k v d =
     (case w of
        Synced \<Rightarrow> (None, AList.update k v d)
      | Lost \<Rightarrow> (Some (Msg ''commit event transition''), d)
      | Unsynced \<Rightarrow> (Some (Msg ''sync event journal directory''), AList.update k v d))"

section \<open>Shared lemmas\<close>

named_theorems time_defs "the time conversions of the packages"
named_theorems val_defs "the validators of the packages"

declare bad_time_def [time_defs] IsZero_def [time_defs] unix_def [time_defs]

lemma bad_time_iff: "bad_time now \<longleftrightarrow> now < 0"
  by (auto simp: bad_time_def IsZero_def)

lemma bindE_Inl [simp]: "bindE (Inl e) f = Inl e"
  by (simp add: bindE_def)

lemma bindE_Inr [simp]: "bindE (Inr x) f = f x"
  by (simp add: bindE_def)

lemma bindE_eq_Inr: "bindE m f = Inr y \<longleftrightarrow> (\<exists>x. m = Inr x \<and> f x = Inr y)"
  by (cases m) auto

lemma bindE_eq_Inl: "bindE m f = Inl e \<longleftrightarrow> m = Inl e \<or> (\<exists>x. m = Inr x \<and> f x = Inl e)"
  by (cases m) auto

lemma failE_None [simp]: "failE None r = r"
  by (simp add: failE_def)

lemma failE_Some [simp]: "failE (Some e) r = Inl e"
  by (simp add: failE_def)

lemma failE_eq_Inr: "failE e r = Inr y \<longleftrightarrow> e = None \<and> r = Inr y"
  by (cases e) auto

lemmas res_iffs = bindE_eq_Inr failE_eq_Inr

section \<open>Interfaces\<close>

text \<open>
  A store of records under keys. The provider promises that a write that reports success
  is what a later read returns, that a write that reports failure leaves the old record
  or the new one, and that no write touches another key. What every client of a store
  needs is the consequence that a property of every stored record survives a write of a
  record that has it, whatever the write reports.
\<close>

locale record_store =
  fixes put :: "wout \<Rightarrow> 'k \<Rightarrow> 'v \<Rightarrow> 's \<Rightarrow> err option \<times> 's"
    and lookup :: "'s \<Rightarrow> 'k \<Rightarrow> 'v option"
  assumes put_ok: "fst (put w k v s) = None \<Longrightarrow> lookup (snd (put w k v s)) k = Some v"
    and put_either: "lookup (snd (put w k v s)) k = lookup s k \<or>
      lookup (snd (put w k v s)) k = Some v"
    and put_frame: "k' \<noteq> k \<Longrightarrow> lookup (snd (put w k v s)) k' = lookup s k'"
begin

lemma put_all:
  assumes "\<And>k' v'. lookup s k' = Some v' \<Longrightarrow> P k' v'" and "P k v"
    and "lookup (snd (put w k v s)) k'' = Some v''"
  shows "P k'' v''"
  using assms put_either [of w k v s] put_frame [of k'' k w v s]
  by (cases "k'' = k") auto

lemma put_dom: "lookup (snd (put w k v s)) k' = None \<Longrightarrow> lookup s k' = None"
  using put_either [of w k v s] put_frame [of k' k w v s]
  by (cases "k' = k") auto

lemma put_read_back:
  assumes "fst (put w k v s) = None"
  shows "lookup (snd (put w k v s)) k' = (if k' = k then Some v else lookup s k')"
  using assms put_ok put_frame by simp

end

interpretation files: record_store "replace_file" "map_of"
  by unfold_locales (auto simp: replace_file_def update_conv' split: wout.splits)

lemma distinct_replace_file: "distinct (map fst d) \<Longrightarrow> distinct (map fst (snd (replace_file w k v d)))"
  by (auto simp: replace_file_def distinct_update split: wout.splits)

text \<open>
  A component whose steps keep an invariant. The invariant holds after any finite
  sequence of steps from a state that satisfies it.
\<close>

locale invariant_system =
  fixes step :: "'s \<Rightarrow> 's \<Rightarrow> bool" and inv :: "'s \<Rightarrow> bool"
  assumes step_inv: "inv s \<Longrightarrow> step s t \<Longrightarrow> inv t"
begin

lemma steps_inv: "step\<^sup>*\<^sup>* s t \<Longrightarrow> inv s \<Longrightarrow> inv t"
  by (induction rule: rtranclp_induct) (auto intro: step_inv)

end

end
