(* ===== verification/Sha256.thy ===== *)
theory Sha256
  imports Prelude
begin

text \<open>
  SHA-256 and the two encodings of Go's standard library the program uses with it,
  lowercase hexadecimal and strict big-endian integers, as executable functions on byte
  strings. The algorithm is FIPS 180-4: padding to sixteen-word blocks, the message
  schedule and the compression function.
\<close>

unbundle bit_operations_syntax

section \<open>Bytes and integers\<close>

definition byte_val :: "char \<Rightarrow> nat" where
  "byte_val c = of_char c"

text \<open>\<open>binary.BigEndian.PutUint32\<close>, \<open>PutUint64\<close> and their inverses.\<close>

fun be_put :: "nat \<Rightarrow> 'a::len word \<Rightarrow> bytes" where
  "be_put 0 w = []"
| "be_put (Suc n) w = be_put n (drop_bit 8 w) @ [char_of (unat (take_bit 8 w))]"

definition be_get :: "bytes \<Rightarrow> 'a::len word" where
  "be_get bs = foldl (\<lambda>w c. 256 * w + of_nat (byte_val c)) 0 bs"

definition put32 :: "u32 \<Rightarrow> bytes" where
  "put32 w = be_put 4 w"

definition put64 :: "u64 \<Rightarrow> bytes" where
  "put64 w = be_put 8 w"

definition get32 :: "bytes \<Rightarrow> u32" where
  "get32 bs = be_get bs"

definition get64 :: "bytes \<Rightarrow> u64" where
  "get64 bs = be_get bs"

section \<open>SHA-256\<close>

definition sha_k :: "u32 list" where
  "sha_k = [
    1116352408, 1899447441, 3049323471, 3921009573, 961987163, 1508970993, 2453635748, 2870763221,
    3624381080, 310598401, 607225278, 1426881987, 1925078388, 2162078206, 2614888103, 3248222580,
    3835390401, 4022224774, 264347078, 604807628, 770255983, 1249150122, 1555081692, 1996064986,
    2554220882, 2821834349, 2952996808, 3210313671, 3336571891, 3584528711, 113926993, 338241895,
    666307205, 773529912, 1294757372, 1396182291, 1695183700, 1986661051, 2177026350, 2456956037,
    2730485921, 2820302411, 3259730800, 3345764771, 3516065817, 3600352804, 4094571909, 275423344,
    430227734, 506948616, 659060556, 883997877, 958139571, 1322822218, 1537002063, 1747873779,
    1955562222, 2024104815, 2227730452, 2361852424, 2428436474, 2756734187, 3204031479, 3329325298]"

definition sha_h0 :: "u32 list" where
  "sha_h0 = [1779033703, 3144134277, 1013904242, 2773480762,
             1359893119, 2600822924, 528734635, 1541459225]"

definition sha_rotr :: "nat \<Rightarrow> u32 \<Rightarrow> u32" where
  "sha_rotr n x = drop_bit n x OR push_bit (32 - n) x"

definition sha_s0 :: "u32 \<Rightarrow> u32" where
  "sha_s0 x = sha_rotr 7 x XOR sha_rotr 18 x XOR drop_bit 3 x"

definition sha_s1 :: "u32 \<Rightarrow> u32" where
  "sha_s1 x = sha_rotr 17 x XOR sha_rotr 19 x XOR drop_bit 10 x"

definition sha_S0 :: "u32 \<Rightarrow> u32" where
  "sha_S0 x = sha_rotr 2 x XOR sha_rotr 13 x XOR sha_rotr 22 x"

definition sha_S1 :: "u32 \<Rightarrow> u32" where
  "sha_S1 x = sha_rotr 6 x XOR sha_rotr 11 x XOR sha_rotr 25 x"

text \<open>The message schedule, most recent word first.\<close>

fun sha_expand :: "nat \<Rightarrow> u32 list \<Rightarrow> u32 list" where
  "sha_expand 0 ws = ws"
| "sha_expand (Suc n) ws =
     sha_expand n ((sha_s1 (ws ! 1) + ws ! 6 + sha_s0 (ws ! 14) + ws ! 15) # ws)"

fun sha_round :: "u32 list \<Rightarrow> u32 \<times> u32 \<Rightarrow> u32 list" where
  "sha_round [a, b, c, d, e, f, g, h] (k, w) =
     (let t1 = h + sha_S1 e + ((e AND f) XOR (NOT e AND g)) + k + w;
          t2 = sha_S0 a + ((a AND b) XOR (a AND c) XOR (b AND c))
      in [t1 + t2, a, b, c, d + t1, e, f, g])"
| "sha_round s _ = s"

definition sha_block :: "u32 list \<Rightarrow> u32 list \<Rightarrow> u32 list" where
  "sha_block h ws =
     map2 (+) h (foldl sha_round h (zip sha_k (rev (sha_expand 48 (rev ws)))))"

text \<open>The padded message as words, and the words sixteen at a time.\<close>

definition sha_pad :: "bytes \<Rightarrow> bytes" where
  "sha_pad m = m @ char_of (128 :: nat) #
     replicate ((119 - length m mod 64) mod 64) (char_of (0 :: nat)) @
     put64 (of_nat (8 * length m))"

fun sha_words :: "bytes \<Rightarrow> u32 list" where
  "sha_words (a # b # c # d # r) = get32 [a, b, c, d] # sha_words r"
| "sha_words _ = []"

function sha_blocks :: "u32 list \<Rightarrow> u32 list \<Rightarrow> u32 list" where
  "sha_blocks h ws = (if length ws < 16 then h else sha_blocks (sha_block h (take 16 ws)) (drop 16 ws))"
  by pat_completeness auto
termination
  by (relation "measure (\<lambda>(h, ws). length ws)") auto

declare sha_blocks.simps [simp del]

definition sha256 :: "bytes \<Rightarrow> bytes" where
  "sha256 m = concat (map put32 (sha_blocks sha_h0 (sha_words (sha_pad m))))"

section \<open>Hexadecimal\<close>

definition hex_digit :: "nat \<Rightarrow> char" where
  "hex_digit n = char_of (if n < 10 then 48 + n else 87 + n)"

definition hex_char :: "char \<Rightarrow> string" where
  "hex_char c = [hex_digit (byte_val c div 16), hex_digit (byte_val c mod 16)]"

text \<open>\<open>hex.EncodeToString\<close>.\<close>

definition hex_encode :: "bytes \<Rightarrow> string" where
  "hex_encode bs = concat (map hex_char bs)"

text \<open>
  \<open>hex.DecodeString\<close>, which takes both letter cases and refuses an odd length or a
  character that is no digit.
\<close>

definition hex_val :: "char \<Rightarrow> nat option" where
  "hex_val c = (let n = byte_val c in
     if 48 \<le> n \<and> n \<le> 57 then Some (n - 48)
     else if 97 \<le> n \<and> n \<le> 102 then Some (n - 87)
     else if 65 \<le> n \<and> n \<le> 70 then Some (n - 55)
     else None)"

fun hex_decode :: "string \<Rightarrow> bytes option" where
  "hex_decode [] = Some []"
| "hex_decode [c] = None"
| "hex_decode (c # d # r) =
     (case (hex_val c, hex_val d, hex_decode r) of
        (Some a, Some b, Some bs) \<Rightarrow> Some (char_of (16 * a + b) # bs)
      | _ \<Rightarrow> None)"

definition is_hex :: "char \<Rightarrow> bool" where
  "is_hex c = (let n = byte_val c in (48 \<le> n \<and> n \<le> 57) \<or> (97 \<le> n \<and> n \<le> 102))"


section \<open>Facts\<close>

lemma byte_val_less [simp]: "byte_val c < 256"
  by (simp add: byte_val_def)

lemma byte_val_char_of [simp]: "byte_val (char_of (n :: nat)) = n mod 256"
  by (simp add: byte_val_def)

lemma char_of_byte_val [simp]: "char_of (byte_val c) = c"
  by (simp add: byte_val_def)

lemma byte_val_inject [simp]: "byte_val c = byte_val d \<longleftrightarrow> c = d"
  by (metis char_of_byte_val)

lemma length_be_put [simp]: "length (be_put n w) = n"
  by (induction n arbitrary: w) auto

lemma be_get_append: "be_get (bs @ [c]) = 256 * be_get bs + of_nat (byte_val c)"
  by (simp add: be_get_def)

lemma unat_take8: "unat (take_bit 8 (w :: 'a::len word)) = unat w mod 256"
  by (simp only: unsigned_take_bit_eq) (simp add: take_bit_eq_mod)

lemma unat_drop8: "unat (drop_bit 8 (w :: 'a::len word)) = unat w div 256"
  by (simp only: unat_drop_bit_eq) (simp add: drop_bit_eq_div)

lemma be_get_put: "be_get (be_put n w) = take_bit (8 * n) (w :: 'a::len word)"
proof (induction n arbitrary: w)
  case 0
  then show ?case by (simp add: be_get_def)
next
  case (Suc n)
  have small: "unat (take_bit 8 w) < 256"
    by (simp add: unat_take8)
  have "be_get (be_put (Suc n) w) = 256 * take_bit (8 * n) (drop_bit 8 w) + take_bit 8 w"
    using small by (simp add: be_get_append Suc.IH)
  also have "\<dots> = push_bit 8 (take_bit (8 * n) (drop_bit 8 w)) + take_bit 8 w"
    by (simp add: push_bit_eq_mult mult.commute)
  also have "\<dots> = push_bit 8 (drop_bit 8 (take_bit (8 * Suc n) w)) + take_bit 8 (take_bit (8 * Suc n) w)"
    by (simp add: drop_bit_take_bit)
  also have "\<dots> = take_bit (8 * Suc n) w"
    by (rule bits_ident)
  finally show ?case .
qed
lemma unat_be_get:
  "8 * length bs \<le> LENGTH('a) \<Longrightarrow> unat (be_get bs :: 'a::len word) = foldl (\<lambda>n c. 256 * n + byte_val c) 0 bs
    \<and> unat (be_get bs :: 'a::len word) < 2 ^ (8 * length bs)"
proof (induction bs rule: rev_induct)
  case Nil
  then show ?case by (simp add: be_get_def)
next
  case (snoc c bs)
  let ?w = "be_get bs :: 'a word"
  let ?n = "256 * unat ?w + byte_val c"
  from snoc have lt: "unat ?w < 2 ^ (8 * length bs)"
    and eq: "unat ?w = foldl (\<lambda>n c. 256 * n + byte_val c) 0 bs" by auto
  have b: "?n < 2 ^ (8 * length (bs @ [c]))"
    using lt byte_val_less [of c] unfolding length_append by (simp add: power_add, linarith)
  also have "(2::nat) ^ (8 * length (bs @ [c])) \<le> 2 ^ LENGTH('a)"
    using snoc.prems by (intro power_increasing) auto
  finally have n: "?n < 2 ^ LENGTH('a)" .
  have "be_get (bs @ [c]) = (of_nat ?n :: 'a word)"
    by (simp add: be_get_append)
  then have "unat (be_get (bs @ [c]) :: 'a word) = ?n"
    using n by (simp only: unat_of_nat mod_less)
  with b eq show ?case by simp
qed

lemma be_put_get: "8 * length bs \<le> LENGTH('a) \<Longrightarrow> be_put (length bs) (be_get bs :: 'a::len word) = bs"
proof (induction bs rule: rev_induct)
  case Nil
  then show ?case by simp
next
  case (snoc c bs)
  let ?w = "be_get bs :: 'a word" and ?v = "be_get (bs @ [c]) :: 'a word"
  have v: "unat ?v = 256 * unat ?w + byte_val c"
    using unat_be_get [of "bs @ [c]", where 'a = 'a] unat_be_get [of bs, where 'a = 'a] snoc.prems
    by simp
  have "unat (drop_bit 8 ?v) = unat ?w"
    using byte_val_less [of c] by (simp add: unat_drop8 v)
  then have "drop_bit 8 ?v = ?w" by (simp only: word_unat_eq_iff)
  moreover have "char_of (unat (take_bit 8 ?v)) = c"
    by (simp add: unat_take8 v)
  ultimately show ?case using snoc by simp
qed

lemma length_put32 [simp]: "length (put32 w) = 4"
  by (simp add: put32_def)
lemma length_put64 [simp]: "length (put64 w) = 8"
  by (simp add: put64_def)
lemma get32_put32 [simp]: "get32 (put32 w) = w"
  by (simp add: get32_def put32_def be_get_put take_bit_word_eq_self)
lemma get64_put64 [simp]: "get64 (put64 w) = w"
  by (simp add: get64_def put64_def be_get_put take_bit_word_eq_self)
lemma put32_get32: "length bs = 4 \<Longrightarrow> put32 (get32 bs) = bs"
  using be_put_get [of bs, where 'a = 32] by (simp add: put32_def get32_def)
lemma put64_get64: "length bs = 8 \<Longrightarrow> put64 (get64 bs) = bs"
  using be_put_get [of bs, where 'a = 64] by (simp add: put64_def get64_def)

lemma length_sha_round [simp]: "length (sha_round s kw) = length s"
  by (cases "(s, kw)" rule: sha_round.cases) (auto simp: Let_def)

lemma length_foldl_sha_round [simp]: "length (foldl sha_round s kws) = length s"
  by (induction kws arbitrary: s) auto

lemma length_sha_block [simp]: "length (sha_block h ws) = length h"
  by (simp add: sha_block_def)

lemma length_sha_blocks [simp]: "length (sha_blocks h ws) = length h"
proof (induction h ws rule: sha_blocks.induct)
  case (1 h ws)
  then show ?case by (simp add: sha_blocks.simps [of h ws])
qed

lemma length_concat_put32: "length (concat (map put32 ws)) = 4 * length ws"
  by (induction ws) auto

lemma length_sha256 [simp]: "length (sha256 m) = 32"
  by (simp add: sha256_def length_concat_put32 sha_h0_def)

lemma hex_digit_facts [simp]:
  assumes "n < 16"
  shows "is_hex (hex_digit n)" and "hex_val (hex_digit n) = Some n"
  using assms by (auto simp: is_hex_def hex_val_def hex_digit_def)

lemma hex_val_digit: "is_hex c \<Longrightarrow> \<exists>n < 16. hex_val c = Some n \<and> hex_digit n = c"
  by (auto simp: is_hex_def hex_val_def hex_digit_def Let_def split: if_splits)

lemma hex_encode_simps [simp]:
  "hex_encode [] = []" "hex_encode (c # cs) = hex_char c @ hex_encode cs"
  by (simp_all add: hex_encode_def)

lemma length_hex_encode [simp]: "length (hex_encode bs) = 2 * length bs"
  by (induction bs) (auto simp: hex_char_def)

lemma is_hex_encode: "list_all is_hex (hex_encode bs)"
proof (induction bs)
  case (Cons c cs)
  have "byte_val c div 16 < 16" using byte_val_less [of c] by linarith
  with Cons show ?case by (simp add: hex_char_def hex_digit_facts)
qed simp

lemma hex_decode_encode [simp]: "hex_decode (hex_encode bs) = Some bs"
proof (induction bs)
  case (Cons c cs)
  have "byte_val c div 16 < 16" using byte_val_less [of c] by linarith
  with Cons show ?case by (simp add: hex_char_def hex_digit_facts)
qed simp

lemma hex_encode_decode:
  "list_all is_hex s \<Longrightarrow> even (length s) \<Longrightarrow> \<exists>bs. hex_decode s = Some bs \<and> hex_encode bs = s \<and> 2 * length bs = length s"
proof (induction s rule: hex_decode.induct)
  case (3 c d r)
  then obtain bs where bs: "hex_decode r = Some bs" "hex_encode bs = r" "2 * length bs = length r" by auto
  from 3 obtain m n where "m < 16" "hex_val c = Some m" "hex_digit m = c"
    "n < 16" "hex_val d = Some n" "hex_digit n = d"
    using hex_val_digit [of c] hex_val_digit [of d] by auto
  with bs show ?case by (auto simp: hex_char_def)
qed auto

lemma hex_encode_inject [simp]: "hex_encode a = hex_encode b \<longleftrightarrow> a = b"
  by (metis hex_decode_encode option.inject)

end
