(* ===== verification/Domains.thy ===== *)
theory Domains
  imports Sha256
begin

text \<open>
  The domain separators of \<open>internal/canon/domains.go\<close>, one constant per separator and
  the registry \<open>Domains\<close> in the order of the source. Every separator ends in a NUL byte
  and has no other; that and their being pairwise distinct makes the registry prefix-free,
  so that no preimage of one object kind is a preimage of another.
\<close>

section \<open>The separators\<close>

definition sep :: "string \<Rightarrow> string" where
  "sep name = name @ [CHR 0x00]"

definition DomainEndpointDelegation :: string where
  "DomainEndpointDelegation = sep ''tos.messaging.endpoint-delegation.v2''"

definition DomainEndpointID :: string where
  "DomainEndpointID = sep ''tos.messaging.endpoint-id.v2''"

definition DomainNegotiationRecord :: string where
  "DomainNegotiationRecord = sep ''tos.messaging.negotiation-record.v1''"

definition DomainBudget :: string where
  "DomainBudget = sep ''tos.messaging.budget.v3''"

definition DomainMandateBudget :: string where
  "DomainMandateBudget = sep ''tos.messaging.mandate-budget.v3''"

definition DomainNegotiationTerms :: string where
  "DomainNegotiationTerms = sep ''tos.messaging.negotiation-terms.v3''"

definition DomainOwnerDecision :: string where
  "DomainOwnerDecision = sep ''tos.messaging.owner-decision.v1''"

definition DomainMandate :: string where
  "DomainMandate = sep ''tos.messaging.mandate.v3''"

definition DomainAgentAction :: string where
  "DomainAgentAction = sep ''tos.messaging.agent-action.v1''"

definition DomainPayload :: string where
  "DomainPayload = sep ''tos.messaging.payload.v1''"

definition DomainInboxPolicy :: string where
  "DomainInboxPolicy = sep ''tos.messaging.inbox-policy.v1''"

definition DomainAdmissionInvite :: string where
  "DomainAdmissionInvite = sep ''tos.messaging.admission-invite.v1''"

definition DomainDescriptorPolicy :: string where
  "DomainDescriptorPolicy = sep ''tos.messaging.descriptor-policy.v1''"

definition DomainRelaySet :: string where
  "DomainRelaySet = sep ''tos.messaging.relay-set.v1''"

definition DomainContactDescriptor :: string where
  "DomainContactDescriptor = sep ''tos.messaging.contact-descriptor.v2''"

definition DomainDHTLocator :: string where
  "DomainDHTLocator = sep ''tos.messaging.dht-locator.v1''"

definition DomainEventID :: string where
  "DomainEventID = sep ''tos.messaging.event-id.v2''"

definition DomainPrekeyBundle :: string where
  "DomainPrekeyBundle = sep ''tos.messaging.prekey-bundle.v2''"

definition DomainPrekeyBundleSet :: string where
  "DomainPrekeyBundleSet = sep ''tos.messaging.prekey-bundle-set.v2''"

definition DomainDeviceSession :: string where
  "DomainDeviceSession = sep ''tos.messaging.device-session.v1''"

definition DomainE2EEBinding :: string where
  "DomainE2EEBinding = sep ''tos.messaging.e2ee-binding.v2''"

definition DomainReachabilityTrial :: string where
  "DomainReachabilityTrial = sep ''tos.messaging.reachability-trial.v4''"

definition DomainReachabilityCollectorManifest :: string where
  "DomainReachabilityCollectorManifest = sep ''tos.messaging.reachability-collector-manifest.v1''"

definition DomainReachabilityPolicy :: string where
  "DomainReachabilityPolicy = sep ''tos.messaging.reachability-policy.v4''"

definition DomainReachabilityRLDPPayload :: string where
  "DomainReachabilityRLDPPayload = sep ''tos.messaging.reachability-rldp-payload.v1''"

definition DomainReachabilityOperator :: string where
  "DomainReachabilityOperator = sep ''tos.messaging.reachability-operator.v1''"

definition DomainReachabilitySite :: string where
  "DomainReachabilitySite = sep ''tos.messaging.reachability-site.v1''"

definition DomainReachabilityPairID :: string where
  "DomainReachabilityPairID = sep ''tos.messaging.reachability-pair-id.v1''"

definition DomainReachabilityPairResult :: string where
  "DomainReachabilityPairResult = sep ''tos.messaging.reachability-pair-result.v1''"

definition DomainReachabilityCoordinator :: string where
  "DomainReachabilityCoordinator = sep ''tos.messaging.reachability-coordinator.v1''"

definition DomainReachabilityObservation :: string where
  "DomainReachabilityObservation = sep ''tos.messaging.reachability-observation.v1''"

definition DomainEconomicExecution :: string where
  "DomainEconomicExecution = sep ''tos.messaging.economic-execution.v1''"

definition DomainRoomMembership :: string where
  "DomainRoomMembership = sep ''tos.messaging.room-membership.v1''"

definition DomainRoomAuthorityTransfer :: string where
  "DomainRoomAuthorityTransfer = sep ''tos.messaging.room-authority-transfer.v1''"

definition DomainRoomMembershipAuthorization :: string where
  "DomainRoomMembershipAuthorization = sep ''tos.messaging.room-membership-authorization.v1''"

definition DomainRoomRolePolicy :: string where
  "DomainRoomRolePolicy = sep ''tos.messaging.room-role-policy.v1''"

definition DomainPublicChannelID :: string where
  "DomainPublicChannelID = sep ''tos.messaging.public-channel-id.v1''"

definition DomainPublicChannelProfile :: string where
  "DomainPublicChannelProfile = sep ''tos.messaging.public-channel-profile.v1''"

definition DomainPublicChannelEvent :: string where
  "DomainPublicChannelEvent = sep ''tos.messaging.public-channel-event.v1''"

definition DomainPublicChannelHistory :: string where
  "DomainPublicChannelHistory = sep ''tos.messaging.public-channel-history.v1''"

definition DomainStoredAck :: string where
  "DomainStoredAck = sep ''tos.messaging.stored-ack.v1''"

definition DomainConformanceReport :: string where
  "DomainConformanceReport = sep ''tos.messaging.conformance-report.v1''"

definition DomainMLSDeviceCredential :: string where
  "DomainMLSDeviceCredential = sep ''tos.messaging.mls-device-credential.v2''"

definition DomainMLSBasicCredential :: string where
  "DomainMLSBasicCredential = sep ''tos.messaging.mls-basic-credential.v1''"

definition DomainMLSGroupID :: string where
  "DomainMLSGroupID = sep ''tos.messaging.mls-group-id.v1''"

definition DomainAttachmentMetadata :: string where
  "DomainAttachmentMetadata = sep ''tos.messaging.attachment-metadata.v1''"

definition DomainAttachmentChunk :: string where
  "DomainAttachmentChunk = sep ''tos.messaging.attachment-chunk.v1''"

definition DomainAttachmentManifest :: string where
  "DomainAttachmentManifest = sep ''tos.messaging.attachment-manifest.v1''"

definition DomainAttachmentCapabilityGrant :: string where
  "DomainAttachmentCapabilityGrant = sep ''tos.messaging.attachment-capability-grant.v1''"

definition DomainAttachmentAccessRequest :: string where
  "DomainAttachmentAccessRequest = sep ''tos.messaging.attachment-access-request.v1''"

definition DomainAttachmentOperationBody :: string where
  "DomainAttachmentOperationBody = sep ''tos.messaging.attachment-operation-body.v1''"

definition DomainAttachmentAccessClaim :: string where
  "DomainAttachmentAccessClaim = sep ''tos.messaging.attachment-access-claim.v1''"

definition DomainAttachmentStoredAck :: string where
  "DomainAttachmentStoredAck = sep ''tos.messaging.attachment-stored-ack.v1''"

definition DomainAttachmentDeleteAck :: string where
  "DomainAttachmentDeleteAck = sep ''tos.messaging.attachment-delete-ack.v1''"

definition DomainAgentPacketClaim :: string where
  "DomainAgentPacketClaim = sep ''tos.messaging.agent-packet-claim.v1''"

definition DomainMailboxCapabilityGrant :: string where
  "DomainMailboxCapabilityGrant = sep ''tos.messaging.mailbox-capability-grant.v1''"

definition DomainMailboxAccessRequest :: string where
  "DomainMailboxAccessRequest = sep ''tos.messaging.mailbox-access-request.v1''"

definition DomainMailboxOperationBody :: string where
  "DomainMailboxOperationBody = sep ''tos.messaging.mailbox-operation-body.v1''"

definition DomainMailboxAccessClaim :: string where
  "DomainMailboxAccessClaim = sep ''tos.messaging.mailbox-access-claim.v1''"

definition DomainLabToken :: string where
  "DomainLabToken = sep ''tos.messaging.lab.token.v1''"

definition DomainLabRoom :: string where
  "DomainLabRoom = sep ''tos.messaging.lab.room.v1''"

definition DomainLabMessage :: string where
  "DomainLabMessage = sep ''tos.messaging.lab.message.v1''"

definition DomainOpenFoxMLSAAD :: string where
  "DomainOpenFoxMLSAAD = sep ''tos.messaging.openfox-mls-message-aad.v1''"

definition DomainOutboundIntent :: string where
  "DomainOutboundIntent = sep ''tos.messaging.outbound-intent.v1''"

definition DomainDeliveryCopy :: string where
  "DomainDeliveryCopy = sep ''tos.messaging.delivery-copy.v1''"

definition DomainHTTPSDeliveryAck :: string where
  "DomainHTTPSDeliveryAck = sep ''tos.messaging.https-delivery-ack.v1''"

definition DomainOutboundAttachmentIntent :: string where
  "DomainOutboundAttachmentIntent = sep ''tos.messaging.outbound-attachment-intent.v1''"

definition DomainAttachmentCorpusManifest :: string where
  "DomainAttachmentCorpusManifest = sep ''tos.messaging.attachment-corpus-manifest.v1''"

definition DomainAttachmentCorpusReport :: string where
  "DomainAttachmentCorpusReport = sep ''tos.messaging.attachment-corpus-report.v1''"

definition Domains :: "string list" where
  "Domains = [
     DomainEndpointDelegation,
     DomainEndpointID,
     DomainDescriptorPolicy,
     DomainRelaySet,
     DomainContactDescriptor,
     DomainDHTLocator,
     DomainEventID,
     DomainPrekeyBundle,
     DomainPrekeyBundleSet,
     DomainDeviceSession,
     DomainE2EEBinding,
     DomainReachabilityTrial,
     DomainReachabilityCollectorManifest,
     DomainReachabilityPolicy,
     DomainReachabilityRLDPPayload,
     DomainReachabilityOperator,
     DomainReachabilitySite,
     DomainReachabilityPairID,
     DomainReachabilityPairResult,
     DomainReachabilityCoordinator,
     DomainReachabilityObservation,
     DomainEconomicExecution,
     DomainRoomMembership,
     DomainRoomAuthorityTransfer,
     DomainRoomMembershipAuthorization,
     DomainRoomRolePolicy,
     DomainPublicChannelID,
     DomainPublicChannelProfile,
     DomainPublicChannelEvent,
     DomainPublicChannelHistory,
     DomainStoredAck,
     DomainConformanceReport,
     DomainMLSDeviceCredential,
     DomainMLSBasicCredential,
     DomainMLSGroupID,
     DomainAttachmentMetadata,
     DomainAttachmentChunk,
     DomainAttachmentManifest,
     DomainAttachmentCapabilityGrant,
     DomainAttachmentAccessRequest,
     DomainAttachmentOperationBody,
     DomainAttachmentAccessClaim,
     DomainAttachmentStoredAck,
     DomainAttachmentDeleteAck,
     DomainAgentPacketClaim,
     DomainMailboxCapabilityGrant,
     DomainMailboxAccessRequest,
     DomainMailboxOperationBody,
     DomainMailboxAccessClaim,
     DomainLabToken,
     DomainLabRoom,
     DomainLabMessage,
     DomainOpenFoxMLSAAD,
     DomainOutboundIntent,
     DomainDeliveryCopy,
     DomainHTTPSDeliveryAck,
     DomainOutboundAttachmentIntent,
     DomainAttachmentCorpusManifest,
     DomainAttachmentCorpusReport,
     DomainPayload,
     DomainInboxPolicy,
     DomainAdmissionInvite,
     DomainNegotiationRecord,
     DomainBudget,
     DomainMandateBudget,
     DomainNegotiationTerms,
     DomainOwnerDecision,
     DomainMandate,
     DomainAgentAction]"

lemmas domain_defs =
  DomainEndpointDelegation_def
  DomainEndpointID_def
  DomainDescriptorPolicy_def
  DomainRelaySet_def
  DomainContactDescriptor_def
  DomainDHTLocator_def
  DomainEventID_def
  DomainPrekeyBundle_def
  DomainPrekeyBundleSet_def
  DomainDeviceSession_def
  DomainE2EEBinding_def
  DomainReachabilityTrial_def
  DomainReachabilityCollectorManifest_def
  DomainReachabilityPolicy_def
  DomainReachabilityRLDPPayload_def
  DomainReachabilityOperator_def
  DomainReachabilitySite_def
  DomainReachabilityPairID_def
  DomainReachabilityPairResult_def
  DomainReachabilityCoordinator_def
  DomainReachabilityObservation_def
  DomainEconomicExecution_def
  DomainRoomMembership_def
  DomainRoomAuthorityTransfer_def
  DomainRoomMembershipAuthorization_def
  DomainRoomRolePolicy_def
  DomainPublicChannelID_def
  DomainPublicChannelProfile_def
  DomainPublicChannelEvent_def
  DomainPublicChannelHistory_def
  DomainStoredAck_def
  DomainConformanceReport_def
  DomainMLSDeviceCredential_def
  DomainMLSBasicCredential_def
  DomainMLSGroupID_def
  DomainAttachmentMetadata_def
  DomainAttachmentChunk_def
  DomainAttachmentManifest_def
  DomainAttachmentCapabilityGrant_def
  DomainAttachmentAccessRequest_def
  DomainAttachmentOperationBody_def
  DomainAttachmentAccessClaim_def
  DomainAttachmentStoredAck_def
  DomainAttachmentDeleteAck_def
  DomainAgentPacketClaim_def
  DomainMailboxCapabilityGrant_def
  DomainMailboxAccessRequest_def
  DomainMailboxOperationBody_def
  DomainMailboxAccessClaim_def
  DomainLabToken_def
  DomainLabRoom_def
  DomainLabMessage_def
  DomainOpenFoxMLSAAD_def
  DomainOutboundIntent_def
  DomainDeliveryCopy_def
  DomainHTTPSDeliveryAck_def
  DomainOutboundAttachmentIntent_def
  DomainAttachmentCorpusManifest_def
  DomainAttachmentCorpusReport_def
  DomainPayload_def
  DomainInboxPolicy_def
  DomainAdmissionInvite_def
  DomainNegotiationRecord_def
  DomainBudget_def
  DomainMandateBudget_def
  DomainNegotiationTerms_def
  DomainOwnerDecision_def
  DomainMandate_def
  DomainAgentAction_def

section \<open>Facts\<close>

lemma sep_cancel:
  assumes "CHR 0x00 \<notin> set a" and "CHR 0x00 \<notin> set b" and "sep a @ x = sep b @ y"
  shows "a = b \<and> x = y"
  using assms
proof (induction a arbitrary: b)
  case Nil
  then show ?case by (cases b) (auto simp: sep_def)
next
  case (Cons c a)
  then show ?case by (cases b) (auto simp: sep_def)
qed

text \<open>The names behind the separators, without their NUL byte.\<close>

definition domain_names :: "string list" where
  "domain_names = map butlast Domains"

lemma domain_names_list: "domain_names = [
     ''tos.messaging.endpoint-delegation.v2'',
     ''tos.messaging.endpoint-id.v2'',
     ''tos.messaging.descriptor-policy.v1'',
     ''tos.messaging.relay-set.v1'',
     ''tos.messaging.contact-descriptor.v2'',
     ''tos.messaging.dht-locator.v1'',
     ''tos.messaging.event-id.v2'',
     ''tos.messaging.prekey-bundle.v2'',
     ''tos.messaging.prekey-bundle-set.v2'',
     ''tos.messaging.device-session.v1'',
     ''tos.messaging.e2ee-binding.v2'',
     ''tos.messaging.reachability-trial.v4'',
     ''tos.messaging.reachability-collector-manifest.v1'',
     ''tos.messaging.reachability-policy.v4'',
     ''tos.messaging.reachability-rldp-payload.v1'',
     ''tos.messaging.reachability-operator.v1'',
     ''tos.messaging.reachability-site.v1'',
     ''tos.messaging.reachability-pair-id.v1'',
     ''tos.messaging.reachability-pair-result.v1'',
     ''tos.messaging.reachability-coordinator.v1'',
     ''tos.messaging.reachability-observation.v1'',
     ''tos.messaging.economic-execution.v1'',
     ''tos.messaging.room-membership.v1'',
     ''tos.messaging.room-authority-transfer.v1'',
     ''tos.messaging.room-membership-authorization.v1'',
     ''tos.messaging.room-role-policy.v1'',
     ''tos.messaging.public-channel-id.v1'',
     ''tos.messaging.public-channel-profile.v1'',
     ''tos.messaging.public-channel-event.v1'',
     ''tos.messaging.public-channel-history.v1'',
     ''tos.messaging.stored-ack.v1'',
     ''tos.messaging.conformance-report.v1'',
     ''tos.messaging.mls-device-credential.v2'',
     ''tos.messaging.mls-basic-credential.v1'',
     ''tos.messaging.mls-group-id.v1'',
     ''tos.messaging.attachment-metadata.v1'',
     ''tos.messaging.attachment-chunk.v1'',
     ''tos.messaging.attachment-manifest.v1'',
     ''tos.messaging.attachment-capability-grant.v1'',
     ''tos.messaging.attachment-access-request.v1'',
     ''tos.messaging.attachment-operation-body.v1'',
     ''tos.messaging.attachment-access-claim.v1'',
     ''tos.messaging.attachment-stored-ack.v1'',
     ''tos.messaging.attachment-delete-ack.v1'',
     ''tos.messaging.agent-packet-claim.v1'',
     ''tos.messaging.mailbox-capability-grant.v1'',
     ''tos.messaging.mailbox-access-request.v1'',
     ''tos.messaging.mailbox-operation-body.v1'',
     ''tos.messaging.mailbox-access-claim.v1'',
     ''tos.messaging.lab.token.v1'',
     ''tos.messaging.lab.room.v1'',
     ''tos.messaging.lab.message.v1'',
     ''tos.messaging.openfox-mls-message-aad.v1'',
     ''tos.messaging.outbound-intent.v1'',
     ''tos.messaging.delivery-copy.v1'',
     ''tos.messaging.https-delivery-ack.v1'',
     ''tos.messaging.outbound-attachment-intent.v1'',
     ''tos.messaging.attachment-corpus-manifest.v1'',
     ''tos.messaging.attachment-corpus-report.v1'',
     ''tos.messaging.payload.v1'',
     ''tos.messaging.inbox-policy.v1'',
     ''tos.messaging.admission-invite.v1'',
     ''tos.messaging.negotiation-record.v1'',
     ''tos.messaging.budget.v3'',
     ''tos.messaging.mandate-budget.v3'',
     ''tos.messaging.negotiation-terms.v3'',
     ''tos.messaging.owner-decision.v1'',
     ''tos.messaging.mandate.v3'',
     ''tos.messaging.agent-action.v1'']"
  by (simp only: domain_names_def Domains_def domain_defs sep_def list.map butlast_snoc)

lemma Domains_names: "Domains = map sep domain_names"
  by (simp only: domain_names_list Domains_def domain_defs list.map)

lemma domain_names_distinct: "distinct domain_names"
proof -
  have "distinct (map (drop 14) domain_names)"
    unfolding domain_names_list by code_simp
  then show ?thesis by (simp add: distinct_map)
qed

lemma domain_names_no_nul: "\<forall>n \<in> set domain_names. CHR 0x00 \<notin> set n"
  unfolding domain_names_list by simp

lemma Domains_prefix_free:
  assumes "d \<in> set Domains" and "e \<in> set Domains" and "d @ x = e @ y"
  shows "d = e \<and> x = y"
proof -
  from assms(1,2) obtain m n where mn: "m \<in> set domain_names" "n \<in> set domain_names"
      "d = sep m" "e = sep n"
    by (auto simp: Domains_names)
  with assms(3) domain_names_no_nul sep_cancel [of m n x y] show ?thesis by auto
qed

lemma sep_inject: "sep m = sep n \<longleftrightarrow> m = n"
  by (simp add: sep_def)

lemma Domains_distinct: "distinct Domains"
  using domain_names_distinct by (simp add: Domains_names distinct_map inj_on_def sep_inject)

text \<open>
  C25. No two objects of different kinds share a preimage: the registered domain
  separators are pairwise different and none is a prefix of another, so a preimage that
  begins with one entry of the registry begins with no other, and what follows the separator
  is determined.
\<close>

theorem Domains_disjoint:
  assumes "i < length Domains" and "j < length Domains" and "Domains ! i @ x = Domains ! j @ y"
  shows "i = j \<and> x = y"
proof -
  have "Domains ! i = Domains ! j \<and> x = y"
    using assms by (intro Domains_prefix_free) auto
  with assms(1,2) Domains_distinct show ?thesis
    by (simp add: nth_eq_iff_index_eq)
qed

theorem Domains_disjoint_witness:
  "Domains ! 0 @ ''a'' \<noteq> Domains ! 1 @ ''a''"
  using Domains_disjoint [of 0 1 "''a''" "''a''"] by (auto simp: Domains_def)

end
