(* ===== verification/Canon.thy ===== *)
theory Canon
  imports Domains
begin

text \<open>
  The canonical encoding every signed or digest-committed object goes through
  (\<open>internal/canon/canon.go\<close>), the strict reader that parses a canonical preimage back
  (\<open>internal/canon/reader.go\<close>), and the identifier patterns (\<open>internal/ids/ids.go\<close>).

  A writer of the source appends to a \<open>bytes.Buffer\<close>; here each returns the bytes it
  appends, so an encoder is an append of field encodings in the order of the source. A
  reader keeps its buffer, its offset and its first error, and every read returns the
  value together with the reader after it. The interfaces \<open>field_codec\<close> and
  \<open>field_reader\<close> are what the encoders and decoders of the other packages rely on: a
  field is recovered from the front of whatever follows it, and a read that did not fail
  consumed exactly the encoding of the value it returned.
\<close>

section \<open>Writers\<close>

definition hex64 :: "string \<Rightarrow> bool" where
  "hex64 s \<longleftrightarrow> length s = 64 \<and> list_all is_hex s"

text \<open>A pattern \<open>^prefix[0-9a-f]{64}$\<close>.\<close>

definition prefixed_hex64 :: "string \<Rightarrow> string \<Rightarrow> bool" where
  "prefixed_hex64 p s \<longleftrightarrow> take (length p) s = p \<and> hex64 (drop (length p) s)"

definition DigestPattern :: "string \<Rightarrow> bool" where
  "DigestPattern = prefixed_hex64 ''sha256:''"

definition HashPattern :: "string \<Rightarrow> bool" where
  "HashPattern = hex64"

definition canon_Uint32 :: "u32 \<Rightarrow> bytes" where
  "canon_Uint32 w = put32 w"

definition canon_Uint64 :: "u64 \<Rightarrow> bytes" where
  "canon_Uint64 w = put64 w"

definition canon_Text :: "string \<Rightarrow> bytes" where
  "canon_Text v = canon_Uint32 (of_nat (length v)) @ v"

definition canon_Bytes :: "bytes \<Rightarrow> bytes" where
  "canon_Bytes v = canon_Uint32 (of_nat (length v)) @ v"

definition canon_Bool :: "bool \<Rightarrow> bytes" where
  "canon_Bool b = (if b then [CHR 0x01] else [CHR 0x00])"

definition canon_Hash32 :: "string \<Rightarrow> bytes res" where
  "canon_Hash32 v =
     (if \<not> HashPattern v then Inl (Msg ''invalid canonical 32-byte hash'')
      else case hex_decode v of
        None \<Rightarrow> Inl (Msg ''invalid canonical 32-byte hash'')
      | Some raw \<Rightarrow>
          if length raw \<noteq> 32 then Inl (Msg ''invalid canonical 32-byte hash'')
          else Inr (canon_Bytes raw))"

text \<open>
  \<open>MustHash32\<close> panics where \<open>Hash32\<close> returns an error; an encoder that calls it is
  partial, and \<open>None\<close> is the panic.
\<close>

definition canon_MustHash32 :: "string \<Rightarrow> bytes option" where
  "canon_MustHash32 v = (case canon_Hash32 v of Inl e \<Rightarrow> None | Inr b \<Rightarrow> Some b)"

definition Digest :: "bytes \<Rightarrow> string" where
  "Digest preimage = ''sha256:'' @ hex_encode (sha256 preimage)"

definition canon_IsZero :: "bytes \<Rightarrow> bool" where
  "canon_IsZero v \<longleftrightarrow> v = replicate (length v) (CHR 0x00)"

definition ValidDigest :: "string \<Rightarrow> bool" where
  "ValidDigest d =
     (if \<not> DigestPattern d then False
      else case hex_decode (drop 7 d) of
        None \<Rightarrow> False
      | Some raw \<Rightarrow> raw \<noteq> replicate 32 (CHR 0x00))"

section \<open>Identifiers\<close>

definition ids_Agent :: "string \<Rightarrow> bool" where
  "ids_Agent = prefixed_hex64 ''agent_''"

definition ids_Capability :: "string \<Rightarrow> bool" where
  "ids_Capability = prefixed_hex64 ''cap_''"

definition ids_Endpoint :: "string \<Rightarrow> bool" where
  "ids_Endpoint = prefixed_hex64 ''mep_''"

definition ids_Device :: "string \<Rightarrow> bool" where
  "ids_Device = prefixed_hex64 ''dev_''"

definition ids_Conversation :: "string \<Rightarrow> bool" where
  "ids_Conversation = prefixed_hex64 ''conv_''"

definition ids_Event :: "string \<Rightarrow> bool" where
  "ids_Event = prefixed_hex64 ''evt_''"

definition ids_Session :: "string \<Rightarrow> bool" where
  "ids_Session = prefixed_hex64 ''ses_''"

definition ids_Room :: "string \<Rightarrow> bool" where
  "ids_Room = prefixed_hex64 ''room_''"

definition ids_Thread :: "string \<Rightarrow> bool" where
  "ids_Thread = prefixed_hex64 ''thr_''"

definition ids_Mailbox :: "string \<Rightarrow> bool" where
  "ids_Mailbox = prefixed_hex64 ''mbx_''"

definition ids_RelayMessage :: "string \<Rightarrow> bool" where
  "ids_RelayMessage = prefixed_hex64 ''msg_''"

definition ids_ADNL :: "string \<Rightarrow> bool" where
  "ids_ADNL = prefixed_hex64 ''adnl:''"

definition ids_Action :: "string \<Rightarrow> bool" where
  "ids_Action = prefixed_hex64 ''act_''"

definition ids_Format :: "string \<Rightarrow> bytes \<Rightarrow> string res" where
  "ids_Format prefix raw =
     (if prefix = '''' \<or> length raw \<noteq> 32 \<or> canon_IsZero raw
      then Inl (Msg ''invalid identifier material'')
      else Inr (prefix @ hex_encode raw))"

section \<open>The reader\<close>

record Reader =
  r_buffer :: bytes
  r_offset :: nat
  r_err :: "err option"

definition NewReader :: "string \<Rightarrow> bytes \<Rightarrow> Reader" where
  "NewReader domain preimage =
     (if length preimage < length domain \<or> take (length domain) preimage \<noteq> domain
      then \<lparr>r_buffer = preimage, r_offset = 0,
             r_err = Some (Msg ''preimage is not in the expected domain'')\<rparr>
      else \<lparr>r_buffer = preimage, r_offset = length domain, r_err = None\<rparr>)"

definition r_fail :: "string \<Rightarrow> Reader \<Rightarrow> Reader" where
  "r_fail message r = (if r_err r = None then r\<lparr>r_err := Some (Msg message)\<rparr> else r)"

text \<open>
  \<open>None\<close> is the \<open>nil\<close> slice. A slice of length zero taken from a buffer is not
  \<open>nil\<close>, so a read of no bytes that fits is \<open>Some []\<close>.
\<close>

definition r_take :: "int \<Rightarrow> Reader \<Rightarrow> bytes option \<times> Reader" where
  "r_take count r =
     (if r_err r \<noteq> None then (None, r)
      else if count < 0 \<or> int (r_offset r) + count > int (length (r_buffer r))
      then (None, r_fail ''canonical value runs past the end of its preimage'' r)
      else (Some (take (nat count) (drop (r_offset r) (r_buffer r))),
            r\<lparr>r_offset := r_offset r + nat count\<rparr>))"

definition r_Uint32 :: "Reader \<Rightarrow> u32 \<times> Reader" where
  "r_Uint32 r = (case r_take 4 r of
     (None, r) \<Rightarrow> (0, r)
   | (Some raw, r) \<Rightarrow> (get32 raw, r))"

definition r_Uint64 :: "Reader \<Rightarrow> u64 \<times> Reader" where
  "r_Uint64 r = (case r_take 8 r of
     (None, r) \<Rightarrow> (0, r)
   | (Some raw, r) \<Rightarrow> (get64 raw, r))"

definition r_Uint8 :: "Reader \<Rightarrow> nat \<times> Reader" where
  "r_Uint8 r = (case r_take 1 r of
     (None, r) \<Rightarrow> (0, r)
   | (Some raw, r) \<Rightarrow> (byte_val (hd raw), r))"

text \<open>
  \<open>Bytes\<close> returns \<open>nil\<close> on a failure; callers that do not test for it hold a slice of
  length zero.
\<close>

definition r_Bytes_raw :: "int \<Rightarrow> Reader \<Rightarrow> bytes option \<times> Reader" where
  "r_Bytes_raw maximum r = (case r_Uint32 r of
     (w, r) \<Rightarrow>
       let n = uint w in
       if r_err r \<noteq> None then (None, r)
       else if n > maximum then (None, r_fail ''canonical value exceeds its bound'' r)
       else r_take n r)"

definition r_Bytes :: "int \<Rightarrow> Reader \<Rightarrow> bytes \<times> Reader" where
  "r_Bytes maximum r = (case r_Bytes_raw maximum r of
     (None, r) \<Rightarrow> ([], r)
   | (Some raw, r) \<Rightarrow> (raw, r))"

text \<open>\<open>utf8.Valid\<close>: no overlong form, no surrogate, nothing above U+10FFFF.\<close>

definition utf8_cont :: "char \<Rightarrow> bool" where
  "utf8_cont c \<longleftrightarrow> 128 \<le> byte_val c \<and> byte_val c \<le> 191"

definition utf8_lead3 :: "nat \<Rightarrow> char \<Rightarrow> bool" where
  "utf8_lead3 n b \<longleftrightarrow> (if n = 224 then 160 \<le> byte_val b \<and> byte_val b \<le> 191
     else if n = 237 then 128 \<le> byte_val b \<and> byte_val b \<le> 159
     else utf8_cont b)"

definition utf8_lead4 :: "nat \<Rightarrow> char \<Rightarrow> bool" where
  "utf8_lead4 n b \<longleftrightarrow> (if n = 240 then 144 \<le> byte_val b \<and> byte_val b \<le> 191
     else if n = 244 then 128 \<le> byte_val b \<and> byte_val b \<le> 143
     else utf8_cont b)"

fun utf8_valid :: "bytes \<Rightarrow> bool" where
  "utf8_valid [] = True"
| "utf8_valid (a # r) =
     (let n = byte_val a in
      if n < 128 then utf8_valid r
      else if 194 \<le> n \<and> n \<le> 223 then
        (case r of b # r' \<Rightarrow> utf8_cont b \<and> utf8_valid r' | _ \<Rightarrow> False)
      else if 224 \<le> n \<and> n \<le> 239 then
        (case r of b # c # r' \<Rightarrow> utf8_lead3 n b \<and> utf8_cont c \<and> utf8_valid r' | _ \<Rightarrow> False)
      else if 240 \<le> n \<and> n \<le> 244 then
        (case r of b # c # d # r' \<Rightarrow>
           utf8_lead4 n b \<and> utf8_cont c \<and> utf8_cont d \<and> utf8_valid r' | _ \<Rightarrow> False)
      else False)"

definition r_Text :: "int \<Rightarrow> Reader \<Rightarrow> string \<times> Reader" where
  "r_Text maximum r = (case r_Bytes_raw maximum r of
     (None, r) \<Rightarrow> ('''', r)
   | (Some raw, r) \<Rightarrow>
       if \<not> utf8_valid raw then ('''', r_fail ''canonical text is not valid UTF-8'' r)
       else (raw, r))"

definition r_Hash32 :: "Reader \<Rightarrow> string \<times> Reader" where
  "r_Hash32 r = (case r_Bytes_raw 32 r of
     (None, r) \<Rightarrow> ('''', r)
   | (Some raw, r) \<Rightarrow>
       if length raw \<noteq> 32 then ('''', r_fail ''canonical hash is not 32 bytes'' r)
       else (hex_encode raw, r))"

definition r_Count :: "int \<Rightarrow> Reader \<Rightarrow> nat \<times> Reader" where
  "r_Count maximum r = (case r_Uint32 r of
     (w, r) \<Rightarrow>
       let n = uint w in
       if r_err r \<noteq> None then (0, r)
       else if n > maximum
       then (0, r_fail ''canonical repeated field exceeds its bound'' r)
       else (nat n, r))"

definition r_Done :: "Reader \<Rightarrow> err option" where
  "r_Done r =
     (if r_err r \<noteq> None then r_err r
      else if r_offset r \<noteq> length (r_buffer r)
      then Some (Msg ''canonical preimage has trailing bytes'')
      else None)"

text \<open>The loop of a decoder that reads a counted number of equal fields.\<close>

fun r_many :: "nat \<Rightarrow> (Reader \<Rightarrow> 'a \<times> Reader) \<Rightarrow> Reader \<Rightarrow> 'a list \<times> Reader" where
  "r_many 0 rd r = ([], r)"
| "r_many (Suc n) rd r =
     (case rd r of (v, r) \<Rightarrow> case r_many n rd r of (vs, r) \<Rightarrow> (v # vs, r))"

section \<open>What the encodings and reads promise\<close>

text \<open>What a reader that has not failed still has in front of it.\<close>

definition rest_of :: "Reader \<Rightarrow> bytes option" where
  "rest_of r = (if r_err r = None \<and> r_offset r \<le> length (r_buffer r)
     then Some (drop (r_offset r) (r_buffer r)) else None)"

text \<open>The values a bounded field can carry, and the counts a bounded prefix can.\<close>

definition fits :: "int \<Rightarrow> bytes \<Rightarrow> bool" where
  "fits m v \<longleftrightarrow> int (length v) \<le> m \<and> length v < 2 ^ 32"

definition short :: "string \<Rightarrow> bool" where
  "short v \<longleftrightarrow> length v < 2 ^ 32"

definition fits_text :: "int \<Rightarrow> string \<Rightarrow> bool" where
  "fits_text m v \<longleftrightarrow> fits m v \<and> utf8_valid v"

text \<open>
  A hash field: its display form is lowercase hex, its canonical form the raw bytes.
  \<open>hash_bytes\<close> is what \<open>MustHash32\<close> writes for a well-formed hash.
\<close>

definition hash_bytes :: "string \<Rightarrow> bytes" where
  "hash_bytes v = canon_Bytes (the (hex_decode v))"

definition count_ok :: "int \<Rightarrow> nat \<Rightarrow> bool" where
  "count_ok m n \<longleftrightarrow> int n \<le> m \<and> n < 2 ^ 32"

text \<open>The identifier patterns in the order of the source, and their prefixes.\<close>

definition ids_kinds :: "(string \<Rightarrow> bool) list" where
  "ids_kinds = [ids_Agent, ids_Capability, ids_Endpoint, ids_Device, ids_Conversation, ids_Event,
     ids_Session, ids_Room, ids_Thread, ids_Mailbox, ids_RelayMessage, ids_ADNL, ids_Action]"

definition ids_prefixes :: "string list" where
  "ids_prefixes = [''agent_'', ''cap_'', ''mep_'', ''dev_'', ''conv_'', ''evt_'', ''ses_'', ''room_'',
     ''thr_'', ''mbx_'', ''msg_'', ''adnl:'', ''act_'']"

section \<open>Reader lemmas\<close>

lemma rest_of_NewReader [simp]:
  "rest_of (NewReader d p) = Some x \<longleftrightarrow> p = d @ x"
  by (auto simp: rest_of_def NewReader_def) (metis append_take_drop_id)+

lemma rest_of_fail [simp]: "rest_of (r_fail m r) = None"
  by (simp add: rest_of_def r_fail_def)

lemma rest_of_err: "rest_of r = Some x \<Longrightarrow> r_err r = None"
  by (auto simp: rest_of_def split: if_splits)

lemma r_fail_fix: "r_fail m r = r \<Longrightarrow> rest_of r = None"
  using rest_of_fail [of m r] by simp

lemma r_Done_None: "r_Done r = None \<longleftrightarrow> rest_of r = Some []"
  by (auto simp: r_Done_def rest_of_def)

lemma r_take_complete:
  assumes "rest_of r = Some (v @ x)" and "int (length v) = n"
  shows "\<exists>r'. r_take n r = (Some v, r') \<and> rest_of r' = Some x"
proof -
  have d: "drop (r_offset r) (r_buffer r) = v @ x" and ofs: "r_offset r \<le> length (r_buffer r)"
    and e: "r_err r = None"
    using assms(1) by (auto simp: rest_of_def split: if_splits)
  from d have "length (r_buffer r) - r_offset r = length v + length x"
    by (metis length_append length_drop)
  moreover from d have "drop (r_offset r + length v) (r_buffer r) = x"
    by (metis add.commute append_eq_conv_conj drop_drop)
  ultimately show ?thesis
    using assms(2) d ofs e by (auto simp: r_take_def rest_of_def)
qed

lemma r_take_sound:
  assumes "r_take n r = (a, r')" and "rest_of r' = Some x"
  shows "\<exists>v. a = Some v \<and> int (length v) = n \<and> rest_of r = Some (v @ x)"
proof -
  let ?o = "r_offset r" and ?b = "r_buffer r"
  have g: "r_err r = None" "0 \<le> n" "int ?o + n \<le> int (length ?b)"
    and a: "a = Some (take (nat n) (drop ?o ?b))" and r': "r' = r\<lparr>r_offset := ?o + nat n\<rparr>"
    using assms by (auto simp: r_take_def rest_of_def r_fail_def split: if_splits)
  have x: "x = drop (nat n) (drop ?o ?b)"
    using assms(2) g unfolding r' by (auto simp: rest_of_def add.commute split: if_splits)
  have "rest_of r = Some (drop ?o ?b)"
    using g by (auto simp: rest_of_def)
  then show ?thesis
    using a x g by (auto simp del: drop_drop)
qed

lemma r_take_None_rest: "r_take n r = (None, r') \<Longrightarrow> rest_of r' = None"
  by (cases "rest_of r'") (auto dest: r_take_sound)

lemma uint_of_nat_length: "length v < 2 ^ 32 \<Longrightarrow> uint (of_nat (length v) :: u32) = int (length v)"
  by (simp add: unsigned_of_nat take_bit_nat_eq_self del: unsigned_of_nat) (simp add: uint_nat unat_of_nat)



section \<open>Interfaces of the field encodings\<close>

text \<open>
  A field encoding that is recovered from the front of whatever follows it. What an
  encoder of several fields needs of it is that equal encodings have equal first fields and
  equal remainders, and the same for a run of fields of a known number.
\<close>

locale field_codec =
  fixes enc :: "'a \<Rightarrow> bytes" and ok :: "'a \<Rightarrow> bool"
  assumes enc_inj: "ok a \<Longrightarrow> ok b \<Longrightarrow> enc a @ x = enc b @ y \<Longrightarrow> a = b \<and> x = y"
begin

lemma enc_eq: "ok a \<Longrightarrow> ok b \<Longrightarrow> enc a @ x = enc b @ y \<longleftrightarrow> a = b \<and> x = y"
  using enc_inj by blast

lemma enc_last: "ok a \<Longrightarrow> ok b \<Longrightarrow> enc a = enc b \<longleftrightarrow> a = b"
  using enc_inj [of a b "[]" "[]"] by auto

lemma enc_list:
  assumes "list_all ok as" and "list_all ok bs" and "length as = length bs"
  shows "concat (map enc as) @ x = concat (map enc bs) @ y \<longleftrightarrow> as = bs \<and> x = y"
  using assms(3,1,2) by (induction as bs rule: list_induct2) (auto simp: enc_eq)

lemma enc_list_last:
  assumes "list_all ok as" and "list_all ok bs" and "length as = length bs"
  shows "concat (map enc as) = concat (map enc bs) \<longleftrightarrow> as = bs"
  using enc_list [OF assms, of "[]" "[]"] by simp

end

text \<open>
  A read that is the inverse of a field encoding: it recovers an acceptable value from
  the front of the remaining bytes, and when the reader has not failed after it, what it
  consumed is exactly the encoding of the acceptable value it returned.
\<close>

locale field_reader =
  fixes enc :: "'a \<Rightarrow> bytes" and ok :: "'a \<Rightarrow> bool" and rd :: "Reader \<Rightarrow> 'a \<times> Reader"
  assumes complete: "rest_of r = Some (enc v @ x) \<Longrightarrow> ok v \<Longrightarrow>
      \<exists>r'. rd r = (v, r') \<and> rest_of r' = Some x"
    and sound: "rd r = (v, r') \<Longrightarrow> rest_of r' = Some x \<Longrightarrow>
      ok v \<and> rest_of r = Some (enc v @ x)"
begin

lemma reader_inj:
  assumes "ok a" "ok b" "enc a @ x = enc b @ y"
  shows "a = b \<and> x = y"
proof -
  let ?r = "\<lparr>r_buffer = enc a @ x, r_offset = 0, r_err = None\<rparr>"
  have "rest_of ?r = Some (enc a @ x)" and "rest_of ?r = Some (enc b @ y)"
    by (simp_all add: rest_of_def assms(3))
  then show ?thesis
    using complete [of ?r a x] complete [of ?r b y] assms(1,2) by auto
qed

lemma many_complete:
  "rest_of r = Some (concat (map enc vs) @ x) \<Longrightarrow> list_all ok vs \<Longrightarrow>
     \<exists>r'. r_many (length vs) rd r = (vs, r') \<and> rest_of r' = Some x"
proof (induction vs arbitrary: r)
  case (Cons v vs)
  then obtain r1 where "rd r = (v, r1)" "rest_of r1 = Some (concat (map enc vs) @ x)"
    using complete [of r v "concat (map enc vs) @ x"] by auto
  with Cons.IH [of r1] Cons.prems(2) show ?case by auto
qed simp

lemma many_sound:
  "r_many n rd r = (vs, r') \<Longrightarrow> rest_of r' = Some x \<Longrightarrow>
     length vs = n \<and> list_all ok vs \<and> rest_of r = Some (concat (map enc vs) @ x)"
proof (induction n arbitrary: r vs)
  case (Suc n)
  obtain v r1 where 1: "rd r = (v, r1)" by fastforce
  obtain ws r2 where 2: "r_many n rd r1 = (ws, r2)" by fastforce
  from Suc.prems 1 2 have v: "vs = v # ws" and r: "r2 = r'" by auto
  from Suc.IH [OF 2 [unfolded r] Suc.prems(2)] sound [OF 1] show ?case by (auto simp: v)
qed auto

end

sublocale field_reader \<subseteq> field_codec enc ok
  by unfold_locales (rule reader_inj)

lemma r_Uint32_complete:
  "rest_of r = Some (canon_Uint32 w @ x) \<Longrightarrow> \<exists>r'. r_Uint32 r = (w, r') \<and> rest_of r' = Some x"
  using r_take_complete [of r "canon_Uint32 w" x 4]
  by (auto simp: r_Uint32_def canon_Uint32_def)

lemma r_Uint32_sound:
  assumes "r_Uint32 r = (w, r')" and "rest_of r' = Some x"
  shows "rest_of r = Some (canon_Uint32 w @ x)"
proof -
  obtain a r1 where t: "r_take 4 r = (a, r1)" by fastforce
  with assms(1) have "r1 = r'" by (auto simp: r_Uint32_def split: option.splits)
  with r_take_sound [OF t, of x] assms t show ?thesis
    by (auto simp: r_Uint32_def canon_Uint32_def put32_get32)
qed

interpretation ru32: field_reader canon_Uint32 "\<lambda>_. True" r_Uint32
  by unfold_locales (auto dest: r_Uint32_complete r_Uint32_sound)

lemma r_Uint64_complete:
  "rest_of r = Some (canon_Uint64 w @ x) \<Longrightarrow> \<exists>r'. r_Uint64 r = (w, r') \<and> rest_of r' = Some x"
  using r_take_complete [of r "canon_Uint64 w" x 8]
  by (auto simp: r_Uint64_def canon_Uint64_def)

lemma r_Uint64_sound:
  assumes "r_Uint64 r = (w, r')" and "rest_of r' = Some x"
  shows "rest_of r = Some (canon_Uint64 w @ x)"
proof -
  obtain a r1 where t: "r_take 8 r = (a, r1)" by fastforce
  with assms(1) have "r1 = r'" by (auto simp: r_Uint64_def split: option.splits)
  with r_take_sound [OF t, of x] assms t show ?thesis
    by (auto simp: r_Uint64_def canon_Uint64_def put64_get64)
qed

interpretation ru64: field_reader canon_Uint64 "\<lambda>_. True" r_Uint64
  by unfold_locales (auto dest: r_Uint64_complete r_Uint64_sound)

lemma r_Bytes_raw_complete:
  assumes "rest_of r = Some (canon_Bytes v @ x)" and "fits m v"
  shows "\<exists>r'. r_Bytes_raw m r = (Some v, r') \<and> rest_of r' = Some x"
proof -
  obtain r1 where r1: "r_Uint32 r = (of_nat (length v), r1)" "rest_of r1 = Some (v @ x)"
    using ru32.complete [of r _ "v @ x"] assms(1) by (auto simp: canon_Bytes_def)
  have "uint (of_nat (length v) :: u32) = int (length v)"
    using assms(2) by (auto simp: fits_def intro: uint_of_nat_length)
  then show ?thesis
    using r1 r_take_complete [OF r1(2) refl] assms(2)
    by (auto simp: r_Bytes_raw_def Let_def fits_def rest_of_err)
qed

lemma r_Bytes_raw_sound:
  assumes "r_Bytes_raw m r = (a, r')" and "rest_of r' = Some x"
  shows "\<exists>v. a = Some v \<and> fits m v \<and> rest_of r = Some (canon_Bytes v @ x)"
proof -
  obtain w r1 where r1: "r_Uint32 r = (w, r1)" by fastforce
  from assms r1 have t: "r_take (uint w) r1 = (a, r')" and m: "uint w \<le> m"
    by (auto simp: r_Bytes_raw_def Let_def dest: rest_of_err split: if_splits)
  obtain v where v: "a = Some v" "int (length v) = uint w" "rest_of r1 = Some (v @ x)"
    using r_take_sound [OF t assms(2)] by blast
  then have "w = of_nat (length v)" and "length v < 2 ^ 32"
    using uint_bounded [of w] by (metis of_int_of_nat_eq word_of_int_uint, simp)
  with v m ru32.sound [OF r1 v(3)] show ?thesis
    by (auto simp: fits_def canon_Bytes_def)
qed


lemma r_Bytes_complete:
  assumes "rest_of r = Some (canon_Bytes v @ x)" and "fits m v"
  shows "\<exists>r'. r_Bytes m r = (v, r') \<and> rest_of r' = Some x"
  using r_Bytes_raw_complete [OF assms] by (auto simp: r_Bytes_def)

lemma r_Bytes_sound:
  assumes "r_Bytes m r = (v, r')" and "rest_of r' = Some x"
  shows "fits m v \<and> rest_of r = Some (canon_Bytes v @ x)"
  using assms r_Bytes_raw_sound [of m r] by (auto simp: r_Bytes_def split: prod.splits option.splits)

interpretation rbytes: field_reader canon_Bytes "fits m" "r_Bytes m" for m
  by unfold_locales (auto dest: r_Bytes_complete r_Bytes_sound)

lemma canon_Text_Bytes: "canon_Text = canon_Bytes"
  by (simp add: fun_eq_iff canon_Text_def canon_Bytes_def)

lemma r_Text_complete:
  assumes "rest_of r = Some (canon_Text v @ x)" and "fits_text m v"
  shows "\<exists>r'. r_Text m r = (v, r') \<and> rest_of r' = Some x"
  using r_Bytes_raw_complete [of r v x m] assms
  by (auto simp: r_Text_def fits_text_def canon_Text_Bytes)

lemma r_Text_sound:
  assumes "r_Text m r = (v, r')" and "rest_of r' = Some x"
  shows "fits_text m v \<and> rest_of r = Some (canon_Text v @ x)"
proof -
  obtain a r1 where t: "r_Bytes_raw m r = (a, r1)" by fastforce
  with assms have "r1 = r'" by (auto simp: r_Text_def split: option.splits if_splits)
  with t have t': "r_Bytes_raw m r = (a, r')" by simp
  from r_Bytes_raw_sound [OF t' assms(2)] assms t' show ?thesis
    by (auto simp: r_Text_def canon_Text_Bytes fits_text_def dest!: r_fail_fix split: if_splits)
qed

interpretation rtext: field_reader canon_Text "fits_text m" "r_Text m" for m
  by unfold_locales (auto dest: r_Text_complete r_Text_sound)

lemma hex64_decode: "hex64 v \<Longrightarrow> \<exists>raw. hex_decode v = Some raw \<and> length raw = 32 \<and> hex_encode raw = v"
  using hex_encode_decode [of v] by (auto simp: hex64_def)

lemma hex64_encode: "length raw = 32 \<Longrightarrow> hex64 (hex_encode raw)"
  by (simp add: hex64_def is_hex_encode)

lemma canon_Hash32_ok: "hex64 v \<Longrightarrow> canon_Hash32 v = Inr (hash_bytes v)"
  using hex64_decode [of v] by (auto simp: canon_Hash32_def HashPattern_def hash_bytes_def)

lemma canon_Hash32_eq_Inr: "canon_Hash32 v = Inr b \<longleftrightarrow> hex64 v \<and> b = hash_bytes v"
  by (cases "hex64 v") (auto simp: canon_Hash32_ok, simp add: canon_Hash32_def HashPattern_def)

lemma canon_MustHash32_ok: "hex64 v \<Longrightarrow> canon_MustHash32 v = Some (hash_bytes v)"
  by (simp add: canon_MustHash32_def canon_Hash32_ok)

lemma canon_MustHash32_eq_Some: "canon_MustHash32 v = Some b \<longleftrightarrow> hex64 v \<and> b = hash_bytes v"
  by (cases "canon_Hash32 v") (auto simp: canon_MustHash32_def canon_Hash32_eq_Inr canon_Hash32_ok)

lemma r_Hash32_complete:
  assumes "rest_of r = Some (hash_bytes v @ x)" and "hex64 v"
  shows "\<exists>r'. r_Hash32 r = (v, r') \<and> rest_of r' = Some x"
  using hex64_decode [OF assms(2)] r_Bytes_raw_complete [of r _ x 32] assms(1)
  by (force simp: r_Hash32_def hash_bytes_def fits_def)

lemma r_Hash32_sound:
  assumes "r_Hash32 r = (v, r')" and "rest_of r' = Some x"
  shows "hex64 v \<and> rest_of r = Some (hash_bytes v @ x)"
proof -
  obtain a r1 where t: "r_Bytes_raw 32 r = (a, r1)" by fastforce
  with assms have "r1 = r'" by (auto simp: r_Hash32_def split: option.splits if_splits)
  with t have t': "r_Bytes_raw 32 r = (a, r')" by simp
  from r_Bytes_raw_sound [OF t' assms(2)] assms t' show ?thesis
    by (auto simp: r_Hash32_def hash_bytes_def hex64_encode dest!: r_fail_fix split: if_splits)
qed

interpretation rhash: field_reader hash_bytes hex64 r_Hash32
  by unfold_locales (auto dest: r_Hash32_complete r_Hash32_sound)

interpretation cbool: field_codec canon_Bool "\<lambda>_. True"
  by unfold_locales (auto simp: canon_Bool_def split: if_splits)

interpretation ctext: field_codec canon_Text short
proof
  fix a b x y
  assume *: "short a" "short b" "canon_Text a @ x = canon_Text b @ y"
  have "fits (2 ^ 32) a" "fits (2 ^ 32) b"
    using *(1,2) by (simp_all add: fits_def short_def)
  with *(3) show "a = b \<and> x = y"
    unfolding canon_Text_Bytes by (rule rbytes.reader_inj [rotated 2])
qed

lemma r_Count_complete:
  assumes "rest_of r = Some (canon_Uint32 (of_nat n) @ x)" and "count_ok m n"
  shows "\<exists>r'. r_Count m r = (n, r') \<and> rest_of r' = Some x"
proof -
  have "uint (of_nat n :: u32) = int n"
    using uint_of_nat_length [of "replicate n (CHR 0x00)"] assms(2) by (simp add: count_ok_def)
  with ru32.complete [OF assms(1)] assms(2) show ?thesis
    by (auto simp: r_Count_def Let_def count_ok_def rest_of_err)
qed

lemma r_Count_sound:
  assumes "r_Count m r = (n, r')" and "rest_of r' = Some x"
  shows "count_ok m n \<and> rest_of r = Some (canon_Uint32 (of_nat n) @ x)"
proof -
  obtain w r1 where r1: "r_Uint32 r = (w, r1)" by fastforce
  from assms r1 have "r1 = r'" and n: "n = nat (uint w)" "uint w \<le> m"
    by (auto simp: r_Count_def Let_def dest: rest_of_err split: if_splits)
  moreover have "of_nat (nat (uint w)) = w" and "nat (uint w) < 2 ^ 32"
    using uint_bounded [of w] by (simp, simp add: uint_nat del: of_nat_unat)
  ultimately show ?thesis
    using ru32.sound [OF r1] assms(2) by (auto simp: count_ok_def)
qed

interpretation rcount: field_reader "\<lambda>n. canon_Uint32 (of_nat n)" "count_ok m" "r_Count m" for m
  by unfold_locales (auto dest: r_Count_complete r_Count_sound)

section \<open>Digests and identifiers\<close>

lemma prefixed_hex64_eq: "prefixed_hex64 p s \<longleftrightarrow> (\<exists>h. s = p @ h \<and> hex64 h)"
  by (auto simp: prefixed_hex64_def) (metis append_take_drop_id)

lemma prefixed_hex64_length: "prefixed_hex64 p s \<Longrightarrow> length s = length p + 64"
  by (auto simp: prefixed_hex64_eq hex64_def)

lemma prefixed_hex64_disjoint: "prefixed_hex64 p s \<Longrightarrow> prefixed_hex64 q s \<Longrightarrow> p = q"
  by (auto simp: prefixed_hex64_eq hex64_def)

lemma prefixed_hex64_short: "prefixed_hex64 p s \<Longrightarrow> length p < 1000 \<Longrightarrow> short s"
  by (auto simp: short_def dest: prefixed_hex64_length)

lemma hex64_short: "hex64 s \<Longrightarrow> short s"
  by (simp add: hex64_def short_def)

lemmas ids_defs = ids_Agent_def ids_Capability_def ids_Endpoint_def ids_Device_def
  ids_Conversation_def ids_Event_def ids_Session_def ids_Room_def ids_Thread_def
  ids_Mailbox_def ids_RelayMessage_def ids_ADNL_def ids_Action_def

lemma DigestPattern_Digest: "DigestPattern (Digest p)"
  by (auto simp: DigestPattern_def Digest_def prefixed_hex64_eq hex64_encode)

lemma ValidDigest_Digest: "sha256 p \<noteq> replicate 32 (CHR 0x00) \<Longrightarrow> ValidDigest (Digest p)"
  by (simp add: ValidDigest_def DigestPattern_Digest) (simp add: Digest_def)

lemma ValidDigest_prefixed: "ValidDigest d \<Longrightarrow> prefixed_hex64 ''sha256:'' d"
  by (auto simp: ValidDigest_def DigestPattern_def split: if_splits)

lemma ascii_utf8: "list_all (\<lambda>c. byte_val c < 128) s \<Longrightarrow> utf8_valid s"
  by (induction s) (auto simp: Let_def)

lemma ascii_hex: "is_hex c \<Longrightarrow> byte_val c < 128"
  by (auto simp: is_hex_def Let_def)

lemma prefixed_hex64_ascii:
  "list_all (\<lambda>c. byte_val c < 128) p \<Longrightarrow> prefixed_hex64 p s \<Longrightarrow> list_all (\<lambda>c. byte_val c < 128) s"
  by (auto simp: prefixed_hex64_eq hex64_def list_all_iff ascii_hex)

lemma prefixed_hex64_fits:
  assumes "prefixed_hex64 p s" and "list_all (\<lambda>c. byte_val c < 128) p"
    and "int (length p) + 64 \<le> m" and "m < 2 ^ 32"
  shows "fits_text m s"
  using assms prefixed_hex64_length [OF assms(1)]
  by (auto simp: fits_text_def fits_def intro: ascii_utf8 prefixed_hex64_ascii)

lemma ids_kinds_prefixes: "ids_kinds = map prefixed_hex64 ids_prefixes"
  by (simp add: ids_kinds_def ids_prefixes_def ids_defs)

lemma ids_prefixes_distinct: "distinct ids_prefixes"
  by (simp add: ids_prefixes_def)

lemma ids_kind_unique:
  assumes "i < length ids_kinds" and "j < length ids_kinds" and "(ids_kinds ! i) s" and "(ids_kinds ! j) s"
  shows "i = j"
proof -
  have "ids_prefixes ! i = ids_prefixes ! j"
    using assms prefixed_hex64_disjoint by (auto simp: ids_kinds_prefixes)
  then show ?thesis
    using assms(1,2) ids_prefixes_distinct by (simp add: ids_kinds_prefixes nth_eq_iff_index_eq)
qed

lemma ids_Format_Inr:
  "ids_Format p raw = Inr s \<longleftrightarrow>
     p \<noteq> '''' \<and> length raw = 32 \<and> \<not> canon_IsZero raw \<and> s = p @ hex_encode raw"
  by (auto simp: ids_Format_def)

section \<open>Properties\<close>

lemma r_take_err: "r_err r \<noteq> None \<Longrightarrow> r_take n r = (None, r)"
  by (simp add: r_take_def)

lemma r_Uint32_err: "r_err r \<noteq> None \<Longrightarrow> r_Uint32 r = (0, r)"
  by (simp add: r_Uint32_def r_take_err)

lemma r_Bytes_raw_err: "r_err r \<noteq> None \<Longrightarrow> r_Bytes_raw m r = (None, r)"
  by (simp add: r_Bytes_raw_def r_Uint32_err Let_def)

text \<open>
  A failed read latches: once a reader holds an error, every read returns the
  zero value of its type and leaves the reader as it is, offset included, and \<open>Done\<close>
  reports that first error.
\<close>

theorem reader_latches:
  assumes "r_err r \<noteq> None"
  shows "r_Uint8 r = (0, r) \<and> r_Uint32 r = (0, r) \<and> r_Uint64 r = (0, r) \<and> r_Bytes m r = ([], r) \<and>
    r_Text m r = ([], r) \<and> r_Hash32 r = ([], r) \<and> r_Count m r = (0, r) \<and> r_Done r = r_err r"
  using assms
  by (simp add: r_Uint8_def r_Uint64_def r_Bytes_def r_Text_def r_Hash32_def r_Count_def r_Done_def
      r_take_err r_Uint32_err r_Bytes_raw_err Let_def)

theorem reader_latches_witness:
  "r_Text 512 (NewReader ''b'' ''a'') = ([], NewReader ''b'' ''a'') \<and>
   r_Done (NewReader ''b'' ''a'') = Some (Msg ''preimage is not in the expected domain'')"
  using reader_latches [of "NewReader ''b'' ''a''" 512] by (simp add: NewReader_def)

text \<open>
  Identifiers of different kinds cannot be mistaken for each other: what \<open>Format\<close>
  renders under the prefix of one kind matches the pattern of that kind and of no other,
  and the 32 bytes it was made of are recovered from it.
\<close>

theorem ids_Format_kind:
  assumes "i < length ids_kinds" and "j < length ids_kinds"
    and "ids_Format (ids_prefixes ! i) raw = Inr s"
  shows "((ids_kinds ! j) s \<longleftrightarrow> j = i) \<and> hex_decode (drop (length (ids_prefixes ! i)) s) = Some raw"
proof -
  have s: "s = ids_prefixes ! i @ hex_encode raw" "length raw = 32"
    using assms(3) by (auto simp: ids_Format_Inr)
  have "(ids_kinds ! i) s"
    using assms(1) s by (auto simp: ids_kinds_prefixes prefixed_hex64_eq hex64_encode)
  then show ?thesis
    using ids_kind_unique [OF assms(1,2)] s(1) by auto
qed

theorem ids_Format_kind_witness:
  "(ids_kinds ! 5) (''evt_'' @ hex_encode (replicate 32 (CHR ''a''))) \<and>
   \<not> (ids_kinds ! 4) (''evt_'' @ hex_encode (replicate 32 (CHR ''a'')))"
proof -
  have f: "ids_Format (ids_prefixes ! 5) (replicate 32 (CHR ''a'')) =
      Inr (''evt_'' @ hex_encode (replicate 32 (CHR ''a'')))"
    by (simp add: ids_Format_def ids_prefixes_def canon_IsZero_def)
  have "5 < length ids_kinds" "4 < length ids_kinds"
    by (simp_all add: ids_kinds_def)
  then show ?thesis
    using ids_Format_kind [OF _ _ f, of 5] ids_Format_kind [OF _ _ f, of 4] by simp
qed

end
