(* ===== verification/Amounts.thy ===== *)
theory Amounts
  imports Canon
begin

text \<open>
  Networks, assets and exact amounts of the negotiation package
  (\<open>pkg/negotiation/network.go\<close>, \<open>pkg/negotiation/money.go\<close>).

  An amount is a canonical decimal string; \<open>big.Int\<close> is \<^typ>\<open>int\<close>, with its decimal
  printer and parser written out. What the component promises is that one amount has one
  encoding, that comparison and addition are those of the integers behind the strings, and
  that amounts of different assets are never compared or added.
\<close>

section \<open>Decimal counts\<close>

definition digit_char :: "int \<Rightarrow> char" where
  "digit_char n = char_of (48 + n)"

definition digit_val :: "char \<Rightarrow> int" where
  "digit_val c = of_char c - 48"

definition is_digit :: "char \<Rightarrow> bool" where
  "is_digit c \<longleftrightarrow> 48 \<le> byte_val c \<and> byte_val c \<le> 57"

text \<open>\<open>big.Int.String\<close> of a count that is not negative.\<close>

function big_String :: "int \<Rightarrow> string" where
  "big_String n = (if n < 10 then [digit_char n]
     else big_String (n div 10) @ [digit_char (n mod 10)])"
  by pat_completeness auto
termination
  by (relation "measure nat") auto

declare big_String.simps [simp del]

text \<open>\<open>big.Int.SetString\<close> with base ten, an optional sign and at least one digit.\<close>

definition dec_digits :: "string \<Rightarrow> int" where
  "dec_digits s = foldl (\<lambda>a c. 10 * a + digit_val c) 0 s"

definition big_SetString :: "string \<Rightarrow> int option" where
  "big_SetString s =
     (let (neg, ds) = (case s of
          [] \<Rightarrow> (False, [])
        | c # r \<Rightarrow> if c = CHR ''-'' then (True, r) else if c = CHR ''+'' then (False, r) else (False, s))
      in if ds = [] \<or> \<not> list_all is_digit ds then None
         else Some (if neg then - dec_digits ds else dec_digits ds))"

text \<open>\<open>^(0|[1-9][0-9]{0,77})$\<close>.\<close>

definition atomicPattern :: "string \<Rightarrow> bool" where
  "atomicPattern s \<longleftrightarrow> (case s of
     [] \<Rightarrow> False
   | c # r \<Rightarrow> s = ''0'' \<or> (is_digit c \<and> c \<noteq> CHR ''0'' \<and> length r \<le> 77 \<and> list_all is_digit r))"

section \<open>Networks\<close>

record Network =
  nw_ID :: string
  nw_GenesisRootHash :: string
  nw_GenesisFileHash :: string

text \<open>
  The protocol form of a network domain belongs to the service protocol; the packages
  read three fields of it, and a pointer to it may be \<open>nil\<close>.
\<close>

record NetworkDomain =
  nd_NetworkId :: string
  nd_GenesisRootHash :: string
  nd_GenesisFileHash :: string

definition Network_Validate :: "Network \<Rightarrow> err option" where
  "Network_Validate n =
     (if nw_ID n = '''' \<or> length (nw_ID n) > 128 \<or> \<not> HashPattern (nw_GenesisRootHash n) \<or>
         \<not> HashPattern (nw_GenesisFileHash n)
      then Some (Msg ''invalid network identity'')
      else None)"

definition Network_Same :: "Network \<Rightarrow> Network \<Rightarrow> bool" where
  "Network_Same n other \<longleftrightarrow>
     nw_ID n = nw_ID other \<and>
     nw_GenesisRootHash n = nw_GenesisRootHash other \<and>
     nw_GenesisFileHash n = nw_GenesisFileHash other"

definition Network_canonical :: "Network \<Rightarrow> bytes res" where
  "Network_canonical n =
     bindE (canon_Hash32 (nw_GenesisRootHash n)) (\<lambda>root.
     bindE (canon_Hash32 (nw_GenesisFileHash n)) (\<lambda>file.
     Inr (canon_Text (nw_ID n) @ root @ file)))"

definition NetworkFromDomain :: "NetworkDomain option \<Rightarrow> Network res" where
  "NetworkFromDomain domain = (case domain of
     None \<Rightarrow> Inl (Msg ''no network domain'')
   | Some d \<Rightarrow>
       let network = \<lparr>nw_ID = nd_NetworkId d, nw_GenesisRootHash = nd_GenesisRootHash d,
                      nw_GenesisFileHash = nd_GenesisFileHash d\<rparr>
       in failE (Network_Validate network) (Inr network))"

section \<open>Assets\<close>

definition MaxDecimals :: u32 where
  "MaxDecimals = 36"

definition MaxAtomicDigits :: nat where
  "MaxAtomicDigits = 78"

definition accountPattern :: "string \<Rightarrow> bool" where
  "accountPattern = hex64"

definition codeHashRegexp :: "string \<Rightarrow> bool" where
  "codeHashRegexp = prefixed_hex64 ''tvm-cell-sha256:''"

text \<open>\<open>Workchain\<close> is a signed 32-bit integer: the word's signed reading is its value.\<close>

record Asset =
  as_Network :: Network
  as_Workchain :: u32
  as_AccountID :: string
  as_MasterCodeHash :: string
  as_WalletCodeHash :: string
  as_Decimals :: u32

definition Asset_Validate :: "Asset \<Rightarrow> err option" where
  "Asset_Validate a =
     (if Network_Validate (as_Network a) \<noteq> None then Some (Msg ''asset names no network'')
      else if sint (as_Workchain a) < - 128 \<or> sint (as_Workchain a) > 127
      then Some (Msg ''asset workchain is outside the addressable range'')
      else if \<not> accountPattern (as_AccountID a)
      then Some (Msg ''asset names no master contract account'')
      else if \<not> codeHashRegexp (as_MasterCodeHash a)
      then Some (Msg ''asset names no master code hash'')
      else if \<not> codeHashRegexp (as_WalletCodeHash a)
      then Some (Msg ''asset names no wallet code hash'')
      else if as_Decimals a > MaxDecimals then Some (Msg ''asset precision exceeds its bound'')
      else None)"

definition Asset_Same :: "Asset \<Rightarrow> Asset \<Rightarrow> bool" where
  "Asset_Same a other \<longleftrightarrow>
     Network_Same (as_Network a) (as_Network other) \<and>
     as_Workchain a = as_Workchain other \<and> as_AccountID a = as_AccountID other \<and>
     as_MasterCodeHash a = as_MasterCodeHash other \<and> as_WalletCodeHash a = as_WalletCodeHash other \<and>
     as_Decimals a = as_Decimals other"

definition Asset_canonical :: "Asset \<Rightarrow> bytes res" where
  "Asset_canonical a =
     bindE (Network_canonical (as_Network a)) (\<lambda>network.
     Inr (network @ canon_Uint32 (as_Workchain a) @ canon_Text (as_AccountID a) @
       canon_Text (as_MasterCodeHash a) @ canon_Text (as_WalletCodeHash a) @
       canon_Uint32 (as_Decimals a)))"

section \<open>Money\<close>

record Money =
  m_Asset :: Asset
  m_Atomic :: string

definition Money_Validate :: "Money \<Rightarrow> err option" where
  "Money_Validate m = (case Asset_Validate (m_Asset m) of
     Some e \<Rightarrow> Some e
   | None \<Rightarrow>
       if \<not> atomicPattern (m_Atomic m)
       then Some (Msg ''an amount must be a canonical decimal count of atomic units'')
       else None)"

text \<open>\<open>None\<close> is the \<open>nil\<close> pointer to a \<open>big.Int\<close>.\<close>

definition NewMoney :: "Asset \<Rightarrow> int option \<Rightarrow> Money res" where
  "NewMoney asset atomic = (case atomic of
     None \<Rightarrow> Inl (Msg ''an amount cannot be negative or absent'')
   | Some n \<Rightarrow>
       if n < 0 then Inl (Msg ''an amount cannot be negative or absent'')
       else let v = \<lparr>m_Asset = asset, m_Atomic = big_String n\<rparr>
            in failE (Money_Validate v) (Inr v))"

definition Money_Int :: "Money \<Rightarrow> int res" where
  "Money_Int m = failE (Money_Validate m) (case big_SetString (m_Atomic m) of
     None \<Rightarrow> Inl (Msg ''invalid atomic amount'')
   | Some v \<Rightarrow> Inr v)"

definition SameAsset :: "Money \<Rightarrow> Money \<Rightarrow> bool" where
  "SameAsset m other \<longleftrightarrow> Asset_Same (m_Asset m) (m_Asset other)"

definition AtMost :: "Money \<Rightarrow> Money \<Rightarrow> bool res" where
  "AtMost m ceiling =
     (if \<not> SameAsset m ceiling
      then Inl (Msg ''amounts of different assets are not comparable'')
      else bindE (Money_Int m) (\<lambda>left. bindE (Money_Int ceiling) (\<lambda>right. Inr (left \<le> right))))"

definition Money_Add :: "Money \<Rightarrow> Money \<Rightarrow> Money res" where
  "Money_Add m other =
     (if \<not> SameAsset m other
      then Inl (Msg ''amounts of different assets cannot be added'')
      else bindE (Money_Int m) (\<lambda>left. bindE (Money_Int other) (\<lambda>right.
        NewMoney (m_Asset m) (Some (left + right)))))"

definition Money_Equal :: "Money \<Rightarrow> Money \<Rightarrow> bool" where
  "Money_Equal m other \<longleftrightarrow> SameAsset m other \<and> m_Atomic m = m_Atomic other"

definition Money_Zero :: "Money \<Rightarrow> Money" where
  "Money_Zero m = \<lparr>m_Asset = m_Asset m, m_Atomic = ''0''\<rparr>"

definition Money_canonical :: "Money \<Rightarrow> bytes res" where
  "Money_canonical m = bindE (Asset_canonical (m_Asset m)) (\<lambda>asset.
     Inr (asset @ canon_Text (m_Atomic m)))"

text \<open>The bytes \<open>canonical\<close> appends for a well-formed asset.\<close>

definition Asset_bytes :: "Asset \<Rightarrow> bytes" where
  "Asset_bytes a = canon_Text (nw_ID (as_Network a)) @ hash_bytes (nw_GenesisRootHash (as_Network a)) @
     hash_bytes (nw_GenesisFileHash (as_Network a)) @ canon_Uint32 (as_Workchain a) @
     canon_Text (as_AccountID a) @ canon_Text (as_MasterCodeHash a) @
     canon_Text (as_WalletCodeHash a) @ canon_Uint32 (as_Decimals a)"

definition Money_bytes :: "Money \<Rightarrow> bytes" where
  "Money_bytes m = Asset_bytes (m_Asset m) @ canon_Text (m_Atomic m)"

text \<open>The count behind a well-formed amount.\<close>

definition amount :: "Money \<Rightarrow> int" where
  "amount m = dec_digits (m_Atomic m)"

text \<open>A concrete asset and amounts of it, for the examples.\<close>

definition ex_hash :: string where
  "ex_hash = replicate 64 (CHR ''a'')"

definition ex_asset :: Asset where
  "ex_asset = \<lparr>as_Network = \<lparr>nw_ID = ''tos'', nw_GenesisRootHash = ex_hash, nw_GenesisFileHash = ex_hash\<rparr>,
     as_Workchain = 0, as_AccountID = ex_hash, as_MasterCodeHash = ''tvm-cell-sha256:'' @ ex_hash,
     as_WalletCodeHash = ''tvm-cell-sha256:'' @ ex_hash, as_Decimals = 9\<rparr>"

definition ex_money :: "int \<Rightarrow> Money" where
  "ex_money n = \<lparr>m_Asset = ex_asset, m_Atomic = big_String n\<rparr>"

section \<open>Decimal lemmas\<close>

lemma digit_char_val [simp]: "is_digit c \<Longrightarrow> digit_char (digit_val c) = c"
  by (simp add: digit_char_def digit_val_def)

lemma byte_val_int: "int (byte_val c) = of_char c"
  by (cases c) (simp add: byte_val_def of_char_def)

lemma digit_val_range: "is_digit c \<longleftrightarrow> 0 \<le> digit_val c \<and> digit_val c < 10"
  using byte_val_int [of c] by (auto simp: is_digit_def digit_val_def)

lemma digit_val_char [simp]: "0 \<le> n \<Longrightarrow> n < 10 \<Longrightarrow> digit_val (digit_char n) = n"
  by (simp add: digit_char_def digit_val_def)

lemma is_digit_char [simp]: "0 \<le> n \<Longrightarrow> n < 10 \<Longrightarrow> is_digit (digit_char n)"
  by (simp add: digit_val_range)

lemma digit_val_zero: "is_digit c \<Longrightarrow> digit_val c = 0 \<longleftrightarrow> c = CHR ''0''"
proof -
  have "digit_val (CHR ''0'') = 0" by (simp add: digit_val_def)
  moreover assume "is_digit c"
  then have "digit_char (digit_val c) = c" by simp
  moreover have "digit_char 0 = CHR ''0''" by (simp add: digit_char_def char_of_def)
  ultimately show ?thesis by auto
qed

lemma dec_digits_snoc: "dec_digits (s @ [c]) = 10 * dec_digits s + digit_val c"
  by (simp add: dec_digits_def)

lemma dec_digits_Nil [simp]: "dec_digits [] = 0"
  by (simp add: dec_digits_def)

lemma big_String_neq_Nil [simp]: "big_String n \<noteq> []"
  by (subst big_String.simps) simp

lemma big_String_digits: "0 \<le> n \<Longrightarrow> list_all is_digit (big_String n)"
proof (induction n rule: big_String.induct)
  case (1 n)
  then show ?case by (subst big_String.simps) auto
qed

lemma dec_digits_big_String: "0 \<le> n \<Longrightarrow> dec_digits (big_String n) = n"
proof (induction n rule: big_String.induct)
  case (1 n)
  then show ?case
    by (subst big_String.simps) (auto simp: dec_digits_snoc dec_digits_snoc [of "[]", simplified])
qed

lemma dec_digits_nonneg: "list_all is_digit s \<Longrightarrow> 0 \<le> dec_digits s"
  by (induction s rule: rev_induct) (auto simp: dec_digits_snoc digit_val_range)

lemma dec_digits_less: "list_all is_digit s \<Longrightarrow> dec_digits s < 10 ^ length s"
proof (induction s rule: rev_induct)
  case (snoc c s)
  then show ?case by (auto simp: dec_digits_snoc digit_val_range)
qed simp

lemma dec_digits_ge:
  assumes "list_all is_digit (c # s)" and "c \<noteq> CHR ''0''"
  shows "10 ^ length s \<le> dec_digits (c # s)"
  using assms(1)
proof (induction s rule: rev_induct)
  case Nil
  then show ?case
    using assms(2) digit_val_zero [of c] by (auto simp: dec_digits_def digit_val_range)
next
  case (snoc d s)
  then have "10 ^ length s \<le> dec_digits (c # s)" by simp
  moreover have "dec_digits (c # s @ [d]) = 10 * dec_digits (c # s) + digit_val d"
    using dec_digits_snoc [of "c # s" d] by simp
  ultimately show ?case using snoc.prems by (auto simp: digit_val_range)
qed

lemma big_String_dec_digits:
  "list_all is_digit (c # s) \<Longrightarrow> c \<noteq> CHR ''0'' \<Longrightarrow> big_String (dec_digits (c # s)) = c # s"
proof (induction s rule: rev_induct)
  case Nil
  then show ?case
    by (subst big_String.simps) (auto simp: dec_digits_def digit_val_range)
next
  case (snoc d s)
  have "(1 :: int) \<le> 10 ^ length s" by simp
  also have "\<dots> \<le> dec_digits (c # s)" using dec_digits_ge [of c s] snoc.prems by simp
  finally have "1 \<le> dec_digits (c # s)" .
  moreover have "dec_digits (c # s @ [d]) = 10 * dec_digits (c # s) + digit_val d"
    using dec_digits_snoc [of "c # s" d] by simp
  ultimately show ?case
    using snoc by (subst big_String.simps) (auto simp: digit_val_range)
qed

lemma big_String_0 [simp]: "big_String 0 = ''0''"
  by (subst big_String.simps) (simp add: digit_char_def char_of_def)

lemma big_String_hd:
  "0 < n \<Longrightarrow> hd (big_String n) \<noteq> CHR ''0''"
proof (induction n rule: big_String.induct)
  case (1 n)
  show ?case
  proof (cases "n < 10")
    case True
    then show ?thesis
      using 1(2) digit_val_zero [of "digit_char n"] by (subst big_String.simps) auto
  next
    case False
    then show ?thesis
      using 1 by (subst big_String.simps) auto
  qed
qed

lemma big_String_length: "0 < n \<Longrightarrow> length (big_String n) \<le> k \<longleftrightarrow> n < 10 ^ k"
proof -
  assume n: "0 < n"
  obtain c s where cs: "big_String n = c # s" by (cases "big_String n") auto
  have d: "list_all is_digit (c # s)" "c \<noteq> CHR ''0''" "dec_digits (c # s) = n"
    using n big_String_digits [of n] big_String_hd [of n] dec_digits_big_String [of n] cs by auto
  show ?thesis
  proof
    assume "length (big_String n) \<le> k"
    then have "(10 :: int) ^ length (c # s) \<le> 10 ^ k" by (simp add: cs power_increasing del: power_Suc)
    with dec_digits_less [OF d(1)] d(3) show "n < 10 ^ k" by linarith
  next
    assume "n < 10 ^ k"
    with dec_digits_ge [OF d(1,2)] d(3) have "(10 :: int) ^ length s < 10 ^ k" by linarith
    then show "length (big_String n) \<le> k" by (simp add: cs)
  qed
qed

lemma atomicPattern_iff: "atomicPattern s \<longleftrightarrow> (\<exists>n. 0 \<le> n \<and> n < 10 ^ 78 \<and> s = big_String n)"
proof
  assume a: "atomicPattern s"
  show "\<exists>n. 0 \<le> n \<and> n < 10 ^ 78 \<and> s = big_String n"
  proof (cases "s = ''0''")
    case True
    then show ?thesis by (auto intro: exI [of _ 0])
  next
    case False
    with a obtain c r where s: "s = c # r" "list_all is_digit (c # r)" "c \<noteq> CHR ''0''" "length r \<le> 77"
      by (auto simp: atomicPattern_def split: list.splits)
    have "dec_digits s < 10 ^ length s"
      using dec_digits_less [OF s(2)] s(1) by simp
    moreover have "(10 :: int) ^ length s \<le> 10 ^ 78"
      using s by (intro power_increasing) auto
    ultimately have "dec_digits s < 10 ^ 78" by (rule less_le_trans)
    then show ?thesis
      using big_String_dec_digits [OF s(2,3)] dec_digits_nonneg [OF s(2)] s(1)
      by (intro exI [of _ "dec_digits s"]) auto
  qed
next
  assume "\<exists>n. 0 \<le> n \<and> n < 10 ^ 78 \<and> s = big_String n"
  then obtain n where n: "0 \<le> n" "n < 10 ^ 78" "s = big_String n" by blast
  show "atomicPattern s"
  proof (cases "n = 0")
    case True
    with n show ?thesis by (simp add: atomicPattern_def)
  next
    case False
    moreover obtain c r where "big_String n = c # r" by (cases "big_String n") auto
    ultimately show ?thesis
      using n big_String_digits [of n] big_String_hd [of n] big_String_length [of n 78]
      by (auto simp: atomicPattern_def)
  qed
qed

lemma atomicPattern_digits: "atomicPattern s \<Longrightarrow> list_all is_digit s \<and> s \<noteq> []"
  by (auto simp: atomicPattern_iff big_String_digits)

lemma atomicPattern_value: "atomicPattern s \<Longrightarrow> big_String (dec_digits s) = s"
  by (auto simp: atomicPattern_iff dec_digits_big_String)

lemma atomicPattern_bound: "atomicPattern s \<Longrightarrow> 0 \<le> dec_digits s \<and> dec_digits s < 10 ^ 78"
  by (auto simp: atomicPattern_iff dec_digits_big_String)

lemma is_digit_sign: "is_digit c \<Longrightarrow> c \<noteq> CHR ''-'' \<and> c \<noteq> CHR ''+''"
  by (auto simp: is_digit_def byte_val_def)

lemma big_SetString_digits:
  "list_all is_digit s \<Longrightarrow> s \<noteq> [] \<Longrightarrow> big_SetString s = Some (dec_digits s)"
  by (cases s) (auto simp: big_SetString_def is_digit_sign)

section \<open>Amount lemmas\<close>

lemma Network_Same_eq: "Network_Same n m \<longleftrightarrow> n = m"
  by (cases n; cases m) (auto simp: Network_Same_def)

lemma Asset_Same_eq: "Asset_Same a b \<longleftrightarrow> a = b"
  by (cases a; cases b) (auto simp: Asset_Same_def Network_Same_eq)

lemma SameAsset_eq: "SameAsset m n \<longleftrightarrow> m_Asset m = m_Asset n"
  by (simp add: SameAsset_def Asset_Same_eq)

lemma Money_Equal_eq: "Money_Equal m n \<longleftrightarrow> m = n"
  by (cases m; cases n) (auto simp: Money_Equal_def SameAsset_eq)

lemma Money_Validate_None:
  "Money_Validate m = None \<longleftrightarrow> Asset_Validate (m_Asset m) = None \<and> atomicPattern (m_Atomic m)"
  by (auto simp: Money_Validate_def split: option.splits)

lemma Money_Int_Inr: "Money_Int m = Inr v \<longleftrightarrow> Money_Validate m = None \<and> v = amount m"
  using atomicPattern_digits [of "m_Atomic m"]
  by (auto simp: Money_Int_def failE_eq_Inr Money_Validate_None amount_def big_SetString_digits)

lemma Money_Int_ok: "Money_Validate m = None \<Longrightarrow> Money_Int m = Inr (amount m)"
  by (simp add: Money_Int_Inr)

lemma amount_bound: "Money_Validate m = None \<Longrightarrow> 0 \<le> amount m \<and> amount m < 10 ^ 78"
  using atomicPattern_bound [of "m_Atomic m"] by (simp add: Money_Validate_None amount_def)

lemma Money_eqI:
  assumes "Money_Validate m = None" and "Money_Validate n = None"
    and "m_Asset m = m_Asset n" and "amount m = amount n"
  shows "m = n"
proof -
  have "m_Atomic m = m_Atomic n"
    using assms atomicPattern_value by (metis Money_Validate_None amount_def)
  with assms(3) show ?thesis by (cases m; cases n) simp
qed

lemma AtMost_Inr:
  "AtMost m c = Inr b \<longleftrightarrow> m_Asset m = m_Asset c \<and> Money_Validate m = None \<and>
     Money_Validate c = None \<and> b = (amount m \<le> amount c)"
  by (auto simp: AtMost_def SameAsset_eq bindE_eq_Inr Money_Int_Inr)

lemma NewMoney_Inr:
  "NewMoney a n = Inr m \<longleftrightarrow>
     m_Asset m = a \<and> Money_Validate m = None \<and> n = Some (amount m)"
proof -
  have "\<lparr>m_Asset = a, m_Atomic = big_String k\<rparr> = m"
    if "m_Asset m = a" "Money_Validate m = None" "k = amount m" for k
    using that by (cases m) (simp add: amount_def atomicPattern_value Money_Validate_None)
  then show ?thesis
    using amount_bound [of m]
    by (auto simp: NewMoney_def failE_eq_Inr amount_def dec_digits_big_String Let_def
        split: option.splits if_splits)
qed

lemma Money_Add_Inr:
  "Money_Add m n = Inr t \<longleftrightarrow> m_Asset m = m_Asset n \<and> Money_Validate m = None \<and>
     Money_Validate n = None \<and> m_Asset t = m_Asset m \<and> Money_Validate t = None \<and>
     amount t = amount m + amount n"
  by (auto simp: Money_Add_def SameAsset_eq bindE_eq_Inr Money_Int_Inr NewMoney_Inr)

lemma Money_Zero_facts [simp]:
  "m_Asset (Money_Zero m) = m_Asset m" "amount (Money_Zero m) = 0"
  by (simp_all add: Money_Zero_def amount_def dec_digits_def digit_val_def)

lemma Money_Zero_valid: "Money_Validate m = None \<Longrightarrow> Money_Validate (Money_Zero m) = None"
  by (simp add: Money_Validate_None) (simp add: Money_Zero_def atomicPattern_def)

subsection \<open>Canonical bytes\<close>



lemma Network_Validate_None:
  "Network_Validate n = None \<longleftrightarrow> nw_ID n \<noteq> '''' \<and> length (nw_ID n) \<le> 128 \<and>
     hex64 (nw_GenesisRootHash n) \<and> hex64 (nw_GenesisFileHash n)"
  by (auto simp: Network_Validate_def HashPattern_def)

lemma Network_canonical_ok:
  "Network_Validate n = None \<Longrightarrow> Network_canonical n =
     Inr (canon_Text (nw_ID n) @ hash_bytes (nw_GenesisRootHash n) @ hash_bytes (nw_GenesisFileHash n))"
  by (simp add: Network_canonical_def Network_Validate_None canon_Hash32_ok)

lemma Asset_Validate_None:
  "Asset_Validate a = None \<longleftrightarrow> Network_Validate (as_Network a) = None \<and>
     - 128 \<le> sint (as_Workchain a) \<and> sint (as_Workchain a) \<le> 127 \<and> hex64 (as_AccountID a) \<and>
     codeHashRegexp (as_MasterCodeHash a) \<and> codeHashRegexp (as_WalletCodeHash a) \<and>
     as_Decimals a \<le> MaxDecimals"
  by (auto simp: Asset_Validate_def accountPattern_def)

lemma Asset_short:
  assumes "Asset_Validate a = None"
  shows "short (nw_ID (as_Network a))" "short (as_AccountID a)" "short (as_MasterCodeHash a)"
    "short (as_WalletCodeHash a)"
  using assms
  by (auto simp: Asset_Validate_None Network_Validate_None codeHashRegexp_def hex64_def short_def
      dest!: prefixed_hex64_length)

lemma Atomic_short: "atomicPattern s \<Longrightarrow> short s"
  by (auto simp: atomicPattern_def short_def split: list.splits)

lemma Asset_canonical_ok: "Asset_Validate a = None \<Longrightarrow> Asset_canonical a = Inr (Asset_bytes a)"
  by (simp add: Asset_canonical_def Asset_Validate_None Network_canonical_ok Asset_bytes_def)

lemma Asset_bytes_inj:
  assumes "Asset_Validate a = None" and "Asset_Validate b = None"
    and "Asset_bytes a @ x = Asset_bytes b @ y"
  shows "a = b \<and> x = y"
proof -
  have "hex64 (nw_GenesisRootHash (as_Network a))" "hex64 (nw_GenesisFileHash (as_Network a))"
    "hex64 (nw_GenesisRootHash (as_Network b))" "hex64 (nw_GenesisFileHash (as_Network b))"
    using assms(1,2) by (simp_all add: Asset_Validate_None Network_Validate_None)
  with assms(3) Asset_short [OF assms(1)] Asset_short [OF assms(2)] show ?thesis
    by (auto simp: Asset_bytes_def ctext.enc_eq rhash.enc_eq ru32.enc_eq
        intro!: Asset.equality Network.equality)
qed

lemma Money_canonical_ok: "Money_Validate m = None \<Longrightarrow> Money_canonical m = Inr (Money_bytes m)"
  by (simp add: Money_canonical_def Money_Validate_None Asset_canonical_ok Money_bytes_def)

interpretation casset: field_codec Asset_bytes "\<lambda>a. Asset_Validate a = None"
  by unfold_locales (rule Asset_bytes_inj)

interpretation cmoney: field_codec Money_bytes "\<lambda>m. Money_Validate m = None"
  by unfold_locales
    (auto simp: Money_bytes_def Money_Validate_None casset.enc_eq ctext.enc_eq Atomic_short Money.equality)

subsection \<open>The examples\<close>

lemma ex_hash_hex [simp]: "hex64 ex_hash" "length ex_hash = 64"
  by (simp_all add: hex64_def ex_hash_def is_hex_def byte_val_def list_all_iff)

lemma ex_asset_valid [simp]: "Asset_Validate ex_asset = None"
  by (simp add: Asset_Validate_None Network_Validate_None ex_asset_def codeHashRegexp_def
      prefixed_hex64_def MaxDecimals_def)

lemma ex_money_facts [simp]:
  "m_Asset (ex_money n) = ex_asset"
  "0 \<le> n \<Longrightarrow> amount (ex_money n) = n"
  "0 \<le> n \<Longrightarrow> n < 10 ^ 78 \<Longrightarrow> Money_Validate (ex_money n) = None"
  by (simp_all add: ex_money_def amount_def dec_digits_big_String Money_Validate_None)
    (auto simp: atomicPattern_iff)

section \<open>Properties\<close>

text \<open>
  C24. Amounts are exact: for two well-formed amounts, \<open>AtMost\<close> answers the order of the
  integer counts and refuses different assets, \<open>Add\<close> returns the amount whose count is
  the exact sum and refuses different assets and sums of more than 78 digits, and two
  amounts are the same value exactly when asset and count agree, so a count has one
  encoding.
\<close>

theorem Money_exact:
  assumes "Money_Validate a = None" and "Money_Validate b = None"
  shows "AtMost a b = (if m_Asset a = m_Asset b then Inr (amount a \<le> amount b)
      else Inl (Msg ''amounts of different assets are not comparable'')) \<and>
    (\<forall>t. Money_Add a b = Inr t \<longleftrightarrow> m_Asset a = m_Asset b \<and> amount a + amount b < 10 ^ 78 \<and>
       t = \<lparr>m_Asset = m_Asset a, m_Atomic = big_String (amount a + amount b)\<rparr>) \<and>
    (a = b \<longleftrightarrow> m_Asset a = m_Asset b \<and> amount a = amount b)"
proof (intro conjI allI)
  show "AtMost a b = (if m_Asset a = m_Asset b then Inr (amount a \<le> amount b)
      else Inl (Msg ''amounts of different assets are not comparable''))"
    using assms by (simp add: AtMost_def SameAsset_eq Money_Int_ok)
  show "a = b \<longleftrightarrow> m_Asset a = m_Asset b \<and> amount a = amount b"
    using Money_eqI [OF assms] by blast
  fix t
  let ?n = "amount a + amount b"
  have n: "0 \<le> ?n" using amount_bound [OF assms(1)] amount_bound [OF assms(2)] by simp
  have "Money_Add a b = Inr t \<longleftrightarrow> m_Asset a = m_Asset b \<and>
      Money_Validate \<lparr>m_Asset = m_Asset a, m_Atomic = big_String ?n\<rparr> = None \<and>
      t = \<lparr>m_Asset = m_Asset a, m_Atomic = big_String ?n\<rparr>"
    using assms n by (auto simp: Money_Add_def SameAsset_eq Money_Int_ok NewMoney_def Let_def failE_eq_Inr)
  moreover have "Money_Validate \<lparr>m_Asset = m_Asset a, m_Atomic = big_String ?n\<rparr> = None \<longleftrightarrow> ?n < 10 ^ 78"
    using assms(1) n dec_digits_big_String
    by (auto simp: Money_Validate_None atomicPattern_iff) metis
  ultimately show "Money_Add a b = Inr t \<longleftrightarrow> m_Asset a = m_Asset b \<and> ?n < 10 ^ 78 \<and>
      t = \<lparr>m_Asset = m_Asset a, m_Atomic = big_String ?n\<rparr>" by auto
qed

theorem Money_exact_witness:
  "AtMost (ex_money 3) (ex_money 5) = Inr True \<and> Money_Add (ex_money 3) (ex_money 5) = Inr (ex_money 8)"
  using Money_exact [of "ex_money 3" "ex_money 5"] by simp (simp add: ex_money_def)

end
