(* ===== verification/Mandates.thy ===== *)
theory Mandates
  imports Amounts
begin

text \<open>
  What a negotiation agrees to and under what authority: the terms
  (\<open>pkg/negotiation/terms.go\<close>), the owner's mandate (\<open>mandate.go\<close>), the intent
  compiler (\<open>intent.go\<close>), the identity of one economic execution (\<open>execution.go\<close>)
  and the match of a finalized quote against agreed terms (the first half of
  \<open>commitment.go\<close>).

  The promises shown here: the permission check is exactly the conjunction of the bounds
  the owner set, the preimages that identify terms and mandates determine them, the
  compiler returns what it was given or refuses, and a matched quote is the agreed
  purchase on the agreed network.
\<close>

section \<open>Patterns\<close>

definition is_lower :: "char \<Rightarrow> bool" where
  "is_lower c \<longleftrightarrow> 97 \<le> byte_val c \<and> byte_val c \<le> 122"

text \<open>
  The tail of \<open>[a-z0-9]*(SEP[a-z0-9]+)*\<close>, where the flag says that the current word is
  not empty.
\<close>

fun words_tail :: "(char \<Rightarrow> bool) \<Rightarrow> bool \<Rightarrow> string \<Rightarrow> bool" where
  "words_tail issep ok [] = ok"
| "words_tail issep ok (c # cs) =
     (if issep c then ok \<and> words_tail issep False cs
      else (is_lower c \<or> is_digit c) \<and> words_tail issep True cs)"

definition words_pattern :: "(char \<Rightarrow> bool) \<Rightarrow> string \<Rightarrow> bool" where
  "words_pattern issep s \<longleftrightarrow> (case s of [] \<Rightarrow> False | c # cs \<Rightarrow> is_lower c \<and> words_tail issep True cs)"

definition capabilityClassPattern :: "string \<Rightarrow> bool" where
  "capabilityClassPattern = words_pattern (\<lambda>c. c = CHR ''.'')"

definition digestPattern :: "string \<Rightarrow> bool" where
  "digestPattern s \<longleftrightarrow> prefixed_hex64 ''sha256:'' s \<or> prefixed_hex64 ''tvm-cell-sha256:'' s"

definition normalizeDigest :: "string \<Rightarrow> string" where
  "normalizeDigest d =
     (if length d > length ''tvm-cell-sha256:'' \<and>
         take (length ''tvm-cell-sha256:'') d = ''tvm-cell-sha256:''
      then ''sha256:'' @ drop (length ''tvm-cell-sha256:'') d
      else d)"

section \<open>Terms\<close>

record Terms =
  t_CapabilityID :: string
  t_CapabilityVersion :: string
  t_CapabilityClass :: string
  t_ProviderAgentID :: string
  t_ManifestDigest :: string
  t_TransportBindingDigest :: string
  t_Price :: Money
  t_EscrowTermsDigest :: string
  t_DisputePolicyDigest :: string
  t_NotAfterUnix :: u64

definition bad_commitment :: "string \<Rightarrow> bool" where
  "bad_commitment d \<longleftrightarrow> \<not> digestPattern d \<or> \<not> ValidDigest (normalizeDigest d)"

text \<open>
  The four commitments are checked in the iteration order of a Go map, which is not
  specified; the order written here only decides which of several messages is reported.
\<close>

definition Terms_Validate :: "Terms \<Rightarrow> err option" where
  "Terms_Validate t =
     (if \<not> ids_Capability (t_CapabilityID t) then Some (Msg ''terms name no capability'')
      else if t_CapabilityVersion t = '''' \<or> length (t_CapabilityVersion t) > 64
      then Some (Msg ''terms name no capability version'')
      else if \<not> capabilityClassPattern (t_CapabilityClass t)
      then Some (Msg ''terms name no capability class'')
      else if \<not> ids_Agent (t_ProviderAgentID t) then Some (Msg ''terms name no provider'')
      else if bad_commitment (t_ManifestDigest t)
      then Some (Msg ''terms carry no manifest commitment'')
      else if bad_commitment (t_TransportBindingDigest t)
      then Some (Msg ''terms carry no transport binding commitment'')
      else if bad_commitment (t_EscrowTermsDigest t)
      then Some (Msg ''terms carry no escrow terms commitment'')
      else if bad_commitment (t_DisputePolicyDigest t)
      then Some (Msg ''terms carry no dispute policy commitment'')
      else case Money_Validate (t_Price t) of
        Some e \<Rightarrow> Some e
      | None \<Rightarrow>
          if t_NotAfterUnix t = 0 then Some (Msg ''terms must expire'') else None)"

definition Terms_CanonicalBytes :: "Terms \<Rightarrow> bytes res" where
  "Terms_CanonicalBytes t = failE (Terms_Validate t)
     (bindE (Money_canonical (t_Price t)) (\<lambda>price.
      Inr (DomainNegotiationTerms @
        canon_Text (t_CapabilityID t) @ canon_Text (t_CapabilityVersion t) @
        canon_Text (t_CapabilityClass t) @ canon_Text (t_ProviderAgentID t) @
        canon_Text (t_ManifestDigest t) @ canon_Text (t_TransportBindingDigest t) @
        price @
        canon_Text (t_EscrowTermsDigest t) @ canon_Text (t_DisputePolicyDigest t) @
        canon_Uint64 (t_NotAfterUnix t))))"

definition Terms_Digest :: "Terms \<Rightarrow> string res" where
  "Terms_Digest t = bindE (Terms_CanonicalBytes t) (\<lambda>preimage. Inr (Digest preimage))"

definition Terms_Equal :: "Terms \<Rightarrow> Terms \<Rightarrow> bool" where
  "Terms_Equal t other \<longleftrightarrow>
     t_CapabilityID t = t_CapabilityID other \<and>
     t_CapabilityVersion t = t_CapabilityVersion other \<and>
     t_CapabilityClass t = t_CapabilityClass other \<and>
     t_ProviderAgentID t = t_ProviderAgentID other \<and>
     t_ManifestDigest t = t_ManifestDigest other \<and>
     t_TransportBindingDigest t = t_TransportBindingDigest other \<and>
     Money_Equal (t_Price t) (t_Price other) \<and>
     t_EscrowTermsDigest t = t_EscrowTermsDigest other \<and>
     t_DisputePolicyDigest t = t_DisputePolicyDigest other \<and>
     t_NotAfterUnix t = t_NotAfterUnix other"

section \<open>Mandates\<close>

definition AuthorityConverse :: string where
  "AuthorityConverse = ''conversation''"

definition AuthorityPropose :: string where
  "AuthorityPropose = ''proposal''"

definition AuthorityCommit :: string where
  "AuthorityCommit = ''commit''"

definition authorities :: "string list" where
  "authorities = [AuthorityConverse, AuthorityPropose, AuthorityCommit]"

definition MaxCounteroffers :: u32 where
  "MaxCounteroffers = 32"

record Mandate =
  md_Objective :: string
  md_Authority :: string
  md_CapabilityClass :: string
  md_MaxTotal :: Money
  md_ApprovalAbove :: Money
  md_MaxCounteroffers :: u32
  md_ExpiresAtUnix :: u64

definition Mandate_Validate :: "Mandate \<Rightarrow> err option" where
  "Mandate_Validate m =
     (if md_Objective m = '''' \<or> length (md_Objective m) > 512
      then Some (Msg ''a mandate needs an objective'')
      else if md_Authority m \<notin> set authorities then Some (Msg ''invalid mandate authority'')
      else if \<not> capabilityClassPattern (md_CapabilityClass m) \<or> length (md_CapabilityClass m) > 64
      then Some (Msg ''invalid mandate capability class'')
      else case Money_Validate (md_MaxTotal m) of Some e \<Rightarrow> Some e | None \<Rightarrow>
      (case Money_Validate (md_ApprovalAbove m) of Some e \<Rightarrow> Some e | None \<Rightarrow>
      if \<not> SameAsset (md_MaxTotal m) (md_ApprovalAbove m)
      then Some (Msg (''a mandate'' @ [CHR 0x27] @ ''s ceiling and approval point must use one asset''))
      else case AtMost (md_ApprovalAbove m) (md_MaxTotal m) of Inl e \<Rightarrow> Some e | Inr within \<Rightarrow>
      if \<not> within
      then Some (Msg (''a mandate'' @ [CHR 0x27] @ ''s approval point is above its own ceiling''))
      else if md_MaxCounteroffers m = 0 \<or> md_MaxCounteroffers m > MaxCounteroffers
      then Some (Msg ''invalid mandate counteroffer bound'')
      else if md_ExpiresAtUnix m = 0 then Some (Msg ''a mandate must expire'')
      else None))"

definition Live :: "Mandate \<Rightarrow> gotime \<Rightarrow> err option" where
  "Live m now = (case Mandate_Validate m of Some e \<Rightarrow> Some e | None \<Rightarrow>
     if bad_time now then Some (Msg ''invalid mandate time'')
     else if unix now \<ge> md_ExpiresAtUnix m then Some (Msg ''mandate has expired'')
     else None)"

definition permits :: "Mandate \<Rightarrow> Terms \<Rightarrow> gotime \<Rightarrow> bool \<Rightarrow> bool res" where
  "permits m terms now requireCommit =
     failE (Live m now) (failE (Terms_Validate terms)
     (if md_Authority m = AuthorityConverse
      then Inl (Msg ''this mandate permits conversation and nothing else'')
      else if requireCommit \<and> md_Authority m \<noteq> AuthorityCommit
      then Inl (Msg ''this mandate may propose but not commit'')
      else if t_CapabilityClass terms \<noteq> md_CapabilityClass m
      then Inl (Msg ''these terms buy something the mandate does not cover'')
      else if \<not> SameAsset (t_Price terms) (md_MaxTotal m)
      then Inl (Msg ''these terms are priced in an asset the mandate does not name'')
      else bindE (AtMost (t_Price terms) (md_MaxTotal m)) (\<lambda>within.
        if \<not> within
        then Inl (Msg (''these terms are above the mandate'' @ [CHR 0x27] @ ''s ceiling''))
        else if unix now \<ge> t_NotAfterUnix terms
        then Inl (Msg ''these terms have already expired'')
        else if t_NotAfterUnix terms > md_ExpiresAtUnix m
        then Inl (Msg ''these terms outlive the mandate that permits them'')
        else bindE (AtMost (t_Price terms) (md_ApprovalAbove m)) (\<lambda>under. Inr (\<not> under)))))"

definition Permits :: "Mandate \<Rightarrow> Terms \<Rightarrow> gotime \<Rightarrow> bool res" where
  "Permits m terms now = permits m terms now False"

definition PermitsCommit :: "Mandate \<Rightarrow> Terms \<Rightarrow> gotime \<Rightarrow> bool res" where
  "PermitsCommit m terms now = permits m terms now True"

definition Mandate_CanonicalBytes :: "Mandate \<Rightarrow> bytes res" where
  "Mandate_CanonicalBytes m = failE (Mandate_Validate m)
     (bindE (Money_canonical (md_MaxTotal m)) (\<lambda>total.
      bindE (Money_canonical (md_ApprovalAbove m)) (\<lambda>above.
      Inr (DomainMandate @ canon_Text (md_Objective m) @ canon_Text (md_Authority m) @
        canon_Text (md_CapabilityClass m) @ total @ above @
        canon_Uint32 (md_MaxCounteroffers m) @ canon_Uint64 (md_ExpiresAtUnix m)))))"

definition Mandate_Digest :: "Mandate \<Rightarrow> string res" where
  "Mandate_Digest m = bindE (Mandate_CanonicalBytes m) (\<lambda>preimage. Inr (Digest preimage))"

section \<open>The intent compiler\<close>

record Candidate =
  c_CapabilityID :: string
  c_CapabilityVersion :: string
  c_CapabilityClass :: string
  c_ProviderAgentID :: string
  c_ManifestDigest :: string
  c_TransportBindingDigest :: string
  c_EscrowTermsDigest :: string
  c_DisputePolicyDigest :: string
  c_Price :: Money
  c_NotAfterUnix :: u64
  c_RenderedPrice :: "Money option"

definition candidate_terms :: "Candidate \<Rightarrow> Terms" where
  "candidate_terms c = \<lparr>
     t_CapabilityID = c_CapabilityID c, t_CapabilityVersion = c_CapabilityVersion c,
     t_CapabilityClass = c_CapabilityClass c, t_ProviderAgentID = c_ProviderAgentID c,
     t_ManifestDigest = c_ManifestDigest c, t_TransportBindingDigest = c_TransportBindingDigest c,
     t_Price = c_Price c, t_EscrowTermsDigest = c_EscrowTermsDigest c,
     t_DisputePolicyDigest = c_DisputePolicyDigest c, t_NotAfterUnix = c_NotAfterUnix c\<rparr>"

definition rendering_check :: "Candidate \<Rightarrow> Terms \<Rightarrow> err option" where
  "rendering_check c terms = (case c_RenderedPrice c of
     None \<Rightarrow> None
   | Some rendered \<Rightarrow>
       (case Money_Validate rendered of
          Some e \<Rightarrow> Some e
        | None \<Rightarrow> if \<not> Money_Equal rendered (t_Price terms) then Some ErrRenderingConflict else None))"

definition Compile :: "Candidate \<Rightarrow> Mandate \<Rightarrow> gotime \<Rightarrow> (Terms \<times> bool) res" where
  "Compile c mandate now = failE (Money_Validate (c_Price c))
     (if m_Atomic (c_Price c) = ''0'' then Inl (Msg ''no amount was named'')
      else if c_CapabilityID c = '''' \<or> c_CapabilityVersion c = '''' \<or> c_CapabilityClass c = ''''
      then Inl (Msg ''no capability, version, or class was named'')
      else if c_NotAfterUnix c = 0 then Inl (Msg ''no expiry was named'')
      else let terms = candidate_terms c in
        failE (Terms_Validate terms) (failE (rendering_check c terms)
        (bindE (Permits mandate terms now) (\<lambda>needsApproval. Inr (terms, needsApproval)))))"

section \<open>Economic executions\<close>

definition ExecutionID :: "string \<Rightarrow> Terms \<Rightarrow> string res" where
  "ExecutionID mandateID terms =
     (if mandateID = '''' \<or> length mandateID > 128
      then Inl (Msg ''an economic execution needs the mandate that authorises it'')
      else bindE (Terms_Digest terms) (\<lambda>digest.
        Inr (''eex_'' @ drop 7 (Digest (DomainEconomicExecution @ canon_Text mandateID @ canon_Text digest)))))"

section \<open>Finalized quotes\<close>

text \<open>
  The chain reference and the resolver belong to the service protocol: of the reference
  only the finalized checkpoint is read, and the resolver is an argument of the operations
  that call it, a function from a commitment to an error, to nothing found, or to a quote.
\<close>

record VerifiedAcceptedQuote =
  q_Commitment :: string
  q_Terms :: Terms
  q_Reference :: "u64 option"
  q_Network :: "NetworkDomain option"
  q_FinalizedAtUnix :: u64

type_synonym QuoteResolver = "string \<Rightarrow> VerifiedAcceptedQuote option res"

definition validateNetworkDomain :: "NetworkDomain option \<Rightarrow> err option" where
  "validateNetworkDomain network = (case network of
     None \<Rightarrow> Some (Msg ''invalid negotiation network domain'')
   | Some d \<Rightarrow>
       if nd_NetworkId d = '''' \<or> length (nd_NetworkId d) > 128 \<or>
          \<not> HashPattern (nd_GenesisRootHash d) \<or> \<not> HashPattern (nd_GenesisFileHash d)
       then Some (Msg ''invalid negotiation network domain'')
       else None)"

definition sameNetwork :: "NetworkDomain option \<Rightarrow> NetworkDomain option \<Rightarrow> bool" where
  "sameNetwork expected got = (case (expected, got) of
     (Some e, Some g) \<Rightarrow>
       nd_NetworkId e = nd_NetworkId g \<and>
       nd_GenesisRootHash e = nd_GenesisRootHash g \<and>
       nd_GenesisFileHash e = nd_GenesisFileHash g
   | _ \<Rightarrow> False)"

definition Quote_Validate :: "VerifiedAcceptedQuote \<Rightarrow> err option" where
  "Quote_Validate q =
     (if \<not> digestPattern (q_Commitment q) then Some (Msg ''verified quote carries no commitment'')
      else case Terms_Validate (q_Terms q) of Some e \<Rightarrow> Some e | None \<Rightarrow>
      if q_Reference q = None \<or> q_Reference q = Some 0
      then Some (Msg ''verified quote was not read from finalized state'')
      else if validateNetworkDomain (q_Network q) \<noteq> None
      then Some (Msg ''verified quote names no network'')
      else case NetworkFromDomain (q_Network q) of
        Inl _ \<Rightarrow> Some (Msg ''verified quote names no network'')
      | Inr read \<Rightarrow>
          if \<not> Network_Same (as_Network (m_Asset (t_Price (q_Terms q)))) read
          then Some (Msg (''verified quote'' @ [CHR 0x27] @
            ''s terms are priced on a network other than the one it was read from''))
          else if q_FinalizedAtUnix q = 0 then Some (Msg ''verified quote has no finalization time'')
          else None)"

definition MatchAcceptedQuote ::
  "VerifiedAcceptedQuote \<Rightarrow> string \<Rightarrow> Terms \<Rightarrow> NetworkDomain option \<Rightarrow> VerifiedAcceptedQuote res" where
  "MatchAcceptedQuote quote commitment expected network =
     (if \<not> digestPattern commitment then Inl (Msg ''invalid commitment digest'')
      else failE (Terms_Validate expected) (failE (validateNetworkDomain network)
        (failE (Quote_Validate quote)
        (if q_Commitment quote \<noteq> commitment \<or> \<not> Terms_Equal expected (q_Terms quote) \<or>
            \<not> sameNetwork network (q_Network quote)
         then Inl ErrFinalizedQuoteMismatch
         else Inr quote))))"

definition ResolveMatchingAcceptedQuote ::
  "QuoteResolver option \<Rightarrow> string \<Rightarrow> Terms \<Rightarrow> NetworkDomain option \<Rightarrow> VerifiedAcceptedQuote res" where
  "ResolveMatchingAcceptedQuote resolver commitment expected network = (case resolver of
     None \<Rightarrow> Inl (Msg ''a commitment must be verified against finalized state'')
   | Some resolve \<Rightarrow>
       if \<not> digestPattern commitment then Inl (Msg ''invalid commitment digest'')
       else failE (Terms_Validate expected) (failE (validateNetworkDomain network)
         (bindE (resolve commitment) (\<lambda>answer. case answer of
            None \<Rightarrow> Inl (Msg ''no Accepted Quote exists under this commitment'')
          | Some quote \<Rightarrow> MatchAcceptedQuote quote commitment expected network))))"

text \<open>A concrete set of terms and a concrete mandate, for the examples.\<close>

definition ex_digest :: string where
  "ex_digest = ''sha256:'' @ ex_hash"

definition ex_terms :: "int \<Rightarrow> u64 \<Rightarrow> Terms" where
  "ex_terms n until = \<lparr>t_CapabilityID = ''cap_'' @ ex_hash, t_CapabilityVersion = ''1'',
     t_CapabilityClass = ''compute.gpu'', t_ProviderAgentID = ''agent_'' @ ex_hash,
     t_ManifestDigest = ex_digest, t_TransportBindingDigest = ex_digest, t_Price = ex_money n,
     t_EscrowTermsDigest = ex_digest, t_DisputePolicyDigest = ex_digest, t_NotAfterUnix = until\<rparr>"

definition ex_mandate :: Mandate where
  "ex_mandate = \<lparr>md_Objective = ''rent'', md_Authority = AuthorityCommit, md_CapabilityClass = ''compute.gpu'',
     md_MaxTotal = ex_money 100, md_ApprovalAbove = ex_money 50, md_MaxCounteroffers = 4,
     md_ExpiresAtUnix = 1000\<rparr>"

definition ex_network :: NetworkDomain where
  "ex_network = \<lparr>nd_NetworkId = ''tos'', nd_GenesisRootHash = ex_hash, nd_GenesisFileHash = ex_hash\<rparr>"

definition ex_quote :: "string \<Rightarrow> Terms \<Rightarrow> VerifiedAcceptedQuote" where
  "ex_quote commitment terms = \<lparr>q_Commitment = commitment, q_Terms = terms, q_Reference = Some 7,
     q_Network = Some ex_network, q_FinalizedAtUnix = 9\<rparr>"

section \<open>Lemmas\<close>

lemma Terms_Validate_None:
  "Terms_Validate t = None \<longleftrightarrow>
     ids_Capability (t_CapabilityID t) \<and> t_CapabilityVersion t \<noteq> '''' \<and>
     length (t_CapabilityVersion t) \<le> 64 \<and> capabilityClassPattern (t_CapabilityClass t) \<and>
     ids_Agent (t_ProviderAgentID t) \<and> \<not> bad_commitment (t_ManifestDigest t) \<and>
     \<not> bad_commitment (t_TransportBindingDigest t) \<and> \<not> bad_commitment (t_EscrowTermsDigest t) \<and>
     \<not> bad_commitment (t_DisputePolicyDigest t) \<and> Money_Validate (t_Price t) = None \<and>
     t_NotAfterUnix t \<noteq> 0"
  by (auto simp: Terms_Validate_def split: option.splits)

lemma Terms_Equal_eq: "Terms_Equal t u \<longleftrightarrow> t = u"
  by (cases t; cases u) (auto simp: Terms_Equal_def Money_Equal_eq)

lemma good_commitment_short: "\<not> bad_commitment d \<Longrightarrow> short d"
  by (auto simp: bad_commitment_def digestPattern_def intro: prefixed_hex64_short)

lemma Terms_short:
  assumes "Terms_Validate t = None"
  shows "short (t_CapabilityID t)" "short (t_CapabilityVersion t)" "short (t_ProviderAgentID t)"
    "short (t_ManifestDigest t)" "short (t_TransportBindingDigest t)"
    "short (t_EscrowTermsDigest t)" "short (t_DisputePolicyDigest t)"
  using assms
  by (auto simp: Terms_Validate_None ids_Capability_def ids_Agent_def good_commitment_short
      intro: prefixed_hex64_short) (simp add: short_def)

lemma Terms_CanonicalBytes_Inr:
  "Terms_CanonicalBytes t = Inr p \<longleftrightarrow> Terms_Validate t = None \<and>
     p = DomainNegotiationTerms @ canon_Text (t_CapabilityID t) @ canon_Text (t_CapabilityVersion t) @
        canon_Text (t_CapabilityClass t) @ canon_Text (t_ProviderAgentID t) @
        canon_Text (t_ManifestDigest t) @ canon_Text (t_TransportBindingDigest t) @
        Money_bytes (t_Price t) @ canon_Text (t_EscrowTermsDigest t) @
        canon_Text (t_DisputePolicyDigest t) @ canon_Uint64 (t_NotAfterUnix t)"
  by (auto simp: Terms_CanonicalBytes_def res_iffs Terms_Validate_None Money_canonical_ok)

lemma Terms_CanonicalBytes_ok: "Terms_Validate t = None \<Longrightarrow> \<exists>p. Terms_CanonicalBytes t = Inr p"
  by (simp add: Terms_CanonicalBytes_Inr)

lemma Terms_Digest_ok: "Terms_Validate t = None \<Longrightarrow> \<exists>d. Terms_Digest t = Inr d"
  using Terms_CanonicalBytes_ok [of t] by (auto simp: Terms_Digest_def)

lemma Mandate_Validate_None:
  "Mandate_Validate m = None \<longleftrightarrow>
     md_Objective m \<noteq> '''' \<and> length (md_Objective m) \<le> 512 \<and> md_Authority m \<in> set authorities \<and>
     capabilityClassPattern (md_CapabilityClass m) \<and> length (md_CapabilityClass m) \<le> 64 \<and>
     Money_Validate (md_MaxTotal m) = None \<and> Money_Validate (md_ApprovalAbove m) = None \<and>
     m_Asset (md_MaxTotal m) = m_Asset (md_ApprovalAbove m) \<and>
     amount (md_ApprovalAbove m) \<le> amount (md_MaxTotal m) \<and>
     md_MaxCounteroffers m \<noteq> 0 \<and> md_MaxCounteroffers m \<le> MaxCounteroffers \<and> md_ExpiresAtUnix m \<noteq> 0"
proof -
  have "AtMost (md_ApprovalAbove m) (md_MaxTotal m) = Inr (amount (md_ApprovalAbove m) \<le> amount (md_MaxTotal m))"
    if "Money_Validate (md_MaxTotal m) = None" "Money_Validate (md_ApprovalAbove m) = None"
      "m_Asset (md_MaxTotal m) = m_Asset (md_ApprovalAbove m)"
    using that by (simp add: AtMost_Inr)
  then show ?thesis
    by (auto simp: Mandate_Validate_def SameAsset_eq split: option.splits)
qed

lemma Live_None:
  "Live m now = None \<longleftrightarrow> Mandate_Validate m = None \<and> 0 \<le> now \<and> unix now < md_ExpiresAtUnix m"
  by (auto simp: Live_def bad_time_iff split: option.splits)

lemma permits_Inr:
  "permits m t now rc = Inr need \<longleftrightarrow>
     Live m now = None \<and> Terms_Validate t = None \<and> md_Authority m \<noteq> AuthorityConverse \<and>
     (rc \<longrightarrow> md_Authority m = AuthorityCommit) \<and> t_CapabilityClass t = md_CapabilityClass m \<and>
     m_Asset (t_Price t) = m_Asset (md_MaxTotal m) \<and>
     amount (t_Price t) \<le> amount (md_MaxTotal m) \<and> unix now < t_NotAfterUnix t \<and>
     t_NotAfterUnix t \<le> md_ExpiresAtUnix m \<and>
     need = (amount (md_ApprovalAbove m) < amount (t_Price t))"
proof (cases "Live m now = None \<and> Terms_Validate t = None \<and> m_Asset (t_Price t) = m_Asset (md_MaxTotal m)")
  case True
  then have v: "Money_Validate (t_Price t) = None" "Money_Validate (md_MaxTotal m) = None"
      "Money_Validate (md_ApprovalAbove m) = None"
      "m_Asset (t_Price t) = m_Asset (md_ApprovalAbove m)"
    by (auto simp: Live_None Mandate_Validate_None Terms_Validate_None)
  then have "AtMost (t_Price t) (md_MaxTotal m) = Inr (amount (t_Price t) \<le> amount (md_MaxTotal m))"
    "AtMost (t_Price t) (md_ApprovalAbove m) = Inr (amount (t_Price t) \<le> amount (md_ApprovalAbove m))"
    using True by (auto simp: AtMost_Inr)
  then show ?thesis
    using True by (auto simp: permits_def SameAsset_eq not_less not_le)
next
  case False
  then show ?thesis
    by (auto simp: permits_def failE_eq_Inr SameAsset_eq split: if_splits)
qed

lemma Mandate_CanonicalBytes_Inr:
  "Mandate_CanonicalBytes m = Inr p \<longleftrightarrow> Mandate_Validate m = None \<and>
     p = DomainMandate @ canon_Text (md_Objective m) @ canon_Text (md_Authority m) @
        canon_Text (md_CapabilityClass m) @ Money_bytes (md_MaxTotal m) @
        Money_bytes (md_ApprovalAbove m) @
        canon_Uint32 (md_MaxCounteroffers m) @ canon_Uint64 (md_ExpiresAtUnix m)"
  by (auto simp: Mandate_CanonicalBytes_def res_iffs Mandate_Validate_None Money_canonical_ok)

lemma Mandate_short:
  assumes "Mandate_Validate m = None"
  shows "short (md_Objective m)" "short (md_Authority m)" "short (md_CapabilityClass m)"
  using assms
  by (auto simp: Mandate_Validate_None short_def authorities_def AuthorityConverse_def
      AuthorityPropose_def AuthorityCommit_def)

lemma Mandate_Digest_ok: "Mandate_Validate m = None \<Longrightarrow> \<exists>d. Mandate_Digest m = Inr d"
  by (auto simp: Mandate_Digest_def bindE_eq_Inr Mandate_CanonicalBytes_Inr)

lemma NetworkDomain_eq:
  "sameNetwork (Some a) (Some b) \<longleftrightarrow> a = b"
  by (cases a; cases b) (auto simp: sameNetwork_def)

lemma sameNetwork_eq: "sameNetwork a b \<longleftrightarrow> a \<noteq> None \<and> a = b"
  by (cases a; cases b) (auto simp: NetworkDomain_eq, auto simp: sameNetwork_def)

lemma MatchAcceptedQuote_Inr:
  "MatchAcceptedQuote quote commitment expected network = Inr q \<longleftrightarrow>
     q = quote \<and> digestPattern commitment \<and> Terms_Validate expected = None \<and>
     validateNetworkDomain network = None \<and> Quote_Validate quote = None \<and>
     q_Commitment quote = commitment \<and> q_Terms quote = expected \<and> q_Network quote = network"
  by (auto simp: MatchAcceptedQuote_def failE_eq_Inr Terms_Equal_eq sameNetwork_eq
      validateNetworkDomain_def split: option.splits)

lemma ResolveMatchingAcceptedQuote_Inr:
  "ResolveMatchingAcceptedQuote resolver commitment expected network = Inr q \<longleftrightarrow>
     (\<exists>resolve. resolver = Some resolve \<and> resolve commitment = Inr (Some q) \<and>
       digestPattern commitment \<and> Terms_Validate expected = None \<and>
       validateNetworkDomain network = None \<and> Quote_Validate q = None \<and>
       q_Commitment q = commitment \<and> q_Terms q = expected \<and> q_Network q = network)"
  by (auto simp: ResolveMatchingAcceptedQuote_def res_iffs MatchAcceptedQuote_Inr split: option.splits)

subsection \<open>The examples\<close>

lemma ex_digest_facts [simp]: "ValidDigest ex_digest" "digestPattern ex_digest" "\<not> bad_commitment ex_digest"
proof -
  obtain raw where raw: "hex_decode ex_hash = Some raw" "length raw = 32" "hex_encode raw = ex_hash"
    using hex64_decode [OF ex_hash_hex(1)] by blast
  have "hex_encode (replicate 32 (CHR 0x00)) = replicate 64 (CHR ''0'')"
    by code_simp
  moreover have "ex_hash \<noteq> replicate 64 (CHR ''0'')"
    by (simp add: ex_hash_def)
  ultimately have "raw \<noteq> replicate 32 (CHR 0x00)"
    using raw(3) by metis
  then show v: "ValidDigest ex_digest"
    using raw(1) by (simp add: ValidDigest_def ex_digest_def DigestPattern_def prefixed_hex64_def)
  show d: "digestPattern ex_digest"
    by (simp add: ex_digest_def digestPattern_def prefixed_hex64_def)
  have "normalizeDigest ex_digest = ex_digest"
    by (simp add: normalizeDigest_def ex_digest_def)
  with v d show "\<not> bad_commitment ex_digest"
    by (simp add: bad_commitment_def)
qed

lemma ex_terms_facts [simp]:
  "0 \<le> n \<Longrightarrow> n < 10 ^ 78 \<Longrightarrow> until \<noteq> 0 \<Longrightarrow> Terms_Validate (ex_terms n until) = None"
  "t_Price (ex_terms n until) = ex_money n"
  "t_NotAfterUnix (ex_terms n until) = until"
  "t_CapabilityClass (ex_terms n until) = ''compute.gpu''"
  "t_ProviderAgentID (ex_terms n until) = ''agent_'' @ ex_hash"
  by (simp_all add: Terms_Validate_None ex_terms_def ids_defs prefixed_hex64_def capabilityClassPattern_def
      words_pattern_def is_lower_def is_digit_def byte_val_def)

lemma ex_mandate_facts [simp]:
  "Mandate_Validate ex_mandate = None"
  "md_Authority ex_mandate = AuthorityCommit"
  "md_MaxTotal ex_mandate = ex_money 100"
  "md_ApprovalAbove ex_mandate = ex_money 50"
  "md_CapabilityClass ex_mandate = ''compute.gpu''"
  "md_MaxCounteroffers ex_mandate = 4"
  "md_ExpiresAtUnix ex_mandate = 1000"
  by (simp_all add: Mandate_Validate_None ex_mandate_def authorities_def capabilityClassPattern_def
      words_pattern_def is_lower_def is_digit_def byte_val_def MaxCounteroffers_def)

lemma Authority_distinct [simp]:
  "AuthorityCommit \<noteq> AuthorityConverse" "AuthorityPropose \<noteq> AuthorityConverse"
  "AuthorityCommit \<noteq> AuthorityPropose" "AuthorityConverse \<noteq> AuthorityCommit"
  by (simp_all add: AuthorityCommit_def AuthorityConverse_def AuthorityPropose_def)

lemma ex_network_facts [simp]:
  "validateNetworkDomain (Some ex_network) = None"
  "NetworkFromDomain (Some ex_network) = Inr (as_Network ex_asset)"
  by (simp_all add: validateNetworkDomain_def NetworkFromDomain_def ex_network_def HashPattern_def
      Network_Validate_def ex_asset_def Let_def)

lemma ex_quote_facts [simp]:
  assumes "digestPattern commitment" and "Terms_Validate terms = None"
    and "as_Network (m_Asset (t_Price terms)) = as_Network ex_asset"
  shows "Quote_Validate (ex_quote commitment terms) = None"
  using assms by (simp add: Quote_Validate_def ex_quote_def Network_Same_eq)

section \<open>Properties\<close>

text \<open>
  C21. The commit-level permission is exactly the conjunction of what the owner set: it
  answers, rather than refuses, precisely when the mandate is valid, has not expired and
  grants commitment, the terms are complete, buy the class it names in the asset it names
  at no more than its ceiling, and neither have expired nor outlive it; and the answer is
  whether the price is above the point the owner decides personally.
\<close>

theorem PermitsCommit_exact:
  "PermitsCommit m t now = Inr need \<longleftrightarrow>
     Live m now = None \<and> Terms_Validate t = None \<and> md_Authority m = AuthorityCommit \<and>
     t_CapabilityClass t = md_CapabilityClass m \<and>
     m_Asset (t_Price t) = m_Asset (md_MaxTotal m) \<and>
     amount (t_Price t) \<le> amount (md_MaxTotal m) \<and> unix now < t_NotAfterUnix t \<and>
     t_NotAfterUnix t \<le> md_ExpiresAtUnix m \<and>
     need = (amount (md_ApprovalAbove m) < amount (t_Price t))"
  by (auto simp: PermitsCommit_def permits_Inr)

text \<open>
  C22. The preimage that identifies a set of terms determines every field of it: two sets
  of terms with the same canonical bytes are the same terms, provided the capability class,
  the one field validation leaves unbounded, is shorter than the 4 GiB a length prefix can
  express. The digest an owner approves therefore commits all ten fields, network and asset
  included.
\<close>

theorem Terms_CanonicalBytes_injective:
  assumes "Terms_CanonicalBytes t = Inr p" and "Terms_CanonicalBytes u = Inr p"
    and "short (t_CapabilityClass t)" and "short (t_CapabilityClass u)"
  shows "t = u"
proof -
  have v: "Terms_Validate t = None" "Terms_Validate u = None"
    using assms(1,2) by (simp_all add: Terms_CanonicalBytes_Inr)
  then have m: "Money_Validate (t_Price t) = None" "Money_Validate (t_Price u) = None"
    by (simp_all add: Terms_Validate_None)
  show ?thesis
    using assms Terms_short [OF v(1)] Terms_short [OF v(2)]
    by (auto simp: Terms_CanonicalBytes_Inr ctext.enc_eq cmoney.enc_eq [OF m] ru64.enc_last
        intro!: Terms.equality)
qed

theorem Terms_CanonicalBytes_injective_witness:
  "\<exists>p. Terms_CanonicalBytes (ex_terms 5 900) = Inr p \<and>
     (\<forall>u. t_CapabilityClass u = ''compute.gpu'' \<longrightarrow> Terms_CanonicalBytes u = Inr p \<longrightarrow> u = ex_terms 5 900)"
proof -
  obtain p where p: "Terms_CanonicalBytes (ex_terms 5 900) = Inr p"
    using Terms_CanonicalBytes_ok [of "ex_terms 5 900"] by auto
  then show ?thesis
    by (intro exI [of _ p]) (auto intro!: Terms_CanonicalBytes_injective [OF _ p] simp: short_def)
qed

text \<open>
  The preimage that identifies a mandate determines every field of it, so an approval
  bound to a mandate digest names one authority and no other.
\<close>

theorem Mandate_CanonicalBytes_injective:
  assumes "Mandate_CanonicalBytes m = Inr p" and "Mandate_CanonicalBytes n = Inr p"
  shows "m = n"
proof -
  have v: "Mandate_Validate m = None" "Mandate_Validate n = None"
    using assms by (simp_all add: Mandate_CanonicalBytes_Inr)
  then have a: "Money_Validate (md_MaxTotal m) = None" "Money_Validate (md_MaxTotal n) = None"
    and b: "Money_Validate (md_ApprovalAbove m) = None" "Money_Validate (md_ApprovalAbove n) = None"
    by (simp_all add: Mandate_Validate_None)
  show ?thesis
    using assms Mandate_short [OF v(1)] Mandate_short [OF v(2)]
    by (auto simp: Mandate_CanonicalBytes_Inr ctext.enc_eq cmoney.enc_eq [OF a] cmoney.enc_eq [OF b]
        ru32.enc_eq ru64.enc_last intro!: Mandate.equality)
qed

theorem Mandate_CanonicalBytes_injective_witness:
  "\<exists>p. Mandate_CanonicalBytes ex_mandate = Inr p \<and>
     (\<forall>n. Mandate_CanonicalBytes n = Inr p \<longrightarrow> n = ex_mandate)"
proof -
  obtain d where "Mandate_Digest ex_mandate = Inr d"
    using Mandate_Digest_ok [of ex_mandate] by auto
  then obtain p where p: "Mandate_CanonicalBytes ex_mandate = Inr p"
    by (auto simp: Mandate_Digest_def bindE_eq_Inr)
  then show ?thesis
    by (intro exI [of _ p]) (auto intro!: Mandate_CanonicalBytes_injective [OF _ p])
qed

text \<open>
  The intent compiler repairs nothing: it succeeds exactly when the candidate's own
  fields, copied unchanged, are terms the mandate permits at a price that is not zero and
  that any rendered price agrees with; what it returns is those fields and the mandate's own
  answer on whether the owner has to decide.
\<close>

theorem Compile_exact:
  "Compile c mandate now = Inr (terms, needsApproval) \<longleftrightarrow>
     terms = candidate_terms c \<and> m_Atomic (c_Price c) \<noteq> ''0'' \<and>
     c_RenderedPrice c \<in> {None, Some (c_Price c)} \<and>
     Permits mandate terms now = Inr needsApproval"
proof -
  have "c_CapabilityID c \<noteq> '''' \<and> c_CapabilityVersion c \<noteq> '''' \<and> c_CapabilityClass c \<noteq> '''' \<and>
      c_NotAfterUnix c \<noteq> 0 \<and> Money_Validate (c_Price c) = None"
    if "Terms_Validate (candidate_terms c) = None"
    using that by (auto simp: Terms_Validate_None candidate_terms_def ids_Capability_def
        capabilityClassPattern_def words_pattern_def dest: prefixed_hex64_length)
  moreover have "rendering_check c (candidate_terms c) = None \<longleftrightarrow> c_RenderedPrice c \<in> {None, Some (c_Price c)}"
    if "Money_Validate (c_Price c) = None"
    using that by (auto simp: rendering_check_def candidate_terms_def Money_Equal_eq split: option.splits)
  ultimately show ?thesis
    by (auto simp: Compile_def res_iffs Let_def Permits_def permits_Inr split: if_splits)
qed

text \<open>
  C23. A quote is matched only as the purchase that was agreed: what
  \<open>ResolveMatchingAcceptedQuote\<close> returns is what the resolver read from finalized state
  under this commitment, it is well formed, and its commitment, its terms in every field and
  its network in every field are the expected ones.
\<close>

theorem ResolveMatchingAcceptedQuote_sound:
  assumes "ResolveMatchingAcceptedQuote resolver commitment expected network = Inr q"
  shows "\<exists>resolve. resolver = Some resolve \<and> resolve commitment = Inr (Some q) \<and>
    Quote_Validate q = None \<and> q_Commitment q = commitment \<and> q_Terms q = expected \<and>
    network \<noteq> None \<and> q_Network q = network"
  using assms by (auto simp: ResolveMatchingAcceptedQuote_Inr validateNetworkDomain_def split: option.splits)

theorem ResolveMatchingAcceptedQuote_sound_witness:
  "Quote_Validate (ex_quote ex_digest (ex_terms 5 900)) = None \<and>
   ResolveMatchingAcceptedQuote (Some (\<lambda>c. Inr (Some (ex_quote c (ex_terms 5 900)))))
     ex_digest (ex_terms 5 900) (Some ex_network) = Inr (ex_quote ex_digest (ex_terms 5 900))"
proof -
  have r: "ResolveMatchingAcceptedQuote (Some (\<lambda>c. Inr (Some (ex_quote c (ex_terms 5 900)))))
     ex_digest (ex_terms 5 900) (Some ex_network) = Inr (ex_quote ex_digest (ex_terms 5 900))"
    by (simp add: ResolveMatchingAcceptedQuote_Inr) (simp add: ex_quote_def)
  then show ?thesis
    using ResolveMatchingAcceptedQuote_sound [OF r] by simp
qed

end
