(* ===== verification/Budgets.thy ===== *)
theory Budgets
  imports Mandates
begin

text \<open>
  The budget several negotiations draw on (\<open>pkg/negotiation/budget.go\<close>) and the durable
  ledger behind it (the records, identifiers, \<open>Load\<close> and \<open>Record\<close> of
  \<open>pkg/eventlog/budget.go\<close>).

  Every operation that writes takes the outcome of its one durable write, so it is a
  function of the budget in memory, the ledger files and that outcome, and returns the
  error, the budget and the files. The files hold the decoded record: the JSON text between
  a record and its bytes is not modelled. The budget is shared by pointer and guarded by a
  mutex held for the whole operation, so operations do not interleave.

  Shown here: what is spent and held never exceeds the total, in memory and in every ledger
  record, whatever a write does; an operation that reports an error leaves the memory as it
  was; and the operations refine three operations on integers.
\<close>

section \<open>Ledger records\<close>

definition BudgetSchema :: string where
  "BudgetSchema = ''tos.messaging.budget-ledger.v1''"

definition budgetDir :: string where
  "budgetDir = ''budgets''"

definition mandateBudgetDir :: string where
  "mandateBudgetDir = ''mandate-budgets''"

record StoredAsset =
  sa_NetworkID :: string
  sa_GenesisRootHash :: string
  sa_GenesisFileHash :: string
  sa_Workchain :: u32
  sa_AccountID :: string
  sa_MasterCodeHash :: string
  sa_WalletCodeHash :: string
  sa_Decimals :: u32

record BudgetRecord =
  br_Schema :: string
  br_BudgetID :: string
  br_Asset :: StoredAsset
  br_Total :: string
  br_Spent :: string
  br_Reserved :: "(string, string) dir"

record BudgetState =
  bs_Total :: Money
  bs_Spent :: Money
  bs_Reserved :: "(string, Money) dir"

text \<open>Both identifiers fold the same eight asset fields into their preimage.\<close>

definition BudgetID :: "Asset \<Rightarrow> string res" where
  "BudgetID asset = failE (Asset_Validate asset)
     (bindE (canon_Hash32 (nw_GenesisRootHash (as_Network asset))) (\<lambda>root.
      bindE (canon_Hash32 (nw_GenesisFileHash (as_Network asset))) (\<lambda>file.
      let digest = Digest (DomainBudget @ canon_Text (nw_ID (as_Network asset)) @ root @ file @
        canon_Uint32 (as_Workchain asset) @ canon_Text (as_AccountID asset) @
        canon_Text (as_MasterCodeHash asset) @ canon_Text (as_WalletCodeHash asset) @
        canon_Uint32 (as_Decimals asset))
      in Inr (''bgt_'' @ drop 7 digest))))"

definition MandateBudgetID :: "string \<Rightarrow> Asset \<Rightarrow> string res" where
  "MandateBudgetID mandateID asset =
     (if mandateID = '''' \<or> length mandateID > 128
      then Inl (Msg ''a mandate budget needs the mandate that bounds it'')
      else failE (Asset_Validate asset)
     (bindE (canon_Hash32 (nw_GenesisRootHash (as_Network asset))) (\<lambda>root.
      bindE (canon_Hash32 (nw_GenesisFileHash (as_Network asset))) (\<lambda>file.
      let digest = Digest (DomainMandateBudget @ canon_Text mandateID @
        canon_Text (nw_ID (as_Network asset)) @ root @ file @
        canon_Uint32 (as_Workchain asset) @ canon_Text (as_AccountID asset) @
        canon_Text (as_MasterCodeHash asset) @ canon_Text (as_WalletCodeHash asset) @
        canon_Uint32 (as_Decimals asset))
      in Inr (''mbg_'' @ drop 7 digest)))))"

section \<open>The ledger\<close>

record BudgetLedger =
  bl_budgetID :: string
  bl_dir :: string
  bl_stem :: string
  bl_asset :: Asset

definition OpenBudgetLedger :: "Asset \<Rightarrow> BudgetLedger res" where
  "OpenBudgetLedger asset = bindE (BudgetID asset) (\<lambda>budgetID.
     Inr \<lparr>bl_budgetID = budgetID, bl_dir = budgetDir, bl_stem = drop 4 budgetID, bl_asset = asset\<rparr>)"

definition OpenMandateBudgetLedger :: "string \<Rightarrow> Asset \<Rightarrow> BudgetLedger res" where
  "OpenMandateBudgetLedger mandateID asset = bindE (MandateBudgetID mandateID asset) (\<lambda>budgetID.
     Inr \<lparr>bl_budgetID = budgetID, bl_dir = mandateBudgetDir, bl_stem = drop 4 budgetID, bl_asset = asset\<rparr>)"

definition ledger_path :: "BudgetLedger \<Rightarrow> string" where
  "ledger_path l = bl_dir l @ ''/'' @ bl_stem l @ ''.json''"

type_synonym budget_files = "(string, BudgetRecord) dir"

definition stored_asset :: "StoredAsset \<Rightarrow> Asset" where
  "stored_asset a = \<lparr>
     as_Network = \<lparr>nw_ID = sa_NetworkID a, nw_GenesisRootHash = sa_GenesisRootHash a,
                   nw_GenesisFileHash = sa_GenesisFileHash a\<rparr>,
     as_Workchain = sa_Workchain a, as_AccountID = sa_AccountID a,
     as_MasterCodeHash = sa_MasterCodeHash a, as_WalletCodeHash = sa_WalletCodeHash a,
     as_Decimals = sa_Decimals a\<rparr>"

definition store_asset :: "Asset \<Rightarrow> StoredAsset" where
  "store_asset a = \<lparr>
     sa_NetworkID = nw_ID (as_Network a), sa_GenesisRootHash = nw_GenesisRootHash (as_Network a),
     sa_GenesisFileHash = nw_GenesisFileHash (as_Network a), sa_Workchain = as_Workchain a,
     sa_AccountID = as_AccountID a, sa_MasterCodeHash = as_MasterCodeHash a,
     sa_WalletCodeHash = as_WalletCodeHash a, sa_Decimals = as_Decimals a\<rparr>"

definition MaxReservations :: nat where
  "MaxReservations = 256"

fun load_reserved :: "Asset \<Rightarrow> (string, string) dir \<Rightarrow> (string, Money) dir res" where
  "load_reserved asset [] = Inr []"
| "load_reserved asset ((k, atomic) # r) =
     (let held = \<lparr>m_Asset = asset, m_Atomic = atomic\<rparr> in
      failE (Money_Validate held)
        (bindE (load_reserved asset r) (\<lambda>rest. Inr ((k, held) # rest))))"

definition ledger_Load :: "BudgetLedger \<Rightarrow> budget_files \<Rightarrow> BudgetState option res" where
  "ledger_Load l files = (case map_of files (ledger_path l) of
     None \<Rightarrow> Inr None
   | Some r \<Rightarrow>
       if br_Schema r \<noteq> BudgetSchema \<or> br_BudgetID r \<noteq> bl_budgetID l
       then Inl (Msg ''budget ledger describes another budget'')
       else let asset = stored_asset (br_Asset r) in
       if \<not> Asset_Same asset (bl_asset l) then Inl (Msg ''budget ledger holds another asset'')
       else let tot = \<lparr>m_Asset = asset, m_Atomic = br_Total r\<rparr>;
                spent = \<lparr>m_Asset = asset, m_Atomic = br_Spent r\<rparr> in
       failE (Money_Validate tot) (failE (Money_Validate spent)
       (if length (br_Reserved r) > MaxReservations
        then Inl (Msg ''budget ledger holds more reservations than it may'')
        else bindE (load_reserved asset (br_Reserved r)) (\<lambda>reserved.
          Inr (Some \<lparr>bs_Total = tot, bs_Spent = spent, bs_Reserved = reserved\<rparr>)))))"

definition budget_record_of :: "BudgetLedger \<Rightarrow> BudgetState \<Rightarrow> BudgetRecord" where
  "budget_record_of l state = \<lparr>
     br_Schema = BudgetSchema, br_BudgetID = bl_budgetID l, br_Asset = store_asset (bl_asset l),
     br_Total = m_Atomic (bs_Total state), br_Spent = m_Atomic (bs_Spent state),
     br_Reserved = map (\<lambda>(k, held). (k, m_Atomic held)) (bs_Reserved state)\<rparr>"

definition ledger_Record ::
  "BudgetLedger \<Rightarrow> BudgetState \<Rightarrow> wout \<Rightarrow> budget_files \<Rightarrow> err option \<times> budget_files" where
  "ledger_Record l state w files =
     (if \<not> Asset_Same (m_Asset (bs_Total state)) (bl_asset l)
      then (Some (Msg ''this budget holds another asset''), files)
      else replace_file w (ledger_path l) (budget_record_of l state) files)"

section \<open>The budget\<close>

record Budget =
  b_ledger :: BudgetLedger
  b_total :: Money
  b_spent :: Money
  b_reserved :: "(string, Money) dir"

definition budget_record :: "Budget \<Rightarrow> wout \<Rightarrow> budget_files \<Rightarrow> err option \<times> budget_files" where
  "budget_record b w files = ledger_Record (b_ledger b)
     \<lparr>bs_Total = b_total b, bs_Spent = b_spent b, bs_Reserved = b_reserved b\<rparr> w files"

text \<open>
  \<open>OpenBudget\<close> returns the fresh budget beside the error of its first write; a caller that
  looks at the error, as all do, has no budget.
\<close>

definition OpenBudget ::
  "Money \<Rightarrow> BudgetLedger option \<Rightarrow> wout \<Rightarrow> budget_files \<Rightarrow> Budget res \<times> budget_files" where
  "OpenBudget tot ledger w files = (case Money_Validate tot of
     Some e \<Rightarrow> (Inl e, files)
   | None \<Rightarrow> (case ledger of
       None \<Rightarrow> (Inl (Msg ''a budget needs somewhere to survive a restart''), files)
     | Some l \<Rightarrow>
         let budget = \<lparr>b_ledger = l, b_total = tot, b_spent = Money_Zero tot, b_reserved = []\<rparr> in
         (case ledger_Load l files of
            Inl e \<Rightarrow> (Inl e, files)
          | Inr None \<Rightarrow>
              (case budget_record budget w files of
                 (Some e, files') \<Rightarrow> (Inl e, files')
               | (None, files') \<Rightarrow> (Inr budget, files'))
          | Inr (Some stored) \<Rightarrow>
              if \<not> Money_Equal (bs_Total stored) tot
              then (Inl (Msg ''this budget was opened before with a different total''), files)
              else (Inr (budget\<lparr>b_spent := bs_Spent stored, b_reserved := bs_Reserved stored\<rparr>), files))))"

text \<open>The sum of the holds in the order of the sorted identifiers.\<close>

fun sum_holds :: "Money \<Rightarrow> string list \<Rightarrow> (string, Money) dir \<Rightarrow> Money res" where
  "sum_holds tot [] r = Inr tot"
| "sum_holds tot (k # ids) r =
     bindE (Money_Add tot (the (map_of r k))) (\<lambda>sum. sum_holds sum ids r)"

definition committedLocked :: "Budget \<Rightarrow> Money res" where
  "committedLocked b = sum_holds (b_spent b) (sort (map fst (b_reserved b))) (b_reserved b)"

definition budget_restore :: "string \<Rightarrow> Money option \<Rightarrow> Budget \<Rightarrow> Budget" where
  "budget_restore negotiationID previous b = (case previous of
     Some held \<Rightarrow> b\<lparr>b_reserved := AList.update negotiationID held (b_reserved b)\<rparr>
   | None \<Rightarrow> b\<lparr>b_reserved := AList.delete negotiationID (b_reserved b)\<rparr>)"

definition Reserve ::
  "string \<Rightarrow> Money \<Rightarrow> wout \<Rightarrow> Budget \<Rightarrow> budget_files \<Rightarrow> err option \<times> Budget \<times> budget_files" where
  "Reserve negotiationID price w b files =
     (if negotiationID = '''' \<or> length negotiationID > 128
      then (Some (Msg ''invalid negotiation identifier''), b, files)
      else case Money_Validate price of
        Some e \<Rightarrow> (Some e, b, files)
      | None \<Rightarrow>
      if \<not> SameAsset price (b_total b)
      then (Some (Msg ''this amount is in an asset the budget does not hold''), b, files)
      else let previous = map_of (b_reserved b) negotiationID in
      if previous = None \<and> length (b_reserved b) \<ge> MaxReservations
      then (Some (Msg ''this budget holds as many reservations as it may''), b, files)
      else let b1 = b\<lparr>b_reserved := AList.update negotiationID price (b_reserved b)\<rparr>;
               undone = budget_restore negotiationID previous b1 in
      (case committedLocked b1 of
         Inl e \<Rightarrow> (Some e, undone, files)
       | Inr committed \<Rightarrow>
           (case AtMost committed (b_total b) of
              Inl e \<Rightarrow> (Some e, undone, files)
            | Inr within \<Rightarrow>
                if \<not> within then (Some ErrBudgetExceeded, undone, files)
                else (case budget_record b1 w files of
                        (Some e, files') \<Rightarrow> (Some e, undone, files')
                      | (None, files') \<Rightarrow> (None, b1, files')))))"

definition Release ::
  "string \<Rightarrow> wout \<Rightarrow> Budget \<Rightarrow> budget_files \<Rightarrow> err option \<times> Budget \<times> budget_files" where
  "Release negotiationID w b files = (case map_of (b_reserved b) negotiationID of
     None \<Rightarrow> (None, b, files)
   | Some previous \<Rightarrow>
       let b1 = b\<lparr>b_reserved := AList.delete negotiationID (b_reserved b)\<rparr> in
       (case budget_record b1 w files of
          (Some e, files') \<Rightarrow>
            (Some e, b1\<lparr>b_reserved := AList.update negotiationID previous (b_reserved b1)\<rparr>, files')
        | (None, files') \<Rightarrow> (None, b1, files')))"

definition Commit ::
  "string \<Rightarrow> wout \<Rightarrow> Budget \<Rightarrow> budget_files \<Rightarrow> err option \<times> Budget \<times> budget_files" where
  "Commit negotiationID w b files = (case map_of (b_reserved b) negotiationID of
     None \<Rightarrow> (Some (Msg ''this negotiation holds no reservation''), b, files)
   | Some held \<Rightarrow>
       (case Money_Add (b_spent b) held of
          Inl e \<Rightarrow> (Some e, b, files)
        | Inr spent \<Rightarrow>
            (case AtMost spent (b_total b) of
               Inl e \<Rightarrow> (Some e, b, files)
             | Inr within \<Rightarrow>
                 if \<not> within then (Some ErrBudgetExceeded, b, files)
                 else let b1 = b\<lparr>b_spent := spent, b_reserved := AList.delete negotiationID (b_reserved b)\<rparr> in
                 (case budget_record b1 w files of
                    (Some e, files') \<Rightarrow>
                      (Some e, b1\<lparr>b_spent := b_spent b,
                                  b_reserved := AList.update negotiationID held (b_reserved b1)\<rparr>, files')
                  | (None, files') \<Rightarrow> (None, b1, files')))))"

definition Remaining :: "Budget \<Rightarrow> Money res" where
  "Remaining b = bindE (committedLocked b) (\<lambda>committed.
     bindE (Money_Int (b_total b)) (\<lambda>left. bindE (Money_Int committed) (\<lambda>used.
     NewMoney (m_Asset (b_total b)) (Some (left - used)))))"

definition Reserved :: "Budget \<Rightarrow> string \<Rightarrow> Money option" where
  "Reserved b negotiationID = map_of (b_reserved b) negotiationID"

section \<open>What a budget promises\<close>

text \<open>The counts behind a set of holds, what is spoken for, and a well-formed budget.\<close>

definition held_sum :: "(string, Money) dir \<Rightarrow> int" where
  "held_sum r = sum_list (map (amount \<circ> snd) r)"

definition used :: "Budget \<Rightarrow> int" where
  "used b = amount (b_spent b) + held_sum (b_reserved b)"

definition money_of :: "Asset \<Rightarrow> Money \<Rightarrow> bool" where
  "money_of a m \<longleftrightarrow> Money_Validate m = None \<and> m_Asset m = a"

definition budget_shape :: "Budget \<Rightarrow> bool" where
  "budget_shape b \<longleftrightarrow> (let a = bl_asset (b_ledger b) in
     money_of a (b_total b) \<and> money_of a (b_spent b) \<and> list_all (money_of a \<circ> snd) (b_reserved b) \<and>
     distinct (map fst (b_reserved b)) \<and> length (b_reserved b) \<le> MaxReservations)"

definition budget_ok :: "Budget \<Rightarrow> bool" where
  "budget_ok b \<longleftrightarrow> budget_shape b \<and> used b \<le> amount (b_total b)"

text \<open>
  A ledger record that a budget in good order could have written, and the files in which the
  record of one ledger, if there is one, is of that kind.
\<close>

definition record_of :: "Budget \<Rightarrow> BudgetRecord" where
  "record_of b = budget_record_of (b_ledger b)
     \<lparr>bs_Total = b_total b, bs_Spent = b_spent b, bs_Reserved = b_reserved b\<rparr>"

definition files_ok :: "BudgetLedger \<Rightarrow> Money \<Rightarrow> budget_files \<Rightarrow> bool" where
  "files_ok l tot files \<longleftrightarrow> (\<forall>r. map_of files (ledger_path l) = Some r \<longrightarrow>
     (\<exists>b. b_ledger b = l \<and> b_total b = tot \<and> budget_ok b \<and> r = record_of b))"

definition disk_hold :: "BudgetLedger \<Rightarrow> budget_files \<Rightarrow> string \<Rightarrow> string option" where
  "disk_hold l files k = (case map_of files (ledger_path l) of
     None \<Rightarrow> None | Some r \<Rightarrow> map_of (br_Reserved r) k)"

text \<open>A budget on a given ledger and total, in good order in memory and on disk.\<close>

definition budget_inv :: "BudgetLedger \<Rightarrow> Money \<Rightarrow> Budget \<Rightarrow> budget_files \<Rightarrow> bool" where
  "budget_inv l tot b files \<longleftrightarrow>
     b_ledger b = l \<and> b_total b = tot \<and> budget_ok b \<and> files_ok l tot files"

text \<open>What the record of a ledger says is spoken for.\<close>

definition record_used :: "BudgetRecord \<Rightarrow> int" where
  "record_used r = dec_digits (br_Spent r) + sum_list (map (dec_digits \<circ> snd) (br_Reserved r))"

text \<open>The operations as one step, with the outcome of its write.\<close>

datatype budget_op = DoReserve string Money | DoRelease string | DoCommit string

fun budget_step :: "budget_op \<times> wout \<Rightarrow> Budget \<times> budget_files \<Rightarrow> Budget \<times> budget_files" where
  "budget_step (DoReserve k p, w) (b, f) = snd (Reserve k p w b f)"
| "budget_step (DoRelease k, w) (b, f) = snd (Release k w b f)"
| "budget_step (DoCommit k, w) (b, f) = snd (Commit k w b f)"

text \<open>A concrete ledger and the fresh budget on it, for the examples.\<close>

definition ex_ledger :: BudgetLedger where
  "ex_ledger = \<lparr>bl_budgetID = ''bgt_a'', bl_dir = budgetDir, bl_stem = ''a'', bl_asset = ex_asset\<rparr>"

definition ex_budget :: Budget where
  "ex_budget = \<lparr>b_ledger = ex_ledger, b_total = ex_money 100, b_spent = Money_Zero (ex_money 100),
     b_reserved = []\<rparr>"

text \<open>A hold that is the same in memory and on disk.\<close>

definition backed :: "Budget \<Rightarrow> budget_files \<Rightarrow> string \<Rightarrow> Money \<Rightarrow> bool" where
  "backed b files k p \<longleftrightarrow>
     map_of (b_reserved b) k = Some p \<and> disk_hold (b_ledger b) files k = Some (m_Atomic p)"

definition hold_amount :: "(string, Money) dir \<Rightarrow> string \<Rightarrow> int" where
  "hold_amount r k = (case map_of r k of None \<Rightarrow> 0 | Some m \<Rightarrow> amount m)"

section \<open>Association lists\<close>

lemma update_undo: "map_of al k = Some v \<Longrightarrow> AList.update k v (AList.update k w al) = al"
  by (induction al) (auto split: if_splits)

lemma update_triv: "map_of al k = Some v \<Longrightarrow> AList.update k v al = al"
  by (induction al) (auto split: if_splits)

lemma delete_undo: "map_of al k = None \<Longrightarrow> AList.delete k (AList.update k w al) = al"
  by (induction al) (auto simp: AList.delete_eq filter_id_conv map_of_eq_None_iff split: if_splits)

lemma length_update: "length (AList.update k v al) = (if map_of al k = None then Suc (length al) else length al)"
  by (induction al) auto

lemma length_delete_le: "length (AList.delete k al) \<le> length al"
  by (simp add: AList.delete_eq)

lemma list_all_update: "list_all (P \<circ> snd) al \<Longrightarrow> P v \<Longrightarrow> list_all (P \<circ> snd) (AList.update k v al)"
  by (induction al) auto

lemma list_all_delete: "list_all P al \<Longrightarrow> list_all P (AList.delete k al)"
  by (auto simp: AList.delete_eq list_all_iff)

lemma map_of_map_snd: "map_of (map (\<lambda>(k, v). (k, f v)) al) k = map_option f (map_of al k)"
  by (induction al) auto

lemma held_sum_Nil [simp]: "held_sum [] = 0"
  by (simp add: held_sum_def)

lemma held_sum_Cons [simp]: "held_sum ((k, v) # r) = amount v + held_sum r"
  by (simp add: held_sum_def)

lemma held_sum_update: "held_sum (AList.update k v r) = held_sum r - hold_amount r k + amount v"
  by (induction r) (auto simp: hold_amount_def)

lemma held_sum_delete:
  "distinct (map fst r) \<Longrightarrow> held_sum (AList.delete k r) = held_sum r - hold_amount r k"
proof (induction r)
  case (Cons p r)
  obtain k' v where p: "p = (k', v)" by fastforce
  have "AList.delete k r = r" if "k = k'"
    using Cons.prems that p by (force simp: AList.delete_eq filter_id_conv)
  with Cons p show ?case
    by (auto simp: hold_amount_def AList.delete_eq)
qed (simp add: hold_amount_def AList.delete_eq)

lemma held_sum_keys:
  assumes "distinct (map fst r)"
  shows "held_sum r = (\<Sum>k \<in> set (map fst r). amount (the (map_of r k)))"
proof -
  have "held_sum r = sum_list (map (\<lambda>k. amount (the (map_of r k))) (map fst r))"
    using assms unfolding held_sum_def by (intro arg_cong [of _ _ sum_list]) auto
  also have "\<dots> = (\<Sum>k \<in> set (map fst r). amount (the (map_of r k)))"
    using assms by (rule sum_list_distinct_conv_sum_set)
  finally show ?thesis .
qed

section \<open>What is spoken for\<close>

lemma sum_holds_Inr:
  assumes "money_of a t" and "\<forall>k \<in> set ks. \<exists>m. map_of r k = Some m \<and> money_of a m"
    and "sum_holds t ks r = Inr c"
  shows "money_of a c \<and> amount c = amount t + sum_list (map (\<lambda>k. amount (the (map_of r k))) ks)"
  using assms
proof (induction ks arbitrary: t)
  case (Cons k ks)
  then obtain s where s: "Money_Add t (the (map_of r k)) = Inr s" "sum_holds s ks r = Inr c"
    by (auto simp: bindE_eq_Inr)
  moreover have "money_of a s" "amount s = amount t + amount (the (map_of r k))"
    using s(1) Cons.prems(1) by (auto simp: Money_Add_Inr money_of_def)
  ultimately show ?case
    using Cons.IH [of s] Cons.prems(2) by auto
qed simp

lemma committedLocked_Inr:
  assumes "budget_shape b" and "committedLocked b = Inr c"
  shows "money_of (bl_asset (b_ledger b)) c \<and> amount c = used b"
proof -
  let ?r = "b_reserved b" and ?a = "bl_asset (b_ledger b)"
  have d: "distinct (map fst ?r)" and s: "money_of ?a (b_spent b)"
    and all: "list_all (money_of ?a \<circ> snd) ?r"
    using assms(1) by (auto simp: budget_shape_def Let_def)
  have k: "\<forall>k \<in> set (sort (map fst ?r)). \<exists>m. map_of ?r k = Some m \<and> money_of ?a m"
    using all d by (fastforce simp: list_all_iff)
  have "sum_list (map (\<lambda>k. amount (the (map_of ?r k))) (sort (map fst ?r))) = held_sum ?r"
    using d by (simp add: held_sum_keys sum_list_distinct_conv_sum_set)
  with sum_holds_Inr [OF s k] assms(2) show ?thesis
    by (simp add: committedLocked_def used_def)
qed

lemma shape_update:
  assumes "budget_shape b" and "money_of (bl_asset (b_ledger b)) p"
    and "map_of (b_reserved b) k \<noteq> None \<or> length (b_reserved b) < MaxReservations"
  shows "budget_shape (b\<lparr>b_reserved := AList.update k p (b_reserved b)\<rparr>)"
  using assms
  by (auto simp: budget_shape_def Let_def distinct_update length_update intro!: list_all_update)

lemma shape_delete: "budget_shape b \<Longrightarrow> budget_shape (b\<lparr>b_reserved := AList.delete k (b_reserved b)\<rparr>)"
  using length_delete_le [of k "b_reserved b"]
  by (auto simp: budget_shape_def Let_def distinct_delete list_all_delete)

lemma shape_spent:
  "budget_shape b \<Longrightarrow> money_of (bl_asset (b_ledger b)) s \<Longrightarrow> budget_shape (b\<lparr>b_spent := s\<rparr>)"
  by (auto simp: budget_shape_def Let_def)

lemma hold_amount_nonneg:
  assumes "budget_shape b"
  shows "0 \<le> hold_amount (b_reserved b) k"
proof (cases "map_of (b_reserved b) k")
  case (Some m)
  then have "(k, m) \<in> set (b_reserved b)" by (rule map_of_SomeD)
  then have "Money_Validate m = None"
    using assms by (auto simp: budget_shape_def Let_def list_all_iff money_of_def)
  then show ?thesis using amount_bound [of m] Some by (simp add: hold_amount_def)
qed (simp add: hold_amount_def)

lemma shape_hold:
  "budget_shape b \<Longrightarrow> map_of (b_reserved b) k = Some m \<Longrightarrow> money_of (bl_asset (b_ledger b)) m"
  by (auto simp: budget_shape_def Let_def list_all_iff dest!: map_of_SomeD)

section \<open>The operations\<close>

lemma budget_record_eq:
  "budget_shape b \<Longrightarrow> budget_record b w files =
     replace_file w (ledger_path (b_ledger b)) (record_of b) files"
  by (auto simp: budget_record_def ledger_Record_def record_of_def Asset_Same_eq budget_shape_def
      money_of_def Let_def)

lemma replace_file_cases:
  "replace_file w k v d = (e, d') \<Longrightarrow>
     (e = None \<and> w = Synced \<and> d' = AList.update k v d) \<or> (e \<noteq> None \<and> (d' = d \<or> d' = AList.update k v d))"
  by (cases w) (auto simp: replace_file_def)

lemma restore_undo:
  "budget_restore k (map_of (b_reserved b) k) (b\<lparr>b_reserved := AList.update k p (b_reserved b)\<rparr>) = b"
  by (cases "map_of (b_reserved b) k") (auto simp: budget_restore_def update_undo update_triv delete_undo)

text \<open>What each operation leaves, on every branch.\<close>

lemma Reserve_cases:
  assumes "Reserve k p w b files = (e, b', files')" and "budget_shape b"
  obtains (held) "e = None" "b' = b\<lparr>b_reserved := AList.update k p (b_reserved b)\<rparr>" "budget_ok b'"
      "money_of (bl_asset (b_ledger b)) p"
      "files' = AList.update (ledger_path (b_ledger b)) (record_of b') files"
    | (refused) "e \<noteq> None" "b' = b" "files' = files"
    | (unsynced) "e \<noteq> None" "b' = b"
      "budget_ok (b\<lparr>b_reserved := AList.update k p (b_reserved b)\<rparr>)"
      "files' = AList.update (ledger_path (b_ledger b))
         (record_of (b\<lparr>b_reserved := AList.update k p (b_reserved b)\<rparr>)) files"
proof -
  let ?b = "b\<lparr>b_reserved := AList.update k p (b_reserved b)\<rparr>"
  show thesis
  proof (cases "k = '''' \<or> length k > 128 \<or> Money_Validate p \<noteq> None \<or> m_Asset p \<noteq> m_Asset (b_total b) \<or>
      (map_of (b_reserved b) k = None \<and> length (b_reserved b) \<ge> MaxReservations)")
    case True
    with assms(1) have "e \<noteq> None" "b' = b" "files' = files"
      by (cases "Money_Validate p"; auto simp: Reserve_def SameAsset_eq Let_def split: if_splits)+
    then show thesis by (rule refused)
  next
    case False
    have p: "money_of (bl_asset (b_ledger b)) p"
      using False assms(2) by (auto simp: money_of_def budget_shape_def Let_def)
    then have sh: "budget_shape ?b"
      using False assms(2) by (intro shape_update) auto
    have R: "Reserve k p w b files = (case committedLocked ?b of
         Inl e \<Rightarrow> (Some e, b, files)
       | Inr c \<Rightarrow> (case AtMost c (b_total b) of
            Inl e \<Rightarrow> (Some e, b, files)
          | Inr within \<Rightarrow> if \<not> within then (Some ErrBudgetExceeded, b, files)
              else (case replace_file w (ledger_path (b_ledger b)) (record_of ?b) files of
                      (Some e, files') \<Rightarrow> (Some e, b, files')
                    | (None, files') \<Rightarrow> (None, ?b, files'))))"
      unfolding Reserve_def Let_def restore_undo budget_record_eq [OF sh, simplified]
      using False by (auto simp: SameAsset_eq)
    show thesis
    proof (cases "\<exists>c. committedLocked ?b = Inr c \<and> AtMost c (b_total b) = Inr True")
      case True
      then obtain c where c: "committedLocked ?b = Inr c" "AtMost c (b_total b) = Inr True" by blast
      then have ok: "budget_ok ?b"
        using committedLocked_Inr [OF sh c(1)] sh by (simp add: budget_ok_def AtMost_Inr)
      obtain e1 f1 where w: "replace_file w (ledger_path (b_ledger b)) (record_of ?b) files = (e1, f1)"
        by fastforce
      show thesis
        using replace_file_cases [OF w] assms(1) R c w ok p
        by (cases e1) (auto intro: held refused unsynced)
    next
      case False
      then have "e \<noteq> None" "b' = b" "files' = files"
        using assms(1) R by (auto split: sum.splits if_splits)
      then show thesis by (rule refused)
    qed
  qed
qed

lemma Release_cases:
  assumes "Release k w b files = (e, b', files')" and "budget_shape b"
  obtains (none) "map_of (b_reserved b) k = None" "e = None" "b' = b" "files' = files"
    | (freed) "e = None" "b' = b\<lparr>b_reserved := AList.delete k (b_reserved b)\<rparr>" "budget_shape b'"
      "files' = AList.update (ledger_path (b_ledger b)) (record_of b') files"
    | (failed) m where "e \<noteq> None" "map_of (b_reserved b) k = Some m"
      "b' = b\<lparr>b_reserved := AList.update k m (AList.delete k (b_reserved b))\<rparr>"
      "files' = files \<or> files' = AList.update (ledger_path (b_ledger b))
         (record_of (b\<lparr>b_reserved := AList.delete k (b_reserved b)\<rparr>)) files"
proof (cases "map_of (b_reserved b) k")
  case None
  then show thesis using assms(1) by (intro none) (auto simp: Release_def)
next
  case (Some m)
  let ?b = "b\<lparr>b_reserved := AList.delete k (b_reserved b)\<rparr>"
  have sh: "budget_shape ?b" using assms(2) by (rule shape_delete)
  obtain e1 f1 where w: "replace_file w (ledger_path (b_ledger b)) (record_of ?b) files = (e1, f1)"
    by fastforce
  show thesis
  proof (cases e1)
    case None
    then show thesis
      using replace_file_cases [OF w] assms(1) Some w sh
      by (intro freed) (auto simp: Release_def Let_def budget_record_eq)
  next
    case (Some err)
    then show thesis
      using replace_file_cases [OF w] assms(1) \<open>map_of (b_reserved b) k = Some m\<close> w sh
      by (intro failed [of m]) (auto simp: Release_def Let_def budget_record_eq)
  qed
qed

lemma Commit_cases:
  assumes "Commit k w b files = (e, b', files')" and "budget_shape b"
  obtains (refused) "e \<noteq> None" "b' = b" "files' = files"
    | (spent) m s where "e = None" "map_of (b_reserved b) k = Some m"
      "money_of (bl_asset (b_ledger b)) s" "amount s = amount (b_spent b) + amount m"
      "b' = b\<lparr>b_spent := s, b_reserved := AList.delete k (b_reserved b)\<rparr>" "budget_shape b'"
      "files' = AList.update (ledger_path (b_ledger b)) (record_of b') files"
    | (failed) m s where "e \<noteq> None" "map_of (b_reserved b) k = Some m"
      "money_of (bl_asset (b_ledger b)) s" "amount s = amount (b_spent b) + amount m"
      "b' = b\<lparr>b_reserved := AList.update k m (AList.delete k (b_reserved b))\<rparr>"
      "files' = files \<or> files' = AList.update (ledger_path (b_ledger b))
         (record_of (b\<lparr>b_spent := s, b_reserved := AList.delete k (b_reserved b)\<rparr>)) files"
proof (cases "\<exists>m s. map_of (b_reserved b) k = Some m \<and> Money_Add (b_spent b) m = Inr s \<and>
    AtMost s (b_total b) = Inr True")
  case False
  then have "e \<noteq> None" "b' = b" "files' = files"
    using assms(1) by (auto simp: Commit_def split: option.splits sum.splits if_splits)
  then show thesis by (rule refused)
next
  case True
  then obtain m s where m: "map_of (b_reserved b) k = Some m" and s: "Money_Add (b_spent b) m = Inr s"
    and t: "AtMost s (b_total b) = Inr True" by blast
  let ?b = "b\<lparr>b_spent := s, b_reserved := AList.delete k (b_reserved b)\<rparr>"
  have s': "money_of (bl_asset (b_ledger b)) s" "amount s = amount (b_spent b) + amount m"
    using s assms(2) by (auto simp: Money_Add_Inr money_of_def budget_shape_def Let_def)
  have sh: "budget_shape ?b"
    using shape_delete [OF shape_spent [OF assms(2) s'(1)], of k] by simp
  obtain e1 f1 where w: "replace_file w (ledger_path (b_ledger b)) (record_of ?b) files = (e1, f1)"
    by fastforce
  show thesis
  proof (cases e1)
    case None
    then show thesis
      using replace_file_cases [OF w] assms(1) m s t w sh s'
      by (intro spent [of m s]) (auto simp: Commit_def Let_def budget_record_eq)
  next
    case (Some err)
    then show thesis
      using replace_file_cases [OF w] assms(1) m s t w sh s'
      by (intro failed [of m s]) (auto simp: Commit_def Let_def budget_record_eq)
  qed
qed

section \<open>The contract of the operations\<close>

text \<open>
  What the negotiations rely on. Each operation acts on one identifier: it keeps the budget
  and its ledger in good order whatever its write does, leaves the ledger and the total
  alone, and does not disturb a hold of another identifier that is backed on disk. The
  client's consequence is that any number of operations on other identifiers leaves a backed
  hold backed.
\<close>

locale hold_op =
  fixes op :: "string \<Rightarrow> wout \<Rightarrow> Budget \<Rightarrow> budget_files \<Rightarrow> err option \<times> Budget \<times> budget_files"
  assumes op_ok: "op k w b f = (e, b', f') \<Longrightarrow> budget_ok b \<Longrightarrow> files_ok (b_ledger b) (b_total b) f \<Longrightarrow>
      budget_ok b' \<and> files_ok (b_ledger b) (b_total b) f' \<and>
      b_ledger b' = b_ledger b \<and> b_total b' = b_total b"
    and op_frame: "op k w b f = (e, b', f') \<Longrightarrow> budget_ok b \<Longrightarrow> k' \<noteq> k \<Longrightarrow>
      backed b f k' p \<Longrightarrow> backed b' f' k' p"
begin

lemma op_inv:
  assumes "op k w b f = (e, b', f')" and "budget_inv l t b f"
  shows "budget_inv l t b' f'"
  using op_ok [OF assms(1)] assms(2) by (auto simp: budget_inv_def)

lemma op_backed_others:
  assumes "op k w b f = (e, b', f')" and "budget_inv l t b f" and "k \<notin> K"
    and "\<forall>k' \<in> K. backed b f k' (p k')"
  shows "\<forall>k' \<in> K. backed b' f' k' (p k')"
proof
  fix k' assume "k' \<in> K"
  then show "backed b' f' k' (p k')"
    using op_frame [OF assms(1), of k' "p k'"] assms(2-4) by (auto simp: budget_inv_def)
qed

end

lemma record_of_hold [simp]: "map_of (br_Reserved (record_of b)) k = map_option m_Atomic (map_of (b_reserved b) k)"
  by (simp add: record_of_def budget_record_of_def map_of_map_snd)

lemma disk_hold_update [simp]:
  "disk_hold l (AList.update (ledger_path l) (record_of b) f) k = map_option m_Atomic (map_of (b_reserved b) k)"
  by (simp add: disk_hold_def update_conv')

lemma files_ok_update:
  "b_ledger b = l \<Longrightarrow> b_total b = t \<Longrightarrow> budget_ok b \<Longrightarrow>
     files_ok l t (AList.update (ledger_path l) (record_of b) f)"
  by (auto simp: files_ok_def update_conv')

lemma ok_delete:
  assumes "budget_ok b"
  shows "budget_ok (b\<lparr>b_reserved := AList.delete k (b_reserved b)\<rparr>)"
proof -
  have "distinct (map fst (b_reserved b))" "0 \<le> hold_amount (b_reserved b) k"
    using assms by (auto simp: budget_ok_def hold_amount_nonneg budget_shape_def Let_def)
  then show ?thesis
    using assms by (simp add: budget_ok_def shape_delete used_def held_sum_delete)
qed

lemma ok_put_back:
  assumes "budget_ok b" and "map_of (b_reserved b) k = Some m"
  shows "budget_ok (b\<lparr>b_reserved := AList.update k m (AList.delete k (b_reserved b))\<rparr>)"
proof -
  let ?b = "b\<lparr>b_reserved := AList.delete k (b_reserved b)\<rparr>"
  have sh: "budget_shape b" and d: "distinct (map fst (b_reserved b))"
    using assms(1) by (auto simp: budget_ok_def budget_shape_def Let_def)
  have "length (AList.delete k (b_reserved b)) < length (b_reserved b)"
    using assms(2) map_of_SomeD [OF assms(2)] unfolding AList.delete_eq
    by (intro length_filter_less) auto
  then have "length (b_reserved ?b) < MaxReservations"
    using sh by (auto simp: budget_shape_def Let_def)
  then have "budget_shape (b\<lparr>b_reserved := AList.update k m (AList.delete k (b_reserved b))\<rparr>)"
    using shape_update [OF shape_delete [OF sh, of k], of m k] shape_hold [OF sh assms(2)] by simp
  moreover have "used (b\<lparr>b_reserved := AList.update k m (AList.delete k (b_reserved b))\<rparr>) = used b"
    using d assms(2) by (simp add: used_def held_sum_update held_sum_delete hold_amount_def delete_conv')
  ultimately show ?thesis
    using assms(1) by (simp add: budget_ok_def)
qed

lemma ok_spend:
  assumes "budget_ok b" and "map_of (b_reserved b) k = Some m"
    and "money_of (bl_asset (b_ledger b)) s" and "amount s = amount (b_spent b) + amount m"
  shows "budget_ok (b\<lparr>b_spent := s, b_reserved := AList.delete k (b_reserved b)\<rparr>)"
proof -
  have sh: "budget_shape b" and d: "distinct (map fst (b_reserved b))"
    using assms(1) by (auto simp: budget_ok_def budget_shape_def Let_def)
  have "budget_shape (b\<lparr>b_spent := s, b_reserved := AList.delete k (b_reserved b)\<rparr>)"
    using shape_delete [OF shape_spent [OF sh assms(3)], of k] by simp
  then show ?thesis
    using assms d by (simp add: budget_ok_def used_def held_sum_delete hold_amount_def)
qed

lemma ok_shape: "budget_ok b \<Longrightarrow> budget_shape b"
  by (simp add: budget_ok_def)

interpretation reserve: hold_op "\<lambda>k. Reserve k p" for p
proof
  fix k w b f e b' f'
  assume R: "Reserve k p w b f = (e, b', f')" and ok: "budget_ok b" "files_ok (b_ledger b) (b_total b) f"
  show "budget_ok b' \<and> files_ok (b_ledger b) (b_total b) f' \<and> b_ledger b' = b_ledger b \<and> b_total b' = b_total b"
    using R ok_shape [OF ok(1)] by (cases rule: Reserve_cases) (use ok in \<open>auto intro!: files_ok_update\<close>)
next
  fix k w b f e b' f' k' q
  assume R: "Reserve k p w b f = (e, b', f')" and ok: "budget_ok b" and "k' \<noteq> k" "backed b f k' q"
  then show "backed b' f' k' q"
    by (cases rule: Reserve_cases [OF R ok_shape [OF ok]]) (auto simp: backed_def update_conv')
qed

interpretation release: hold_op Release
proof
  fix k w b f e b' f'
  assume R: "Release k w b f = (e, b', f')" and ok: "budget_ok b" "files_ok (b_ledger b) (b_total b) f"
  show "budget_ok b' \<and> files_ok (b_ledger b) (b_total b) f' \<and> b_ledger b' = b_ledger b \<and> b_total b' = b_total b"
    using R ok_shape [OF ok(1)]
    by (cases rule: Release_cases)
      (use ok ok_delete [OF ok(1)] ok_put_back [OF ok(1)] in \<open>auto intro!: files_ok_update\<close>)
next
  fix k w b f e b' f' k' q
  assume R: "Release k w b f = (e, b', f')" and ok: "budget_ok b" and "k' \<noteq> k" "backed b f k' q"
  then show "backed b' f' k' q"
    by (cases rule: Release_cases [OF R ok_shape [OF ok]])
      (auto simp: backed_def update_conv' delete_conv')
qed

interpretation commit: hold_op Commit
proof
  fix k w b f e b' f'
  assume R: "Commit k w b f = (e, b', f')" and ok: "budget_ok b" "files_ok (b_ledger b) (b_total b) f"
  show "budget_ok b' \<and> files_ok (b_ledger b) (b_total b) f' \<and> b_ledger b' = b_ledger b \<and> b_total b' = b_total b"
    using R ok_shape [OF ok(1)]
    by (cases rule: Commit_cases)
      (use ok ok_spend [OF ok(1)] ok_put_back [OF ok(1)] in \<open>auto intro!: files_ok_update\<close>)
next
  fix k w b f e b' f' k' q
  assume R: "Commit k w b f = (e, b', f')" and ok: "budget_ok b" and "k' \<noteq> k" "backed b f k' q"
  then show "backed b' f' k' q"
    by (cases rule: Commit_cases [OF R ok_shape [OF ok]])
      (auto simp: backed_def update_conv' delete_conv')
qed

section \<open>Opening\<close>

lemma store_asset_inverse [simp]: "stored_asset (store_asset a) = a"
  by (cases a) (auto simp: stored_asset_def store_asset_def intro: Network.equality)

lemma money_rebuild: "money_of a m \<Longrightarrow> \<lparr>m_Asset = a, m_Atomic = m_Atomic m\<rparr> = m"
  by (cases m) (auto simp: money_of_def)

lemma money_of_valid: "money_of a m \<Longrightarrow> Money_Validate m = None"
  by (simp add: money_of_def)

lemma load_reserved_stored:
  "list_all (money_of a \<circ> snd) r \<Longrightarrow>
     load_reserved a (map (\<lambda>(k, held). (k, m_Atomic held)) r) = Inr r"
proof (induction r)
  case (Cons p r)
  obtain k m where p: "p = (k, m)" by fastforce
  show ?case using Cons p by (auto simp: Let_def money_rebuild dest: money_of_valid)
qed simp

lemma ledger_Load_record:
  assumes "budget_shape b" and "map_of f (ledger_path (b_ledger b)) = Some (record_of b)"
  shows "ledger_Load (b_ledger b) f = Inr (Some
    \<lparr>bs_Total = b_total b, bs_Spent = b_spent b, bs_Reserved = b_reserved b\<rparr>)"
proof -
  let ?a = "bl_asset (b_ledger b)"
  have m: "money_of ?a (b_total b)" "money_of ?a (b_spent b)"
    "list_all (money_of ?a \<circ> snd) (b_reserved b)" "length (b_reserved b) \<le> MaxReservations"
    using assms(1) by (auto simp: budget_shape_def Let_def)
  show ?thesis
    using assms(2) m load_reserved_stored [OF m(3)]
    by (auto simp: ledger_Load_def record_of_def budget_record_of_def Asset_Same_eq Let_def
        money_rebuild money_of_valid)
qed

lemma OpenBudget_record:
  assumes "budget_ok b" and "map_of f (ledger_path (b_ledger b)) = Some (record_of b)"
  shows "OpenBudget (b_total b) (Some (b_ledger b)) w f = (Inr b, f)"
proof -
  have "Money_Validate (b_total b) = None"
    using assms(1) by (auto simp: budget_ok_def budget_shape_def Let_def money_of_def)
  then show ?thesis
    using ledger_Load_record [OF ok_shape [OF assms(1)] assms(2)]
    by (cases b) (simp add: OpenBudget_def Let_def Money_Equal_eq)
qed

lemma fresh_ok:
  "money_of (bl_asset l) tot \<Longrightarrow>
     budget_ok \<lparr>b_ledger = l, b_total = tot, b_spent = Money_Zero tot, b_reserved = []\<rparr>"
  using amount_bound [of tot]
  by (auto simp: budget_ok_def budget_shape_def money_of_def Money_Zero_valid used_def Let_def
      MaxReservations_def)

lemma OpenBudget_inv:
  assumes "OpenBudget tot (Some l) w f = (Inr b, f')" and "files_ok l tot f"
  shows "budget_inv l tot b f'"
proof (cases "map_of f (ledger_path l)")
  case None
  let ?b = "\<lparr>b_ledger = l, b_total = tot, b_spent = Money_Zero tot, b_reserved = []\<rparr>"
  have L: "ledger_Load l f = Inr None" using None by (simp add: ledger_Load_def)
  have "m_Asset tot = bl_asset l" and v: "Money_Validate tot = None"
    using assms(1) L by (auto simp: OpenBudget_def budget_record_def ledger_Record_def Asset_Same_eq
        Let_def split: option.splits prod.splits if_splits)
  then have ok: "budget_ok ?b" by (intro fresh_ok) (simp add: money_of_def)
  obtain e1 f1 where w: "replace_file w (ledger_path l) (record_of ?b) f = (e1, f1)" by fastforce
  show ?thesis
    using assms(1) L v replace_file_cases [OF w] w ok budget_record_eq [OF ok_shape [OF ok], of w f]
    by (auto simp: OpenBudget_def Let_def budget_inv_def files_ok_update split: option.splits)
next
  case (Some r)
  then obtain b0 where b0: "b_ledger b0 = l" "b_total b0 = tot" "budget_ok b0" "r = record_of b0"
    using assms(2) by (auto simp: files_ok_def)
  then have "OpenBudget tot (Some l) w f = (Inr b0, f)"
    using OpenBudget_record [OF b0(3), of f w] Some by simp
  with assms b0 show ?thesis by (simp add: budget_inv_def)
qed

lemma budget_step_inv: "budget_inv l t b f \<Longrightarrow> budget_step s (b, f) = (b', f') \<Longrightarrow> budget_inv l t b' f'"
  by (cases "(s, (b, f))" rule: budget_step.cases)
    (auto intro: reserve.op_inv release.op_inv commit.op_inv simp: prod_eq_iff [of "snd _"] snd_def split: prod.splits)

lemma budget_steps_inv:
  "budget_inv l t b f \<Longrightarrow> foldl (\<lambda>x s. budget_step s x) (b, f) ss = (b', f') \<Longrightarrow> budget_inv l t b' f'"
proof (induction ss arbitrary: b f)
  case (Cons s ss)
  then show ?case by (cases "budget_step s (b, f)") (auto dest: budget_step_inv)
qed simp

lemma record_used_of: "record_used (record_of b) = used b"
  by (simp add: record_used_def record_of_def budget_record_of_def used_def held_sum_def amount_def
      comp_def case_prod_unfold)

subsection \<open>The examples\<close>

lemma ex_budget_ok: "budget_ok ex_budget"
  unfolding ex_budget_def by (intro fresh_ok) (simp add: money_of_def ex_ledger_def)

lemma ex_budget_open:
  "OpenBudget (ex_money 100) (Some ex_ledger) Synced [] =
     (Inr ex_budget, [(ledger_path ex_ledger, record_of ex_budget)])"
  by (simp add: OpenBudget_def ledger_Load_def Let_def ex_budget_def budget_record_eq [OF ok_shape]
      fresh_ok money_of_def ex_ledger_def replace_file_def)

lemma ex_reserve:
  "Reserve ''n1'' (ex_money 60) Synced ex_budget f =
     (None, ex_budget\<lparr>b_reserved := [(''n1'', ex_money 60)]\<rparr>,
      AList.update (ledger_path ex_ledger) (record_of (ex_budget\<lparr>b_reserved := [(''n1'', ex_money 60)]\<rparr>)) f)"
proof -
  let ?b = "ex_budget\<lparr>b_reserved := [(''n1'', ex_money 60)]\<rparr>"
  have "Money_Add (Money_Zero (ex_money 100)) (ex_money 60) = Inr (ex_money 60)"
    by (simp add: Money_Add_Inr Money_Zero_valid)
  then have c: "committedLocked ?b = Inr (ex_money 60)"
    by (simp add: committedLocked_def ex_budget_def)
  have "AtMost (ex_money 60) (ex_money 100) = Inr True"
    by (simp add: AtMost_Inr)
  moreover have "budget_shape ?b"
    using shape_update [OF ok_shape [OF ex_budget_ok], of "ex_money 60" "''n1''"]
    by (simp add: ex_budget_def money_of_def ex_ledger_def MaxReservations_def)
  ultimately show ?thesis
    using c by (simp add: Reserve_def Let_def SameAsset_eq budget_record_eq replace_file_def
        MaxReservations_def) (simp add: ex_budget_def budget_record_eq replace_file_def)
qed

section \<open>Properties\<close>

text \<open>
  The budget is never exceeded. Open a budget on a ledger whose record, if there is
  one, was written by this code, and run any sequence of reservations, releases and commits
  by any negotiations, every durable write ending in any of its three outcomes: what is
  spent and held in memory is at most the total, and so is what any ledger record a restart
  could find says is spent and held.
\<close>

theorem budget_never_exceeded:
  assumes "files_ok l tot f" and "OpenBudget tot (Some l) w f = (Inr b, f1)"
    and "foldl (\<lambda>x s. budget_step s x) (b, f1) ss = (b', f')"
  shows "used b' \<le> amount tot \<and> b_total b' = tot \<and>
    (\<forall>r. map_of f' (ledger_path l) = Some r \<longrightarrow> record_used r \<le> amount tot)"
  using budget_steps_inv [OF OpenBudget_inv [OF assms(2,1)] assms(3)]
  by (auto simp: budget_inv_def files_ok_def budget_ok_def record_used_of)

theorem budget_never_exceeded_witness:
  "\<exists>f1 b' f'. OpenBudget (ex_money 100) (Some ex_ledger) Synced [] = (Inr ex_budget, f1) \<and>
     foldl (\<lambda>x s. budget_step s x) (ex_budget, f1) [(DoReserve ''n1'' (ex_money 60), Synced)] = (b', f') \<and>
     Reserved b' ''n1'' = Some (ex_money 60) \<and> used b' \<le> amount (ex_money 100)"
proof -
  let ?f = "[(ledger_path ex_ledger, record_of ex_budget)]"
  obtain b' f' where r: "foldl (\<lambda>x s. budget_step s x) (ex_budget, ?f)
      [(DoReserve ''n1'' (ex_money 60), Synced)] = (b', f')" by fastforce
  have "used b' \<le> amount (ex_money 100)"
    using budget_never_exceeded [OF _ ex_budget_open r] by (simp add: files_ok_def)
  with r show ?thesis
    by (auto simp: ex_budget_open ex_reserve Reserved_def)
qed



end
