(* ===== verification/Negotiations.thy ===== *)
theory Negotiations
  imports Budgets
begin

text \<open>
  One exchange under one mandate: the state machine of
  \<open>pkg/negotiation/negotiation.go\<close> and the finalisation of \<open>commitment.go\<close>, the durable
  form of \<open>snapshot.go\<close>, and the store that keeps it
  (\<open>pkg/eventlog/negotiation.go\<close>).

  A negotiation holds pointers to the shared budget and to the store. Here both live in an
  environment passed through every operation, and \<open>n_budget\<close> says whether the budget
  pointer is there. An operation takes the outcomes of the store write and of the ledger
  write it may perform and returns its error, the negotiation after it and the environment
  after it, since the code moves the state in memory, and settles or poisons the exchange,
  on paths that return an error.
\<close>

section \<open>States\<close>

type_synonym State = string

definition StateDiscussing :: State where
  "StateDiscussing = ''discussing''"

definition StateProposalPending :: State where
  "StateProposalPending = ''proposal-pending''"

definition StateCounterproposalPending :: State where
  "StateCounterproposalPending = ''counterproposal-pending''"

definition StateIntentAgreed :: State where
  "StateIntentAgreed = ''intent-agreed''"

definition StateCanonicalizationPending :: State where
  "StateCanonicalizationPending = ''canonicalization-pending''"

definition StateFinalized :: State where
  "StateFinalized = ''finalized''"

definition StateRejected :: State where
  "StateRejected = ''rejected''"

definition StateWithdrawn :: State where
  "StateWithdrawn = ''withdrawn''"

definition StateExpired :: State where
  "StateExpired = ''expired''"

definition states :: "State list" where
  "states = [StateDiscussing, StateProposalPending, StateCounterproposalPending, StateIntentAgreed,
     StateCanonicalizationPending, StateFinalized, StateRejected, StateWithdrawn, StateExpired]"

definition settledState :: "string \<Rightarrow> bool" where
  "settledState s \<longleftrightarrow> s = StateFinalized \<or> s = StateRejected \<or> s = StateWithdrawn \<or> s = StateExpired"

record Approval =
  ap_TermsDigest :: string
  ap_Generation :: u64
  ap_MandateDigest :: string
  ap_AtUnix :: u64

record Negotiation =
  n_ID :: string
  n_ConversationID :: string
  n_CounterpartyAgentID :: string
  n_Mandate :: Mandate
  n_state :: State
  n_generation :: u64
  n_counteroffers :: u32
  n_onTable :: "Terms option"
  n_agreed :: "Terms option"
  n_needsApproval :: bool
  n_network :: "NetworkDomain option"
  n_approval :: "Approval option"
  n_commitment :: string
  n_quote :: "VerifiedAcceptedQuote option"
  n_failure :: string
  n_budget :: bool
  n_poisoned :: bool

section \<open>Snapshots\<close>

definition SnapshotSchema :: string where
  "SnapshotSchema = ''tos.messaging.negotiation-state.v1''"

record Snapshot =
  s_Schema :: string
  s_ID :: string
  s_ConversationID :: string
  s_CounterpartyAgentID :: string
  s_MandateDigest :: string
  s_Network :: "NetworkDomain option"
  s_State :: string
  s_Generation :: u64
  s_Counteroffers :: u32
  s_NeedsApproval :: bool
  s_OnTable :: "Terms option"
  s_Agreed :: "Terms option"
  s_Approval :: "Approval option"
  s_Commitment :: string
  s_Quote :: "VerifiedAcceptedQuote option"
  s_Failure :: string

text \<open>\<open>cloneNetwork\<close> copies the three fields of a domain, the value itself here.\<close>

definition cloneNetwork :: "NetworkDomain option \<Rightarrow> NetworkDomain option" where
  "cloneNetwork network = (case network of
     None \<Rightarrow> None
   | Some d \<Rightarrow> Some \<lparr>nd_NetworkId = nd_NetworkId d, nd_GenesisRootHash = nd_GenesisRootHash d,
                    nd_GenesisFileHash = nd_GenesisFileHash d\<rparr>)"

definition take_Snapshot :: "Negotiation \<Rightarrow> Snapshot res" where
  "take_Snapshot n = bindE (Mandate_Digest (n_Mandate n)) (\<lambda>mandateDigest.
     Inr \<lparr>s_Schema = SnapshotSchema, s_ID = n_ID n, s_ConversationID = n_ConversationID n,
          s_CounterpartyAgentID = n_CounterpartyAgentID n, s_MandateDigest = mandateDigest,
          s_Network = cloneNetwork (n_network n), s_State = n_state n,
          s_Generation = n_generation n, s_Counteroffers = n_counteroffers n,
          s_NeedsApproval = n_needsApproval n, s_OnTable = n_onTable n, s_Agreed = n_agreed n,
          s_Approval = n_approval n, s_Commitment = n_commitment n, s_Quote = n_quote n,
          s_Failure = n_failure n\<rparr>)"

definition snapshot_terms_check :: "Network \<Rightarrow> Terms option \<Rightarrow> err option" where
  "snapshot_terms_check bound terms = (case terms of
     None \<Rightarrow> None
   | Some t \<Rightarrow> (case Terms_Validate t of
       Some e \<Rightarrow> Some e
     | None \<Rightarrow>
         if \<not> Network_Same (as_Network (m_Asset (t_Price t))) bound
         then Some (Msg ''snapshot carries terms priced on a network the negotiation is not bound to'')
         else None))"

definition snapshot_final_check :: "Network \<Rightarrow> Snapshot \<Rightarrow> err option" where
  "snapshot_final_check bound s =
     (if s_Commitment s = '''' then Some (Msg ''a finalized negotiation carries no commitment'')
      else case s_Quote s of
        None \<Rightarrow> Some (Msg ''a finalized negotiation carries no quote evidence'')
      | Some q \<Rightarrow> (case Quote_Validate q of
          Some e \<Rightarrow> Some e
        | None \<Rightarrow>
            if q_Commitment q \<noteq> s_Commitment s
            then Some (Msg ''the finalized quote does not match the commitment'')
            else if \<not> Network_Same (as_Network (m_Asset (t_Price (q_Terms q)))) bound
            then Some (Msg ''the finalized quote is priced on a network the negotiation is not bound to'')
            else None))"

definition Snapshot_Validate :: "Snapshot \<Rightarrow> err option" where
  "Snapshot_Validate s =
     (if s_Schema s \<noteq> SnapshotSchema then Some (Msg ''unsupported negotiation snapshot schema'')
      else if s_ID s = '''' \<or> length (s_ID s) > 128 then Some (Msg ''snapshot names no negotiation'')
      else if s_State s \<notin> set states
      then Some (Msg ''snapshot carries a state this build does not know'')
      else if s_MandateDigest s = '''' then Some (Msg ''snapshot names no mandate'')
      else if validateNetworkDomain (s_Network s) \<noteq> None then Some (Msg ''snapshot names no network'')
      else case NetworkFromDomain (s_Network s) of
        Inl _ \<Rightarrow> Some (Msg ''snapshot names no network'')
      | Inr bound \<Rightarrow>
      (case snapshot_terms_check bound (s_OnTable s) of Some e \<Rightarrow> Some e | None \<Rightarrow>
      (case snapshot_terms_check bound (s_Agreed s) of Some e \<Rightarrow> Some e | None \<Rightarrow>
      if (case s_Approval s of None \<Rightarrow> False | Some a \<Rightarrow> ap_Generation a > s_Generation s)
      then Some (Msg ''snapshot carries an approval from a later version of itself'')
      else if s_State s = StateFinalized then snapshot_final_check bound s
      else None)))"

definition Restore :: "Snapshot \<Rightarrow> Mandate \<Rightarrow> bool \<Rightarrow> bool \<Rightarrow> Negotiation res" where
  "Restore snapshot mandate budget store = failE (Snapshot_Validate snapshot)
     (bindE (Mandate_Digest mandate) (\<lambda>digest.
      if digest \<noteq> s_MandateDigest snapshot
      then Inl (Msg ''this negotiation was authorised by a mandate that no longer stands'')
      else bindE (NetworkFromDomain (s_Network snapshot)) (\<lambda>bound.
      if \<not> Network_Same (as_Network (m_Asset (md_MaxTotal mandate))) bound
      then Inl (Msg ''the mandate is priced on a network this negotiation is not bound to'')
      else if md_Authority mandate = AuthorityCommit \<and> \<not> budget
      then Inl (Msg ''a mandate that may commit needs a budget to commit against'')
      else if \<not> store
      then Inl (Msg ''a negotiation needs somewhere to survive a restart'')
      else Inr \<lparr>n_ID = s_ID snapshot, n_ConversationID = s_ConversationID snapshot,
        n_CounterpartyAgentID = s_CounterpartyAgentID snapshot, n_Mandate = mandate,
        n_state = s_State snapshot, n_generation = s_Generation snapshot,
        n_counteroffers = s_Counteroffers snapshot, n_onTable = s_OnTable snapshot,
        n_agreed = s_Agreed snapshot, n_needsApproval = s_NeedsApproval snapshot,
        n_network = cloneNetwork (s_Network snapshot), n_approval = s_Approval snapshot,
        n_commitment = s_Commitment snapshot, n_quote = s_Quote snapshot,
        n_failure = s_Failure snapshot, n_budget = budget, n_poisoned = False\<rparr>)))"

section \<open>The store\<close>

type_synonym snapshot_files = "(string, Snapshot) dir"

definition MaxNegotiations :: nat where
  "MaxNegotiations = 512"

definition negotiationNamePattern :: "string \<Rightarrow> bool" where
  "negotiationNamePattern s \<longleftrightarrow> 1 \<le> length s \<and> length s \<le> 128 \<and>
     list_all (\<lambda>c. 32 \<le> byte_val c \<and> byte_val c \<le> 126) s"

definition neg_path :: "string \<Rightarrow> string res" where
  "neg_path negotiationID =
     (if \<not> negotiationNamePattern negotiationID then Inl (Msg ''invalid negotiation identifier'')
      else Inr (drop 7 (Digest (DomainNegotiationRecord @ negotiationID)) @ ''.json''))"

definition neg_read :: "string \<Rightarrow> snapshot_files \<Rightarrow> Snapshot option res" where
  "neg_read path files = (case map_of files path of
     None \<Rightarrow> Inr None
   | Some s \<Rightarrow> failE (Snapshot_Validate s) (Inr (Some s)))"

definition neg_all :: "snapshot_files \<Rightarrow> Snapshot list" where
  "neg_all files = sort_key s_ID (filter (\<lambda>s. Snapshot_Validate s = None) (map snd files))"

definition neg_count :: "snapshot_files \<Rightarrow> nat" where
  "neg_count files = length (filter (\<lambda>s. \<not> settledState (s_State s)) (neg_all files))"

definition neg_Save :: "Snapshot \<Rightarrow> wout \<Rightarrow> snapshot_files \<Rightarrow> err option \<times> snapshot_files" where
  "neg_Save snapshot w files = (case Snapshot_Validate snapshot of
     Some e \<Rightarrow> (Some e, files)
   | None \<Rightarrow> (case neg_path (s_ID snapshot) of
       Inl e \<Rightarrow> (Some e, files)
     | Inr path \<Rightarrow>
         if map_of files path = None \<and> neg_count files \<ge> MaxNegotiations
         then (Some ErrNegotiationsFull, files)
         else replace_file w path snapshot files))"

definition neg_Load :: "string \<Rightarrow> snapshot_files \<Rightarrow> Snapshot option res" where
  "neg_Load negotiationID files = bindE (neg_path negotiationID) (\<lambda>path. neg_read path files)"

definition neg_Drop :: "string \<Rightarrow> gotime \<Rightarrow> wout \<Rightarrow> snapshot_files \<Rightarrow> err option \<times> snapshot_files" where
  "neg_Drop negotiationID now w files =
     (if bad_time now then (Some (Msg ''invalid time''), files)
      else case neg_path negotiationID of
        Inl e \<Rightarrow> (Some e, files)
      | Inr path \<Rightarrow> (case neg_read path files of
          Inl e \<Rightarrow> (Some e, files)
        | Inr None \<Rightarrow> (None, files)
        | Inr (Some snapshot) \<Rightarrow>
            if \<not> settledState (s_State snapshot)
            then (Some (Msg ''this negotiation is still open''), files)
            else (case w of
                Lost \<Rightarrow> (Some (Msg ''remove negotiation record''), files)
              | Unsynced \<Rightarrow> (Some (Msg ''sync event journal directory''), AList.delete path files)
              | Synced \<Rightarrow> (None, AList.delete path files))))"

section \<open>Operations\<close>

record Env =
  e_budget :: Budget
  e_ledger :: budget_files
  e_snaps :: snapshot_files

type_synonym outs = "wout \<times> wout"
type_synonym result = "err option \<times> Negotiation \<times> Env"

text \<open>\<open>if err := check; err != nil { return err }\<close>.\<close>

definition refuse :: "err option \<Rightarrow> Negotiation \<Rightarrow> Env \<Rightarrow> result \<Rightarrow> result" where
  "refuse e n env k = (case e of Some x \<Rightarrow> (Some x, n, env) | None \<Rightarrow> k)"

definition persist :: "wout \<Rightarrow> Negotiation \<Rightarrow> Env \<Rightarrow> result" where
  "persist w n env = (case take_Snapshot n of
     Inl e \<Rightarrow> (Some e, n, env)
   | Inr snapshot \<Rightarrow> (case neg_Save snapshot w (e_snaps env) of
       (Some e, files) \<Rightarrow> (Some e, n\<lparr>n_poisoned := True\<rparr>, env\<lparr>e_snaps := files\<rparr>)
     | (None, files) \<Rightarrow> (None, n, env\<lparr>e_snaps := files\<rparr>)))"

text \<open>The budget operations on the environment, keyed by the negotiation.\<close>

definition env_Reserve :: "wout \<Rightarrow> Money \<Rightarrow> Negotiation \<Rightarrow> Env \<Rightarrow> err option \<times> Env" where
  "env_Reserve w price n env = (case Reserve (n_ID n) price w (e_budget env) (e_ledger env) of
     (e, b, f) \<Rightarrow> (e, env\<lparr>e_budget := b, e_ledger := f\<rparr>))"

definition env_Release :: "wout \<Rightarrow> Negotiation \<Rightarrow> Env \<Rightarrow> result" where
  "env_Release w n env = (case Release (n_ID n) w (e_budget env) (e_ledger env) of
     (e, b, f) \<Rightarrow> (e, n, env\<lparr>e_budget := b, e_ledger := f\<rparr>))"

definition env_Commit :: "wout \<Rightarrow> Negotiation \<Rightarrow> Env \<Rightarrow> result" where
  "env_Commit w n env = (case Commit (n_ID n) w (e_budget env) (e_ledger env) of
     (e, b, f) \<Rightarrow> (e, n, env\<lparr>e_budget := b, e_ledger := f\<rparr>))"

definition new_instance ::
  "string \<Rightarrow> string \<Rightarrow> string \<Rightarrow> Mandate \<Rightarrow> NetworkDomain option \<Rightarrow> bool \<Rightarrow> Negotiation" where
  "new_instance nid conversationID counterpartyAgentID mandate network budget = \<lparr>
     n_ID = nid, n_ConversationID = conversationID, n_CounterpartyAgentID = counterpartyAgentID,
     n_Mandate = mandate, n_state = StateDiscussing, n_generation = 0, n_counteroffers = 0,
     n_onTable = None, n_agreed = None, n_needsApproval = False, n_network = cloneNetwork network,
     n_approval = None, n_commitment = '''', n_quote = None, n_failure = '''',
     n_budget = budget, n_poisoned = False\<rparr>"

definition neg_New ::
  "string \<Rightarrow> string \<Rightarrow> string \<Rightarrow> Mandate \<Rightarrow> NetworkDomain option \<Rightarrow> bool \<Rightarrow> bool \<Rightarrow> gotime \<Rightarrow>
   wout \<Rightarrow> Env \<Rightarrow> Negotiation res \<times> Env" where
  "neg_New nid conversationID counterpartyAgentID mandate network budget store now w env =
     (if \<not> ids_Conversation conversationID then (Inl (Msg ''invalid conversation identifier''), env)
      else if \<not> ids_Agent counterpartyAgentID
      then (Inl (Msg ''invalid counterparty identifier''), env)
      else if nid = '''' \<or> length nid > 128 then (Inl (Msg ''invalid negotiation identifier''), env)
      else case validateNetworkDomain network of Some e \<Rightarrow> (Inl e, env) | None \<Rightarrow>
      (case Live mandate now of Some e \<Rightarrow> (Inl e, env) | None \<Rightarrow>
      (case NetworkFromDomain network of Inl e \<Rightarrow> (Inl e, env) | Inr bound \<Rightarrow>
      if \<not> Network_Same (as_Network (m_Asset (md_MaxTotal mandate))) bound
      then (Inl (Msg ''the mandate is priced on a network this negotiation is not bound to''), env)
      else if md_Authority mandate = AuthorityCommit \<and> \<not> budget
      then (Inl (Msg ''a mandate that may commit needs a budget to commit against''), env)
      else if \<not> store
      then (Inl (Msg ''a negotiation needs somewhere to survive a restart''), env)
      else (case persist w (new_instance nid conversationID counterpartyAgentID mandate network budget) env of
              (Some e, _, env') \<Rightarrow> (Inl e, env')
            | (None, n, env') \<Rightarrow> (Inr n, env')))))"

definition neg_settled :: "Negotiation \<Rightarrow> bool" where
  "neg_settled n \<longleftrightarrow> n_state n = StateFinalized \<or> n_state n = StateRejected \<or>
     n_state n = StateWithdrawn \<or> n_state n = StateExpired"

definition neg_open :: "Negotiation \<Rightarrow> gotime \<Rightarrow> err option" where
  "neg_open n now =
     (if n_poisoned n then Some ErrPoisoned
      else if neg_settled n then Some (Msg ''this negotiation has already ended'')
      else if n_state n = StateCanonicalizationPending
      then Some (Msg ''this negotiation is being canonicalised'')
      else if n_state n = StateIntentAgreed
      then Some (Msg ''these terms are agreed; reopen the negotiation to change them'')
      else Live (n_Mandate n) now)"

definition neg_end :: "State \<Rightarrow> string \<Rightarrow> Negotiation \<Rightarrow> Negotiation" where
  "neg_end st reason n = n\<lparr>n_state := st, n_failure := reason, n_onTable := None\<rparr>"

definition settle :: "State \<Rightarrow> string \<Rightarrow> outs \<Rightarrow> Negotiation \<Rightarrow> Env \<Rightarrow> result" where
  "settle st reason w n env = (case persist (fst w) (neg_end st reason n) env of
     (Some e, n', env') \<Rightarrow> (Some e, n', env')
   | (None, n', env') \<Rightarrow>
       if n_budget n' \<and> st \<noteq> StateFinalized then env_Release (snd w) n' env' else (None, n', env'))"

definition bindsCounterparty :: "Negotiation \<Rightarrow> Terms \<Rightarrow> err option" where
  "bindsCounterparty n terms =
     (if t_ProviderAgentID terms \<noteq> n_CounterpartyAgentID n
      then Some (Msg ''these terms name a provider that is not the counterparty'') else None)"

definition bindsNetwork :: "Negotiation \<Rightarrow> Terms \<Rightarrow> err option" where
  "bindsNetwork n terms = (case NetworkFromDomain (n_network n) of
     Inl e \<Rightarrow> Some e
   | Inr bound \<Rightarrow>
       if \<not> Network_Same (as_Network (m_Asset (t_Price terms))) bound
       then Some (Msg ''these terms are priced on a network this negotiation is not bound to'')
       else None)"

definition ReceiveProposal :: "Terms \<Rightarrow> gotime \<Rightarrow> outs \<Rightarrow> Negotiation \<Rightarrow> Env \<Rightarrow> result" where
  "ReceiveProposal terms now w n env =
     refuse (neg_open n now) n env (refuse (Terms_Validate terms) n env
     (refuse (bindsCounterparty n terms) n env (refuse (bindsNetwork n terms) n env
     (persist (fst w) (n\<lparr>n_onTable := Some terms, n_state := StateProposalPending\<rparr>) env))))"

text \<open>The error half of a result, for the checks whose value the caller drops.\<close>

definition err_of :: "'a res \<Rightarrow> err option" where
  "err_of r = (case r of Inl e \<Rightarrow> Some e | Inr _ \<Rightarrow> None)"

definition Counter :: "Terms \<Rightarrow> gotime \<Rightarrow> outs \<Rightarrow> Negotiation \<Rightarrow> Env \<Rightarrow> result" where
  "Counter terms now w n env = refuse (neg_open n now) n env
     (if n_counteroffers n \<ge> md_MaxCounteroffers (n_Mandate n)
      then (case settle StateWithdrawn ''counteroffer budget exhausted'' w n env of
              (Some e, n', env') \<Rightarrow> (Some e, n', env')
            | (None, n', env') \<Rightarrow>
                (Some (Msg (''the mandate'' @ [CHR 0x27] @ ''s counteroffer budget is exhausted'')), n', env'))
      else refuse (err_of (Permits (n_Mandate n) terms now)) n env
        (refuse (bindsCounterparty n terms) n env (refuse (bindsNetwork n terms) n env
        (persist (fst w) (n\<lparr>n_onTable := Some terms, n_counteroffers := n_counteroffers n + 1,
           n_state := StateCounterproposalPending\<rparr>) env))))"

definition AcceptIntent :: "gotime \<Rightarrow> outs \<Rightarrow> Negotiation \<Rightarrow> Env \<Rightarrow> result" where
  "AcceptIntent now w n env =
     (if n_poisoned n then (Some ErrPoisoned, n, env)
      else refuse (neg_open n now) n env (case n_onTable n of
        None \<Rightarrow> (Some (Msg ''there is nothing on the table to accept''), n, env)
      | Some terms \<Rightarrow> (case Permits (n_Mandate n) terms now of
          Inl e \<Rightarrow> (Some e, n, env)
        | Inr needsApproval \<Rightarrow>
            (case (if n_budget n then env_Reserve (snd w) (t_Price terms) n env else (None, env)) of
               (Some e, env') \<Rightarrow> (Some e, n, env')
             | (None, env') \<Rightarrow>
                 persist (fst w) (n\<lparr>n_agreed := Some terms, n_needsApproval := needsApproval,
                   n_state := StateIntentAgreed\<rparr>) env'))))"

definition Reopen :: "string \<Rightarrow> gotime \<Rightarrow> outs \<Rightarrow> Negotiation \<Rightarrow> Env \<Rightarrow> result" where
  "Reopen reason now w n env =
     (if n_state n \<noteq> StateIntentAgreed
      then (Some (Msg ''only an agreed intent can be reopened''), n, env)
      else refuse (Live (n_Mandate n) now) n env
      (if reason = '''' \<or> length reason > 512
       then (Some (Msg ''reopening must say why''), n, env)
       else (case persist (fst w) (n\<lparr>n_agreed := None, n_needsApproval := False, n_approval := None,
               n_generation := n_generation n + 1, n_state := StateDiscussing\<rparr>) env of
           (Some e, n', env') \<Rightarrow> (Some e, n', env')
         | (None, n', env') \<Rightarrow> if n_budget n' then env_Release (snd w) n' env' else (None, n', env'))))"

definition RejectIntent :: "string \<Rightarrow> outs \<Rightarrow> Negotiation \<Rightarrow> Env \<Rightarrow> result" where
  "RejectIntent reason w n env =
     (if neg_settled n then (Some (Msg ''this negotiation has already ended''), n, env)
      else settle StateRejected reason w n env)"

definition Withdraw :: "string \<Rightarrow> outs \<Rightarrow> Negotiation \<Rightarrow> Env \<Rightarrow> result" where
  "Withdraw reason w n env =
     (if neg_settled n then (Some (Msg ''this negotiation has already ended''), n, env)
      else settle StateWithdrawn reason w n env)"

definition ApproveByOwner :: "string \<Rightarrow> gotime \<Rightarrow> outs \<Rightarrow> Negotiation \<Rightarrow> Env \<Rightarrow> result" where
  "ApproveByOwner termsDigest now w n env =
     (if n_state n \<noteq> StateIntentAgreed
      then (Some (Msg ''there is no agreed intent to approve''), n, env)
      else refuse (Live (n_Mandate n) now) n env
      (if \<not> n_needsApproval n
       then (Some (Msg ''these terms are inside what the owner already permitted''), n, env)
       else case n_agreed n of
         None \<Rightarrow> (Some (Msg ''there are no agreed terms to approve''), n, env)
       | Some agreed \<Rightarrow> (case Terms_Digest agreed of
           Inl e \<Rightarrow> (Some e, n, env)
         | Inr current \<Rightarrow>
             if termsDigest \<noteq> current
             then (Some (Msg ''the owner approved terms other than the ones on the table''), n, env)
             else (case Mandate_Digest (n_Mandate n) of
               Inl e \<Rightarrow> (Some e, n, env)
             | Inr mandateDigest \<Rightarrow>
                 persist (fst w) (n\<lparr>n_approval := Some \<lparr>ap_TermsDigest = current,
                   ap_Generation = n_generation n, ap_MandateDigest = mandateDigest,
                   ap_AtUnix = unix now\<rparr>\<rparr>) env))))"

definition DenyByOwner :: "string \<Rightarrow> outs \<Rightarrow> Negotiation \<Rightarrow> Env \<Rightarrow> result" where
  "DenyByOwner reason w n env =
     (if n_state n \<noteq> StateIntentAgreed
      then (Some (Msg ''there is no agreed intent to refuse''), n, env)
      else settle StateRejected reason w n env)"

definition approvalStands :: "Negotiation \<Rightarrow> err option" where
  "approvalStands n = (case n_approval n of
     None \<Rightarrow> Some (Msg (''these terms need the owner'' @ [CHR 0x27] @ ''s decision first''))
   | Some approval \<Rightarrow> (case n_agreed n of
       None \<Rightarrow> Some (Msg ''there are no agreed terms to act on'')
     | Some agreed \<Rightarrow> (case Terms_Digest agreed of
         Inl e \<Rightarrow> Some e
       | Inr current \<Rightarrow>
           if ap_TermsDigest approval \<noteq> current
           then Some (Msg ''the terms changed after the owner approved them'')
           else if ap_Generation approval \<noteq> n_generation n
           then Some (Msg ''this negotiation was reopened after the owner approved it'')
           else (case Mandate_Digest (n_Mandate n) of
             Inl e \<Rightarrow> Some e
           | Inr mandateDigest \<Rightarrow>
               if ap_MandateDigest approval \<noteq> mandateDigest
               then Some (Msg ''the mandate changed after the owner approved these terms'')
               else None))))"

definition BeginCanonicalization :: "gotime \<Rightarrow> outs \<Rightarrow> Negotiation \<Rightarrow> Env \<Rightarrow> result" where
  "BeginCanonicalization now w n env =
     (if n_poisoned n then (Some ErrPoisoned, n, env)
      else if n_state n \<noteq> StateIntentAgreed
      then (Some (Msg ''only an agreed intent can be canonicalised''), n, env)
      else if md_Authority (n_Mandate n) \<noteq> AuthorityCommit
      then (Some (Msg ''only a mandate that may commit can canonicalise terms''), n, env)
      else if \<not> n_budget n
      then (Some (Msg ''canonicalisation needs a budget to commit against''), n, env)
      else refuse (Live (n_Mandate n) now) n env
        (refuse (if n_needsApproval n then approvalStands n else None) n env
        (persist (fst w) (n\<lparr>n_state := StateCanonicalizationPending\<rparr>) env)))"

definition Expire :: "gotime \<Rightarrow> outs \<Rightarrow> Negotiation \<Rightarrow> Env \<Rightarrow> bool \<times> result" where
  "Expire now w n env =
     (if neg_settled n then (False, None, n, env)
      else let reason =
             (if Live (n_Mandate n) now \<noteq> None then ''the mandate expired''
              else if (case n_agreed n of None \<Rightarrow> False | Some agreed \<Rightarrow> unix now \<ge> t_NotAfterUnix agreed)
              then ''the agreed terms expired''
              else '''') in
           if reason = '''' then (False, None, n, env)
           else (True, settle StateExpired reason w n env))"

definition Finalize :: "QuoteResolver option \<Rightarrow> string \<Rightarrow> gotime \<Rightarrow> outs \<Rightarrow> Negotiation \<Rightarrow> Env \<Rightarrow> result" where
  "Finalize resolver commitment now w n env =
     (if n_poisoned n then (Some ErrPoisoned, n, env)
      else if n_state n \<noteq> StateCanonicalizationPending
      then (Some (Msg ''nothing is being canonicalised''), n, env)
      else if resolver = None
      then (Some (Msg ''a commitment must be verified against finalized state''), n, env)
      else if md_Authority (n_Mandate n) \<noteq> AuthorityCommit
      then (Some (Msg ''only a mandate that may commit can finalize''), n, env)
      else if \<not> n_budget n
      then (Some (Msg ''finalizing needs a budget to commit against''), n, env)
      else case Live (n_Mandate n) now of
        Some e \<Rightarrow>
          (case settle StateExpired ''the mandate expired before the commitment existed'' w n env of
             (Some e', n', env') \<Rightarrow> (Some e', n', env')
           | (None, n', env') \<Rightarrow> (Some e, n', env'))
      | None \<Rightarrow>
      if \<not> digestPattern commitment then (Some (Msg ''invalid commitment digest''), n, env)
      else (case n_agreed n of
        None \<Rightarrow> (Some (Msg ''canonicalization has no agreed terms''), n, env)
      | Some agreed \<Rightarrow>
          (case ResolveMatchingAcceptedQuote resolver commitment agreed (n_network n) of
             Inl e \<Rightarrow>
               if e = ErrFinalizedQuoteMismatch
               then (case settle StateRejected ''the finalized quote does not match what was agreed'' w n env of
                       (Some e', n', env') \<Rightarrow> (Some e', n', env')
                     | (None, n', env') \<Rightarrow> (Some ErrFinalizedQuoteMismatch, n', env'))
               else (Some e, n, env)
           | Inr quote \<Rightarrow>
               refuse (if n_needsApproval n then approvalStands n else None) n env
               (case PermitsCommit (n_Mandate n) (q_Terms quote) now of
                  Inl e \<Rightarrow>
                    (case settle StateRejected ''the finalized quote falls outside the mandate'' w n env of
                       (Some e', n', env') \<Rightarrow> (Some e', n', env')
                     | (None, n', env') \<Rightarrow> (Some e, n', env'))
                | Inr _ \<Rightarrow>
                    (case persist (fst w) (n\<lparr>n_commitment := commitment, n_quote := Some quote,
                        n_state := StateFinalized\<rparr>) env of
                       (Some e, n', env') \<Rightarrow> (Some e, n', env')
                     | (None, n', env') \<Rightarrow>
                         if n_budget n' then env_Commit (snd w) n' env' else (None, n', env'))))))"

definition Committed :: "Negotiation \<Rightarrow> string option" where
  "Committed n = (if n_state n \<noteq> StateFinalized \<or> n_commitment n = '''' then None else Some (n_commitment n))"

definition ActiveAgreement :: "Negotiation \<Rightarrow> bool" where
  "ActiveAgreement n \<longleftrightarrow> Committed n \<noteq> None"

definition neg_Quote :: "Negotiation \<Rightarrow> VerifiedAcceptedQuote option" where
  "neg_Quote n = (if n_state n \<noteq> StateFinalized \<or> n_quote n = None then None else n_quote n)"

text \<open>The operations as one type, so that a run of a negotiation is a list of them.\<close>

datatype nop =
    OpReceive Terms
  | OpCounter Terms
  | OpAccept
  | OpReopen string
  | OpReject string
  | OpWithdraw string
  | OpApprove string
  | OpDeny string
  | OpBegin
  | OpExpire
  | OpFinalize "QuoteResolver option" string

fun run_nop :: "nop \<Rightarrow> gotime \<Rightarrow> outs \<Rightarrow> Negotiation \<Rightarrow> Env \<Rightarrow> result" where
  "run_nop (OpReceive t) now w n env = ReceiveProposal t now w n env"
| "run_nop (OpCounter t) now w n env = Counter t now w n env"
| "run_nop OpAccept now w n env = AcceptIntent now w n env"
| "run_nop (OpReopen r) now w n env = Reopen r now w n env"
| "run_nop (OpReject r) now w n env = RejectIntent r w n env"
| "run_nop (OpWithdraw r) now w n env = Withdraw r w n env"
| "run_nop (OpApprove d) now w n env = ApproveByOwner d now w n env"
| "run_nop (OpDeny r) now w n env = DenyByOwner r w n env"
| "run_nop OpBegin now w n env = BeginCanonicalization now w n env"
| "run_nop OpExpire now w n env = snd (Expire now w n env)"
| "run_nop (OpFinalize r c) now w n env = Finalize r c now w n env"

text \<open>The states in which a hold backs agreed terms, and the allowed moves.\<close>

definition holding :: "State \<Rightarrow> bool" where
  "holding st \<longleftrightarrow> st = StateIntentAgreed \<or> st = StateCanonicalizationPending"

definition open_state :: "State \<Rightarrow> bool" where
  "open_state st \<longleftrightarrow> st = StateDiscussing \<or> st = StateProposalPending \<or> st = StateCounterproposalPending"

definition ended_state :: "State \<Rightarrow> bool" where
  "ended_state st \<longleftrightarrow> st = StateRejected \<or> st = StateWithdrawn \<or> st = StateExpired"

definition allowed_move :: "State \<Rightarrow> State \<Rightarrow> bool" where
  "allowed_move a b \<longleftrightarrow>
     (open_state a \<and> (b = StateProposalPending \<or> b = StateCounterproposalPending \<or>
        b = StateIntentAgreed \<or> ended_state b)) \<or>
     (a = StateIntentAgreed \<and> (b = StateDiscussing \<or> b = StateCanonicalizationPending \<or> ended_state b)) \<or>
     (a = StateCanonicalizationPending \<and> (b = StateFinalized \<or> ended_state b))"

section \<open>The relation between states, and a worked exchange\<close>

text \<open>One operation in some environment, the budget and the store being shared with others.\<close>

definition neg_step :: "Negotiation \<Rightarrow> Negotiation \<Rightarrow> bool" where
  "neg_step n n' \<longleftrightarrow> (\<exists>op now w env e env'. run_nop op now w n env = (e, n', env'))"

text \<open>An owner decision that describes exactly what is agreed now.\<close>

definition approval_bound :: "Negotiation \<Rightarrow> Approval \<Rightarrow> bool" where
  "approval_bound n a \<longleftrightarrow> (\<exists>t. n_agreed n = Some t \<and> Terms_Digest t = Inr (ap_TermsDigest a) \<and>
     ap_Generation a = n_generation n \<and> Mandate_Digest (n_Mandate n) = Inr (ap_MandateDigest a))"

definition approval_inv :: "Negotiation \<Rightarrow> bool" where
  "approval_inv n \<longleftrightarrow> n_state n \<in> set states \<and>
     (\<forall>a. n_approval n = Some a \<longrightarrow> \<not> open_state (n_state n) \<and> approval_bound n a)"

text \<open>A worked exchange, from its creation to its finalized quote.\<close>

definition ex_path :: string where
  "ex_path = drop 7 (Digest (DomainNegotiationRecord @ ''n1'')) @ ''.json''"

definition ex_env :: Env where
  "ex_env = \<lparr>e_budget = ex_budget, e_ledger = [(ledger_path ex_ledger, record_of ex_budget)], e_snaps = []\<rparr>"

definition ex_neg :: Negotiation where
  "ex_neg = new_instance ''n1'' (''conv_'' @ ex_hash) (''agent_'' @ ex_hash) ex_mandate (Some ex_network) True"

definition ex_like :: "Negotiation \<Rightarrow> bool" where
  "ex_like n \<longleftrightarrow> n_ID n = ''n1'' \<and> n_Mandate n = ex_mandate \<and> n_network n = Some ex_network \<and>
     n_state n \<in> set states \<and> n_onTable n \<in> {None, Some (ex_terms 60 900)} \<and>
     n_agreed n \<in> {None, Some (ex_terms 60 900)} \<and>
     (case n_approval n of None \<Rightarrow> True | Some a \<Rightarrow> ap_Generation a \<le> n_generation n) \<and>
     (n_state n = StateFinalized \<longrightarrow> n_commitment n = ex_digest \<and>
        n_quote n = Some (ex_quote ex_digest (ex_terms 60 900)))"

definition ex_offered :: Negotiation where
  "ex_offered = ex_neg\<lparr>n_onTable := Some (ex_terms 60 900), n_state := StateProposalPending\<rparr>"

definition ex_agreed :: Negotiation where
  "ex_agreed = ex_offered\<lparr>n_agreed := Some (ex_terms 60 900), n_needsApproval := True,
     n_state := StateIntentAgreed\<rparr>"

definition ex_approval :: Approval where
  "ex_approval = \<lparr>ap_TermsDigest = projr (Terms_Digest (ex_terms 60 900)), ap_Generation = 0,
     ap_MandateDigest = projr (Mandate_Digest ex_mandate), ap_AtUnix = 10\<rparr>"

definition ex_approved :: Negotiation where
  "ex_approved = ex_agreed\<lparr>n_approval := Some ex_approval\<rparr>"

definition ex_pending :: Negotiation where
  "ex_pending = ex_approved\<lparr>n_state := StateCanonicalizationPending\<rparr>"

definition ex_final :: Negotiation where
  "ex_final = ex_pending\<lparr>n_commitment := ex_digest, n_quote := Some (ex_quote ex_digest (ex_terms 60 900)),
     n_state := StateFinalized\<rparr>"

definition ex_held_env :: Env where
  "ex_held_env = \<lparr>e_budget = ex_budget\<lparr>b_reserved := [(''n1'', ex_money 60)]\<rparr>, e_ledger = [], e_snaps = []\<rparr>"

definition ex_resolver :: QuoteResolver where
  "ex_resolver c = Inr (Some (ex_quote c (ex_terms 60 900)))"

section \<open>Lemmas\<close>

lemmas state_defs = StateDiscussing_def StateProposalPending_def StateCounterproposalPending_def
  StateIntentAgreed_def StateCanonicalizationPending_def StateFinalized_def StateRejected_def
  StateWithdrawn_def StateExpired_def

lemma states_distinct: "distinct states"
  by (simp add: states_def state_defs)

lemma states_neq [simp]:
  "StateDiscussing \<noteq> StateProposalPending"
  "StateDiscussing \<noteq> StateCounterproposalPending"
  "StateDiscussing \<noteq> StateIntentAgreed"
  "StateDiscussing \<noteq> StateCanonicalizationPending"
  "StateDiscussing \<noteq> StateFinalized" "StateDiscussing \<noteq> StateRejected"
  "StateDiscussing \<noteq> StateWithdrawn" "StateDiscussing \<noteq> StateExpired"
  "StateProposalPending \<noteq> StateDiscussing"
  "StateProposalPending \<noteq> StateCounterproposalPending"
  "StateProposalPending \<noteq> StateIntentAgreed"
  "StateProposalPending \<noteq> StateCanonicalizationPending"
  "StateProposalPending \<noteq> StateFinalized" "StateProposalPending \<noteq> StateRejected"
  "StateProposalPending \<noteq> StateWithdrawn" "StateProposalPending \<noteq> StateExpired"
  "StateCounterproposalPending \<noteq> StateDiscussing"
  "StateCounterproposalPending \<noteq> StateProposalPending"
  "StateCounterproposalPending \<noteq> StateIntentAgreed"
  "StateCounterproposalPending \<noteq> StateCanonicalizationPending"
  "StateCounterproposalPending \<noteq> StateFinalized"
  "StateCounterproposalPending \<noteq> StateRejected"
  "StateCounterproposalPending \<noteq> StateWithdrawn"
  "StateCounterproposalPending \<noteq> StateExpired"
  "StateIntentAgreed \<noteq> StateDiscussing" "StateIntentAgreed \<noteq> StateProposalPending"
  "StateIntentAgreed \<noteq> StateCounterproposalPending"
  "StateIntentAgreed \<noteq> StateCanonicalizationPending"
  "StateIntentAgreed \<noteq> StateFinalized" "StateIntentAgreed \<noteq> StateRejected"
  "StateIntentAgreed \<noteq> StateWithdrawn" "StateIntentAgreed \<noteq> StateExpired"
  "StateCanonicalizationPending \<noteq> StateDiscussing"
  "StateCanonicalizationPending \<noteq> StateProposalPending"
  "StateCanonicalizationPending \<noteq> StateCounterproposalPending"
  "StateCanonicalizationPending \<noteq> StateIntentAgreed"
  "StateCanonicalizationPending \<noteq> StateFinalized"
  "StateCanonicalizationPending \<noteq> StateRejected"
  "StateCanonicalizationPending \<noteq> StateWithdrawn"
  "StateCanonicalizationPending \<noteq> StateExpired"
  "StateFinalized \<noteq> StateDiscussing" "StateFinalized \<noteq> StateProposalPending"
  "StateFinalized \<noteq> StateCounterproposalPending"
  "StateFinalized \<noteq> StateIntentAgreed"
  "StateFinalized \<noteq> StateCanonicalizationPending" "StateFinalized \<noteq> StateRejected"
  "StateFinalized \<noteq> StateWithdrawn" "StateFinalized \<noteq> StateExpired"
  "StateRejected \<noteq> StateDiscussing" "StateRejected \<noteq> StateProposalPending"
  "StateRejected \<noteq> StateCounterproposalPending" "StateRejected \<noteq> StateIntentAgreed"
  "StateRejected \<noteq> StateCanonicalizationPending" "StateRejected \<noteq> StateFinalized"
  "StateRejected \<noteq> StateWithdrawn" "StateRejected \<noteq> StateExpired"
  "StateWithdrawn \<noteq> StateDiscussing" "StateWithdrawn \<noteq> StateProposalPending"
  "StateWithdrawn \<noteq> StateCounterproposalPending"
  "StateWithdrawn \<noteq> StateIntentAgreed"
  "StateWithdrawn \<noteq> StateCanonicalizationPending" "StateWithdrawn \<noteq> StateFinalized"
  "StateWithdrawn \<noteq> StateRejected" "StateWithdrawn \<noteq> StateExpired"
  "StateExpired \<noteq> StateDiscussing" "StateExpired \<noteq> StateProposalPending"
  "StateExpired \<noteq> StateCounterproposalPending" "StateExpired \<noteq> StateIntentAgreed"
  "StateExpired \<noteq> StateCanonicalizationPending" "StateExpired \<noteq> StateFinalized"
  "StateExpired \<noteq> StateRejected" "StateExpired \<noteq> StateWithdrawn"
  by (simp_all add: state_defs)

lemma cloneNetwork_id [simp]: "cloneNetwork n = n"
  by (cases n) (auto simp: cloneNetwork_def)

lemma refuse_simps [simp]: "refuse None n env k = k" "refuse (Some e) n env k = (Some e, n, env)"
  by (simp_all add: refuse_def)

lemma persist_cases:
  assumes "persist w n env = (e, n', env')"
  obtains (bad_mandate) x where "Mandate_Digest (n_Mandate n) = Inl x" "e = Some x" "n' = n" "env' = env"
    | (written) s p where "take_Snapshot n = Inr s" "neg_path (n_ID n) = Inr p" "e = None" "n' = n"
      "Snapshot_Validate s = None" "env' = env\<lparr>e_snaps := AList.update p s (e_snaps env)\<rparr>"
    | (poisoned) s where "take_Snapshot n = Inr s" "e \<noteq> None" "n' = n\<lparr>n_poisoned := True\<rparr>"
      "env' = env \<or> (\<exists>p. neg_path (n_ID n) = Inr p \<and> Snapshot_Validate s = None \<and>
         env' = env\<lparr>e_snaps := AList.update p s (e_snaps env)\<rparr>)"
proof (cases "take_Snapshot n")
  case (Inl x)
  then have "Mandate_Digest (n_Mandate n) = Inl x" by (auto simp: take_Snapshot_def bindE_eq_Inl)
  with Inl assms show thesis by (intro bad_mandate) (auto simp: persist_def)
next
  case (Inr s)
  then have sid: "s_ID s = n_ID n" by (auto simp: take_Snapshot_def bindE_eq_Inr)
  obtain e1 f1 where S: "neg_Save s w (e_snaps env) = (e1, f1)" by fastforce
  have R: "e = e1" "env' = env\<lparr>e_snaps := f1\<rparr>" "n' = (if e1 = None then n else n\<lparr>n_poisoned := True\<rparr>)"
    using assms Inr S by (auto simp: persist_def split: option.splits)
  have env: "env\<lparr>e_snaps := e_snaps env\<rparr> = env" by simp
  show thesis
  proof (cases "\<exists>p. neg_path (n_ID n) = Inr p \<and> Snapshot_Validate s = None \<and>
      replace_file w p s (e_snaps env) = (e1, f1)")
    case True
    then obtain p where p: "neg_path (n_ID n) = Inr p" "Snapshot_Validate s = None"
      "replace_file w p s (e_snaps env) = (e1, f1)" by blast
    show thesis
    proof (cases e1)
      case None
      with R p replace_file_cases [OF p(3)] Inr show thesis by (intro written [of s p]) auto
    next
      case (Some x)
      with R p replace_file_cases [OF p(3)] Inr env show thesis
        by (intro poisoned [of s]) auto
    qed
  next
    case False
    then have "e1 \<noteq> None" "f1 = e_snaps env"
      using S sid
      by (cases "Snapshot_Validate s"; auto simp: neg_Save_def split: sum.splits if_splits)+
    with R Inr env show thesis by (intro poisoned [of s]) auto
  qed
qed

lemma persist_keeps:
  assumes "persist w n env = (e, n', env')"
  shows "n' = n\<lparr>n_poisoned := n_poisoned n'\<rparr>" and "e_budget env' = e_budget env"
    and "e_ledger env' = e_ledger env" and "e = None \<Longrightarrow> n' = n"
  by (cases rule: persist_cases [OF assms]; auto)+

lemma env_Release_keeps:
  "env_Release w n env = (e, n', env') \<Longrightarrow> n' = n \<and> e_snaps env' = e_snaps env"
  by (auto simp: env_Release_def split: prod.splits)

lemma env_Commit_keeps:
  "env_Commit w n env = (e, n', env') \<Longrightarrow> n' = n \<and> e_snaps env' = e_snaps env"
  by (auto simp: env_Commit_def split: prod.splits)

lemma settle_keeps:
  assumes "settle st reason w n env = (e, n', env')"
  shows "n' = (neg_end st reason n)\<lparr>n_poisoned := n_poisoned n'\<rparr>"
proof -
  obtain e1 n1 env1 where p: "persist (fst w) (neg_end st reason n) env = (e1, n1, env1)"
    by (metis prod_cases3)
  show ?thesis
    using assms p persist_keeps(1) [OF p]
    by (auto simp: settle_def split: option.splits if_splits dest!: env_Release_keeps)
qed

subsection \<open>What each operation does to the exchange\<close>

text \<open>Every operation either leaves the exchange and the environment alone or moves it as stated.\<close>

abbreviation poison_as :: "Negotiation \<Rightarrow> Negotiation \<Rightarrow> Negotiation" where
  "poison_as n n' \<equiv> n\<lparr>n_poisoned := n_poisoned n'\<rparr>"

lemma neg_open_None:
  "neg_open n now = None \<longleftrightarrow> \<not> n_poisoned n \<and> \<not> neg_settled n \<and> \<not> holding (n_state n) \<and>
     Live (n_Mandate n) now = None"
  by (auto simp: neg_open_def holding_def)

lemma open_stateI: "n_state n \<in> set states \<Longrightarrow> \<not> neg_settled n \<Longrightarrow> \<not> holding (n_state n) \<Longrightarrow> open_state (n_state n)"
  by (auto simp: states_def neg_settled_def holding_def open_state_def)

lemma refuse_eq: "refuse e n env k = r \<longleftrightarrow> (case e of None \<Rightarrow> k = r | Some x \<Rightarrow> r = (Some x, n, env))"
  by (auto simp: refuse_def split: option.splits)

lemma ReceiveProposal_effect:
  assumes "ReceiveProposal t now w n env = (e, n', env')"
  shows "(e \<noteq> None \<and> n' = n \<and> env' = env) \<or>
    (neg_open n now = None \<and> Terms_Validate t = None \<and> bindsCounterparty n t = None \<and>
     bindsNetwork n t = None \<and>
     persist (fst w) (n\<lparr>n_onTable := Some t, n_state := StateProposalPending\<rparr>) env = (e, n', env'))"
  using assms by (auto simp: ReceiveProposal_def refuse_eq split: option.splits)

lemma Counter_effect:
  assumes "Counter t now w n env = (e, n', env')"
  shows "(e \<noteq> None \<and> n' = n \<and> env' = env) \<or>
    (e \<noteq> None \<and> neg_open n now = None \<and>
      (\<exists>e1. settle StateWithdrawn ''counteroffer budget exhausted'' w n env = (e1, n', env'))) \<or>
    (neg_open n now = None \<and> n_counteroffers n < md_MaxCounteroffers (n_Mandate n) \<and>
     (\<exists>need. Permits (n_Mandate n) t now = Inr need) \<and>
     bindsCounterparty n t = None \<and> bindsNetwork n t = None \<and>
     persist (fst w) (n\<lparr>n_onTable := Some t, n_counteroffers := n_counteroffers n + 1,
       n_state := StateCounterproposalPending\<rparr>) env = (e, n', env'))"
  using assms
  by (auto simp: Counter_def refuse_eq err_of_def not_le split: option.splits if_splits sum.splits prod.splits)

lemma AcceptIntent_effect:
  assumes "AcceptIntent now w n env = (e, n', env')"
  shows "(e \<noteq> None \<and> n' = n \<and> env' = env) \<or>
    (\<exists>t need. neg_open n now = None \<and> n_onTable n = Some t \<and> Permits (n_Mandate n) t now = Inr need \<and>
      ((n_budget n \<and> e \<noteq> None \<and> n' = n \<and> env_Reserve (snd w) (t_Price t) n env = (e, env')) \<or>
       (\<exists>env1. (if n_budget n then env_Reserve (snd w) (t_Price t) n env = (None, env1) else env1 = env) \<and>
         persist (fst w) (n\<lparr>n_agreed := Some t, n_needsApproval := need, n_state := StateIntentAgreed\<rparr>) env1
           = (e, n', env'))))"
  using assms
  by (auto simp: AcceptIntent_def refuse_eq split: option.splits if_splits sum.splits prod.splits)

lemma Reopen_effect:
  assumes "Reopen r now w n env = (e, n', env')"
  shows "(e \<noteq> None \<and> n' = n \<and> env' = env) \<or>
    (n_state n = StateIntentAgreed \<and>
      (\<exists>e1 env1. persist (fst w) (n\<lparr>n_agreed := None, n_needsApproval := False, n_approval := None,
               n_generation := n_generation n + 1, n_state := StateDiscussing\<rparr>) env = (e1, n', env1) \<and>
        ((e1 = e \<and> env1 = env' \<and> (e = None \<longrightarrow> \<not> n_budget n')) \<or>
         (e1 = None \<and> n_budget n' \<and> env_Release (snd w) n' env1 = (e, n', env')))))"
proof (cases "n_state n = StateIntentAgreed \<and> Live (n_Mandate n) now = None \<and> \<not> (r = '''' \<or> length r > 512)")
  case False
  then show ?thesis using assms by (auto simp: Reopen_def refuse_eq split: option.splits if_splits)
next
  case True
  obtain e1 n1 env1 where p: "persist (fst w) (n\<lparr>n_agreed := None, n_needsApproval := False, n_approval := None,
      n_generation := n_generation n + 1, n_state := StateDiscussing\<rparr>) env = (e1, n1, env1)"
    by (metis prod_cases3)
  with True assms have "n1 = n'"
    by (auto simp: Reopen_def split: option.splits if_splits dest!: env_Release_keeps)
  with True assms p show ?thesis
    by (cases e1) (auto simp: Reopen_def split: if_splits)
qed

lemma settle_effect:
  assumes "settle st r w n env = (e, n', env')"
  shows "\<exists>e1 env1. persist (fst w) (neg_end st r n) env = (e1, n', env1) \<and>
    ((e1 = e \<and> env1 = env' \<and> (e = None \<longrightarrow> \<not> (n_budget n' \<and> st \<noteq> StateFinalized))) \<or>
     (e1 = None \<and> n_budget n' \<and> env_Release (snd w) n' env1 = (e, n', env')))"
proof -
  obtain e1 n1 env1 where p: "persist (fst w) (neg_end st r n) env = (e1, n1, env1)"
    by (metis prod_cases3)
  with assms have "n1 = n'"
    by (auto simp: settle_def split: option.splits if_splits dest!: env_Release_keeps)
  with assms p show ?thesis
    by (cases e1) (auto simp: settle_def split: if_splits)
qed

lemma ApproveByOwner_effect:
  assumes "ApproveByOwner d now w n env = (e, n', env')"
  shows "(e \<noteq> None \<and> n' = n \<and> env' = env) \<or>
    (\<exists>t md. n_state n = StateIntentAgreed \<and> n_needsApproval n \<and> n_agreed n = Some t \<and>
      Terms_Digest t = Inr d \<and> Mandate_Digest (n_Mandate n) = Inr md \<and>
      persist (fst w) (n\<lparr>n_approval := Some \<lparr>ap_TermsDigest = d, ap_Generation = n_generation n,
        ap_MandateDigest = md, ap_AtUnix = unix now\<rparr>\<rparr>) env = (e, n', env'))"
  using assms
  by (auto simp: ApproveByOwner_def refuse_eq split: option.splits if_splits sum.splits)

lemma BeginCanonicalization_effect:
  assumes "BeginCanonicalization now w n env = (e, n', env')"
  shows "(e \<noteq> None \<and> n' = n \<and> env' = env) \<or>
    (\<not> n_poisoned n \<and> n_state n = StateIntentAgreed \<and> md_Authority (n_Mandate n) = AuthorityCommit \<and>
     n_budget n \<and> Live (n_Mandate n) now = None \<and> (n_needsApproval n \<longrightarrow> approvalStands n = None) \<and>
     persist (fst w) (n\<lparr>n_state := StateCanonicalizationPending\<rparr>) env = (e, n', env'))"
  using assms
  by (auto simp: BeginCanonicalization_def refuse_eq split: option.splits if_splits)

lemma Expire_effect:
  assumes "snd (Expire now w n env) = (e, n', env')"
  shows "(e = None \<and> n' = n \<and> env' = env) \<or>
    (\<not> neg_settled n \<and> (\<exists>r. settle StateExpired r w n env = (e, n', env')))"
  using assms by (auto simp: Expire_def Let_def split: if_splits)

lemma Finalize_effect:
  assumes "Finalize r c now w n env = (e, n', env')"
  shows "(e \<noteq> None \<and> n' = n \<and> env' = env) \<or>
    (e \<noteq> None \<and> \<not> n_poisoned n \<and> n_state n = StateCanonicalizationPending \<and>
      (\<exists>st reason e1. ended_state st \<and> settle st reason w n env = (e1, n', env'))) \<or>
    (\<exists>agreed q need. \<not> n_poisoned n \<and> n_state n = StateCanonicalizationPending \<and>
      md_Authority (n_Mandate n) = AuthorityCommit \<and> n_budget n \<and> Live (n_Mandate n) now = None \<and>
      n_agreed n = Some agreed \<and>
      ResolveMatchingAcceptedQuote r c agreed (n_network n) = Inr q \<and>
      (n_needsApproval n \<longrightarrow> approvalStands n = None) \<and>
      PermitsCommit (n_Mandate n) (q_Terms q) now = Inr need \<and>
      (\<exists>e1 env1. persist (fst w) (n\<lparr>n_commitment := c, n_quote := Some q, n_state := StateFinalized\<rparr>) env
          = (e1, n', env1) \<and>
        ((e1 = e \<and> e \<noteq> None \<and> env1 = env') \<or>
         (e1 = None \<and> env_Commit (snd w) n' env1 = (e, n', env')))))"
proof (cases "n_poisoned n \<or> n_state n \<noteq> StateCanonicalizationPending \<or> r = None \<or>
    md_Authority (n_Mandate n) \<noteq> AuthorityCommit \<or> \<not> n_budget n")
  case True
  then show ?thesis using assms by (auto simp: Finalize_def split: if_splits)
next
  case guards: False
  show ?thesis
  proof (cases "Live (n_Mandate n) now")
    case (Some x)
    then show ?thesis
      using assms guards by (auto simp: Finalize_def ended_state_def split: option.splits prod.splits)
  next
    case live: None
    show ?thesis
    proof (cases "digestPattern c \<and> n_agreed n \<noteq> None")
      case False
      then show ?thesis
        using assms guards live by (auto simp: Finalize_def split: option.splits if_splits)
    next
      case True
      then obtain agreed where a: "n_agreed n = Some agreed" by blast
      show ?thesis
      proof (cases "ResolveMatchingAcceptedQuote r c agreed (n_network n)")
        case (Inl x)
        then show ?thesis
          using assms guards live True a
          by (auto simp: Finalize_def ended_state_def split: if_splits option.splits prod.splits)
      next
        case (Inr q)
        obtain e1 n1 env1 where p: "persist (fst w) (n\<lparr>n_commitment := c, n_quote := Some q,
            n_state := StateFinalized\<rparr>) env = (e1, n1, env1)"
          by (metis prod_cases3)
        have b: "n_budget n1"
          using arg_cong [OF persist_keeps(1) [OF p], of n_budget] guards by simp
        have F: "Finalize r c now w n env =
            refuse (if n_needsApproval n then approvalStands n else None) n env
            (case PermitsCommit (n_Mandate n) (q_Terms q) now of
               Inl e \<Rightarrow> (case settle StateRejected ''the finalized quote falls outside the mandate'' w n env of
                   (Some e', n', env') \<Rightarrow> (Some e', n', env')
                 | (None, n', env') \<Rightarrow> (Some e, n', env'))
             | Inr _ \<Rightarrow> (case e1 of Some e \<Rightarrow> (Some e, n1, env1) | None \<Rightarrow> env_Commit (snd w) n1 env1))"
          using guards live True a Inr p b
          by (cases "PermitsCommit (n_Mandate n) (q_Terms q) now"; cases e1; cases r) (simp_all add: Finalize_def)
        show ?thesis
        proof (cases "PermitsCommit (n_Mandate n) (q_Terms q) now")
          case (Inl x)
          obtain e2 n2 env2 where S: "settle StateRejected ''the finalized quote falls outside the mandate'' w n env
              = (e2, n2, env2)" by (metis prod_cases3)
          have "refuse (if n_needsApproval n then approvalStands n else None) n env
              (Some (case e2 of Some e' \<Rightarrow> e' | None \<Rightarrow> x), n2, env2) = (e, n', env')"
            using assms F Inl S by (cases e2) simp_all
          then have "(e \<noteq> None \<and> n' = n \<and> env' = env) \<or> (e \<noteq> None \<and> n' = n2 \<and> env' = env2)"
            unfolding refuse_eq by (auto split: option.splits)
          moreover have "ended_state StateRejected" by (simp add: ended_state_def)
          ultimately show ?thesis
            using S guards by blast
        next
          case P: (Inr need)
          show ?thesis
          proof (cases "n_needsApproval n \<longrightarrow> approvalStands n = None")
            case False
            then show ?thesis using assms F P by (auto simp: refuse_eq split: option.splits)
          next
            case appr: True
            then have "(case e1 of Some e \<Rightarrow> (Some e, n1, env1) | None \<Rightarrow> env_Commit (snd w) n1 env1) = (e, n', env')"
              using assms F P by (cases "n_needsApproval n") simp_all
            then have "n1 = n'" and "(e1 = e \<and> e \<noteq> None \<and> env1 = env') \<or>
                (e1 = None \<and> env_Commit (snd w) n1 env1 = (e, n', env'))"
              by (cases e1; auto dest: env_Commit_keeps)+
            with guards live a Inr P p appr show ?thesis by blast
          qed
        qed
      qed
    qed
  qed
qed

lemma persist_fields:
  assumes "persist w n env = (e, n', env')"
  shows "n_ID n' = n_ID n" "n_Mandate n' = n_Mandate n" "n_state n' = n_state n"
    "n_generation n' = n_generation n" "n_counteroffers n' = n_counteroffers n" "n_onTable n' = n_onTable n"
    "n_agreed n' = n_agreed n" "n_needsApproval n' = n_needsApproval n" "n_network n' = n_network n"
    "n_approval n' = n_approval n" "n_commitment n' = n_commitment n" "n_quote n' = n_quote n"
    "n_budget n' = n_budget n" "n_CounterpartyAgentID n' = n_CounterpartyAgentID n"
  by (cases rule: persist_cases [OF assms]; simp)+

lemma settle_fields:
  assumes "settle st r w n env = (e, n', env')"
  shows "n_ID n' = n_ID n" "n_Mandate n' = n_Mandate n" "n_state n' = st"
    "n_generation n' = n_generation n" "n_onTable n' = None"
    "n_agreed n' = n_agreed n" "n_network n' = n_network n" "n_approval n' = n_approval n"
    "n_commitment n' = n_commitment n" "n_quote n' = n_quote n" "n_budget n' = n_budget n"
proof -
  obtain e1 env1 where p: "persist (fst w) (neg_end st r n) env = (e1, n', env1)"
    using settle_effect [OF assms] by blast
  show "n_ID n' = n_ID n" "n_Mandate n' = n_Mandate n" "n_state n' = st"
    "n_generation n' = n_generation n" "n_onTable n' = None"
    "n_agreed n' = n_agreed n" "n_network n' = n_network n" "n_approval n' = n_approval n"
    "n_commitment n' = n_commitment n" "n_quote n' = n_quote n" "n_budget n' = n_budget n"
    by (simp_all add: persist_fields [OF p] neg_end_def)
qed

text \<open>The shape of every operation: refused, ended, or one move written down.\<close>

lemma run_nop_cases:
  assumes "run_nop op now w n env = (e, n', env')"
  obtains (refused) "n' = n" "env' = env"
    | (unreserved) t where "n' = n" "e \<noteq> None" "op = OpAccept" "neg_open n now = None" "n_onTable n = Some t"
        "n_budget n" "env_Reserve (snd w) (t_Price t) n env = (e, env')"
    | (ended) st r e1 where "ended_state st" "\<not> neg_settled n" "settle st r w n env = (e1, n', env')"
    | (received) t where "op = OpReceive t" "neg_open n now = None" "Terms_Validate t = None"
        "bindsCounterparty n t = None" "bindsNetwork n t = None"
        "persist (fst w) (n\<lparr>n_onTable := Some t, n_state := StateProposalPending\<rparr>) env = (e, n', env')"
    | (countered) t where "op = OpCounter t" "neg_open n now = None"
        "n_counteroffers n < md_MaxCounteroffers (n_Mandate n)"
        "\<exists>need. Permits (n_Mandate n) t now = Inr need" "bindsCounterparty n t = None" "bindsNetwork n t = None"
        "persist (fst w) (n\<lparr>n_onTable := Some t, n_counteroffers := n_counteroffers n + 1,
           n_state := StateCounterproposalPending\<rparr>) env = (e, n', env')"
    | (accepted) t need env1 where "op = OpAccept" "neg_open n now = None" "n_onTable n = Some t"
        "Permits (n_Mandate n) t now = Inr need"
        "if n_budget n then env_Reserve (snd w) (t_Price t) n env = (None, env1) else env1 = env"
        "persist (fst w) (n\<lparr>n_agreed := Some t, n_needsApproval := need, n_state := StateIntentAgreed\<rparr>) env1
           = (e, n', env')"
    | (reopened) r e1 env1 where "op = OpReopen r" "n_state n = StateIntentAgreed"
        "persist (fst w) (n\<lparr>n_agreed := None, n_needsApproval := False, n_approval := None,
               n_generation := n_generation n + 1, n_state := StateDiscussing\<rparr>) env = (e1, n', env1)"
        "(e1 = e \<and> env1 = env' \<and> (e = None \<longrightarrow> \<not> n_budget n')) \<or>
         (e1 = None \<and> n_budget n' \<and> env_Release (snd w) n' env1 = (e, n', env'))"
    | (approved) d t md where "op = OpApprove d" "n_state n = StateIntentAgreed" "n_needsApproval n"
        "n_agreed n = Some t" "Terms_Digest t = Inr d" "Mandate_Digest (n_Mandate n) = Inr md"
        "persist (fst w) (n\<lparr>n_approval := Some \<lparr>ap_TermsDigest = d, ap_Generation = n_generation n,
           ap_MandateDigest = md, ap_AtUnix = unix now\<rparr>\<rparr>) env = (e, n', env')"
    | (canonicalising) "op = OpBegin" "\<not> n_poisoned n" "n_state n = StateIntentAgreed"
        "md_Authority (n_Mandate n) = AuthorityCommit" "n_budget n" "n_needsApproval n \<longrightarrow> approvalStands n = None"
        "persist (fst w) (n\<lparr>n_state := StateCanonicalizationPending\<rparr>) env = (e, n', env')"
    | (finalized) r c agreed q need e1 env1 where "op = OpFinalize r c" "\<not> n_poisoned n"
        "n_state n = StateCanonicalizationPending" "md_Authority (n_Mandate n) = AuthorityCommit" "n_budget n"
        "Live (n_Mandate n) now = None" "n_agreed n = Some agreed"
        "ResolveMatchingAcceptedQuote r c agreed (n_network n) = Inr q"
        "n_needsApproval n \<longrightarrow> approvalStands n = None"
        "PermitsCommit (n_Mandate n) (q_Terms q) now = Inr need"
        "persist (fst w) (n\<lparr>n_commitment := c, n_quote := Some q, n_state := StateFinalized\<rparr>) env = (e1, n', env1)"
        "(e1 = e \<and> e \<noteq> None \<and> env1 = env') \<or> (e1 = None \<and> env_Commit (snd w) n' env1 = (e, n', env'))"
proof (cases op)
  case (OpReceive t)
  then show thesis using ReceiveProposal_effect [of t now w n env e n' env'] assms
    by (auto intro: refused received)
next
  case (OpCounter t)
  have "ended_state StateWithdrawn" by (simp add: ended_state_def)
  with OpCounter show thesis using Counter_effect [of t now w n env e n' env'] assms
    by (auto simp: neg_open_None intro: refused ended countered)
next
  case OpAccept
  then show thesis using AcceptIntent_effect [of now w n env e n' env'] assms
    by (auto intro: refused unreserved accepted)
next
  case (OpReopen r)
  then show thesis using Reopen_effect [of r now w n env e n' env'] assms
    by (metis refused reopened run_nop.simps(4))
next
  case (OpReject r)
  have "ended_state StateRejected" by (simp add: ended_state_def)
  with OpReject assms show thesis
    by (auto simp: RejectIntent_def intro: refused ended split: if_splits)
next
  case (OpWithdraw r)
  have "ended_state StateWithdrawn" by (simp add: ended_state_def)
  with OpWithdraw assms show thesis
    by (auto simp: Withdraw_def intro: refused ended split: if_splits)
next
  case (OpApprove d)
  then show thesis using ApproveByOwner_effect [of d now w n env e n' env'] assms
    by (auto intro: refused approved)
next
  case (OpDeny r)
  have "ended_state StateRejected" by (simp add: ended_state_def)
  with OpDeny assms show thesis
    by (auto simp: DenyByOwner_def neg_settled_def intro: refused ended split: if_splits)
next
  case OpBegin
  then show thesis using BeginCanonicalization_effect [of now w n env e n' env'] assms
    by (auto intro: refused canonicalising)
next
  case OpExpire
  have "ended_state StateExpired" by (simp add: ended_state_def)
  with OpExpire show thesis using Expire_effect [of now w n env e n' env'] assms
    by (auto intro: refused ended)
next
  case (OpFinalize r c)
  have "\<not> neg_settled n" if "n_state n = StateCanonicalizationPending"
    using that by (simp add: neg_settled_def)
  moreover have "Finalize r c now w n env = (e, n', env')" using assms OpFinalize by simp
  note Finalize_effect [OF this]
  ultimately show thesis
    using refused ended finalized [OF OpFinalize] by blast
qed

subsection \<open>A life of a negotiation\<close>

lemma holding_not_open: "holding st \<Longrightarrow> \<not> open_state st"
  by (auto simp: holding_def open_state_def)

lemma ended_facts: "ended_state st \<Longrightarrow> st \<in> set states \<and> \<not> open_state st \<and> \<not> holding st \<and> st \<noteq> StateFinalized"
  by (auto simp: ended_state_def states_def open_state_def holding_def)

lemma states_mem [simp]:
  "StateDiscussing \<in> set states" "StateProposalPending \<in> set states"
  "StateCounterproposalPending \<in> set states" "StateIntentAgreed \<in> set states"
  "StateCanonicalizationPending \<in> set states" "StateFinalized \<in> set states"
  by (simp_all add: states_def)

lemma open_state_simps [simp]:
  "open_state StateDiscussing" "open_state StateProposalPending" "open_state StateCounterproposalPending"
  "\<not> open_state StateIntentAgreed" "\<not> open_state StateCanonicalizationPending" "\<not> open_state StateFinalized"
  by (simp_all add: open_state_def)

lemma holding_simps [simp]:
  "holding StateIntentAgreed" "holding StateCanonicalizationPending" "\<not> holding StateDiscussing"
  "\<not> holding StateProposalPending" "\<not> holding StateCounterproposalPending" "\<not> holding StateFinalized"
  by (simp_all add: holding_def)

lemma approval_inv_step:
  assumes "approval_inv n" and "run_nop op now w n env = (e, n', env')"
  shows "approval_inv n'"
  using assms(2)
proof (cases rule: run_nop_cases)
  case (ended st r e1)
  note F = settle_fields [OF ended(3)]
  show ?thesis
    using assms(1) ended_facts [OF ended(1)] by (auto simp: approval_inv_def approval_bound_def F)
next
  case (received t)
  note F = persist_fields [OF received(6)]
  have "open_state (n_state n)" using received(2) assms(1) by (auto simp: neg_open_None approval_inv_def intro: open_stateI)
  with assms(1) show ?thesis by (auto simp: approval_inv_def F)
next
  case (countered t)
  note F = persist_fields [OF countered(7)]
  have "open_state (n_state n)" using countered(2) assms(1) by (auto simp: neg_open_None approval_inv_def intro: open_stateI)
  with assms(1) show ?thesis by (auto simp: approval_inv_def F)
next
  case (accepted t need env1)
  note F = persist_fields [OF accepted(6)]
  have "open_state (n_state n)" using accepted(2) assms(1) by (auto simp: neg_open_None approval_inv_def intro: open_stateI)
  with assms(1) show ?thesis by (auto simp: approval_inv_def F)
next
  case (reopened r e1 env1)
  show ?thesis by (simp add: approval_inv_def persist_fields [OF reopened(3)])
next
  case (approved d t md)
  show ?thesis
    using approved by (auto simp: approval_inv_def approval_bound_def persist_fields [OF approved(7)])
next
  case canonicalising
  show ?thesis
    using assms(1) canonicalising(3) by (auto simp: approval_inv_def approval_bound_def persist_fields [OF canonicalising(7)])
next
  case (finalized r c agreed q need e1 env1)
  show ?thesis
    using assms(1) finalized(3) by (auto simp: approval_inv_def approval_bound_def persist_fields [OF finalized(11)])
qed (use assms(1) in simp_all)

interpretation neg_life: invariant_system neg_step approval_inv
  by unfold_locales (auto simp: neg_step_def intro: approval_inv_step)

lemma neg_New_cases:
  assumes "neg_New nid conv cp md nw bud st now w env = (r, env')"
  obtains (refused) e where "r = Inl e" "env' = env"
    | (tried) e n where "persist w (new_instance nid conv cp md nw bud) env = (e, n, env')"
      "r = (case e of Some x \<Rightarrow> Inl x | None \<Rightarrow> Inr n)" "Live md now = None"
      "validateNetworkDomain nw = None"
      "NetworkFromDomain nw = Inr (as_Network (m_Asset (md_MaxTotal md)))"
      "md_Authority md = AuthorityCommit \<longrightarrow> bud"
proof (cases "ids_Conversation conv \<and> ids_Agent cp \<and> nid \<noteq> '''' \<and> length nid \<le> 128 \<and>
    validateNetworkDomain nw = None \<and> Live md now = None \<and>
    NetworkFromDomain nw = Inr (as_Network (m_Asset (md_MaxTotal md))) \<and>
    (md_Authority md = AuthorityCommit \<longrightarrow> bud) \<and> st")
  case True
  obtain e n env1 where p: "persist w (new_instance nid conv cp md nw bud) env = (e, n, env1)"
    by (metis prod_cases3)
  have "neg_New nid conv cp md nw bud st now w env =
      (case e of Some x \<Rightarrow> (Inl x, env1) | None \<Rightarrow> (Inr n, env1))"
    using True p by (auto simp: neg_New_def Network_Same_eq split: option.splits)
  then show thesis
    using assms p True by (intro tried [of e n]) (auto split: option.splits)
next
  case False
  have "\<exists>e. r = Inl e \<and> env' = env"
  proof (cases "NetworkFromDomain nw")
    case (Inl e)
    then show ?thesis
      using assms by (auto simp: neg_New_def split: if_splits option.splits)
  next
    case (Inr bound)
    then show ?thesis
      using assms False by (auto simp: neg_New_def Network_Same_eq split: if_splits option.splits)
  qed
  then show thesis using refused by blast
qed

lemma new_instance_facts [simp]:
  "n_ID (new_instance nid conv cp md nw bud) = nid"
  "n_state (new_instance nid conv cp md nw bud) = StateDiscussing"
  "n_approval (new_instance nid conv cp md nw bud) = None"
  "n_agreed (new_instance nid conv cp md nw bud) = None"
  "n_Mandate (new_instance nid conv cp md nw bud) = md"
  "n_network (new_instance nid conv cp md nw bud) = nw"
  "n_budget (new_instance nid conv cp md nw bud) = bud"
  "n_poisoned (new_instance nid conv cp md nw bud) = False"
  by (simp_all add: new_instance_def)

lemma neg_New_approval: "neg_New nid conv cp md nw bud st now w env = (Inr n, env') \<Longrightarrow> approval_inv n"
  by (erule neg_New_cases) (auto simp: approval_inv_def persist_fields split: option.splits)

subsection \<open>The examples\<close>

lemma ex_path_eq: "neg_path ''n1'' = Inr ex_path"
  by (simp add: neg_path_def ex_path_def negotiationNamePattern_def byte_val_def)

lemma Snapshot_Validate_None:
  "Snapshot_Validate s = None \<longleftrightarrow> s_Schema s = SnapshotSchema \<and> s_ID s \<noteq> '''' \<and> length (s_ID s) \<le> 128 \<and>
     s_State s \<in> set states \<and> s_MandateDigest s \<noteq> '''' \<and> validateNetworkDomain (s_Network s) = None \<and>
     (\<exists>bound. NetworkFromDomain (s_Network s) = Inr bound \<and>
       snapshot_terms_check bound (s_OnTable s) = None \<and> snapshot_terms_check bound (s_Agreed s) = None \<and>
       (\<forall>a. s_Approval s = Some a \<longrightarrow> ap_Generation a \<le> s_Generation s) \<and>
       (s_State s = StateFinalized \<longrightarrow> snapshot_final_check bound s = None))"
  by (auto simp: Snapshot_Validate_def not_less split: option.splits sum.splits)

lemma ex_persist:
  assumes "ex_like n" and "length (e_snaps env) < 512"
  shows "\<exists>s. take_Snapshot n = Inr s \<and>
    persist Synced n env = (None, n, env\<lparr>e_snaps := AList.update ex_path s (e_snaps env)\<rparr>)"
proof -
  obtain d where d: "Mandate_Digest ex_mandate = Inr d"
    using Mandate_Digest_ok [of ex_mandate] by auto
  then have "d \<noteq> ''''" by (auto simp: Mandate_Digest_def bindE_eq_Inr Digest_def)
  obtain s where s: "take_Snapshot n = Inr s"
    using assms(1) d by (auto simp: take_Snapshot_def ex_like_def)
  have t: "snapshot_terms_check (as_Network ex_asset) (Some (ex_terms 60 900)) = None"
    by (simp add: snapshot_terms_check_def Network_Same_eq)
  have n: "snapshot_terms_check (as_Network ex_asset) None = None"
    by (simp add: snapshot_terms_check_def)
  have q: "Quote_Validate (ex_quote ex_digest (ex_terms 60 900)) = None"
    by simp
  have s': "s_Schema s = SnapshotSchema" "s_ID s = n_ID n" "s_State s = n_state n" "s_MandateDigest s = d"
    "s_Network s = n_network n" "s_OnTable s = n_onTable n" "s_Agreed s = n_agreed n"
    "s_Approval s = n_approval n" "s_Generation s = n_generation n" "s_Commitment s = n_commitment n"
    "s_Quote s = n_quote n"
    using s d assms(1) by (auto simp: take_Snapshot_def ex_like_def)
  have "snapshot_final_check (as_Network ex_asset) s = None" if "n_state n = StateFinalized"
    using that assms(1) q by (simp add: snapshot_final_check_def s' ex_like_def)
      (simp add: ex_quote_def ex_digest_def Network_Same_eq)
  moreover have "snapshot_terms_check (as_Network ex_asset) (n_onTable n) = None"
    "snapshot_terms_check (as_Network ex_asset) (n_agreed n) = None"
    using assms(1) t n by (auto simp: ex_like_def)
  moreover have "\<forall>a. n_approval n = Some a \<longrightarrow> ap_Generation a \<le> n_generation n"
    using assms(1) by (auto simp: ex_like_def)
  ultimately have "Snapshot_Validate s = None"
    using assms(1) \<open>d \<noteq> ''''\<close> by (simp add: Snapshot_Validate_None s' ex_like_def)
  moreover have "s_ID s = ''n1''"
    using s assms(1) by (auto simp: take_Snapshot_def bindE_eq_Inr ex_like_def)
  moreover have "neg_count (e_snaps env) < MaxNegotiations"
  proof -
    have "neg_count (e_snaps env) \<le> length (neg_all (e_snaps env))"
      by (simp add: neg_count_def)
    also have "\<dots> \<le> length (map snd (e_snaps env))"
      unfolding neg_all_def length_sort by (rule length_filter_le)
    finally show ?thesis using assms(2) by (simp add: MaxNegotiations_def)
  qed
  ultimately show ?thesis
    using s by (simp add: persist_def neg_Save_def ex_path_eq replace_file_def)
qed

lemma ex_live: "Live ex_mandate 10 = None"
  by (simp add: Live_None unix_def)

lemma ex_permits: "Permits ex_mandate (ex_terms 60 900) 10 = Inr True"
  by (simp add: Permits_def permits_Inr ex_live unix_def)

lemma ex_new:
  "\<exists>env. neg_New ''n1'' (''conv_'' @ ex_hash) (''agent_'' @ ex_hash) ex_mandate (Some ex_network) True True 10
     Synced ex_env = (Inr ex_neg, env) \<and> e_budget env = ex_budget \<and> length (e_snaps env) = 1"
proof -
  have "ex_like ex_neg" by (simp add: ex_like_def ex_neg_def) (simp add: new_instance_def)
  then obtain s where s: "persist Synced ex_neg ex_env = (None, ex_neg, ex_env\<lparr>e_snaps := AList.update ex_path s []\<rparr>)"
    using ex_persist [of ex_neg ex_env] by (auto simp: ex_env_def)
  then show ?thesis
    by (simp add: neg_New_def ids_defs prefixed_hex64_def ex_live Network_Same_eq ex_neg_def)
      (simp add: ex_env_def)
qed

lemmas ex_stages = ex_final_def ex_pending_def ex_approved_def ex_agreed_def ex_offered_def ex_neg_def

lemma ex_stage_like: "ex_like ex_offered" "ex_like ex_agreed" "ex_like ex_approved" "ex_like ex_pending" "ex_like ex_final"
  by (simp_all add: ex_like_def ex_stages new_instance_def ex_approval_def)

lemma ex_digests:
  "Terms_Digest (ex_terms 60 900) = Inr (ap_TermsDigest ex_approval)"
  "Mandate_Digest ex_mandate = Inr (ap_MandateDigest ex_approval)"
  using Terms_Digest_ok [of "ex_terms 60 900"] Mandate_Digest_ok [of ex_mandate]
  by (auto simp: ex_approval_def)

lemma ex_receive:
  assumes "length (e_snaps env) < 512"
  shows "\<exists>env'. ReceiveProposal (ex_terms 60 900) 10 (Synced, Synced) ex_neg env = (None, ex_offered, env') \<and>
    e_budget env' = e_budget env \<and> e_ledger env' = e_ledger env \<and>
    length (e_snaps env') \<le> Suc (length (e_snaps env))"
proof -
  obtain s where s: "persist Synced ex_offered env =
      (None, ex_offered, env\<lparr>e_snaps := AList.update ex_path s (e_snaps env)\<rparr>)"
    using ex_persist [OF ex_stage_like(1) assms] by blast
  have "neg_open ex_neg 10 = None" "bindsCounterparty ex_neg (ex_terms 60 900) = None"
    "bindsNetwork ex_neg (ex_terms 60 900) = None"
    by (simp_all add: neg_open_None ex_neg_def neg_settled_def ex_live bindsCounterparty_def
        bindsNetwork_def Network_Same_eq) (simp add: new_instance_def)
  then show ?thesis
    using s by (simp add: ReceiveProposal_def ex_offered_def [symmetric] length_update)
qed

lemma ex_held_ok: "budget_ok (ex_budget\<lparr>b_reserved := [(''n1'', ex_money 60)]\<rparr>)"
  by (rule Reserve_cases [OF ex_reserve ok_shape [OF ex_budget_ok]]) auto

lemma ex_accept:
  assumes "length (e_snaps env) < 512" and "e_budget env = ex_budget"
  shows "\<exists>env'. AcceptIntent 10 (Synced, Synced) ex_offered env = (None, ex_agreed, env') \<and>
    Reserved (e_budget env') ''n1'' = Some (ex_money 60) \<and> budget_ok (e_budget env') \<and>
    length (e_snaps env') \<le> Suc (length (e_snaps env))"
proof -
  let ?b = "ex_budget\<lparr>b_reserved := [(''n1'', ex_money 60)]\<rparr>"
  let ?env = "env\<lparr>e_budget := ?b, e_ledger := AList.update (ledger_path ex_ledger) (record_of ?b) (e_ledger env)\<rparr>"
  obtain s where s: "persist Synced ex_agreed ?env =
      (None, ex_agreed, ?env\<lparr>e_snaps := AList.update ex_path s (e_snaps env)\<rparr>)"
    using ex_persist [OF ex_stage_like(2), of ?env] assms(1) by auto
  note ex_held_ok
  moreover have "neg_open ex_offered 10 = None" "\<not> n_poisoned ex_offered" "n_onTable ex_offered = Some (ex_terms 60 900)"
    "n_Mandate ex_offered = ex_mandate" "n_budget ex_offered" "n_ID ex_offered = ''n1''"
    by (simp_all add: ex_stages neg_open_None neg_settled_def ex_live)
  ultimately show ?thesis
    using s assms(2)
    by (simp add: AcceptIntent_def ex_permits env_Reserve_def ex_reserve ex_agreed_def [symmetric]
        length_update Reserved_def)
qed

lemma ex_approve:
  assumes "length (e_snaps env) < 512"
  shows "\<exists>env'. ApproveByOwner (ap_TermsDigest ex_approval) 10 (Synced, Synced) ex_agreed env = (None, ex_approved, env') \<and>
    e_budget env' = e_budget env \<and> e_ledger env' = e_ledger env \<and>
    length (e_snaps env') \<le> Suc (length (e_snaps env))"
proof -
  obtain s where s: "persist Synced ex_approved env =
      (None, ex_approved, env\<lparr>e_snaps := AList.update ex_path s (e_snaps env)\<rparr>)"
    using ex_persist [OF ex_stage_like(3) assms] by blast
  have "n_state ex_agreed = StateIntentAgreed" "n_needsApproval ex_agreed" "n_agreed ex_agreed = Some (ex_terms 60 900)"
    "n_Mandate ex_agreed = ex_mandate"
    by (simp_all add: ex_stages)
  moreover have "\<lparr>ap_TermsDigest = ap_TermsDigest ex_approval, ap_Generation = n_generation ex_agreed,
      ap_MandateDigest = ap_MandateDigest ex_approval, ap_AtUnix = unix 10\<rparr> = ex_approval"
    by (simp add: ex_approval_def ex_stages new_instance_def unix_def)
  ultimately show ?thesis
    using s by (simp add: ApproveByOwner_def ex_live ex_digests ex_approved_def [symmetric] length_update)
qed

lemma ex_stands: "approvalStands ex_approved = None" "approvalStands ex_pending = None"
  by (simp_all add: approvalStands_def ex_stages ex_digests) (simp_all add: new_instance_def ex_approval_def)

lemma ex_begin:
  assumes "length (e_snaps env) < 512"
  shows "\<exists>env'. BeginCanonicalization 10 (Synced, Synced) ex_approved env = (None, ex_pending, env') \<and>
    e_budget env' = e_budget env \<and> e_ledger env' = e_ledger env \<and>
    length (e_snaps env') \<le> Suc (length (e_snaps env))"
proof -
  obtain s where s: "persist Synced ex_pending env =
      (None, ex_pending, env\<lparr>e_snaps := AList.update ex_path s (e_snaps env)\<rparr>)"
    using ex_persist [OF ex_stage_like(4) assms] by blast
  have "n_state ex_approved = StateIntentAgreed" "\<not> n_poisoned ex_approved" "n_budget ex_approved"
    "n_Mandate ex_approved = ex_mandate"
    by (simp_all add: ex_stages)
  then show ?thesis
    using s by (simp add: BeginCanonicalization_def ex_live ex_stands ex_pending_def [symmetric] length_update)
qed

lemma ex_resolved:
  "ResolveMatchingAcceptedQuote (Some ex_resolver) ex_digest (ex_terms 60 900) (Some ex_network) =
     Inr (ex_quote ex_digest (ex_terms 60 900))"
  by (simp add: ResolveMatchingAcceptedQuote_Inr ex_resolver_def) (simp add: ex_quote_def)

lemma ex_commit:
  assumes "Reserved b ''n1'' = Some (ex_money 60)" and "b_spent b = Money_Zero (ex_money 100)"
    and "b_total b = ex_money 100" and "budget_ok b" and "b_ledger b = ex_ledger"
  shows "\<exists>b' f'. Commit ''n1'' Synced b f = (None, b', f')"
proof -
  let ?b = "b\<lparr>b_spent := ex_money 60, b_reserved := AList.delete ''n1'' (b_reserved b)\<rparr>"
  have "budget_ok ?b"
    using assms by (intro ok_spend [where m = "ex_money 60"]) (auto simp: Reserved_def money_of_def ex_ledger_def)
  moreover have "Money_Add (Money_Zero (ex_money 100)) (ex_money 60) = Inr (ex_money 60)"
    by (simp add: Money_Add_Inr Money_Zero_valid)
  moreover have "AtMost (ex_money 60) (ex_money 100) = Inr True"
    by (simp add: AtMost_Inr)
  ultimately show ?thesis
    using assms by (simp add: Commit_def Reserved_def Let_def budget_record_eq [OF ok_shape] replace_file_def)
qed

lemma ex_finalize:
  assumes "length (e_snaps env) < 512" and "Reserved (e_budget env) ''n1'' = Some (ex_money 60)"
    and "b_spent (e_budget env) = Money_Zero (ex_money 100)" and "b_total (e_budget env) = ex_money 100"
    and "budget_ok (e_budget env)" and "b_ledger (e_budget env) = ex_ledger"
  shows "\<exists>env'. Finalize (Some ex_resolver) ex_digest 10 (Synced, Synced) ex_pending env = (None, ex_final, env')"
proof -
  obtain s where s: "persist Synced ex_final env =
      (None, ex_final, env\<lparr>e_snaps := AList.update ex_path s (e_snaps env)\<rparr>)"
    using ex_persist [OF ex_stage_like(5) assms(1)] by blast
  obtain b' f' where c: "Commit ''n1'' Synced (e_budget env) (e_ledger env) = (None, b', f')"
    using ex_commit [OF assms(2-6)] by blast
  have "n_state ex_pending = StateCanonicalizationPending" "\<not> n_poisoned ex_pending" "n_budget ex_pending"
    "n_Mandate ex_pending = ex_mandate" "n_agreed ex_pending = Some (ex_terms 60 900)"
    "n_network ex_pending = Some ex_network" "n_ID ex_final = ''n1''" "n_budget ex_final"
    by (simp_all add: ex_stages)
  moreover have "PermitsCommit ex_mandate (q_Terms (ex_quote ex_digest (ex_terms 60 900))) 10 = Inr True"
    by (simp add: PermitsCommit_def permits_Inr ex_live unix_def ex_quote_def)
  ultimately show ?thesis
    using s c by (simp add: Finalize_def ex_live ex_resolved ex_stands ex_final_def [symmetric] env_Commit_def)
qed

section \<open>Properties\<close>

text \<open>
  C9. The owner's approval always describes what is agreed. Start a negotiation and
  perform any operations on it, whatever the budget, the store and the durable writes do:
  if it carries an approval, there are agreed terms, the approval names their digest, it was
  given at the current generation, and it names the digest of the mandate in force.
\<close>

theorem approval_describes_agreement:
  assumes "neg_New nid conv cp md nw bud st now w env = (Inr n0, env')" and "neg_step\<^sup>*\<^sup>* n0 n"
    and "n_approval n = Some a"
  shows "approval_bound n a"
  using neg_life.steps_inv [OF assms(2) neg_New_approval [OF assms(1)]] assms(3)
  by (simp add: approval_inv_def)

theorem approval_describes_agreement_witness:
  "neg_step\<^sup>*\<^sup>* ex_neg ex_approved \<and> n_approval ex_approved = Some ex_approval \<and>
   approval_bound ex_approved ex_approval"
proof -
  obtain env0 where e0: "neg_New ''n1'' (''conv_'' @ ex_hash) (''agent_'' @ ex_hash) ex_mandate (Some ex_network)
      True True 10 Synced ex_env = (Inr ex_neg, env0)" "e_budget env0 = ex_budget" "length (e_snaps env0) = 1"
    using ex_new by blast
  obtain env1 where e1: "ReceiveProposal (ex_terms 60 900) 10 (Synced, Synced) ex_neg env0 = (None, ex_offered, env1)"
      "e_budget env1 = ex_budget" "length (e_snaps env1) \<le> 2"
    using ex_receive [of env0] e0 by auto
  obtain env2 where e2: "AcceptIntent 10 (Synced, Synced) ex_offered env1 = (None, ex_agreed, env2)"
      "length (e_snaps env2) \<le> 3"
    using ex_accept [of env1] e1 by auto
  obtain env3 where e3: "ApproveByOwner (ap_TermsDigest ex_approval) 10 (Synced, Synced) ex_agreed env2 =
      (None, ex_approved, env3)"
    using ex_approve [of env2] e2 by auto
  have "neg_step ex_neg ex_offered" "neg_step ex_offered ex_agreed" "neg_step ex_agreed ex_approved"
    unfolding neg_step_def using e1(1) e2(1) e3
    by (metis run_nop.simps(1), metis run_nop.simps(3), metis run_nop.simps(7))
  then have r: "neg_step\<^sup>*\<^sup>* ex_neg ex_approved" by auto
  moreover have a: "n_approval ex_approved = Some ex_approval" by (simp add: ex_approved_def)
  ultimately show ?thesis
    using approval_describes_agreement [OF e0(1) r a] by blast
qed

text \<open>
  C17. The moves of a negotiation are those of its state machine: an operation leaves the
  state alone or makes one of the allowed moves, so nothing is finalized but from
  canonicalisation and nothing is canonicalised but from agreement; and an exchange that has
  ended is left exactly as it is, its budget hold and its record included.
\<close>

theorem negotiation_moves:
  assumes "run_nop op now w n env = (e, n', env')" and "n_state n \<in> set states"
  shows "(n_state n' = n_state n \<or> allowed_move (n_state n) (n_state n')) \<and>
    (neg_settled n \<longrightarrow> n' = n \<and> env' = env)"
  using assms(1)
proof (cases rule: run_nop_cases)
  case (ended st r e1)
  then have "allowed_move (n_state n) st"
    using assms(2) open_stateI [of n] by (auto simp: allowed_move_def holding_def)
  then show ?thesis using ended by (simp add: settle_fields [OF ended(3)])
next
  case (received t)
  then show ?thesis using assms(2) open_stateI [of n]
    by (auto simp: neg_open_None allowed_move_def persist_fields [OF received(6)])
next
  case (countered t)
  then show ?thesis using assms(2) open_stateI [of n]
    by (auto simp: neg_open_None allowed_move_def persist_fields [OF countered(7)])
next
  case (accepted t need env1)
  then show ?thesis using assms(2) open_stateI [of n]
    by (auto simp: neg_open_None allowed_move_def persist_fields [OF accepted(6)])
next
  case (reopened r e1 env1)
  then show ?thesis by (auto simp: neg_settled_def allowed_move_def persist_fields [OF reopened(3)])
next
  case (approved d t md)
  then show ?thesis by (auto simp: neg_settled_def allowed_move_def persist_fields [OF approved(7)])
next
  case canonicalising
  then show ?thesis by (auto simp: neg_settled_def allowed_move_def persist_fields [OF canonicalising(7)])
next
  case (finalized r c agreed q need e1 env1)
  then show ?thesis by (auto simp: neg_settled_def allowed_move_def persist_fields [OF finalized(11)])
next
  case (unreserved t)
  then show ?thesis by (auto simp: neg_open_None)
qed simp

theorem negotiation_moves_witness:
  "\<exists>env'. run_nop OpBegin 10 (Synced, Synced) ex_approved ex_env = (None, ex_pending, env') \<and>
     allowed_move (n_state ex_approved) (n_state ex_pending)"
proof -
  obtain env' where r: "run_nop OpBegin 10 (Synced, Synced) ex_approved ex_env = (None, ex_pending, env')"
    using ex_begin [of ex_env] by (auto simp: ex_env_def)
  have "n_state ex_approved \<in> set states" "n_state ex_pending \<noteq> n_state ex_approved"
    by (simp_all add: ex_stages)
  with negotiation_moves [OF r] r show ?thesis by auto
qed

text \<open>
  C18. Terms freeze at agreement: while a negotiation stands agreed or is being
  canonicalised, no operation changes the agreed terms except an explicit reopening, and that
  one drops them together with the owner's approval and moves the generation on.
\<close>

theorem agreed_terms_frozen:
  assumes "run_nop op now w n env = (e, n', env')" and "holding (n_state n)"
  shows "n_agreed n' = n_agreed n \<or>
    (n_agreed n' = None \<and> n_approval n' = None \<and> n_generation n' = n_generation n + 1 \<and>
     n_state n = StateIntentAgreed \<and> n_state n' = StateDiscussing \<and> (\<exists>r. op = OpReopen r))"
  using assms(1)
proof (cases rule: run_nop_cases)
  case (ended st r e1)
  then show ?thesis by (simp add: settle_fields [OF ended(3)])
next
  case (received t)
  then show ?thesis using assms(2) by (simp add: neg_open_None)
next
  case (countered t)
  then show ?thesis using assms(2) by (simp add: neg_open_None)
next
  case (accepted t need env1)
  then show ?thesis using assms(2) by (simp add: neg_open_None)
next
  case (reopened r e1 env1)
  then show ?thesis by (simp add: persist_fields [OF reopened(3)])
next
  case (approved d t md)
  then show ?thesis by (simp add: persist_fields [OF approved(7)])
next
  case canonicalising
  then show ?thesis by (simp add: persist_fields [OF canonicalising(7)])
next
  case (finalized r c agreed q need e1 env1)
  then show ?thesis by (simp add: persist_fields [OF finalized(11)])
qed simp_all

theorem agreed_terms_frozen_witness:
  "\<exists>env'. run_nop OpBegin 10 (Synced, Synced) ex_approved ex_env = (None, ex_pending, env') \<and>
     n_agreed ex_pending = n_agreed ex_approved"
proof -
  obtain env' where r: "run_nop OpBegin 10 (Synced, Synced) ex_approved ex_env = (None, ex_pending, env')"
    using ex_begin [of ex_env] by (auto simp: ex_env_def)
  have "holding (n_state ex_approved)" "n_state ex_pending \<noteq> StateDiscussing"
    by (simp_all add: ex_stages)
  with agreed_terms_frozen [OF r] r show ?thesis by auto
qed

text \<open>
  C6. A negotiation finalizes only on the agreed purchase, and its hold becomes a spend.
  If \<open>Finalize\<close> reports success, then the exchange was being canonicalised under a mandate
  that may commit, the commitment was resolved from finalized state to a well-formed quote
  with exactly the agreed terms on exactly the network the exchange is bound to, those terms
  are inside the mandate at this moment, an approval the mandate required describes them, the
  finalized record is on disk, and the hold of this negotiation has been added to what is
  spent and is no longer held.
\<close>

theorem Finalize_sound:
  assumes "Finalize resolver c now w n env = (None, n', env')" and "budget_ok (e_budget env)"
  shows "n_state n = StateCanonicalizationPending \<and> md_Authority (n_Mandate n) = AuthorityCommit \<and>
    (\<exists>resolve agreed q need m p s. resolver = Some resolve \<and> n_agreed n = Some agreed \<and>
      resolve c = Inr (Some q) \<and> Quote_Validate q = None \<and> q_Commitment q = c \<and> q_Terms q = agreed \<and>
      q_Network q = n_network n \<and> PermitsCommit (n_Mandate n) agreed now = Inr need \<and>
      (n_needsApproval n \<longrightarrow> approvalStands n = None) \<and>
      n' = n\<lparr>n_commitment := c, n_quote := Some q, n_state := StateFinalized\<rparr> \<and>
      neg_path (n_ID n) = Inr p \<and> take_Snapshot n' = Inr s \<and> map_of (e_snaps env') p = Some s \<and>
      Reserved (e_budget env) (n_ID n) = Some m \<and> Reserved (e_budget env') (n_ID n) = None \<and>
      amount (b_spent (e_budget env')) = amount (b_spent (e_budget env)) + amount m)"
proof -
  obtain agreed q need e1 env1 where F: "n_state n = StateCanonicalizationPending"
      "md_Authority (n_Mandate n) = AuthorityCommit" "n_agreed n = Some agreed"
      "ResolveMatchingAcceptedQuote resolver c agreed (n_network n) = Inr q"
      "n_needsApproval n \<longrightarrow> approvalStands n = None"
      "PermitsCommit (n_Mandate n) (q_Terms q) now = Inr need"
      "persist (fst w) (n\<lparr>n_commitment := c, n_quote := Some q, n_state := StateFinalized\<rparr>) env = (None, n', env1)"
      "env_Commit (snd w) n' env1 = (None, n', env')"
    using Finalize_effect [OF assms(1)] by auto
  obtain s p where P: "take_Snapshot n' = Inr s" "neg_path (n_ID n) = Inr p"
      "n' = n\<lparr>n_commitment := c, n_quote := Some q, n_state := StateFinalized\<rparr>"
      "env1 = env\<lparr>e_snaps := AList.update p s (e_snaps env)\<rparr>"
    by (cases rule: persist_cases [OF F(7)]) auto
  have id: "n_ID n' = n_ID n" by (simp add: P(3))
  obtain f' where C: "Commit (n_ID n) (snd w) (e_budget env) (e_ledger env) = (None, e_budget env', f')"
      "e_snaps env' = e_snaps env1"
    using F(8) P(4) id by (auto simp: env_Commit_def split: prod.splits)
  obtain m where m: "Reserved (e_budget env) (n_ID n) = Some m" "Reserved (e_budget env') (n_ID n) = None"
      "amount (b_spent (e_budget env')) = amount (b_spent (e_budget env)) + amount m"
    by (rule Commit_cases [OF C(1) ok_shape [OF assms(2)]]) (auto simp: Reserved_def delete_conv')
  obtain resolve where R: "resolver = Some resolve" "resolve c = Inr (Some q)" "Quote_Validate q = None"
      "q_Commitment q = c" "q_Terms q = agreed" "q_Network q = n_network n"
    using F(4) unfolding ResolveMatchingAcceptedQuote_Inr by blast
  have "map_of (e_snaps env') p = Some s" by (simp add: C(2) P(4) update_conv')
  moreover have "PermitsCommit (n_Mandate n) agreed now = Inr need" using F(6) R(5) by simp
  ultimately show ?thesis
    using F(1-3,5) R P(1-3) m by blast
qed

theorem Finalize_sound_witness:
  "\<exists>n env n' env'. budget_ok (e_budget env) \<and>
     Finalize (Some ex_resolver) ex_digest 10 (Synced, Synced) n env = (None, n', env') \<and>
     Committed n' = Some ex_digest \<and> Reserved (e_budget env') (n_ID n) = None"
proof -
  have ok: "budget_ok (e_budget ex_held_env)"
    by (simp add: ex_held_env_def ex_held_ok)
  obtain env' where f: "Finalize (Some ex_resolver) ex_digest 10 (Synced, Synced) ex_pending ex_held_env = (None, ex_final, env')"
    using ex_finalize [of ex_held_env] ok by (auto simp: ex_held_env_def Reserved_def ex_budget_def)
  have "Committed ex_final = Some ex_digest"
    by (simp add: Committed_def ex_final_def ex_digest_def)
  moreover have "Reserved (e_budget env') (n_ID ex_pending) = None"
    using Finalize_sound [OF f ok] by auto
  ultimately show ?thesis
    using f ok by blast
qed

text \<open>
  C20. A negotiation survives a restart exactly, and only under the mandate it was
  authorised by. Whatever is written for it restores to the same exchange when the same
  mandate is supplied, provided that mandate is priced on the exchange's network and has a
  budget if it may commit; and a snapshot restores under no mandate whose digest differs from
  the one it names.
\<close>

theorem Restore_round_trip:
  assumes "take_Snapshot n = Inr s" and "Snapshot_Validate s = None" and "\<not> n_poisoned n"
    and "NetworkFromDomain (n_network n) = Inr (as_Network (m_Asset (md_MaxTotal (n_Mandate n))))"
    and "md_Authority (n_Mandate n) = AuthorityCommit \<longrightarrow> n_budget n"
  shows "Restore s (n_Mandate n) (n_budget n) True = Inr n \<and>
    (\<forall>md b st n1. Restore s md b st = Inr n1 \<longrightarrow> Mandate_Digest md = Mandate_Digest (n_Mandate n))"
proof -
  obtain d where d: "Mandate_Digest (n_Mandate n) = Inr d" "s_MandateDigest s = d"
    using assms(1) by (auto simp: take_Snapshot_def bindE_eq_Inr)
  have "Restore s (n_Mandate n) (n_budget n) True = Inr n"
    using assms d by (cases n) (auto simp: Restore_def take_Snapshot_def Network_Same_eq)
  moreover have "Mandate_Digest md = Mandate_Digest (n_Mandate n)" if "Restore s md b st = Inr n1" for md b st n1
    using that d by (auto simp: Restore_def res_iffs split: if_splits)
  ultimately show ?thesis by blast
qed

theorem Restore_round_trip_witness:
  "\<exists>s. take_Snapshot ex_agreed = Inr s \<and> Restore s ex_mandate True True = Inr ex_agreed"
proof -
  obtain s where s: "take_Snapshot ex_agreed = Inr s"
    "persist Synced ex_agreed ex_env = (None, ex_agreed, ex_env\<lparr>e_snaps := AList.update ex_path s (e_snaps ex_env)\<rparr>)"
    using ex_persist [OF ex_stage_like(2), of ex_env] by (auto simp: ex_env_def)
  then have v: "Snapshot_Validate s = None"
    by (auto simp: persist_def neg_Save_def split: option.splits)
  have n: "\<not> n_poisoned ex_agreed" "n_Mandate ex_agreed = ex_mandate" "n_budget ex_agreed"
    "n_network ex_agreed = Some ex_network"
    by (simp_all add: ex_stages)
  show ?thesis
    using Restore_round_trip [OF s(1) v n(1)] n s(1) by auto
qed

end
