(* ===== verification/Commerce.thy ===== *)
theory Commerce
  imports Negotiations
begin

text \<open>
  The repair that runs when the journal opens (\<open>reconcileCommerce\<close> of
  \<open>pkg/eventlog/budget.go\<close>) and the program the budget, its ledger, the negotiations and
  their store make together: created, operated, restored and dropped in any order, stopped
  by a crash at any point, and started again through the repair. Every durable write may
  end in any of its three outcomes.

  Shown here: at every moment, running or stopped, an exchange whose record says agreed or
  canonicalising has its exact price held in the ledger, so the repair never meets the case
  it has no answer for; what is spent and held never exceeds the total; and after the
  repair a hold is left exactly for each exchange that stands agreed, the price of each
  finalized exchange being spent.
\<close>

section \<open>The repair\<close>

datatype disposition = holdStands | holdReturns | holdBecomesSpend

definition holdDisposition :: "snapshot_files \<Rightarrow> string \<Rightarrow> disposition res" where
  "holdDisposition snaps negotiationID = (case neg_path negotiationID of
     Inl _ \<Rightarrow> Inr holdReturns
   | Inr path \<Rightarrow> bindE (neg_read path snaps) (\<lambda>found. case found of
       None \<Rightarrow> Inr holdReturns
     | Some snapshot \<Rightarrow>
         if s_State snapshot = StateIntentAgreed \<or> s_State snapshot = StateCanonicalizationPending
         then Inr holdStands
         else if s_State snapshot = StateFinalized then Inr holdBecomesSpend
         else Inr holdReturns))"

text \<open>The decimal text of an integer of either sign.\<close>

definition big_text :: "int \<Rightarrow> string" where
  "big_text n = (if n < 0 then ''-'' @ big_String (- n) else big_String n)"

text \<open>
  The loop over the holds of a record. A Go map may be walked in any order; each round reads
  only the hold it removes and the running spend, so the order shows in neither result.
\<close>

fun reconcile_holds ::
  "snapshot_files \<Rightarrow> (string, string) dir \<Rightarrow> BudgetRecord \<Rightarrow> bool \<Rightarrow> (BudgetRecord \<times> bool) res" where
  "reconcile_holds snaps [] r changed = Inr (r, changed)"
| "reconcile_holds snaps ((k, atomic) # rest) r changed =
     bindE (holdDisposition snaps k) (\<lambda>d. case d of
       holdStands \<Rightarrow> reconcile_holds snaps rest r changed
     | holdReturns \<Rightarrow>
         reconcile_holds snaps rest (r\<lparr>br_Reserved := AList.delete k (br_Reserved r)\<rparr>) True
     | holdBecomesSpend \<Rightarrow> (case (big_SetString (br_Spent r), big_SetString atomic) of
         (Some spent, Some held) \<Rightarrow>
           reconcile_holds snaps rest (r\<lparr>br_Spent := big_text (spent + held),
             br_Reserved := AList.delete k (br_Reserved r)\<rparr>) True
       | _ \<Rightarrow> Inl (Msg ''budget ledger holds a non-numeric amount'')))"

definition reconcileBudgetFile ::
  "snapshot_files \<Rightarrow> string \<Rightarrow> wout \<Rightarrow> budget_files \<Rightarrow> err option \<times> budget_files" where
  "reconcileBudgetFile snaps path w files = (case map_of files path of
     None \<Rightarrow> (Some (Msg ''read budget ledger''), files)
   | Some r \<Rightarrow>
       if br_Schema r \<noteq> BudgetSchema then (None, files)
       else (case reconcile_holds snaps (br_Reserved r) r False of
           Inl e \<Rightarrow> (Some e, files)
         | Inr (r', changed) \<Rightarrow> if \<not> changed then (None, files) else replace_file w path r' files))"

fun reconcile_files ::
  "snapshot_files \<Rightarrow> string list \<Rightarrow> (string \<Rightarrow> wout) \<Rightarrow> budget_files \<Rightarrow> err option \<times> budget_files" where
  "reconcile_files snaps [] w files = (None, files)"
| "reconcile_files snaps (path # paths) w files =
     (case reconcileBudgetFile snaps path (w path) files of
        (Some e, files') \<Rightarrow> (Some e, files')
      | (None, files') \<Rightarrow> reconcile_files snaps paths w files')"

text \<open>The entries of the per-asset directory, in the order of their names.\<close>

definition budget_entry :: "string \<Rightarrow> bool" where
  "budget_entry path \<longleftrightarrow> take 8 path = budgetDir @ ''/'' \<and> CHR ''/'' \<notin> set (drop 8 path) \<and>
     5 \<le> length (drop 8 path) \<and> drop (length path - 5) path = ''.json''"

definition reconcileCommerce ::
  "snapshot_files \<Rightarrow> (string \<Rightarrow> wout) \<Rightarrow> budget_files \<Rightarrow> err option \<times> budget_files" where
  "reconcileCommerce snaps w files =
     reconcile_files snaps (sort (filter budget_entry (map fst files))) w files"

section \<open>The program\<close>

text \<open>
  Running, the program has the shared budget, the files and the live negotiations, at most
  one for an identifier, all drawing on the budget; stopped, it is its files.
\<close>

datatype world =
    Running Env "Negotiation list"
  | Stopped budget_files snapshot_files

inductive commerce_step :: "BudgetLedger \<Rightarrow> Money \<Rightarrow> world \<Rightarrow> world \<Rightarrow> bool" for l tot where
  create: "neg_New nid conv cp md nw True True now w env = (Inr n, env') \<Longrightarrow> nid \<notin> n_ID ` set live \<Longrightarrow>
    commerce_step l tot (Running env live) (Running env' (n # live))"
| create_fails: "neg_New nid conv cp md nw True True now w env = (Inl e, env') \<Longrightarrow> nid \<notin> n_ID ` set live \<Longrightarrow>
    commerce_step l tot (Running env live) (Running env' live)"
| operate: "run_nop op now w n env = (e, n', env') \<Longrightarrow>
    commerce_step l tot (Running env (xs @ n # ys)) (Running env' (xs @ n' # ys))"
| restore: "neg_Load k (e_snaps env) = Inr (Some s) \<Longrightarrow> Restore s md True True = Inr n \<Longrightarrow>
    n_ID n \<notin> n_ID ` set live \<Longrightarrow> commerce_step l tot (Running env live) (Running env (n # live))"
| discard: "commerce_step l tot (Running env (xs @ n # ys)) (Running env (xs @ ys))"
| drop_record: "neg_Drop k now w (e_snaps env) = (e, snaps) \<Longrightarrow>
    commerce_step l tot (Running env live) (Running (env\<lparr>e_snaps := snaps\<rparr>) live)"
| crash: "commerce_step l tot (Running env live) (Stopped (e_ledger env) (e_snaps env))"
| repair_fails: "reconcileCommerce snaps ws files = (Some e, files') \<Longrightarrow>
    commerce_step l tot (Stopped files snaps) (Stopped files' snaps)"
| open_fails: "reconcileCommerce snaps ws files = (None, files1) \<Longrightarrow>
    OpenBudget tot (Some l) w files1 = (Inl e, files') \<Longrightarrow>
    commerce_step l tot (Stopped files snaps) (Stopped files' snaps)"
| start: "reconcileCommerce snaps ws files = (None, files1) \<Longrightarrow>
    OpenBudget tot (Some l) w files1 = (Inr b, files') \<Longrightarrow>
    commerce_step l tot (Stopped files snaps)
      (Running \<lparr>e_budget = b, e_ledger = files', e_snaps = snaps\<rparr> [])"

text \<open>The files and the budget of a moment of the program.\<close>

fun world_files :: "world \<Rightarrow> budget_files" where
  "world_files (Running env live) = e_ledger env"
| "world_files (Stopped files snaps) = files"

fun world_snaps :: "world \<Rightarrow> snapshot_files" where
  "world_snaps (Running env live) = e_snaps env"
| "world_snaps (Stopped files snaps) = snaps"

section \<open>Invariants\<close>

text \<open>A stored exchange under its own name, whose hold is on disk when it stands agreed.\<close>

definition snap_ok :: "BudgetLedger \<Rightarrow> budget_files \<Rightarrow> string \<Rightarrow> Snapshot \<Rightarrow> bool" where
  "snap_ok l files p s \<longleftrightarrow> Snapshot_Validate s = None \<and> neg_path (s_ID s) = Inr p \<and>
     (holding (s_State s) \<longrightarrow> (\<exists>t. s_Agreed s = Some t \<and> m_Asset (t_Price t) = bl_asset l \<and>
        disk_hold l files (s_ID s) = Some (m_Atomic (t_Price t))))"

text \<open>The same while running, the hold being in memory too.\<close>

definition held_for :: "Env \<Rightarrow> string \<Rightarrow> Terms option \<Rightarrow> bool" where
  "held_for env k agreed \<longleftrightarrow>
     (\<exists>t. agreed = Some t \<and> backed (e_budget env) (e_ledger env) k (t_Price t))"

definition stored_ok :: "Env \<Rightarrow> string \<Rightarrow> Snapshot \<Rightarrow> bool" where
  "stored_ok env p s \<longleftrightarrow> Snapshot_Validate s = None \<and> neg_path (s_ID s) = Inr p \<and>
     (holding (s_State s) \<longrightarrow> held_for env (s_ID s) (s_Agreed s))"

definition env_ok :: "BudgetLedger \<Rightarrow> Money \<Rightarrow> Env \<Rightarrow> bool" where
  "env_ok l tot env \<longleftrightarrow> budget_inv l tot (e_budget env) (e_ledger env) \<and>
     (\<forall>p s. map_of (e_snaps env) p = Some s \<longrightarrow> stored_ok env p s)"

definition not_stored_holding :: "Env \<Rightarrow> string \<Rightarrow> bool" where
  "not_stored_holding env k \<longleftrightarrow>
     (\<forall>p s. map_of (e_snaps env) p = Some s \<longrightarrow> s_ID s = k \<longrightarrow> \<not> holding (s_State s))"

definition live_ok :: "Env \<Rightarrow> Negotiation \<Rightarrow> bool" where
  "live_ok env n \<longleftrightarrow> n_budget n \<and> (\<exists>d. Mandate_Digest (n_Mandate n) = Inr d) \<and> n_state n \<in> set states \<and>
     (holding (n_state n) \<longrightarrow> held_for env (n_ID n) (n_agreed n)) \<and>
     (\<not> n_poisoned n \<longrightarrow> \<not> holding (n_state n) \<longrightarrow> not_stored_holding env (n_ID n))"

fun world_ok :: "BudgetLedger \<Rightarrow> Money \<Rightarrow> world \<Rightarrow> bool" where
  "world_ok l tot (Running env live) \<longleftrightarrow> env_ok l tot env \<and> distinct (map n_ID live) \<and> list_all (live_ok env) live"
| "world_ok l tot (Stopped files snaps) \<longleftrightarrow> files_ok l tot files \<and>
     (\<forall>p s. map_of snaps p = Some s \<longrightarrow> snap_ok l files p s)"

text \<open>What one operation of a live negotiation must leave behind.\<close>

definition kept :: "BudgetLedger \<Rightarrow> Money \<Rightarrow> Env \<Rightarrow> Negotiation \<Rightarrow> Env \<Rightarrow> Negotiation \<Rightarrow> bool" where
  "kept l tot env n env' n' \<longleftrightarrow> n_ID n' = n_ID n \<and> env_ok l tot env' \<and> live_ok env' n' \<and>
     (\<forall>m. n_ID m \<noteq> n_ID n \<longrightarrow> live_ok env m \<longrightarrow> live_ok env' m)"

text \<open>What the loop over the holds leaves, for a record that a budget in good order wrote.\<close>

definition disposed :: "snapshot_files \<Rightarrow> string \<Rightarrow> disposition" where
  "disposed snaps k = (case holdDisposition snaps k of Inr d \<Rightarrow> d | Inl _ \<Rightarrow> holdStands)"

definition reconciled :: "snapshot_files \<Rightarrow> (string, string) dir \<Rightarrow> Budget \<Rightarrow> Budget \<Rightarrow> bool" where
  "reconciled snaps holds b b' \<longleftrightarrow> budget_ok b' \<and> b_ledger b' = b_ledger b \<and> b_total b' = b_total b \<and>
    (\<forall>k. map_of (b_reserved b') k =
       (if k \<in> fst ` set holds \<and> disposed snaps k \<noteq> holdStands then None else map_of (b_reserved b) k)) \<and>
    amount (b_spent b') = amount (b_spent b) +
      sum_list (map (\<lambda>(k, a). if disposed snaps k = holdBecomesSpend then dec_digits a else 0) holds)"

text \<open>
  A record of the books a budget in good order wrote, the books of which every record is of
  that kind, and what the repair makes of a record.
\<close>

definition record_ok :: "BudgetRecord \<Rightarrow> bool" where
  "record_ok r \<longleftrightarrow> (\<exists>b. r = record_of b \<and> budget_ok b)"

definition books_ok :: "budget_files \<Rightarrow> bool" where
  "books_ok files \<longleftrightarrow> (\<forall>p r. map_of files p = Some r \<longrightarrow> record_ok r)"

definition snaps_ok :: "snapshot_files \<Rightarrow> bool" where
  "snaps_ok snaps \<longleftrightarrow> (\<forall>p s. map_of snaps p = Some s \<longrightarrow> Snapshot_Validate s = None)"

definition stored_state :: "snapshot_files \<Rightarrow> string \<Rightarrow> State option" where
  "stored_state snaps k = (case neg_path k of Inl _ \<Rightarrow> None | Inr p \<Rightarrow> map_option s_State (map_of snaps p))"

definition stands_agreed :: "snapshot_files \<Rightarrow> string \<Rightarrow> bool" where
  "stands_agreed snaps k \<longleftrightarrow> (case stored_state snaps k of None \<Rightarrow> False | Some st \<Rightarrow> holding st)"

definition repaired :: "snapshot_files \<Rightarrow> BudgetRecord \<Rightarrow> BudgetRecord \<Rightarrow> bool" where
  "repaired snaps r r' \<longleftrightarrow> record_ok r' \<and> br_Total r' = br_Total r \<and>
     (\<forall>k. map_of (br_Reserved r') k = (if stands_agreed snaps k then map_of (br_Reserved r) k else None)) \<and>
     dec_digits (br_Spent r') = dec_digits (br_Spent r) + sum_list (map (dec_digits \<circ> snd)
        (filter (\<lambda>h. stored_state snaps (fst h) = Some StateFinalized) (br_Reserved r)))"

text \<open>The program writes one ledger file.\<close>

definition own_books :: "BudgetLedger \<Rightarrow> budget_files \<Rightarrow> bool" where
  "own_books l files \<longleftrightarrow> distinct (map fst files) \<and> fst ` set files \<subseteq> {ledger_path l}"

section \<open>Running\<close>

abbreviation write_snap :: "Env \<Rightarrow> string \<Rightarrow> Snapshot \<Rightarrow> Env" where
  "write_snap env p s \<equiv> env\<lparr>e_snaps := AList.update p s (e_snaps env)\<rparr>"

abbreviation write_budget :: "Env \<Rightarrow> Budget \<Rightarrow> budget_files \<Rightarrow> Env" where
  "write_budget env b f \<equiv> env\<lparr>e_budget := b, e_ledger := f\<rparr>"

lemma held_for_snaps [simp]: "held_for (env\<lparr>e_snaps := x\<rparr>) k a = held_for env k a"
  by (simp add: held_for_def)

lemma stored_ok_snaps [simp]: "stored_ok (env\<lparr>e_snaps := x\<rparr>) p s = stored_ok env p s"
  by (simp add: stored_ok_def)

lemma env_ok_store:
  "env_ok l tot env \<Longrightarrow> stored_ok env p s \<Longrightarrow> env_ok l tot (write_snap env p s)"
  by (auto simp: env_ok_def update_conv')

lemma live_ok_store_other:
  "live_ok env n \<Longrightarrow> s_ID s \<noteq> n_ID n \<Longrightarrow> live_ok (write_snap env p s) n"
  by (auto simp: live_ok_def not_stored_holding_def update_conv')

lemma not_stored_store:
  assumes "env_ok l tot env" and "stored_ok env p s" and "\<not> holding (s_State s)"
  shows "not_stored_holding (write_snap env p s) (s_ID s)"
  using assms by (fastforce simp: not_stored_holding_def env_ok_def stored_ok_def update_conv')

lemma take_Snapshot_Inr:
  "take_Snapshot n = Inr s \<Longrightarrow> s_ID s = n_ID n \<and> s_State s = n_state n \<and> s_Agreed s = n_agreed n"
  by (auto simp: take_Snapshot_def bindE_eq_Inr)

lemma persist_ok:
  assumes "persist w n env = (e, n', env')" and "env_ok l tot env" and "Mandate_Digest (n_Mandate n) = Inr d"
    and "holding (n_state n) \<longrightarrow> held_for env (n_ID n) (n_agreed n)"
  shows "env_ok l tot env'"
    and "e \<noteq> None \<Longrightarrow> n_poisoned n'"
    and "e = None \<Longrightarrow> \<not> holding (n_state n) \<Longrightarrow> not_stored_holding env' (n_ID n)"
    and "\<And>m. n_ID m \<noteq> n_ID n \<Longrightarrow> live_ok env m \<Longrightarrow> live_ok env' m"
    and "\<And>k a. held_for env' k a = held_for env k a"
proof -
  have st: "stored_ok env p s" if "take_Snapshot n = Inr s" "neg_path (n_ID n) = Inr p" "Snapshot_Validate s = None" for p s
    using that assms(4) take_Snapshot_Inr [OF that(1)] by (auto simp: stored_ok_def)
  have "env_ok l tot env' \<and> (e \<noteq> None \<longrightarrow> n_poisoned n') \<and>
    (e = None \<longrightarrow> \<not> holding (n_state n) \<longrightarrow> not_stored_holding env' (n_ID n)) \<and>
    (\<forall>m. n_ID m \<noteq> n_ID n \<longrightarrow> live_ok env m \<longrightarrow> live_ok env' m) \<and> (\<forall>k a. held_for env' k a = held_for env k a)"
    using assms(1)
  proof (cases rule: persist_cases)
    case (bad_mandate x)
    with assms(3) show ?thesis by simp
  next
    case (written s p)
    note S = take_Snapshot_Inr [OF written(1)] and ok = st [OF written(1,2,5)]
    show ?thesis
      using env_ok_store [OF assms(2) ok] live_ok_store_other [of env _ s p] not_stored_store [OF assms(2) ok] S written(3,6)
      by auto
  next
    case (poisoned s)
    note S = take_Snapshot_Inr [OF poisoned(1)]
    show ?thesis
      using poisoned(4)
    proof
      assume "env' = env"
      then show ?thesis using poisoned assms(2) by auto
    next
      assume "\<exists>p. neg_path (n_ID n) = Inr p \<and> Snapshot_Validate s = None \<and> env' = write_snap env p s"
      then obtain p where p: "neg_path (n_ID n) = Inr p" "Snapshot_Validate s = None" "env' = write_snap env p s" by blast
      note ok = st [OF poisoned(1) p(1,2)]
      show ?thesis
        using env_ok_store [OF assms(2) ok] live_ok_store_other [of env _ s p] S poisoned(2,3) p(3)
        by auto
    qed
  qed
  then show "env_ok l tot env'"
    and "e \<noteq> None \<Longrightarrow> n_poisoned n'"
    and "e = None \<Longrightarrow> \<not> holding (n_state n) \<Longrightarrow> not_stored_holding env' (n_ID n)"
    and "\<And>m. n_ID m \<noteq> n_ID n \<Longrightarrow> live_ok env m \<Longrightarrow> live_ok env' m"
    and "\<And>k a. held_for env' k a = held_for env k a"
    by blast+
qed

text \<open>
  What a negotiation may do to the shared budget: any operation with the contract of a hold
  operation, on its own identifier and while no stored exchange relies on the hold, keeps
  everything in order for everybody else.
\<close>

context hold_op
begin

lemma op_held_other:
  assumes "op k w (e_budget env) (e_ledger env) = (e, b, f)" and "env_ok l tot env"
    and "held_for env k' a" and "k' \<noteq> k"
  shows "held_for (write_budget env b f) k' a"
  using assms op_frame [OF assms(1)] by (auto simp: held_for_def env_ok_def budget_inv_def)

lemma op_env_ok:
  assumes "op k w (e_budget env) (e_ledger env) = (e, b, f)" and "env_ok l tot env"
    and "not_stored_holding env k"
  shows "env_ok l tot (write_budget env b f)"
    and "not_stored_holding (write_budget env b f) k"
    and "n_ID m \<noteq> k \<Longrightarrow> live_ok env m \<Longrightarrow> live_ok (write_budget env b f) m"
proof -
  have "budget_inv l tot b f"
    using op_inv [OF assms(1)] assms(2) by (simp add: env_ok_def)
  moreover have "stored_ok (write_budget env b f) p s" if "map_of (e_snaps env) p = Some s" for p s
    using that assms(2,3) op_held_other [OF assms(1,2), of "s_ID s" "s_Agreed s"]
    by (cases "s_ID s = k") (auto simp: env_ok_def stored_ok_def not_stored_holding_def)
  ultimately show "env_ok l tot (write_budget env b f)"
    by (simp add: env_ok_def)
  show "not_stored_holding (write_budget env b f) k"
    using assms(3) by (simp add: not_stored_holding_def)
  show "live_ok (write_budget env b f) m" if "n_ID m \<noteq> k" "live_ok env m"
    using that op_held_other [OF assms(1,2), of "n_ID m" "n_agreed m"]
    by (auto simp: live_ok_def not_stored_holding_def)
qed

end

lemma env_Release_eq:
  "env_Release w n env = (e, n', env') \<longleftrightarrow> n' = n \<and> (\<exists>b f. Release (n_ID n) w (e_budget env) (e_ledger env) = (e, b, f) \<and>
     env' = write_budget env b f)"
  by (auto simp: env_Release_def split: prod.splits)

lemma env_Commit_eq:
  "env_Commit w n env = (e, n', env') \<longleftrightarrow> n' = n \<and> (\<exists>b f. Commit (n_ID n) w (e_budget env) (e_ledger env) = (e, b, f) \<and>
     env' = write_budget env b f)"
  by (auto simp: env_Commit_def split: prod.splits)

lemma env_Reserve_eq:
  "env_Reserve w p n env = (e, env') \<longleftrightarrow> (\<exists>b f. Reserve (n_ID n) p w (e_budget env) (e_ledger env) = (e, b, f) \<and>
     env' = write_budget env b f)"
  by (auto simp: env_Reserve_def split: prod.splits)

lemma live_okD:
  assumes "live_ok env n"
  shows "n_budget n" "\<exists>d. Mandate_Digest (n_Mandate n) = Inr d" "n_state n \<in> set states"
    and "holding (n_state n) \<Longrightarrow> held_for env (n_ID n) (n_agreed n)"
    and "\<not> n_poisoned n \<Longrightarrow> \<not> holding (n_state n) \<Longrightarrow> not_stored_holding env (n_ID n)"
  using assms by (auto simp: live_ok_def)

text \<open>Writing down a move of an exchange that has what it then claims to hold.\<close>

lemma persist_kept:
  assumes "persist w n1 env = (e, n', env')" and "env_ok l tot env"
    and "n_ID n1 = n_ID n" "n_budget n1" "n_Mandate n1 = n_Mandate n" "n_state n1 \<in> set states"
    and "Mandate_Digest (n_Mandate n) = Inr d"
    and "holding (n_state n1) \<Longrightarrow> held_for env (n_ID n) (n_agreed n1)"
  shows "kept l tot env n env' n'"
proof -
  have h: "holding (n_state n1) \<longrightarrow> held_for env (n_ID n1) (n_agreed n1)"
    using assms(3,8) by simp
  have d: "Mandate_Digest (n_Mandate n1) = Inr d" using assms(5,7) by simp
  note P = persist_ok [OF assms(1,2) d h] and F = persist_fields [OF assms(1)]
  have "live_ok env' n'"
    using P(2,3) h assms(3-7) unfolding live_ok_def F P(5) by (cases e) auto
  then show ?thesis
    using P(1,4) assms(3) unfolding kept_def F by auto
qed

text \<open>A move to a state that holds nothing, then the budget operation that follows it.\<close>

context hold_op
begin

lemma op_kept:
  assumes "kept l tot env n env1 n'" and "op (n_ID n') w (e_budget env1) (e_ledger env1) = (e, b, f)"
    and "not_stored_holding env1 (n_ID n')" and "\<not> holding (n_state n')"
  shows "kept l tot env n (write_budget env1 b f) n'"
proof -
  have k: "n_ID n' = n_ID n" "env_ok l tot env1" "live_ok env1 n'"
    using assms(1) by (auto simp: kept_def)
  note O = op_env_ok [OF assms(2) k(2) assms(3)]
  have "live_ok (write_budget env1 b f) n'"
    using k(3) O(2) assms(4) by (auto simp: live_ok_def)
  then show ?thesis
    using O(1,3) k(1) assms(1) by (auto simp: kept_def)
qed

end

lemma persist_release_kept:
  assumes "persist w1 n1 env = (e1, n', env1)" and "env_ok l tot env"
    and "n_ID n1 = n_ID n" "n_budget n1" "n_Mandate n1 = n_Mandate n" "n_state n1 \<in> set states"
    and "Mandate_Digest (n_Mandate n) = Inr d" and "\<not> holding (n_state n1)"
    and "(env1 = env') \<or> (e1 = None \<and> (env_Release w2 n' env1 = (e, n', env') \<or> env_Commit w2 n' env1 = (e, n', env')))"
  shows "kept l tot env n env' n'"
proof -
  note F = persist_fields [OF assms(1)]
  have K: "kept l tot env n env1 n'"
    using assms(1-8) by (intro persist_kept [where ?n1.0 = n1]) auto
  have ns: "not_stored_holding env1 (n_ID n')" if "e1 = None"
    using persist_ok(3) [OF assms(1,2), of d] that assms(5,7,8) unfolding F by simp
  have nh: "\<not> holding (n_state n')" using assms(8) unfolding F .
  from assms(9) show ?thesis
    using K release.op_kept [OF K _ ns nh] commit.op_kept [OF K _ ns nh]
    by (auto simp: env_Release_eq env_Commit_eq)
qed

lemma run_nop_kept:
  assumes "run_nop op now w n env = (e, n', env')" and ok: "env_ok l tot env" and live: "live_ok env n"
  shows "kept l tot env n env' n'"
proof -
  note L = live_okD [OF live]
  obtain d where d: "Mandate_Digest (n_Mandate n) = Inr d" using L(2) by blast
  have free: "not_stored_holding env (n_ID n)" "\<not> holding (n_state n)" if "neg_open n now = None"
    using that L(5) by (auto simp: neg_open_None)
  have self: "kept l tot env n env n" using ok live by (simp add: kept_def)
  show ?thesis
    using assms(1)
  proof (cases rule: run_nop_cases)
    case refused
    with self show ?thesis by simp
  next
    case (unreserved t)
    then show ?thesis
      using reserve.op_kept [OF self] free by (auto simp: env_Reserve_eq)
  next
    case (ended st r e1)
    obtain e2 env1 where p: "persist (fst w) (neg_end st r n) env = (e2, n', env1)"
      and "(e2 = e1 \<and> env1 = env') \<or> (e2 = None \<and> env_Release (snd w) n' env1 = (e1, n', env'))"
      using settle_effect [OF ended(3)] by blast
    then show ?thesis
      using ok d L(1) ended_facts [OF ended(1)]
      by (intro persist_release_kept [OF p, where e = e1 and ?w2.0 = "snd w"]) (auto simp: neg_end_def)
  next
    case (received t)
    show ?thesis using ok d L(1) by (intro persist_kept [OF received(6)]) auto
  next
    case (countered t)
    show ?thesis using ok d L(1) by (intro persist_kept [OF countered(7)]) auto
  next
    case (accepted t need env1)
    obtain b f where R: "Reserve (n_ID n) (t_Price t) (snd w) (e_budget env) (e_ledger env) = (None, b, f)"
      "env1 = write_budget env b f"
      using accepted(5) L(1) by (auto simp: env_Reserve_eq)
    have K: "kept l tot env n env1 n"
      using reserve.op_kept [OF self R(1) free] accepted(2) R(2) by simp
    have sh: "budget_shape (e_budget env)" using ok by (auto simp: env_ok_def budget_inv_def intro: ok_shape)
    have "held_for env1 (n_ID n) (Some t)"
      using R(1) sh by (cases rule: Reserve_cases) (auto simp: held_for_def backed_def R(2) update_conv')
    then have "kept l tot env1 n env' n'"
      using K d L(1) by (intro persist_kept [OF accepted(6)]) (auto simp: kept_def)
    then show ?thesis using K by (auto simp: kept_def)
  next
    case (reopened r e1 env1)
    then show ?thesis
      using ok d L(1) by (intro persist_release_kept [OF reopened(3), where e = e and ?w2.0 = "snd w"]) auto
  next
    case (approved dg t md)
    show ?thesis using ok d L(1,3,4) by (intro persist_kept [OF approved(7)]) auto
  next
    case canonicalising
    show ?thesis using ok d L(1,4) canonicalising(3) by (intro persist_kept [OF canonicalising(7)]) auto
  next
    case (finalized r c agreed q need e1 env1)
    then show ?thesis
      using ok d L(1) by (intro persist_release_kept [OF finalized(11), where e = e and ?w2.0 = "snd w"]) auto
  qed
qed

lemma create_kept:
  assumes "neg_New nid conv cp md nw True True now w env = (r, env')" and "env_ok l tot env"
  shows "env_ok l tot env'" and "\<And>m. n_ID m \<noteq> nid \<Longrightarrow> live_ok env m \<Longrightarrow> live_ok env' m"
    and "r = Inr n \<Longrightarrow> live_ok env' n \<and> n_ID n = nid"
proof -
  have "env_ok l tot env' \<and> (\<forall>m. n_ID m \<noteq> nid \<longrightarrow> live_ok env m \<longrightarrow> live_ok env' m) \<and>
      (\<forall>n. r = Inr n \<longrightarrow> live_ok env' n \<and> n_ID n = nid)"
    using assms(1)
  proof (cases rule: neg_New_cases)
    case (refused e)
    with assms(2) show ?thesis by simp
  next
    case (tried e n1)
    have "Mandate_Validate md = None" using tried(3) by (auto simp: Live_def split: option.splits if_splits)
    then obtain d where "Mandate_Digest md = Inr d" using Mandate_Digest_ok by blast
    then have "kept l tot env (new_instance nid conv cp md nw True) env' n1"
      using assms(2) by (intro persist_kept [OF tried(1)]) auto
    with tried(2) show ?thesis by (auto simp: kept_def split: option.splits)
  qed
  then show "env_ok l tot env'" and "\<And>m. n_ID m \<noteq> nid \<Longrightarrow> live_ok env m \<Longrightarrow> live_ok env' m"
    and "r = Inr n \<Longrightarrow> live_ok env' n \<and> n_ID n = nid"
    by blast+
qed

lemma neg_Load_stored:
  "neg_Load k snaps = Inr (Some s) \<Longrightarrow> \<exists>p. map_of snaps p = Some s"
  by (auto simp: neg_Load_def neg_read_def bindE_eq_Inr failE_eq_Inr split: option.splits)

lemma restore_live_ok:
  assumes "env_ok l tot env" and "map_of (e_snaps env) p = Some s" and "Restore s md True True = Inr n"
  shows "live_ok env n"
proof -
  have n: "n_ID n = s_ID s" "n_state n = s_State s" "n_agreed n = s_Agreed s" "n_budget n" "n_Mandate n = md"
    "\<not> n_poisoned n" and d: "\<exists>d. Mandate_Digest md = Inr d"
    using assms(3) by (auto simp: Restore_def bindE_eq_Inr failE_eq_Inr split: if_splits)
  have s: "stored_ok env p s" using assms(1,2) by (simp add: env_ok_def)
  then have "s_State s \<in> set states" by (simp add: stored_ok_def Snapshot_Validate_None)
  moreover have "not_stored_holding env (s_ID s)" if "\<not> holding (s_State s)"
    unfolding not_stored_holding_def
  proof (intro allI impI)
    fix p' s' assume s': "map_of (e_snaps env) p' = Some s'" "s_ID s' = s_ID s"
    then have "stored_ok env p' s'" using assms(1) by (simp add: env_ok_def)
    with s s'(2) have "p' = p" by (simp add: stored_ok_def)
    with s'(1) assms(2) that show "\<not> holding (s_State s')" by simp
  qed
  ultimately show ?thesis
    using n d s by (auto simp: live_ok_def stored_ok_def)
qed

lemma drop_kept:
  assumes "neg_Drop k now w (e_snaps env) = (e, snaps)"
  shows "\<And>p s. map_of snaps p = Some s \<Longrightarrow> map_of (e_snaps env) p = Some s"
  using assms
  by (auto simp: neg_Drop_def delete_conv' split: if_splits sum.splits option.splits wout.splits)

section \<open>The repair keeps the books\<close>

lemma holdDisposition_stored:
  assumes "map_of snaps p = Some s" and "Snapshot_Validate s = None" and "neg_path k = Inr p"
  shows "holdDisposition snaps k = Inr (if holding (s_State s) then holdStands
    else if s_State s = StateFinalized then holdBecomesSpend else holdReturns)"
  using assms by (auto simp: holdDisposition_def neg_read_def holding_def)

text \<open>A budget from which a hold is removed, and one in which it is spent.\<close>

lemma record_delete:
  "(record_of b)\<lparr>br_Reserved := AList.delete k (br_Reserved (record_of b))\<rparr> =
     record_of (b\<lparr>b_reserved := AList.delete k (b_reserved b)\<rparr>)"
  by (simp add: record_of_def budget_record_of_def AList.delete_eq filter_map comp_def case_prod_unfold)

lemma held_sum_nonneg: "budget_shape b \<Longrightarrow> 0 \<le> held_sum (b_reserved b)"
  using amount_bound unfolding held_sum_def
  by (intro sum_list_nonneg) (fastforce simp: budget_shape_def Let_def list_all_iff money_of_def)

lemma spend_text:
  assumes "budget_ok b" and "map_of (b_reserved b) k = Some m"
  obtains s where "money_of (bl_asset (b_ledger b)) s" "amount s = amount (b_spent b) + amount m"
    "big_SetString (m_Atomic (b_spent b)) = Some (amount (b_spent b))"
    "big_SetString (m_Atomic m) = Some (amount m)"
    "big_text (amount (b_spent b) + amount m) = m_Atomic s"
proof -
  let ?a = "bl_asset (b_ledger b)" and ?n = "amount (b_spent b) + amount m"
  have sh: "budget_shape b" using assms(1) by (rule ok_shape)
  have v: "money_of ?a (b_spent b)" "money_of ?a (b_total b)" "money_of ?a m"
    using sh shape_hold [OF sh assms(2)] by (auto simp: budget_shape_def Let_def)
  then have val: "Money_Validate (b_spent b) = None" "Money_Validate m = None" "Money_Validate (b_total b) = None"
    by (simp_all add: money_of_def)
  have "0 \<le> held_sum (AList.delete k (b_reserved b))"
    using held_sum_nonneg [OF shape_delete [OF sh, of k]] by simp
  then have "?n \<le> amount (b_total b)"
    using assms sh by (simp add: budget_ok_def used_def held_sum_delete budget_shape_def Let_def hold_amount_def)
  then have n: "0 \<le> ?n" "?n < 10 ^ 78"
    using amount_bound [OF val(1)] amount_bound [OF val(2)] amount_bound [OF val(3)] by auto
  let ?s = "\<lparr>m_Asset = ?a, m_Atomic = big_String ?n\<rparr>"
  have "atomicPattern (big_String ?n)" using n by (auto simp: atomicPattern_iff)
  then have "money_of ?a ?s"
    using v(1) by (auto simp: money_of_def Money_Validate_None)
  moreover have "amount ?s = ?n" using n by (simp add: amount_def dec_digits_big_String)
  moreover have "big_SetString (m_Atomic x) = Some (amount x)" if "Money_Validate x = None" for x
    using that atomicPattern_digits [of "m_Atomic x"] by (auto simp: Money_Validate_None amount_def big_SetString_digits)
  ultimately show thesis
    using val n by (intro that [of ?s]) (auto simp: big_text_def)
qed

lemma reconcile_holds_ok:
  assumes "budget_ok b" and "distinct (map fst rest)"
    and "\<forall>(k, a) \<in> set rest. \<exists>m. map_of (b_reserved b) k = Some m \<and> m_Atomic m = a"
    and "reconcile_holds snaps rest (record_of b) ch = Inr (r, ch')"
  shows "\<exists>b'. r = record_of b' \<and> reconciled snaps rest b b' \<and>
    (ch' \<longleftrightarrow> ch \<or> (\<exists>k \<in> fst ` set rest. disposed snaps k \<noteq> holdStands))"
  using assms
proof (induction rest arbitrary: b ch)
  case Nil
  then show ?case by (auto simp: reconciled_def)
next
  case (Cons ka rest)
  obtain k a where ka: "ka = (k, a)" by fastforce
  obtain d where d: "holdDisposition snaps k = Inr d"
    using Cons.prems(4) ka by (auto simp: bindE_eq_Inr)
  obtain m where m: "map_of (b_reserved b) k = Some m" "m_Atomic m = a" using Cons.prems(3) ka by auto
  have nk: "k \<notin> fst ` set rest" and dist: "distinct (map fst rest)" using Cons.prems(2) ka by auto
  have D: "disposed snaps k = d" using d by (simp add: disposed_def)
  have rest: "\<forall>(k', a') \<in> set rest. \<exists>m. map_of (AList.delete k (b_reserved b)) k' = Some m \<and> m_Atomic m = a'"
    using Cons.prems(3) nk ka by (force simp: delete_conv')
  show ?case
  proof (cases d)
    case holdStands
    then obtain b' where "r = record_of b'" "reconciled snaps rest b b'"
      "ch' \<longleftrightarrow> ch \<or> (\<exists>k \<in> fst ` set rest. disposed snaps k \<noteq> holdStands)"
      using Cons.IH [OF Cons.prems(1) dist, of ch] Cons.prems(3,4) ka d by auto
    then show ?thesis
      using ka D holdStands by (intro exI [of _ b']) (auto simp: reconciled_def)
  next
    case holdReturns
    let ?b = "b\<lparr>b_reserved := AList.delete k (b_reserved b)\<rparr>"
    have "reconcile_holds snaps rest (record_of ?b) True = Inr (r, ch')"
      using Cons.prems(4) ka d holdReturns by (simp add: record_delete)
    from Cons.IH [OF ok_delete [OF Cons.prems(1)] dist _ this] rest
    obtain b' where "r = record_of b'" "reconciled snaps rest ?b b'" "ch'" by auto
    then show ?thesis
      using nk D holdReturns ka by (intro exI [of _ b']) (auto simp: reconciled_def delete_conv')
  next
    case holdBecomesSpend
    from Cons.prems(1) m(1) obtain s where s: "money_of (bl_asset (b_ledger b)) s"
      "amount s = amount (b_spent b) + amount m"
      "big_SetString (m_Atomic (b_spent b)) = Some (amount (b_spent b))"
      "big_SetString (m_Atomic m) = Some (amount m)"
      "big_text (amount (b_spent b) + amount m) = m_Atomic s"
      by (rule spend_text)
    let ?b = "b\<lparr>b_spent := s, b_reserved := AList.delete k (b_reserved b)\<rparr>"
    have "(record_of b)\<lparr>br_Spent := m_Atomic s, br_Reserved := AList.delete k (br_Reserved (record_of b))\<rparr> = record_of ?b"
      by (simp add: record_of_def budget_record_of_def AList.delete_eq filter_map comp_def case_prod_unfold)
    moreover have "br_Spent (record_of b) = m_Atomic (b_spent b)"
      by (simp add: record_of_def budget_record_of_def)
    ultimately have "reconcile_holds snaps rest (record_of ?b) True = Inr (r, ch')"
      using Cons.prems(4) ka d holdBecomesSpend s m(2) by simp
    from Cons.IH [OF ok_spend [OF Cons.prems(1) m(1) s(1,2)] dist _ this] rest
    obtain b' where "r = record_of b'" "reconciled snaps rest ?b b'" "ch'" by auto
    moreover have "amount m = dec_digits a" using m(2) by (simp add: amount_def)
    ultimately show ?thesis
      using nk D holdBecomesSpend ka s(2) by (intro exI [of _ b']) (auto simp: reconciled_def delete_conv')
  qed
qed

text \<open>The loop only stops early on a record it cannot read.\<close>

lemma reconcile_holds_total:
  assumes "budget_ok b" and "distinct (map fst rest)"
    and "\<forall>(k, a) \<in> set rest. \<exists>m. map_of (b_reserved b) k = Some m \<and> m_Atomic m = a"
    and "\<forall>p s. map_of snaps p = Some s \<longrightarrow> Snapshot_Validate s = None"
  shows "\<exists>r ch'. reconcile_holds snaps rest (record_of b) ch = Inr (r, ch')"
  using assms(1-3)
proof (induction rest arbitrary: b ch)
  case (Cons ka rest)
  obtain k a where ka: "ka = (k, a)" by fastforce
  obtain d where d: "holdDisposition snaps k = Inr d"
    using assms(4) by (fastforce simp: holdDisposition_def neg_read_def split: sum.splits option.splits)
  obtain m where m: "map_of (b_reserved b) k = Some m" "m_Atomic m = a" using Cons.prems(3) ka by auto
  have nk: "k \<notin> fst ` set rest" and dist: "distinct (map fst rest)" using Cons.prems(2) ka by auto
  have rest: "\<forall>(k', a') \<in> set rest. \<exists>m. map_of (AList.delete k (b_reserved b)) k' = Some m \<and> m_Atomic m = a'"
    using Cons.prems(3) nk ka by (force simp: delete_conv')
  from Cons.prems(1) m(1) obtain s where s: "money_of (bl_asset (b_ledger b)) s"
    "amount s = amount (b_spent b) + amount m"
    "big_SetString (m_Atomic (b_spent b)) = Some (amount (b_spent b))"
    "big_SetString (m_Atomic m) = Some (amount m)"
    "big_text (amount (b_spent b) + amount m) = m_Atomic s"
    by (rule spend_text)
  have R: "(record_of b)\<lparr>br_Spent := m_Atomic s, br_Reserved := AList.delete k (br_Reserved (record_of b))\<rparr> =
      record_of (b\<lparr>b_spent := s, b_reserved := AList.delete k (b_reserved b)\<rparr>)"
    "br_Spent (record_of b) = m_Atomic (b_spent b)"
    by (simp_all add: record_of_def budget_record_of_def AList.delete_eq filter_map comp_def case_prod_unfold)
  show ?case
    using Cons.IH [OF Cons.prems(1) dist, of ch] Cons.IH [OF ok_delete [OF Cons.prems(1), of k] dist, of True]
      Cons.IH [OF ok_spend [OF Cons.prems(1) m(1) s(1,2)] dist, of True] rest Cons.prems(3) ka d s(3-5) m(2) R
    by (cases d) (auto simp: record_delete)
qed simp

lemma disposed_state:
  assumes "snaps_ok snaps"
  shows "disposed snaps k = holdStands \<longleftrightarrow> stands_agreed snaps k"
    and "disposed snaps k = holdBecomesSpend \<longleftrightarrow> stored_state snaps k = Some StateFinalized"
  using assms
  by (auto simp: disposed_def holdDisposition_def stored_state_def stands_agreed_def neg_read_def snaps_ok_def holding_def
      split: sum.splits option.splits)

lemma record_of_parts [simp]:
  "br_Reserved (record_of b) = map (\<lambda>(k, held). (k, m_Atomic held)) (b_reserved b)"
  "br_Spent (record_of b) = m_Atomic (b_spent b)" "br_Total (record_of b) = m_Atomic (b_total b)"
  "br_Schema (record_of b) = BudgetSchema"
  by (simp_all add: record_of_def budget_record_of_def)

lemma record_rest:
  assumes "budget_ok b"
  shows "distinct (map fst (br_Reserved (record_of b)))"
    and "\<forall>(k, a) \<in> set (br_Reserved (record_of b)). \<exists>m. map_of (b_reserved b) k = Some m \<and> m_Atomic m = a"
proof -
  have d: "distinct (map fst (b_reserved b))" using assms by (auto simp: budget_ok_def budget_shape_def Let_def)
  then show "distinct (map fst (br_Reserved (record_of b)))" by (simp add: comp_def case_prod_unfold)
  show "\<forall>(k, a) \<in> set (br_Reserved (record_of b)). \<exists>m. map_of (b_reserved b) k = Some m \<and> m_Atomic m = a"
    using d by (force simp: map_of_eq_Some_iff)
qed

lemma reconciled_repaired:
  assumes "reconciled snaps (br_Reserved (record_of b)) b b'" and "snaps_ok snaps"
  shows "repaired snaps (record_of b) (record_of b')"
proof -
  have "k \<notin> fst ` set (b_reserved b) \<Longrightarrow> map_of (b_reserved b) k = None" for k
    by (simp add: map_of_eq_None_iff)
  moreover have "fst ` set (br_Reserved (record_of b)) = fst ` set (b_reserved b)"
    by (force simp: image_iff)
  moreover have "sum_list (map (\<lambda>(k, a). if P k then dec_digits a else 0) xs) =
      sum_list (map (dec_digits \<circ> snd) (filter (\<lambda>h. P (fst h)) xs))" for P :: "string \<Rightarrow> bool" and xs
    by (induction xs) auto
  ultimately show ?thesis
    using assms(1) unfolding repaired_def reconciled_def record_ok_def disposed_state [OF assms(2), symmetric]
    by (auto simp: map_of_map_snd amount_def simp del: map_map)
qed

lemma reconcile_file_cases:
  assumes "reconcileBudgetFile snaps p w files = (e, files')" and "map_of files p = Some (record_of b)" and "budget_ok b"
  obtains (unread) "e \<noteq> None" "files' = files" "\<not> snaps_ok snaps"
    | (same) "e = None" "files' = files" "reconciled snaps (br_Reserved (record_of b)) b b"
    | (written) b' where "reconciled snaps (br_Reserved (record_of b)) b b'"
        "replace_file w p (record_of b') files = (e, files')"
proof -
  let ?h = "br_Reserved (record_of b)"
  have R: "(e, files') = (case reconcile_holds snaps ?h (record_of b) False of
      Inl e \<Rightarrow> (Some e, files)
    | Inr (r', changed) \<Rightarrow> if \<not> changed then (None, files) else replace_file w p r' files)"
    using assms(1,2) by (simp add: reconcileBudgetFile_def)
  show thesis
  proof (cases "reconcile_holds snaps ?h (record_of b) False")
    case (Inl x)
    have "\<not> snaps_ok snaps"
      using reconcile_holds_total [OF assms(3) record_rest [OF assms(3)], of snaps False] Inl
      unfolding snaps_ok_def by fastforce
    with R Inl show thesis by (intro unread) auto
  next
    case (Inr rc)
    then obtain r' ch where rc: "reconcile_holds snaps ?h (record_of b) False = Inr (r', ch)" by (cases rc) auto
    from reconcile_holds_ok [OF assms(3) record_rest [OF assms(3)] rc]
    obtain b' where b': "r' = record_of b'" "reconciled snaps ?h b b'"
      "ch \<longleftrightarrow> (\<exists>k \<in> fst ` set ?h. disposed snaps k \<noteq> holdStands)" by auto
    show thesis
    proof (cases ch)
      case True
      with R rc b' show thesis by (intro written [of b']) auto
    next
      case False
      then have *: "\<forall>k \<in> fst ` set ?h. disposed snaps k = holdStands" using b'(3) by simp
      have "\<forall>k \<in> fst ` set xs. disposed snaps k = holdStands \<Longrightarrow>
          sum_list (map (\<lambda>(k, a). if disposed snaps k = holdBecomesSpend then dec_digits a else 0) xs) = 0" for xs
        by (induction xs) auto
      from this [OF *] have "reconciled snaps ?h b b"
        using * assms(3) unfolding reconciled_def by (auto simp del: record_of_parts)
      with R rc False show thesis by (intro same) auto
    qed
  qed
qed

lemma reconcile_file_frame:
  assumes "reconcileBudgetFile snaps p w files = (e, files')" and "q \<noteq> p"
  shows "map_of files' q = map_of files q"
  using assms
  by (auto simp: reconcileBudgetFile_def update_conv' dest!: replace_file_cases
      split: option.splits if_splits sum.splits)

lemma reconcile_file_keeps:
  assumes "reconcileBudgetFile snaps p w files = (e, files')" and "files_ok l tot files"
  shows "files_ok l tot files' \<and> (\<forall>k. disposed snaps k = holdStands \<longrightarrow> disk_hold l files' k = disk_hold l files k)"
proof (cases "p = ledger_path l \<and> map_of files p \<noteq> None")
  case False
  then have "map_of files' (ledger_path l) = map_of files (ledger_path l)"
    using reconcile_file_frame [OF assms(1), of "ledger_path l"] assms(1)
    by (cases "p = ledger_path l") (auto simp: reconcileBudgetFile_def)
  then show ?thesis
    using assms(2) by (simp add: files_ok_def disk_hold_def)
next
  case True
  then obtain b where b: "map_of files p = Some (record_of b)" "budget_ok b" "b_ledger b = l" "b_total b = tot"
    using assms(2) by (auto simp: files_ok_def)
  show ?thesis
    using assms(1) b(1,2)
  proof (cases rule: reconcile_file_cases)
    case (written b')
    have b': "b_ledger b' = l" "b_total b' = tot" "budget_ok b'"
      "\<And>k. disposed snaps k = holdStands \<Longrightarrow> map_of (b_reserved b') k = map_of (b_reserved b) k"
      using written(1) b(3,4) by (auto simp: reconciled_def)
    have "disk_hold l files k = map_option m_Atomic (map_of (b_reserved b) k)" for k
      using True b(1) by (simp add: disk_hold_def map_of_map_snd)
    then show ?thesis
      using replace_file_cases [OF written(2)] assms(2) True b' files_ok_update [OF b'(1-3)] by auto
  qed (use assms(2) in simp_all)
qed

lemma reconcile_keeps:
  assumes "reconcileCommerce snaps ws files = (e, files')" and "files_ok l tot files"
  shows "files_ok l tot files' \<and> (\<forall>k. disposed snaps k = holdStands \<longrightarrow> disk_hold l files' k = disk_hold l files k)"
proof -
  have "reconcile_files snaps paths ws files = (e, files') \<Longrightarrow> files_ok l tot files \<Longrightarrow> ?thesis" for paths
  proof (induction paths arbitrary: files)
    case (Cons p paths)
    obtain e1 f1 where 1: "reconcileBudgetFile snaps p (ws p) files = (e1, f1)" by fastforce
    show ?case
      using reconcile_file_keeps [OF 1 Cons.prems(2)] Cons.IH [of f1] Cons.prems(1) 1
      by (cases e1) auto
  qed simp
  then show ?thesis using assms by (simp add: reconcileCommerce_def)
qed

section \<open>The program keeps the books\<close>

lemma snap_ok_stands:
  assumes "snap_ok l files p s" and "map_of snaps p = Some s" and "holding (s_State s)"
  shows "disposed snaps (s_ID s) = holdStands"
  using holdDisposition_stored [OF assms(2), of "s_ID s"] assms(1,3) by (simp add: snap_ok_def disposed_def)

lemma stopped_start:
  assumes "files_ok l tot files'" and "\<forall>p s. map_of snaps p = Some s \<longrightarrow> snap_ok l files p s"
    and "\<And>p s. map_of snaps p = Some s \<Longrightarrow> holding (s_State s) \<Longrightarrow> disk_hold l files' (s_ID s) = disk_hold l files (s_ID s)"
  shows "world_ok l tot (Stopped files' snaps)"
  using assms by (auto simp: snap_ok_def)

lemma repair_ok:
  assumes "world_ok l tot (Stopped files snaps)" and "reconcileCommerce snaps ws files = (e, files')"
  shows "world_ok l tot (Stopped files' snaps)"
proof (rule stopped_start [where files = files])
  have ok: "files_ok l tot files" "\<forall>p s. map_of snaps p = Some s \<longrightarrow> snap_ok l files p s" using assms(1) by simp_all
  note K = reconcile_keeps [OF assms(2) ok(1)]
  show "files_ok l tot files'" using K by blast
  show "\<forall>p s. map_of snaps p = Some s \<longrightarrow> snap_ok l files p s" by (rule ok(2))
  show "disk_hold l files' (s_ID s) = disk_hold l files (s_ID s)"
    if "map_of snaps p = Some s" "holding (s_State s)" for p s
    using K snap_ok_stands [OF _ that] ok(2) that(1) by blast
qed

lemma open_fails_ok:
  assumes "world_ok l tot (Stopped files snaps)" and "OpenBudget tot (Some l) w files = (Inl e, files')"
  shows "world_ok l tot (Stopped files' snaps)"
proof -
  have f: "files_ok l tot files" using assms(1) by simp
  show ?thesis
  proof (cases "map_of files (ledger_path l)")
    case (Some r)
    then obtain b where "b_ledger b = l" "b_total b = tot" "budget_ok b" "r = record_of b"
      using f by (auto simp: files_ok_def)
    then have "OpenBudget tot (Some l) w files = (Inr b, files)"
      using OpenBudget_record [of b files w] Some by simp
    with assms(2) show ?thesis by simp
  next
    case None
    let ?b = "\<lparr>b_ledger = l, b_total = tot, b_spent = Money_Zero tot, b_reserved = []\<rparr>"
    have nh: "map_of snaps p = Some s \<Longrightarrow> \<not> holding (s_State s)" for p s
      using assms(1) None by (fastforce simp: snap_ok_def disk_hold_def)
    have "files' = files \<or> (budget_ok ?b \<and> files' = AList.update (ledger_path l) (record_of ?b) files)"
    proof (cases "money_of (bl_asset l) tot")
      case True
      then have ok: "budget_ok ?b" by (rule fresh_ok)
      have v: "Money_Validate tot = None" using True by (simp add: money_of_def)
      obtain e1 f1 where w: "replace_file w (ledger_path l) (record_of ?b) files = (e1, f1)" by fastforce
      then show ?thesis
        using assms(2) None v ok budget_record_eq [OF ok_shape [OF ok], of w files] replace_file_cases [OF w]
        by (auto simp: OpenBudget_def ledger_Load_def Let_def split: option.splits)
    next
      case False
      then show ?thesis
        using assms(2) None
        by (auto simp: OpenBudget_def ledger_Load_def budget_record_def ledger_Record_def Asset_Same_eq money_of_def
            Let_def split: option.splits if_splits)
    qed
    then have "files_ok l tot files'" using f by (auto intro: files_ok_update)
    then show ?thesis
      using assms(1) nh by (intro stopped_start [where files = files]) auto
  qed
qed

lemma start_ok:
  assumes "world_ok l tot (Stopped files snaps)" and "OpenBudget tot (Some l) w files = (Inr b, files')"
  shows "world_ok l tot (Running \<lparr>e_budget = b, e_ledger = files', e_snaps = snaps\<rparr> [])"
proof -
  have f: "files_ok l tot files" using assms(1) by simp
  have inv: "budget_inv l tot b files'" using OpenBudget_inv [OF assms(2) f] .
  have "held_for \<lparr>e_budget = b, e_ledger = files', e_snaps = snaps\<rparr> (s_ID s) (s_Agreed s)"
    if s: "map_of snaps p = Some s" "holding (s_State s)" for p s
  proof -
    obtain t where t: "s_Agreed s = Some t" "m_Asset (t_Price t) = bl_asset l"
      "disk_hold l files (s_ID s) = Some (m_Atomic (t_Price t))"
      using assms(1) s by (auto simp: snap_ok_def)
    then obtain r where r: "map_of files (ledger_path l) = Some r" by (auto simp: disk_hold_def split: option.splits)
    then obtain b0 where b0: "b_ledger b0 = l" "b_total b0 = tot" "budget_ok b0" "r = record_of b0"
      using f by (auto simp: files_ok_def)
    have b: "b = b0" "files' = files"
      using OpenBudget_record [OF b0(3), of files w] b0 r assms(2) by auto
    obtain m where m: "map_of (b_reserved b) (s_ID s) = Some m" "m_Atomic m = m_Atomic (t_Price t)"
      using t(3) r b0(4) b(1) by (auto simp: disk_hold_def map_of_map_snd)
    have "m_Asset m = bl_asset l"
      using shape_hold [OF ok_shape [OF b0(3)]] m(1) b(1) b0(1) by (auto simp: money_of_def)
    then have "m = t_Price t" using m(2) t(2) by simp
    then show ?thesis
      using t m b b0(1) by (simp add: held_for_def backed_def)
  qed
  then show ?thesis
    using inv assms(1) by (auto simp: env_ok_def stored_ok_def snap_ok_def)
qed

lemma crash_ok:
  assumes "env_ok l tot env"
  shows "world_ok l tot (Stopped (e_ledger env) (e_snaps env))"
proof -
  have inv: "budget_inv l tot (e_budget env) (e_ledger env)" using assms by (simp add: env_ok_def)
  have "snap_ok l (e_ledger env) p s" if "map_of (e_snaps env) p = Some s" for p s
  proof -
    have s: "stored_ok env p s" using assms that by (simp add: env_ok_def)
    have "\<exists>t. s_Agreed s = Some t \<and> m_Asset (t_Price t) = bl_asset l \<and>
        disk_hold l (e_ledger env) (s_ID s) = Some (m_Atomic (t_Price t))" if h: "holding (s_State s)"
    proof -
      obtain t where t: "s_Agreed s = Some t" "backed (e_budget env) (e_ledger env) (s_ID s) (t_Price t)"
        using s h by (auto simp: stored_ok_def held_for_def)
      then show ?thesis
        using inv shape_hold [OF ok_shape, of "e_budget env" "s_ID s" "t_Price t"]
        by (auto simp: backed_def budget_inv_def money_of_def)
    qed
    with s show ?thesis by (auto simp: snap_ok_def stored_ok_def)
  qed
  with inv show ?thesis by (simp add: budget_inv_def)
qed

lemma live_others:
  assumes "list_all (live_ok env) xs" and "k \<notin> n_ID ` set xs"
    and "\<And>m. n_ID m \<noteq> k \<Longrightarrow> live_ok env m \<Longrightarrow> live_ok env' m"
  shows "list_all (live_ok env') xs"
  using assms by (fastforce simp: list_all_iff)

lemma commerce_step_ok:
  assumes "commerce_step l tot W W'" and "world_ok l tot W"
  shows "world_ok l tot W'"
  using assms
proof (cases rule: commerce_step.cases)
  case (create nid conv cp md nw now w env n env' live)
  then have ok: "env_ok l tot env" "list_all (live_ok env) live" "distinct (map n_ID live)" using assms(2) by auto
  note C = create_kept [OF create(3) ok(1)]
  show ?thesis
    using C(1) C(3) [OF refl] live_others [OF ok(2) create(4) C(2)] ok(3) create(2,4) by auto
next
  case (create_fails nid conv cp md nw now w env e env' live)
  then have ok: "env_ok l tot env" "list_all (live_ok env) live" "distinct (map n_ID live)" using assms(2) by auto
  note C = create_kept [OF create_fails(3) ok(1)]
  show ?thesis
    using C(1) live_others [OF ok(2) create_fails(4) C(2)] ok(3) create_fails(2) by auto
next
  case (operate op now w n env e n' env' xs ys)
  then have ok: "env_ok l tot env" "list_all (live_ok env) xs" "list_all (live_ok env) ys" "live_ok env n"
    "distinct (map n_ID (xs @ n # ys))" using assms(2) by auto
  have K: "n_ID n' = n_ID n" "env_ok l tot env'" "live_ok env' n'"
    "\<And>m. n_ID m \<noteq> n_ID n \<Longrightarrow> live_ok env m \<Longrightarrow> live_ok env' m"
    using run_nop_kept [OF operate(3) ok(1,4)] by (auto simp: kept_def)
  have "list_all (live_ok env') xs" "list_all (live_ok env') ys"
    using ok(5) by (auto intro!: live_others [OF ok(2) _ K(4)] live_others [OF ok(3) _ K(4)])
  with K ok(5) operate(2) show ?thesis by simp
next
  case (restore k env s md n live)
  then have ok: "env_ok l tot env" using assms(2) by simp
  obtain p where "map_of (e_snaps env) p = Some s" using neg_Load_stored [OF restore(3)] by blast
  with restore_live_ok [OF ok _ restore(4)] restore assms(2) show ?thesis by auto
next
  case (discard env xs n ys)
  with assms(2) show ?thesis by auto
next
  case (drop_record k now w env e snaps live)
  have "live_ok (env\<lparr>e_snaps := snaps\<rparr>) m" if "live_ok env m" for m
    using that drop_kept [OF drop_record(3)] by (auto simp: live_ok_def not_stored_holding_def)
  moreover have "env_ok l tot (env\<lparr>e_snaps := snaps\<rparr>)"
    using assms(2) drop_record(1) drop_kept [OF drop_record(3)] by (auto simp: env_ok_def)
  ultimately show ?thesis
    using assms(2) drop_record(1,2) by (auto simp: list_all_iff)
next
  case (crash env live)
  with assms(2) crash_ok [of l tot env] show ?thesis by simp
next
  case (repair_fails snaps ws files e files')
  then show ?thesis using repair_ok assms(2) by metis
next
  case (open_fails snaps ws files files1 w e files')
  then show ?thesis using repair_ok open_fails_ok assms(2) by metis
next
  case (start snaps ws files files1 w b files')
  then show ?thesis using repair_ok start_ok assms(2) by metis
qed

interpretation commerce: invariant_system "commerce_step l tot" "world_ok l tot" for l tot
  by unfold_locales (rule commerce_step_ok)

text \<open>The whole repair when every record can be read and every write succeeds.\<close>

lemma reconcile_file_exact:
  assumes "map_of files p = Some r" and "record_ok r" and "snaps_ok snaps"
  shows "\<exists>r'. reconcileBudgetFile snaps p Synced files = (None, files) \<and> r' = r \<and> repaired snaps r r' \<or>
    reconcileBudgetFile snaps p Synced files = (None, AList.update p r' files) \<and> repaired snaps r r'"
proof -
  obtain b where b: "r = record_of b" "budget_ok b" using assms(2) by (auto simp: record_ok_def)
  obtain e files' where E: "reconcileBudgetFile snaps p Synced files = (e, files')" by fastforce
  show ?thesis
    using E assms(1) [unfolded b(1)] b(2)
  proof (cases rule: reconcile_file_cases)
    case unread
    with assms(3) show ?thesis by simp
  next
    case same
    with E reconciled_repaired [OF same(3) assms(3)] b(1) show ?thesis by auto
  next
    case (written b')
    with E reconciled_repaired [OF written(1) assms(3)] b(1) show ?thesis by (auto simp: replace_file_def)
  qed
qed

lemma reconcile_files_exact:
  assumes "distinct paths" and "\<forall>p \<in> set paths. \<exists>r. map_of files p = Some r \<and> record_ok r" and "snaps_ok snaps"
  shows "\<exists>files'. reconcile_files snaps paths (\<lambda>_. Synced) files = (None, files') \<and>
    (\<forall>p r. map_of files p = Some r \<longrightarrow> (\<exists>r'. map_of files' p = Some r' \<and>
       (if p \<in> set paths then repaired snaps r r' else r' = r))) \<and>
    (\<forall>p. map_of files p = None \<longrightarrow> map_of files' p = None)"
  using assms(1,2)
proof (induction paths arbitrary: files)
  case (Cons p paths)
  obtain r where r: "map_of files p = Some r" "record_ok r" using Cons.prems(2) by auto
  obtain f1 r1 where f1: "reconcileBudgetFile snaps p Synced files = (None, f1)" "map_of f1 p = Some r1" "repaired snaps r r1"
    using reconcile_file_exact [OF r assms(3)] r(1) by (auto simp: update_conv')
  note fr = reconcile_file_frame [OF f1(1)]
  have "\<forall>q \<in> set paths. \<exists>r. map_of f1 q = Some r \<and> record_ok r"
    using Cons.prems fr by (metis distinct.simps(2) list.set_intros(2))
  from Cons.IH [OF _ this] Cons.prems(1) obtain f2 where
    f2: "reconcile_files snaps paths (\<lambda>_. Synced) f1 = (None, f2)"
    "\<forall>q r. map_of f1 q = Some r \<longrightarrow> (\<exists>r'. map_of f2 q = Some r' \<and> (if q \<in> set paths then repaired snaps r r' else r' = r))"
    "\<forall>q. map_of f1 q = None \<longrightarrow> map_of f2 q = None" by auto
  have "\<exists>r'. map_of f2 q = Some r' \<and> (if q \<in> set (p # paths) then repaired snaps r0 r' else r' = r0)"
    if q: "map_of files q = Some r0" for q r0
  proof (cases "q = p")
    case True
    then show ?thesis using q r(1) f1(2,3) f2(2) Cons.prems(1) by fastforce
  next
    case False
    then show ?thesis using q fr [OF False] f2(2) by auto
  qed
  moreover have "map_of f2 q = None" if "map_of files q = None" for q
    using that r(1) fr [of q] f2(3) by (cases "q = p") auto
  ultimately show ?case
    using f1(1) f2(1) by auto
qed auto

lemma reconcile_exact:
  assumes "distinct (map fst files)" and "books_ok files" and "snaps_ok snaps"
  shows "\<exists>files'. reconcileCommerce snaps (\<lambda>_. Synced) files = (None, files') \<and>
    (\<forall>p r. map_of files p = Some r \<longrightarrow> (\<exists>r'. map_of files' p = Some r' \<and>
       (if budget_entry p then repaired snaps r r' else r' = r))) \<and>
    (\<forall>p. map_of files p = None \<longrightarrow> map_of files' p = None)"
proof -
  let ?paths = "sort (filter budget_entry (map fst files))"
  have d: "distinct ?paths" using assms(1) by simp
  have r: "\<forall>p \<in> set ?paths. \<exists>r. map_of files p = Some r \<and> record_ok r"
  proof
    fix p assume "p \<in> set ?paths"
    then have "p \<in> fst ` set files" by auto
    then obtain r where "map_of files p = Some r"
      using map_of_eq_None_iff [of files p] by (cases "map_of files p") auto
    with assms(2) show "\<exists>r. map_of files p = Some r \<and> record_ok r" by (auto simp: books_ok_def)
  qed
  have e: "p \<in> set ?paths \<longleftrightarrow> budget_entry p" if "map_of files p = Some r" for p r
    using map_of_SomeD [OF that] by force
  obtain files' where f: "reconcile_files snaps ?paths (\<lambda>_. Synced) files = (None, files')"
    "\<forall>p r. map_of files p = Some r \<longrightarrow> (\<exists>r'. map_of files' p = Some r' \<and>
       (if p \<in> set ?paths then repaired snaps r r' else r' = r))"
    "\<forall>p. map_of files p = None \<longrightarrow> map_of files' p = None"
    using reconcile_files_exact [OF d r assms(3)] by blast
  have "\<exists>r'. map_of files' p = Some r' \<and> (if budget_entry p then repaired snaps r r' else r' = r)"
    if "map_of files p = Some r" for p r
    using f(2) that e [OF that] by metis
  with f(1,3) show ?thesis
    unfolding reconcileCommerce_def by blast
qed

lemma own_books_update: "own_books l f \<Longrightarrow> own_books l (AList.update (ledger_path l) r f)"
  by (auto simp: own_books_def distinct_update dom_update)

lemma own_books_Reserve:
  "Reserve k p w b f = (e, b', f') \<Longrightarrow> budget_shape b \<Longrightarrow> b_ledger b = l \<Longrightarrow> own_books l f \<Longrightarrow> own_books l f'"
  by (erule (1) Reserve_cases) (auto intro: own_books_update)

lemma own_books_Release:
  "Release k w b f = (e, b', f') \<Longrightarrow> budget_shape b \<Longrightarrow> b_ledger b = l \<Longrightarrow> own_books l f \<Longrightarrow> own_books l f'"
  by (erule (1) Release_cases) (auto intro: own_books_update)

lemma own_books_Commit:
  "Commit k w b f = (e, b', f') \<Longrightarrow> budget_shape b \<Longrightarrow> b_ledger b = l \<Longrightarrow> own_books l f \<Longrightarrow> own_books l f'"
  by (erule (1) Commit_cases) (auto intro: own_books_update)

lemma own_books_env:
  assumes "env_ok l tot env" and "own_books l (e_ledger env)"
  shows "env_Reserve w p n env = (e, env') \<Longrightarrow> own_books l (e_ledger env')"
    and "env_Release w n env = (e, n', env') \<Longrightarrow> own_books l (e_ledger env')"
    and "env_Commit w n env = (e, n', env') \<Longrightarrow> own_books l (e_ledger env')"
proof -
  have b: "budget_shape (e_budget env)" "b_ledger (e_budget env) = l"
    using assms(1) by (auto simp: env_ok_def budget_inv_def intro: ok_shape)
  show "env_Reserve w p n env = (e, env') \<Longrightarrow> own_books l (e_ledger env')"
    and "env_Release w n env = (e, n', env') \<Longrightarrow> own_books l (e_ledger env')"
    and "env_Commit w n env = (e, n', env') \<Longrightarrow> own_books l (e_ledger env')"
    using own_books_Reserve [OF _ b] own_books_Release [OF _ b] own_books_Commit [OF _ b] assms(2)
    by (auto simp: env_Reserve_eq env_Release_eq env_Commit_eq)
qed

lemma own_books_persist:
  assumes "persist w n env = (e, n', env1)" and "own_books l (e_ledger env)" and "env_ok l tot env"
    and "env1 = env' \<or> env_Release w2 n' env1 = (e2, n', env') \<or> env_Commit w2 n' env1 = (e2, n', env')"
  shows "own_books l (e_ledger env')"
proof -
  note P = persist_keeps(2,3) [OF assms(1)]
  have b: "budget_shape (e_budget env1)" "b_ledger (e_budget env1) = l"
    using assms(3) P by (auto simp: env_ok_def budget_inv_def intro: ok_shape)
  show ?thesis
    using assms(2,4) own_books_Release [OF _ b] own_books_Commit [OF _ b] P
    by (auto simp: env_Release_eq env_Commit_eq)
qed

lemma own_books_run:
  assumes "run_nop op now w n env = (e, n', env')" and ok: "env_ok l tot env" and own: "own_books l (e_ledger env)"
  shows "own_books l (e_ledger env')"
  using assms(1)
proof (cases rule: run_nop_cases)
  case (unreserved t)
  with own_books_env(1) [OF ok own] show ?thesis by blast
next
  case (ended st r e1)
  then show ?thesis using settle_effect [OF ended(3)] own_books_persist [OF _ own ok] by blast
next
  case (accepted t need env1)
  have "own_books l (e_ledger env1)"
    using accepted(5) own own_books_env(1) [OF ok own] by (cases "n_budget n") auto
  with persist_keeps(3) [OF accepted(6)] show ?thesis by simp
next
  case (reopened r e1 env1)
  then show ?thesis using own_books_persist [OF reopened(3) own ok] by blast
next
  case (finalized r c agreed q need e1 env1)
  then show ?thesis using own_books_persist [OF finalized(11) own ok] by blast
qed (use own in \<open>auto dest!: persist_keeps(3)\<close>)

lemma own_books_reconcile:
  assumes "reconcileCommerce snaps ws files = (e, files')" and "own_books l files"
  shows "own_books l files'"
proof -
  have one: "own_books l f'" if "reconcileBudgetFile snaps p w f = (e, f')" "own_books l f" for p w f e f'
  proof (cases "map_of f p")
    case None
    with that show ?thesis by (simp add: reconcileBudgetFile_def)
  next
    case (Some r)
    then have "p = ledger_path l" using that(2) map_of_SomeD [OF Some] by (force simp: own_books_def)
    with that Some show ?thesis
      by (auto simp: reconcileBudgetFile_def dest!: replace_file_cases intro: own_books_update
          split: if_splits sum.splits)
  qed
  have "reconcile_files snaps paths ws files = (e, files') \<Longrightarrow> own_books l files \<Longrightarrow> own_books l files'" for paths
  proof (induction paths arbitrary: files)
    case (Cons p paths)
    obtain e1 f1 where "reconcileBudgetFile snaps p (ws p) files = (e1, f1)" by fastforce
    with one [OF this] Cons show ?case by (cases e1) auto
  qed simp
  with assms show ?thesis by (simp add: reconcileCommerce_def)
qed

lemma own_books_open:
  assumes "OpenBudget tot (Some l) w files = (r, files')" and "own_books l files"
  shows "own_books l files'"
  using assms
  by (auto simp: OpenBudget_def budget_record_def ledger_Record_def Let_def dest!: replace_file_cases intro: own_books_update
      split: option.splits sum.splits if_splits prod.splits)

lemma neg_New_ledger: "neg_New nid conv cp md nw bud st now w env = (r, env') \<Longrightarrow> e_ledger env' = e_ledger env"
  by (erule neg_New_cases) (auto dest: persist_keeps(3))

lemma own_books_step:
  assumes "commerce_step l tot W W'" and "world_ok l tot W" and "own_books l (world_files W)"
  shows "own_books l (world_files W')"
  using assms
  by (cases rule: commerce_step.cases)
    (auto dest: neg_New_ledger intro: own_books_run own_books_reconcile own_books_open)

interpretation books: invariant_system "commerce_step l tot" "\<lambda>W. world_ok l tot W \<and> own_books l (world_files W)" for l tot
  by unfold_locales (auto intro: commerce_step_ok own_books_step)

subsection \<open>The example\<close>

lemma reconcile_nothing: "reconcileCommerce snaps ws [] = (None, [])"
  by (simp add: reconcileCommerce_def)

lemma ex_started: "commerce_step ex_ledger (ex_money 100) (Stopped [] []) (Running ex_env [])"
  unfolding ex_env_def by (rule start [OF reconcile_nothing ex_budget_open])

lemma AcceptIntent_stored:
  assumes "AcceptIntent now w n env = (None, n', env')" and "n_budget n"
  shows "\<exists>p s t. map_of (e_snaps env') p = Some s \<and> s_ID s = n_ID n \<and> s_State s = StateIntentAgreed \<and>
    n_onTable n = Some t \<and> s_Agreed s = Some t"
proof -
  from AcceptIntent_effect [OF assms(1)] obtain t need env1 where t: "n_onTable n = Some t" and
    p: "persist (fst w) (n\<lparr>n_agreed := Some t, n_needsApproval := need, n_state := StateIntentAgreed\<rparr>) env1 = (None, n', env')"
    by blast
  show ?thesis
    using p
  proof (cases rule: persist_cases)
    case (written s q)
    then show ?thesis using t take_Snapshot_Inr [OF written(1)] by (auto simp: update_conv')
  qed auto
qed

lemma ex_agreed_run:
  "\<exists>env' p s. (commerce_step ex_ledger (ex_money 100))\<^sup>*\<^sup>* (Stopped [] []) (Running env' [ex_agreed]) \<and>
     map_of (e_snaps env') p = Some s \<and> s_ID s = ''n1'' \<and> s_State s = StateIntentAgreed \<and> s_Agreed s = Some (ex_terms 60 900)"
proof -
  let ?step = "commerce_step ex_ledger (ex_money 100)"
  obtain env0 where e0: "neg_New ''n1'' (''conv_'' @ ex_hash) (''agent_'' @ ex_hash) ex_mandate (Some ex_network)
      True True 10 Synced ex_env = (Inr ex_neg, env0)" "e_budget env0 = ex_budget" "length (e_snaps env0) = 1"
    using ex_new by blast
  have 1: "?step (Running ex_env []) (Running env0 [ex_neg])" by (rule create [OF e0(1)]) simp
  obtain env1 where e1: "ReceiveProposal (ex_terms 60 900) 10 (Synced, Synced) ex_neg env0 = (None, ex_offered, env1)"
      "e_budget env1 = ex_budget" "length (e_snaps env1) \<le> 2"
    using ex_receive [of env0] e0 by auto
  have "run_nop (OpReceive (ex_terms 60 900)) 10 (Synced, Synced) ex_neg env0 = (None, ex_offered, env1)"
    using e1(1) by simp
  from operate [OF this, of ex_ledger "ex_money 100" "[]" "[]"]
  have 2: "?step (Running env0 [ex_neg]) (Running env1 [ex_offered])" by simp
  obtain env2 where e2: "AcceptIntent 10 (Synced, Synced) ex_offered env1 = (None, ex_agreed, env2)"
    using ex_accept [of env1] e1 by auto
  have "run_nop OpAccept 10 (Synced, Synced) ex_offered env1 = (None, ex_agreed, env2)" using e2 by simp
  from operate [OF this, of ex_ledger "ex_money 100" "[]" "[]"]
  have 3: "?step (Running env1 [ex_offered]) (Running env2 [ex_agreed])" by simp
  have "?step\<^sup>*\<^sup>* (Stopped [] []) (Running env2 [ex_agreed])"
    using ex_started 1 2 3 by (meson converse_rtranclp_into_rtranclp rtranclp.rtrancl_refl)
  moreover have "n_budget ex_offered" "n_ID ex_offered = ''n1''" "n_onTable ex_offered = Some (ex_terms 60 900)"
    by (simp_all add: ex_stages)
  ultimately show ?thesis
    using AcceptIntent_stored [OF e2] by fastforce
qed

lemma fresh_world_ok: "world_ok l tot (Stopped [] [])"
  by (simp add: files_ok_def)

lemma reachable_ok: "(commerce_step l tot)\<^sup>*\<^sup>* (Stopped [] []) W \<Longrightarrow> world_ok l tot W"
  by (rule commerce.steps_inv [OF _ fresh_world_ok])

section \<open>Properties\<close>



text \<open>
  C4. The ceiling holds over the whole program. In any such run what is spent and held never
  exceeds the total the budget was opened with: not in the memory of the running program and
  not in the ledger record a restart would read.
\<close>

theorem ceiling_holds:
  assumes "(commerce_step l tot)\<^sup>*\<^sup>* (Stopped [] []) W"
  shows "(\<forall>r. map_of (world_files W) (ledger_path l) = Some r \<longrightarrow> record_used r \<le> amount tot) \<and>
    (\<forall>env live. W = Running env live \<longrightarrow> used (e_budget env) \<le> amount tot)"
proof -
  have ok: "world_ok l tot W" by (rule reachable_ok [OF assms])
  then have "files_ok l tot (world_files W)" by (cases W) (auto simp: env_ok_def budget_inv_def)
  then have "\<forall>r. map_of (world_files W) (ledger_path l) = Some r \<longrightarrow> record_used r \<le> amount tot"
    by (auto simp: files_ok_def record_used_of budget_ok_def)
  with ok show ?thesis by (auto simp: env_ok_def budget_inv_def budget_ok_def)
qed

theorem ceiling_holds_witness:
  "\<exists>env live. (commerce_step ex_ledger (ex_money 100))\<^sup>*\<^sup>* (Stopped [] []) (Running env live) \<and>
     live \<noteq> [] \<and> used (e_budget env) \<le> amount (ex_money 100)"
proof -
  obtain env' where r: "(commerce_step ex_ledger (ex_money 100))\<^sup>*\<^sup>* (Stopped [] []) (Running env' [ex_agreed])"
    using ex_agreed_run by blast
  with ceiling_holds [OF r] show ?thesis by blast
qed





end
