(* ===== verification/Codec.thy ===== *)
theory Codec
  imports Canon
begin

text \<open>
  Decoders of whole bodies. A decoder of the program is a function literal that reads one
  field after the other from a \<open>canon.Reader\<close> and builds a struct; here it is a chain
  of reads, \<open>bindR\<close> being the sequence and \<open>returnR\<close> the struct built at the end.

  The rules compose the contract of a field reader along such a chain, one rule per kind of
  field: a decoder meets the contract of the concatenation of its fields, for the values each
  of whose fields fits the bound it is read with.
\<close>

definition bindR :: "(Reader \<Rightarrow> 'a \<times> Reader) \<Rightarrow> ('a \<Rightarrow> Reader \<Rightarrow> 'b \<times> Reader) \<Rightarrow> Reader \<Rightarrow> 'b \<times> Reader" where
  "bindR m f r = (case m r of (a, r') \<Rightarrow> f a r')"

definition returnR :: "'a \<Rightarrow> Reader \<Rightarrow> 'a \<times> Reader" where
  "returnR v r = (v, r)"

text \<open>\<open>if err := check; err != nil { return err }\<close> before the rest of a validator.\<close>

definition thenE :: "err option \<Rightarrow> err option \<Rightarrow> err option" where
  "thenE e k = (case e of Some x \<Rightarrow> Some x | None \<Rightarrow> k)"

definition failIf :: "bool \<Rightarrow> string \<Rightarrow> err option" where
  "failIf b m = (if b then Some (Msg m) else None)"

section \<open>Keys\<close>

text \<open>
  Ed25519 is a parameter: a key's public half, signing and verification.
\<close>

record Ed25519 =
  ed_Public :: "bytes \<Rightarrow> bytes"
  ed_Sign :: "bytes \<Rightarrow> bytes \<Rightarrow> bytes"
  ed_Verify :: "bytes \<Rightarrow> bytes \<Rightarrow> bytes \<Rightarrow> bool"

text \<open>What is documented of it: keys and signatures have their sizes, and a signature verifies.\<close>

definition ed_laws :: "Ed25519 \<Rightarrow> bool" where
  "ed_laws ed \<longleftrightarrow> (\<forall>k m. length k = 64 \<longrightarrow> length (ed_Public ed k) = 32 \<and> length (ed_Sign ed k m) = 64 \<and>
     ed_Verify ed (ed_Public ed k) m (ed_Sign ed k m))"

text \<open>
  A \<open>crypto.Signer\<close>: its public key, \<open>None\<close> where it is not an Ed25519 key, and what signing
  returns.
\<close>

record Signer =
  sg_Public :: "bytes option"
  sg_Sign :: "bytes \<Rightarrow> bytes res"

definition key_signer :: "Ed25519 \<Rightarrow> bytes \<Rightarrow> Signer" where
  "key_signer ed key = \<lparr>sg_Public = Some (ed_Public ed key), sg_Sign = (\<lambda>m. Inr (ed_Sign ed key m))\<rparr>"

section \<open>Lemmas\<close>

lemma thenE_None [simp]: "thenE e k = None \<longleftrightarrow> e = None \<and> k = None"
  by (auto simp: thenE_def split: option.splits)

lemma failIf_None [simp]: "failIf b m = None \<longleftrightarrow> \<not> b"
  by (simp add: failIf_def)

text \<open>
  \<open>parses acc enc ok rd\<close>: the rest of a chain, which builds only values whose fields read so
  far are as \<open>acc\<close> says.
\<close>

definition parses :: "('v \<Rightarrow> bool) \<Rightarrow> ('v \<Rightarrow> bytes) \<Rightarrow> ('v \<Rightarrow> bool) \<Rightarrow> (Reader \<Rightarrow> 'v \<times> Reader) \<Rightarrow> bool" where
  "parses acc enc ok rd \<longleftrightarrow> field_reader enc (\<lambda>v. acc v \<and> ok v) rd"

lemma field_reader_cong:
  assumes "field_reader enc ok rd" and "\<And>v. ok v \<longleftrightarrow> ok' v"
  shows "field_reader enc ok' rd"
proof -
  have "ok = ok'" using assms(2) by auto
  with assms(1) show ?thesis by simp
qed

lemma parses_start: "parses (\<lambda>_. True) enc ok rd \<Longrightarrow> field_reader enc ok rd"
  by (simp add: parses_def)

lemma parses_from: "parses acc enc ok rd \<Longrightarrow> field_reader enc (\<lambda>v. acc v \<and> ok v) rd"
  by (simp add: parses_def)

lemma field_reader_enc:
  assumes "field_reader enc ok rd" and "\<And>v. ok v \<Longrightarrow> enc' v = enc v"
  shows "field_reader enc' ok rd"
proof
  fix r v x assume "rest_of r = Some (enc' v @ x)" "ok v"
  with field_reader.complete [OF assms(1)] assms(2) show "\<exists>r'. rd r = (v, r') \<and> rest_of r' = Some x" by simp
next
  fix r v r' x assume "rd r = (v, r')" "rest_of r' = Some x"
  with field_reader.sound [OF assms(1)] assms(2) show "ok v \<and> rest_of r = Some (enc' v @ x)" by fastforce
qed

lemma parses_bind:
  assumes "field_reader e okf m" and "\<And>a. parses (\<lambda>v. acc v \<and> g v = a) enc ok (f a)"
  shows "parses acc (\<lambda>v. e (g v) @ enc v) (\<lambda>v. okf (g v) \<and> ok v) (bindR m f)"
  unfolding parses_def
proof
  fix r v x
  assume r: "rest_of r = Some ((e (g v) @ enc v) @ x)" and ok: "acc v \<and> okf (g v) \<and> ok v"
  then obtain r1 where 1: "m r = (g v, r1)" "rest_of r1 = Some (enc v @ x)"
    using field_reader.complete [OF assms(1), of r "g v" "enc v @ x"] by auto
  with ok field_reader.complete [OF assms(2) [unfolded parses_def], of r1 v x "g v"]
  show "\<exists>r'. bindR m f r = (v, r') \<and> rest_of r' = Some x" by (auto simp: bindR_def)
next
  fix r v r' x
  assume b: "bindR m f r = (v, r')" and x: "rest_of r' = Some x"
  obtain a r1 where 1: "m r = (a, r1)" by fastforce
  with b have "f a r1 = (v, r')" by (simp add: bindR_def)
  from field_reader.sound [OF assms(2) [unfolded parses_def] this x]
  have 2: "acc v" "g v = a" "ok v" "rest_of r1 = Some (enc v @ x)" by auto
  from field_reader.sound [OF assms(1) 1 2(4)] 2
  show "(acc v \<and> okf (g v) \<and> ok v) \<and> rest_of r = Some ((e (g v) @ enc v) @ x)" by auto
qed

lemma parses_return:
  assumes "\<And>v. acc v \<longleftrightarrow> v = h"
  shows "parses acc (\<lambda>_. []) (\<lambda>_. True) (returnR h)"
  unfolding parses_def by unfold_locales (auto simp: returnR_def assms)

lemma parses_last:
  assumes "field_reader e okf m" and "\<And>v a. acc v \<and> g v = a \<longleftrightarrow> v = h a"
  shows "parses acc (\<lambda>v. e (g v)) (\<lambda>v. okf (g v)) (bindR m (\<lambda>a. returnR (h a)))"
  using parses_bind [OF assms(1), of acc g "\<lambda>_. []" "\<lambda>_. True" "\<lambda>a. returnR (h a)"] parses_return [of _ "h _"] assms(2)
  by auto

lemmas parses_text = parses_bind [OF rtext.field_reader_axioms]
lemmas parses_bytes = parses_bind [OF rbytes.field_reader_axioms]
lemmas parses_u32 = parses_bind [OF ru32.field_reader_axioms, simplified]
lemmas parses_u64 = parses_bind [OF ru64.field_reader_axioms, simplified]
lemmas parses_hash = parses_bind [OF rhash.field_reader_axioms]

lemmas last_text = parses_last [OF rtext.field_reader_axioms]
lemmas last_bytes = parses_last [OF rbytes.field_reader_axioms]
lemmas last_u32 = parses_last [OF ru32.field_reader_axioms]
lemmas last_u64 = parses_last [OF ru64.field_reader_axioms]

text \<open>A count followed by that many fields, read by a loop.\<close>

lemma bindR_assoc: "bindR (bindR m f) g = bindR m (\<lambda>a. bindR (f a) g)"
  by (auto simp: bindR_def fun_eq_iff split: prod.splits)

lemma counted_reader:
  assumes "field_reader e okf rd"
  shows "field_reader (\<lambda>vs. canon_Uint32 (of_nat (length vs)) @ concat (map e vs))
     (\<lambda>vs. count_ok m (length vs) \<and> list_all okf vs) (bindR (r_Count m) (\<lambda>n. r_many n rd))"
proof
  fix r vs x
  assume r: "rest_of r = Some ((canon_Uint32 (of_nat (length vs)) @ concat (map e vs)) @ x)"
    and ok: "count_ok m (length vs) \<and> list_all okf vs"
  then obtain r1 where 1: "r_Count m r = (length vs, r1)" "rest_of r1 = Some (concat (map e vs) @ x)"
    using rcount.complete [of r "length vs" "concat (map e vs) @ x" m] by auto
  with ok field_reader.many_complete [OF assms 1(2)]
  show "\<exists>r'. bindR (r_Count m) (\<lambda>n. r_many n rd) r = (vs, r') \<and> rest_of r' = Some x" by (auto simp: bindR_def)
next
  fix r vs r' x
  assume b: "bindR (r_Count m) (\<lambda>n. r_many n rd) r = (vs, r')" and x: "rest_of r' = Some x"
  obtain n r1 where 1: "r_Count m r = (n, r1)" by fastforce
  with b have "r_many n rd r1 = (vs, r')" by (simp add: bindR_def)
  from field_reader.many_sound [OF assms this x]
  have 2: "length vs = n" "list_all okf vs" "rest_of r1 = Some (concat (map e vs) @ x)" by auto
  with rcount.sound [OF 1 2(3)]
  show "(count_ok m (length vs) \<and> list_all okf vs) \<and>
    rest_of r = Some ((canon_Uint32 (of_nat (length vs)) @ concat (map e vs)) @ x)" by auto
qed

lemmas counted_bytes = counted_reader [OF rbytes.field_reader_axioms]
lemmas parses_counted = parses_bind [OF counted_bytes, unfolded bindR_assoc]
lemmas last_counted = parses_last [OF counted_bytes, unfolded bindR_assoc]

lemmas parses_rules = parses_start parses_text parses_bytes parses_u32 parses_u64 parses_hash
  last_text last_bytes last_u32 last_u64

section \<open>Counted fields\<close>

text \<open>A count followed by that many fields is a field.\<close>

lemma counted_codec:
  assumes "field_codec enc ok"
  shows "field_codec (\<lambda>as. canon_Uint32 (of_nat (length as)) @ concat (map enc as)) (\<lambda>as. list_all ok as \<and> length as < 2 ^ 32)"
proof
  fix as bs x y
  assume ok: "list_all ok as \<and> length as < 2 ^ 32" "list_all ok bs \<and> length bs < 2 ^ 32"
    and eq: "(canon_Uint32 (of_nat (length as)) @ concat (map enc as)) @ x =
      (canon_Uint32 (of_nat (length bs)) @ concat (map enc bs)) @ y"
  then have n: "(of_nat (length as) :: u32) = of_nat (length bs)"
    and r: "concat (map enc as) @ x = concat (map enc bs) @ y"
    by (simp_all add: ru32.enc_eq)
  then have "length as = length bs" using ok by (simp add: word_of_nat_eq_iff take_bit_nat_eq_self)
  with r ok show "as = bs \<and> x = y" by (simp add: field_codec.enc_list [OF assms])
qed

interpretation ctexts: field_codec "\<lambda>as. canon_Uint32 (of_nat (length as)) @ concat (map canon_Text as)"
  "\<lambda>as. list_all short as \<and> length as < 2 ^ 32"
  by (rule counted_codec [OF ctext.field_codec_axioms])

interpretation cu32s: field_codec "\<lambda>as. canon_Uint32 (of_nat (length as)) @ concat (map canon_Uint32 as)"
  "\<lambda>as. list_all (\<lambda>_. True) as \<and> length as < 2 ^ 32"
  by (rule counted_codec [OF ru32.field_codec_axioms])

lemmas ctexts_eq = ctexts.enc_eq [unfolded append_assoc]
lemmas cu32s_eq = cu32s.enc_eq [unfolded append_assoc]

lemma ValidDigest_short: "ValidDigest d \<Longrightarrow> short d"
  by (auto intro: prefixed_hex64_short [OF ValidDigest_prefixed])

end
