(* ===== verification/Attachments.thy ===== *)
theory Attachments
  imports Codec
begin

text \<open>
  The encrypted attachment profile (\<open>pkg/attachments/attachments.go\<close>): what a manifest,
  its metadata and a secret reference must be, the canonical bytes their digests commit, and
  \<open>Seal\<close> and \<open>Open\<close>, which cut a plaintext into chunks, encrypt each under its own nonce
  and put it together again.

  AES-256-GCM is a parameter of \<open>Seal\<close> and \<open>Open\<close>, a sealing and an opening function; the
  round trip relies on its two documented laws, that opening what was sealed under the same
  key, nonce and additional data gives the plaintext back, and that a tag of sixteen bytes is
  added. The random source is the list of the bytes it will deliver.

  The lemmas are about one chunk and about the loops; the properties they give are in
  \<open>AttachmentSeal\<close>.
\<close>

section \<open>Profile\<close>

definition at_Schema :: string where
  "at_Schema = ''tos.messaging.encrypted-attachment.v1''"

definition at_Algorithm :: string where
  "at_Algorithm = ''AES-256-GCM''"

definition KeyBytes :: nat where
  "KeyBytes = 32"

definition AttachmentIDBytes :: nat where
  "AttachmentIDBytes = 16"

definition NoncePrefixBytes :: nat where
  "NoncePrefixBytes = 4"

definition DefaultChunkBytes :: nat where
  "DefaultChunkBytes = 262144"

definition MaxChunkBytes :: u32 where
  "MaxChunkBytes = 1048576"

definition MaxPlaintextBytes :: u64 where
  "MaxPlaintextBytes = 536870912"

definition MaxChunks :: u64 where
  "MaxChunks = 2048"

definition MaxFilenameBytes :: nat where
  "MaxFilenameBytes = 255"

definition MaxMediaTypeBytes :: nat where
  "MaxMediaTypeBytes = 255"

definition MaxReferenceBytes :: nat where
  "MaxReferenceBytes = 262144"

record Metadata =
  mt_Filename :: string
  mt_MediaType :: string
  mt_PlaintextDigest :: string
  mt_ExpiresAtUnix :: u64

record Manifest =
  mf_Schema :: string
  mf_Algorithm :: string
  mf_AttachmentIDHex :: string
  mf_NoncePrefixHex :: string
  mf_PlaintextBytes :: u64
  mf_ChunkBytes :: u32
  mf_MetadataDigest :: string
  mf_ChunkDigests :: "string list"

record Reference =
  rf_Manifest :: Manifest
  rf_KeyHex :: string
  rf_Metadata :: Metadata

record Chunk =
  ck_Index :: u32
  ck_Digest :: string
  ck_Ciphertext :: bytes

record Policy =
  po_MaxPlaintextBytes :: u64
  po_AllowedMediaTypes :: "string list"

definition DefaultPolicy :: Policy where
  "DefaultPolicy = \<lparr>po_MaxPlaintextBytes = MaxPlaintextBytes, po_AllowedMediaTypes = []\<rparr>"

section \<open>Validation\<close>

definition validContentDigest :: "string \<Rightarrow> bool" where
  "validContentDigest v \<longleftrightarrow> take 7 v = ''sha256:'' \<and> length v = 7 + 64 \<and> ValidDigest v"

text \<open>
  What \<open>strings.TrimSpace\<close> removes: the ASCII spaces and the UTF-8 forms of U+0085, U+00A0,
  U+1680, U+2000 to U+200A, U+2028, U+2029, U+202F, U+205F and U+3000. A text is its own
  trimmed form when it neither starts nor ends with one of them.
\<close>

definition spaces :: "string list" where
  "spaces = [[CHR 0x09], [CHR 0x0A], [CHR 0x0B], [CHR 0x0C], [CHR 0x0D], [CHR 0x20],
     [CHR 0xC2, CHR 0x85], [CHR 0xC2, CHR 0xA0], [CHR 0xE1, CHR 0x9A, CHR 0x80]] @
     map (\<lambda>n. [CHR 0xE2, CHR 0x80, char_of n]) ([128..<139] @ [168, 169, 175]) @
     [[CHR 0xE2, CHR 0x81, CHR 0x9F], [CHR 0xE3, CHR 0x80, CHR 0x80]]"

definition trimmed :: "string \<Rightarrow> bool" where
  "trimmed s \<longleftrightarrow> list_all (\<lambda>w. take (length w) s \<noteq> w \<and> drop (length s - length w) s \<noteq> w) spaces"

text \<open>
  \<open>mime.ParseMediaType\<close> gives back its input with no parameters exactly for a token, or two
  tokens with a slash between, in lower case.
\<close>

definition media_char :: "char \<Rightarrow> bool" where
  "media_char c \<longleftrightarrow> 33 \<le> byte_val c \<and> byte_val c \<le> 126 \<and> \<not> (65 \<le> byte_val c \<and> byte_val c \<le> 90) \<and>
     c \<notin> set ''()<>@,;:/[]?='' \<and> c \<noteq> CHR 0x22 \<and> c \<noteq> CHR 0x5C"

definition plain_media_type :: "string \<Rightarrow> bool" where
  "plain_media_type s \<longleftrightarrow> (let a = takeWhile media_char s; r = dropWhile media_char s in
     a \<noteq> [] \<and> (r = [] \<or> (hd r = CHR ''/'' \<and> tl r \<noteq> [] \<and> list_all media_char (tl r))))"

text \<open>
  \<open>filepath.Base\<close> of a non-empty name without a slash is the name, and a name with a slash is
  refused by the last check in any case.
\<close>

definition validateMetadata :: "Metadata \<Rightarrow> err option" where
  "validateMetadata m =
     (if mt_Filename m = '''' \<or> length (mt_Filename m) > MaxFilenameBytes \<or> \<not> utf8_valid (mt_Filename m) \<or>
         \<not> trimmed (mt_Filename m) \<or>
         list_ex (\<lambda>c. c = CHR ''/'' \<or> c = CHR 0x5C \<or> c = CHR 0x00 \<or> c = CHR 0x0D \<or> c = CHR 0x0A) (mt_Filename m)
      then Some (Msg ''invalid attachment display filename'')
      else if mt_MediaType m = '''' \<or> length (mt_MediaType m) > MaxMediaTypeBytes \<or> \<not> trimmed (mt_MediaType m)
      then Some (Msg ''invalid attachment media type'')
      else if \<not> plain_media_type (mt_MediaType m)
      then Some (Msg ''attachment media type must be a canonical type/subtype without parameters'')
      else if mt_PlaintextDigest m \<noteq> '''' \<and> \<not> ValidDigest (mt_PlaintextDigest m)
      then Some (Msg ''invalid optional plaintext digest'')
      else if mt_ExpiresAtUnix m = 0 then Some (Msg ''attachment has no expiry'')
      else None)"

definition fixed_hex :: "nat \<Rightarrow> string \<Rightarrow> bool" where
  "fixed_hex n s \<longleftrightarrow> (case hex_decode s of None \<Rightarrow> False | Some raw \<Rightarrow> length raw = n \<and> \<not> canon_IsZero raw)"

definition validateManifest :: "Manifest \<Rightarrow> err option" where
  "validateManifest m =
     (if mf_Schema m \<noteq> at_Schema \<or> mf_Algorithm m \<noteq> at_Algorithm
      then Some (Msg ''unsupported attachment profile'')
      else if \<not> fixed_hex AttachmentIDBytes (mf_AttachmentIDHex m)
      then Some (Msg ''invalid attachment identifier'')
      else if \<not> fixed_hex NoncePrefixBytes (mf_NoncePrefixHex m)
      then Some (Msg ''invalid attachment nonce prefix'')
      else if mf_PlaintextBytes m = 0 \<or> mf_PlaintextBytes m > MaxPlaintextBytes \<or>
         mf_ChunkBytes m = 0 \<or> mf_ChunkBytes m > MaxChunkBytes \<or> \<not> validContentDigest (mf_MetadataDigest m)
      then Some (Msg ''invalid attachment bounds'')
      else let expected = (mf_PlaintextBytes m + ucast (mf_ChunkBytes m) - 1) div ucast (mf_ChunkBytes m) in
      if expected = 0 \<or> expected > MaxChunks \<or> int (length (mf_ChunkDigests m)) \<noteq> uint expected
      then Some (Msg ''invalid attachment chunk count'')
      else if \<not> list_all validContentDigest (mf_ChunkDigests m)
      then Some (Msg ''invalid attachment chunk digest'')
      else None)"

definition MetadataDigest :: "Metadata \<Rightarrow> string res" where
  "MetadataDigest m = failE (validateMetadata m) (Inr (Digest (DomainAttachmentMetadata @
     canon_Text at_Schema @ canon_Text (mt_Filename m) @ canon_Text (mt_MediaType m) @
     canon_Text (mt_PlaintextDigest m) @ canon_Uint64 (mt_ExpiresAtUnix m))))"

definition manifestCanonical :: "Manifest \<Rightarrow> bytes res" where
  "manifestCanonical m = failE (validateManifest m) (Inr (DomainAttachmentManifest @
     canon_Text (mf_Schema m) @ canon_Text (mf_Algorithm m) @ canon_Text (mf_AttachmentIDHex m) @
     canon_Text (mf_NoncePrefixHex m) @ canon_Uint64 (mf_PlaintextBytes m) @ canon_Uint32 (mf_ChunkBytes m) @
     canon_Text (mf_MetadataDigest m) @ canon_Uint32 (of_nat (length (mf_ChunkDigests m))) @
     concat (map canon_Text (mf_ChunkDigests m))))"

definition ManifestDigest :: "Manifest \<Rightarrow> string res" where
  "ManifestDigest m = bindE (manifestCanonical m) (\<lambda>raw. Inr (Digest raw))"

definition ValidateReference :: "Reference \<Rightarrow> err option" where
  "ValidateReference ref = thenE (validateManifest (rf_Manifest ref))
     (if \<not> fixed_hex KeyBytes (rf_KeyHex ref) then Some (Msg ''invalid attachment key'')
      else thenE (validateMetadata (rf_Metadata ref))
        (if MetadataDigest (rf_Metadata ref) \<noteq> Inr (mf_MetadataDigest (rf_Manifest ref))
         then Some (Msg ''attachment metadata does not match its commitment'') else None))"

text \<open>
  The JSON text of a reference is read by the standard library; \<open>json\<close> is what its strict
  decoder makes of the bytes.
\<close>

definition DecodeReferenceJSON :: "(bytes \<Rightarrow> Reference res) \<Rightarrow> bytes \<Rightarrow> Reference res" where
  "DecodeReferenceJSON json raw =
     (if raw = [] \<or> length raw > MaxReferenceBytes then Inl (Msg ''invalid attachment reference size'')
      else bindE (json raw) (\<lambda>ref. failE (ValidateReference ref) (Inr ref)))"

definition Policy_validate :: "Policy \<Rightarrow> Reference \<Rightarrow> gotime \<Rightarrow> err option" where
  "Policy_validate p ref now =
     (if bad_time now then Some (Msg ''invalid attachment open time'')
      else let limit = (if po_MaxPlaintextBytes p = 0 then MaxPlaintextBytes else po_MaxPlaintextBytes p) in
      if limit > MaxPlaintextBytes \<or> mf_PlaintextBytes (rf_Manifest ref) > limit
      then Some (Msg ''attachment exceeds local plaintext limit'')
      else if unix now \<ge> mt_ExpiresAtUnix (rf_Metadata ref) then Some (Msg ''attachment is expired'')
      else if po_AllowedMediaTypes p \<noteq> [] \<and> mt_MediaType (rf_Metadata ref) \<notin> set (po_AllowedMediaTypes p)
      then Some (Msg ''attachment media type is not locally allowed'')
      else None)"

section \<open>Chunks\<close>

text \<open>The prefix is four bytes, so the copy leaves exactly the eight bytes of the index.\<close>

definition chunkNonce :: "bytes \<Rightarrow> u64 \<Rightarrow> bytes" where
  "chunkNonce prefix index = take 4 (prefix @ replicate 12 (CHR 0x00)) @ canon_Uint64 index"

definition chunkAAD :: "bytes \<Rightarrow> string \<Rightarrow> u64 \<Rightarrow> u32 \<Rightarrow> u32 \<Rightarrow> u32 \<Rightarrow> bytes" where
  "chunkAAD aid metadataDigest tot chunkSize count index = DomainAttachmentChunk @
     canon_Text at_Schema @ canon_Bytes aid @ canon_Text metadataDigest @ canon_Uint64 tot @
     canon_Uint32 chunkSize @ canon_Uint32 count @ canon_Uint32 index"

definition expectedChunkPlaintext :: "Manifest \<Rightarrow> nat \<Rightarrow> int" where
  "expectedChunkPlaintext m index =
     (if int index < int (length (mf_ChunkDigests m)) - 1 then uint (mf_ChunkBytes m)
      else sint (mf_PlaintextBytes m - of_nat index * ucast (mf_ChunkBytes m)))"

section \<open>Seal and Open\<close>

text \<open>AES-256-GCM: key, nonce, text and additional data.\<close>

type_synonym gcm_sealer = "bytes \<Rightarrow> bytes \<Rightarrow> bytes \<Rightarrow> bytes \<Rightarrow> bytes"
type_synonym gcm_opener = "bytes \<Rightarrow> bytes \<Rightarrow> bytes \<Rightarrow> bytes \<Rightarrow> bytes option"

definition gcm_laws :: "gcm_sealer \<Rightarrow> gcm_opener \<Rightarrow> bool" where
  "gcm_laws gcm_seal gcm_open \<longleftrightarrow>
     (\<forall>k n t a. gcm_open k n (gcm_seal k n t a) a = Some t \<and> length (gcm_seal k n t a) = length t + 16)"

definition read_full :: "nat \<Rightarrow> bytes \<Rightarrow> (bytes \<times> bytes) option" where
  "read_full n rng = (if length rng < n then None else Some (take n rng, drop n rng))"

definition chunk_text :: "bytes \<Rightarrow> nat \<Rightarrow> bytes" where
  "chunk_text plaintext index = (let start = index * DefaultChunkBytes;
     fin = min (start + DefaultChunkBytes) (length plaintext) in take (fin - start) (drop start plaintext))"

definition seal_chunk :: "gcm_sealer \<Rightarrow> bytes \<Rightarrow> bytes \<Rightarrow> bytes \<Rightarrow> string \<Rightarrow> nat \<Rightarrow> bytes \<Rightarrow> nat \<Rightarrow> Chunk" where
  "seal_chunk gcm_seal key prefix aid metadataDigest count plaintext index =
     (let sealed = gcm_seal key (chunkNonce prefix (of_nat index)) (chunk_text plaintext index)
        (chunkAAD aid metadataDigest (of_nat (length plaintext)) (of_nat DefaultChunkBytes) (of_nat count) (of_nat index))
      in \<lparr>ck_Index = of_nat index, ck_Digest = Digest sealed, ck_Ciphertext = sealed\<rparr>)"

definition Seal :: "gcm_sealer \<Rightarrow> bytes \<Rightarrow> bytes \<Rightarrow> Metadata \<Rightarrow> (Reference \<times> Chunk list) res" where
  "Seal gcm_seal rng plaintext metadata =
     (if plaintext = [] \<or> int (length plaintext) > uint MaxPlaintextBytes
      then Inl (Msg ''invalid attachment size'')
      else failE (validateMetadata metadata)
      (if mt_PlaintextDigest metadata \<noteq> '''' \<and> mt_PlaintextDigest metadata \<noteq> Digest plaintext
       then Inl (Msg ''declared plaintext digest does not match the attachment'')
       else case read_full KeyBytes rng of
         None \<Rightarrow> Inl (Msg ''draw attachment key'')
       | Some (key, rng1) \<Rightarrow> (case read_full AttachmentIDBytes rng1 of
         None \<Rightarrow> Inl (Msg ''draw attachment identifier'')
       | Some (aid, rng2) \<Rightarrow> (case read_full NoncePrefixBytes rng2 of
         None \<Rightarrow> Inl (Msg ''draw attachment nonce prefix'')
       | Some (prefix, _) \<Rightarrow>
       if canon_IsZero key \<or> canon_IsZero aid \<or> canon_IsZero prefix
       then Inl (Msg ''random attachment material is all zero'')
       else bindE (MetadataDigest metadata) (\<lambda>metadataDigest.
         let count = (length plaintext + DefaultChunkBytes - 1) div DefaultChunkBytes;
             chunks = map (seal_chunk gcm_seal key prefix aid metadataDigest count plaintext) [0..<count];
             manifest = \<lparr>mf_Schema = at_Schema, mf_Algorithm = at_Algorithm,
               mf_AttachmentIDHex = hex_encode aid, mf_NoncePrefixHex = hex_encode prefix,
               mf_PlaintextBytes = of_nat (length plaintext), mf_ChunkBytes = of_nat DefaultChunkBytes,
               mf_MetadataDigest = metadataDigest, mf_ChunkDigests = map ck_Digest chunks\<rparr>;
             ref = \<lparr>rf_Manifest = manifest, rf_KeyHex = hex_encode key, rf_Metadata = metadata\<rparr> in
         failE (ValidateReference ref) (Inr (ref, chunks)))))))"

text \<open>The loop over the chunks, the plaintext so far being its accumulator.\<close>

fun open_chunks :: "gcm_opener \<Rightarrow> Reference \<Rightarrow> bytes \<Rightarrow> bytes \<Rightarrow> bytes \<Rightarrow> nat \<Rightarrow> nat \<Rightarrow> Chunk list \<Rightarrow> bytes \<Rightarrow> bytes res" where
  "open_chunks gcm_open ref key prefix aid count index [] plaintext = Inr plaintext"
| "open_chunks gcm_open ref key prefix aid count index (chunk # chunks) plaintext =
     (let m = rf_Manifest ref in
      if ck_Index chunk \<noteq> of_nat index \<or> ck_Digest chunk \<noteq> mf_ChunkDigests m ! index \<or>
         Digest (ck_Ciphertext chunk) \<noteq> ck_Digest chunk
      then Inl (Msg ''attachment chunk identity mismatch'')
      else if int (length (ck_Ciphertext chunk)) \<noteq> expectedChunkPlaintext m index + 16
      then Inl (Msg ''attachment chunk has an invalid length'')
      else case gcm_open key (chunkNonce prefix (of_nat index)) (ck_Ciphertext chunk)
          (chunkAAD aid (mf_MetadataDigest m) (mf_PlaintextBytes m) (mf_ChunkBytes m) (of_nat count) (of_nat index)) of
        None \<Rightarrow> Inl (Msg ''attachment authentication failed'')
      | Some opened \<Rightarrow> open_chunks gcm_open ref key prefix aid count (Suc index) chunks (plaintext @ opened))"

definition raw_hex :: "string \<Rightarrow> bytes" where
  "raw_hex s = (case hex_decode s of None \<Rightarrow> [] | Some raw \<Rightarrow> raw)"

definition Open :: "gcm_opener \<Rightarrow> Reference \<Rightarrow> Chunk list \<Rightarrow> Policy \<Rightarrow> gotime \<Rightarrow> bytes res" where
  "Open gcm_open ref chunks policy now =
     failE (ValidateReference ref) (failE (Policy_validate policy ref now)
     (if length chunks \<noteq> length (mf_ChunkDigests (rf_Manifest ref))
      then Inl (Msg ''attachment chunk set is incomplete'')
      else bindE (open_chunks gcm_open ref (raw_hex (rf_KeyHex ref)) (raw_hex (mf_NoncePrefixHex (rf_Manifest ref)))
          (raw_hex (mf_AttachmentIDHex (rf_Manifest ref))) (length chunks) 0 chunks []) (\<lambda>plaintext.
        if of_nat (length plaintext) \<noteq> mf_PlaintextBytes (rf_Manifest ref)
        then Inl (Msg ''attachment plaintext length mismatch'')
        else if mt_PlaintextDigest (rf_Metadata ref) \<noteq> '''' \<and>
            Digest plaintext \<noteq> mt_PlaintextDigest (rf_Metadata ref)
        then Inl (Msg ''attachment plaintext digest mismatch'')
        else Inr plaintext)))"

definition MissingDigests :: "Reference \<Rightarrow> (string \<Rightarrow> bool) \<Rightarrow> string list res" where
  "MissingDigests ref held = failE (ValidateReference ref)
     (Inr (filter (\<lambda>d. \<not> held d) (mf_ChunkDigests (rf_Manifest ref))))"

section \<open>Lemmas\<close>

lemma chunk_texts:
  "concat (map (chunk_text p) [0..<n]) = take (n * DefaultChunkBytes) p"
proof (induction n)
  case (Suc n)
  have "take (Suc n * DefaultChunkBytes) p = take (n * DefaultChunkBytes) p @ chunk_text p n"
    using take_add [of "n * DefaultChunkBytes" DefaultChunkBytes p]
    by (auto simp: chunk_text_def Let_def min_def add.commute)
  with Suc show ?case by simp
qed simp

lemma length_chunk_text:
  "length (chunk_text p i) = min DefaultChunkBytes (length p - i * DefaultChunkBytes)"
  by (auto simp: chunk_text_def Let_def)

lemma sint_small: "k < 2 ^ 63 \<Longrightarrow> sint (of_nat k :: u64) = int k"
  by (simp add: signed_of_nat signed_take_bit_int_eq_self)

lemma chunk_count:
  assumes "p \<noteq> []" and "i < (length p + DefaultChunkBytes - 1) div DefaultChunkBytes"
  shows "i * DefaultChunkBytes < length p"
    and "Suc i < (length p + DefaultChunkBytes - 1) div DefaultChunkBytes \<Longrightarrow> Suc i * DefaultChunkBytes \<le> length p"
proof -
  have D: "DefaultChunkBytes > 0" by (simp add: DefaultChunkBytes_def)
  have *: "j * DefaultChunkBytes < length p" if "j < (length p + DefaultChunkBytes - 1) div DefaultChunkBytes" for j
  proof -
    have "Suc j * DefaultChunkBytes \<le> length p + DefaultChunkBytes - 1"
      using that D by (simp add: Suc_le_eq [symmetric] less_eq_div_iff_mult_less_eq)
    with D assms(1) show ?thesis by (simp add: DefaultChunkBytes_def)
  qed
  show "i * DefaultChunkBytes < length p" using * [OF assms(2)] .
  show "Suc i * DefaultChunkBytes \<le> length p" if "Suc i < (length p + DefaultChunkBytes - 1) div DefaultChunkBytes"
    using * [OF that] by simp
qed

lemma expected_sealed:
  fixes p :: bytes
  assumes p: "p \<noteq> []" "int (length p) \<le> uint MaxPlaintextBytes"
    and c: "c = (length p + DefaultChunkBytes - 1) div DefaultChunkBytes" and i: "i < c"
    and m: "mf_PlaintextBytes m = of_nat (length p)" "mf_ChunkBytes m = of_nat DefaultChunkBytes"
      "length (mf_ChunkDigests m) = c"
  shows "expectedChunkPlaintext m i = int (length (chunk_text p i))"
proof (cases "Suc i < c")
  case True
  then have "Suc i * DefaultChunkBytes \<le> length p" using chunk_count(2) [OF p(1), of i] i c by simp
  with True m show ?thesis
    by (simp add: expectedChunkPlaintext_def length_chunk_text) (simp add: DefaultChunkBytes_def)
next
  case False
  have lt: "i * DefaultChunkBytes < length p" using chunk_count(1) [OF p(1), of i] i c by simp
  have le: "length p - i * DefaultChunkBytes \<le> DefaultChunkBytes"
  proof -
    have "length p + DefaultChunkBytes - 1 < (Suc i + 1) * DefaultChunkBytes"
      using False i c dividend_less_times_div [of DefaultChunkBytes "length p + DefaultChunkBytes - 1"]
      by (simp add: DefaultChunkBytes_def)
    then show ?thesis by (simp add: DefaultChunkBytes_def)
  qed
  have "mf_PlaintextBytes m - of_nat i * ucast (mf_ChunkBytes m) = of_nat (length p - i * DefaultChunkBytes)"
    using lt m by (simp add: of_nat_diff DefaultChunkBytes_def)
  moreover have "sint (of_nat (length p - i * DefaultChunkBytes) :: u64) = int (length p - i * DefaultChunkBytes)"
    using le by (intro sint_small) (simp add: DefaultChunkBytes_def)
  ultimately show ?thesis
    using False i m(3) le lt by (simp add: expectedChunkPlaintext_def length_chunk_text)
qed

lemma open_sealed:
  assumes laws: "gcm_laws gcm_seal gcm_open"
    and p: "p \<noteq> []" "int (length p) \<le> uint MaxPlaintextBytes"
    and c: "c = (length p + DefaultChunkBytes - 1) div DefaultChunkBytes"
    and m: "mf_PlaintextBytes (rf_Manifest ref) = of_nat (length p)" "mf_ChunkBytes (rf_Manifest ref) = of_nat DefaultChunkBytes"
      "mf_ChunkDigests (rf_Manifest ref) = map ck_Digest (map (seal_chunk gcm_seal key prefix aid md c p) [0..<c])"
      "mf_MetadataDigest (rf_Manifest ref) = md"
    and i: "i \<le> c"
  shows "open_chunks gcm_open ref key prefix aid c i (map (seal_chunk gcm_seal key prefix aid md c p) [i..<c]) acc =
    Inr (acc @ concat (map (chunk_text p) [i..<c]))"
  using i
proof (induction "c - i" arbitrary: i acc)
  case (Suc k)
  then have i: "i < c" "k = c - Suc i" "Suc i \<le> c" by auto
  let ?s = "seal_chunk gcm_seal key prefix aid md c p"
  have e: "expectedChunkPlaintext (rf_Manifest ref) i = int (length (chunk_text p i))"
    using expected_sealed [OF p c i(1) m(1,2)] m(3) by simp
  have d: "mf_ChunkDigests (rf_Manifest ref) ! i = ck_Digest (?s i)" using i(1) m(3) by simp
  have "open_chunks gcm_open ref key prefix aid c i (?s i # map ?s [Suc i..<c]) acc =
      open_chunks gcm_open ref key prefix aid c (Suc i) (map ?s [Suc i..<c]) (acc @ chunk_text p i)"
    using laws e d m by (simp add: seal_chunk_def Let_def gcm_laws_def)
  also have "\<dots> = Inr ((acc @ chunk_text p i) @ concat (map (chunk_text p) [Suc i..<c]))"
    using Suc.hyps(1) [OF i(2,3)] .
  finally show ?case using i(1) by (simp add: upt_conv_Cons)
qed simp

lemma Seal_Inr:
  assumes "Seal gcm_seal rng p md = Inr (ref, chunks)"
  obtains key aid prefix d c where "p \<noteq> []" "int (length p) \<le> uint MaxPlaintextBytes"
    "length key = 32" "length aid = 16" "length prefix = 4"
    "mt_PlaintextDigest md = '''' \<or> mt_PlaintextDigest md = Digest p"
    "c = (length p + DefaultChunkBytes - 1) div DefaultChunkBytes"
    "chunks = map (seal_chunk gcm_seal key prefix aid d c p) [0..<c]"
    "ValidateReference ref = None" "rf_KeyHex ref = hex_encode key" "rf_Metadata ref = md"
    "rf_Manifest ref = \<lparr>mf_Schema = at_Schema, mf_Algorithm = at_Algorithm,
       mf_AttachmentIDHex = hex_encode aid, mf_NoncePrefixHex = hex_encode prefix,
       mf_PlaintextBytes = of_nat (length p), mf_ChunkBytes = of_nat DefaultChunkBytes,
       mf_MetadataDigest = d, mf_ChunkDigests = map ck_Digest chunks\<rparr>"
proof -
  let ?key = "take 32 rng" and ?aid = "take 16 (drop 32 rng)" and ?prefix = "take 4 (drop 48 rng)"
  let ?c = "(length p + DefaultChunkBytes - 1) div DefaultChunkBytes"
  obtain d where d: "p \<noteq> []" "int (length p) \<le> uint MaxPlaintextBytes" "length rng \<ge> 52"
    "mt_PlaintextDigest md = '''' \<or> mt_PlaintextDigest md = Digest p"
    "chunks = map (seal_chunk gcm_seal ?key ?prefix ?aid d ?c p) [0..<?c]"
    "ValidateReference ref = None"
    "ref = \<lparr>rf_Manifest = \<lparr>mf_Schema = at_Schema, mf_Algorithm = at_Algorithm,
       mf_AttachmentIDHex = hex_encode ?aid, mf_NoncePrefixHex = hex_encode ?prefix,
       mf_PlaintextBytes = of_nat (length p), mf_ChunkBytes = of_nat DefaultChunkBytes,
       mf_MetadataDigest = d, mf_ChunkDigests = map ck_Digest chunks\<rparr>,
       rf_KeyHex = hex_encode ?key, rf_Metadata = md\<rparr>"
    using assms
    by (auto simp: Seal_def failE_eq_Inr bindE_eq_Inr read_full_def Let_def not_less KeyBytes_def AttachmentIDBytes_def
        NoncePrefixBytes_def split: if_splits)
  show thesis
    by (rule that [of ?key ?aid ?prefix ?c d]) (use d in auto)
qed

lemma raw_hex_encode [simp]: "raw_hex (hex_encode b) = b"
  by (simp add: raw_hex_def)

lemma chunkNonce_inj: "chunkNonce p i = chunkNonce p j \<longleftrightarrow> i = j"
  using ru64.enc_last [of i j] by (simp add: chunkNonce_def)

lemma hex_decode_length: "hex_decode s = Some b \<Longrightarrow> length s = 2 * length b"
  by (induction s arbitrary: b rule: hex_decode.induct) (auto split: option.splits)

lemma fixed_hex_short: "fixed_hex n s \<Longrightarrow> n < 1000 \<Longrightarrow> short s"
  by (auto simp: fixed_hex_def short_def dest: hex_decode_length split: option.splits)

lemma open_chunks_Inr:
  assumes "open_chunks gcm_open ref key prefix aid c i chunks acc = Inr p"
    and "i + length chunks \<le> length (mf_ChunkDigests (rf_Manifest ref))"
  shows "map ck_Digest chunks = take (length chunks) (drop i (mf_ChunkDigests (rf_Manifest ref))) \<and>
    list_all (\<lambda>ch. Digest (ck_Ciphertext ch) = ck_Digest ch) chunks \<and>
    map ck_Index chunks = map of_nat [i..<i + length chunks]"
  using assms
proof (induction chunks arbitrary: i acc)
  case (Cons ch chunks)
  let ?ds = "mf_ChunkDigests (rf_Manifest ref)"
  have i: "i < length ?ds" using Cons.prems(2) by simp
  obtain acc' where "ck_Index ch = of_nat i" "ck_Digest ch = ?ds ! i" "Digest (ck_Ciphertext ch) = ck_Digest ch"
    "open_chunks gcm_open ref key prefix aid c (Suc i) chunks acc' = Inr p"
    using Cons.prems(1) by (auto simp: Let_def split: if_splits option.splits)
  moreover have "i + Suc (length chunks) = Suc i + length chunks" by simp
  ultimately show ?case
    using Cons.IH [of "Suc i" acc'] Cons.prems(2) i
    by (auto simp: Cons_nth_drop_Suc [symmetric] upt_conv_Cons simp del: upt_Suc)
qed simp

lemma open_of_sealed:
  assumes "Seal gcm_seal rng p md = Inr (ref, chunks)" and "gcm_laws gcm_seal gcm_open"
    and "Policy_validate policy ref now = None"
  shows "Open gcm_open ref chunks policy now = Inr p"
proof -
  obtain key aid prefix d c where S: "p \<noteq> []" "int (length p) \<le> uint MaxPlaintextBytes"
    "mt_PlaintextDigest md = '''' \<or> mt_PlaintextDigest md = Digest p"
    "c = (length p + DefaultChunkBytes - 1) div DefaultChunkBytes"
    "chunks = map (seal_chunk gcm_seal key prefix aid d c p) [0..<c]"
    "ValidateReference ref = None" "rf_KeyHex ref = hex_encode key" "rf_Metadata ref = md"
    "rf_Manifest ref = \<lparr>mf_Schema = at_Schema, mf_Algorithm = at_Algorithm,
       mf_AttachmentIDHex = hex_encode aid, mf_NoncePrefixHex = hex_encode prefix,
       mf_PlaintextBytes = of_nat (length p), mf_ChunkBytes = of_nat DefaultChunkBytes,
       mf_MetadataDigest = d, mf_ChunkDigests = map ck_Digest chunks\<rparr>"
    using Seal_Inr [OF assms(1)] by metis
  have "length p \<le> c * DefaultChunkBytes"
    unfolding S(4) using dividend_less_times_div [of DefaultChunkBytes "length p + DefaultChunkBytes - 1"]
    by (simp add: DefaultChunkBytes_def)
  then have "concat (map (chunk_text p) [0..<c]) = p" by (simp add: chunk_texts)
  moreover have "open_chunks gcm_open ref key prefix aid c 0 chunks [] = Inr ([] @ concat (map (chunk_text p) [0..<c]))"
    unfolding S(5) by (rule open_sealed [OF assms(2) S(1,2,4)]) (simp_all add: S(9) S(5))
  ultimately show ?thesis
    using S assms(3) by (auto simp: Open_def)
qed

text \<open>The fields of a valid manifest are short enough for their length prefixes.\<close>

lemma validateManifest_short:
  assumes "validateManifest m = None"
  shows "short (mf_Schema m)" "short (mf_Algorithm m)" "short (mf_AttachmentIDHex m)" "short (mf_NoncePrefixHex m)"
    "short (mf_MetadataDigest m)" "list_all short (mf_ChunkDigests m)" "length (mf_ChunkDigests m) \<le> 2048"
proof -
  have v: "mf_Schema m = at_Schema" "mf_Algorithm m = at_Algorithm" "fixed_hex 16 (mf_AttachmentIDHex m)"
    "fixed_hex 4 (mf_NoncePrefixHex m)" "validContentDigest (mf_MetadataDigest m)"
    "list_all validContentDigest (mf_ChunkDigests m)"
    and n: "\<exists>e \<le> MaxChunks. int (length (mf_ChunkDigests m)) = uint e"
    using assms
    by (auto simp: validateManifest_def Let_def not_less AttachmentIDBytes_def NoncePrefixBytes_def split: if_splits)
  have d: "validContentDigest x \<Longrightarrow> short x" for x by (simp add: validContentDigest_def short_def)
  show "short (mf_Schema m)" "short (mf_Algorithm m)" "short (mf_AttachmentIDHex m)" "short (mf_NoncePrefixHex m)"
    "short (mf_MetadataDigest m)" "list_all short (mf_ChunkDigests m)"
    using v(1,2) fixed_hex_short [OF v(3)] fixed_hex_short [OF v(4)] d [OF v(5)] v(6) d
    by (auto simp: short_def at_Schema_def at_Algorithm_def list_all_iff)
  from n obtain e where "e \<le> MaxChunks" "int (length (mf_ChunkDigests m)) = uint e" by blast
  then show "length (mf_ChunkDigests m) \<le> 2048"
    by (simp add: MaxChunks_def word_le_def)
qed

end
