(* ===== verification/AttachmentSeal.thy ===== *)
theory AttachmentSeal
  imports Attachments
begin

text \<open>
  What \<open>Seal\<close> and \<open>Open\<close> guarantee: a sealed attachment opens to its plaintext; the nonces
  of one attachment are pairwise different; what opens is what the manifest's digests commit
  to; and the canonical bytes of a manifest determine it. The examples evaluate the digests
  they need.
\<close>

definition ex_seal :: gcm_sealer where
  "ex_seal k n t a = replicate 16 (CHR 0x00) @ t"

definition ex_open :: gcm_opener where
  "ex_open k n c a = Some (drop 16 c)"

definition ex_metadata :: Metadata where
  "ex_metadata = \<lparr>mt_Filename = ''a.txt'', mt_MediaType = ''text/plain'', mt_PlaintextDigest = '''', mt_ExpiresAtUnix = 900\<rparr>"

definition ex_rng :: bytes where
  "ex_rng = replicate 52 (CHR ''k'')"

section \<open>Examples\<close>

lemma ex_chunk_digest: "validContentDigest (Digest (ex_seal k n ''hi'' a))"
  unfolding ex_seal_def by code_simp

lemma ex_metadata_digest: "case MetadataDigest ex_metadata of Inl e \<Rightarrow> False | Inr d \<Rightarrow> validContentDigest d"
  by code_simp

lemma ex_sealed:
  "\<exists>ref chunks. Seal ex_seal ex_rng ''hi'' ex_metadata = Inr (ref, chunks) \<and>
     rf_Metadata ref = ex_metadata \<and> mf_PlaintextBytes (rf_Manifest ref) = 2"
proof -
  obtain d where d: "MetadataDigest ex_metadata = Inr d" "validContentDigest d"
    using ex_metadata_digest by (auto split: sum.splits)
  have v: "validateMetadata ex_metadata = None" using d(1) by (simp add: MetadataDigest_def failE_eq_Inr)
  have z: "\<not> canon_IsZero (replicate n (CHR ''k''))" if "n > 0" for n
    using that by (cases n) (auto simp: canon_IsZero_def)
  then have h: "fixed_hex n (hex_encode (replicate n (CHR ''k'')))" if "n > 0" for n
    using that by (simp add: fixed_hex_def)
  have c: "chunk_text ''hi'' 0 = ''hi''" by (simp add: chunk_text_def DefaultChunkBytes_def)
  have "read_full KeyBytes ex_rng = Some (replicate 32 (CHR ''k''), replicate 20 (CHR ''k''))"
    "read_full AttachmentIDBytes (replicate 20 (CHR ''k'')) = Some (replicate 16 (CHR ''k''), replicate 4 (CHR ''k''))"
    "read_full NoncePrefixBytes (replicate 4 (CHR ''k'')) = Some (replicate 4 (CHR ''k''), [])"
    by (simp_all add: read_full_def ex_rng_def KeyBytes_def AttachmentIDBytes_def NoncePrefixBytes_def)
  moreover have "mt_PlaintextDigest ex_metadata = ''''" by (simp add: ex_metadata_def)
  ultimately show ?thesis
    using d v z h [of 16] h [of 4] h [of 32] ex_chunk_digest c
    by (simp add: Seal_def DefaultChunkBytes_def Let_def ValidateReference_def validateManifest_def seal_chunk_def
        KeyBytes_def AttachmentIDBytes_def NoncePrefixBytes_def MaxPlaintextBytes_def MaxChunkBytes_def MaxChunks_def
        thenE_def)
qed

lemma ex_gcm_laws: "gcm_laws ex_seal ex_open"
  by (simp add: gcm_laws_def ex_seal_def ex_open_def)

lemma ex_opened:
  assumes "Seal ex_seal ex_rng ''hi'' ex_metadata = Inr (ref, chunks)"
    and "rf_Metadata ref = ex_metadata" and "mf_PlaintextBytes (rf_Manifest ref) = 2"
  shows "Open ex_open ref chunks DefaultPolicy 10 = Inr ''hi''"
proof -
  have "Policy_validate DefaultPolicy ref 10 = None"
    using assms by (simp add: Policy_validate_def DefaultPolicy_def bad_time_iff MaxPlaintextBytes_def ex_metadata_def unix_def)
  from open_of_sealed [OF assms(1) ex_gcm_laws this] show ?thesis .
qed

section \<open>Properties\<close>

text \<open>
  C31. An attachment comes back whole. Whatever \<open>Seal\<close> returns for a plaintext, \<open>Open\<close> of
  that reference and those chunks gives exactly the plaintext, under any recipient policy
  that admits the attachment at that time and any cipher with the two laws of AES-GCM.
\<close>

theorem Seal_Open:
  assumes "Seal gcm_seal rng p md = Inr (ref, chunks)" and "gcm_laws gcm_seal gcm_open"
    and "Policy_validate policy ref now = None"
  shows "Open gcm_open ref chunks policy now = Inr p"
  by (rule open_of_sealed [OF assms])

theorem Seal_Open_witness:
  "\<exists>ref chunks. Seal ex_seal ex_rng ''hi'' ex_metadata = Inr (ref, chunks) \<and>
     Open ex_open ref chunks DefaultPolicy 10 = Inr ''hi''"
proof -
  obtain ref chunks where S: "Seal ex_seal ex_rng ''hi'' ex_metadata = Inr (ref, chunks)"
    "rf_Metadata ref = ex_metadata" "mf_PlaintextBytes (rf_Manifest ref) = 2"
    using ex_sealed by blast
  have "Policy_validate DefaultPolicy ref 10 = None"
    using S by (simp add: Policy_validate_def DefaultPolicy_def bad_time_iff MaxPlaintextBytes_def ex_metadata_def unix_def)
  from Seal_Open [OF S(1) ex_gcm_laws this] S(1) show ?thesis by blast
qed

text \<open>
  C32. No nonce is used twice. The chunks \<open>Seal\<close> returns are the pieces of the plaintext in
  order, each encrypted under the one fresh key with a nonce of its own.
\<close>

theorem Seal_nonces_distinct:
  assumes "Seal gcm_seal rng p md = Inr (ref, chunks)"
  shows "\<exists>key prefix aid. rf_KeyHex ref = hex_encode key \<and>
    map ck_Ciphertext chunks = map (\<lambda>i. gcm_seal key (chunkNonce prefix (of_nat i)) (chunk_text p i)
      (chunkAAD aid (mf_MetadataDigest (rf_Manifest ref)) (of_nat (length p)) (of_nat DefaultChunkBytes)
        (of_nat (length chunks)) (of_nat i))) [0..<length chunks] \<and>
    distinct (map (\<lambda>i. chunkNonce prefix (of_nat i)) [0..<length chunks])"
proof -
  obtain key aid prefix d c where S: "int (length p) \<le> uint MaxPlaintextBytes"
    "c = (length p + DefaultChunkBytes - 1) div DefaultChunkBytes"
    "chunks = map (seal_chunk gcm_seal key prefix aid d c p) [0..<c]" "rf_KeyHex ref = hex_encode key"
    "mf_MetadataDigest (rf_Manifest ref) = d"
    using Seal_Inr [OF assms] by (metis Manifest.select_convs(7))
  have "length p \<le> 536870912" using S(1) by (simp add: MaxPlaintextBytes_def)
  then have c: "c \<le> 2048" unfolding S(2) by (simp add: DefaultChunkBytes_def div_le_mono [of _ "2048 * 262144 + 262143" 262144, simplified])
  have "inj_on (of_nat :: nat \<Rightarrow> u64) {0..<c}"
    using c by (intro inj_onI) (simp add: of_nat_inverse word_of_nat_eq_iff take_bit_nat_eq_self)
  then have "distinct (map (\<lambda>i. chunkNonce prefix (of_nat i)) [0..<length chunks])"
    using S(3) by (auto simp: distinct_map inj_on_def chunkNonce_inj)
  then show ?thesis
    using S by (intro exI [of _ key] exI [of _ prefix] exI [of _ aid]) (simp add: seal_chunk_def Let_def)
qed

theorem Seal_nonces_distinct_witness:
  "\<exists>ref chunks prefix. Seal ex_seal ex_rng ''hi'' ex_metadata = Inr (ref, chunks) \<and>
     distinct (map (\<lambda>i. chunkNonce prefix (of_nat i)) [0..<length chunks])"
proof -
  obtain ref chunks where S: "Seal ex_seal ex_rng ''hi'' ex_metadata = Inr (ref, chunks)"
    using ex_sealed by blast
  with Seal_nonces_distinct [OF S] show ?thesis by blast
qed

text \<open>
  C33. What opens is what the reference commits to. When \<open>Open\<close> returns a plaintext, the
  chunks it was given are one for each digest of the manifest, in order and under their own
  index, each with a ciphertext of that digest; the plaintext has the declared length, its
  declared digest if there is one, and the attachment has not expired.
\<close>

theorem Open_authentic:
  assumes "Open gcm_open ref chunks policy now = Inr p"
  shows "ValidateReference ref = None \<and> map ck_Digest chunks = mf_ChunkDigests (rf_Manifest ref) \<and>
    list_all (\<lambda>ch. Digest (ck_Ciphertext ch) = ck_Digest ch) chunks \<and>
    map ck_Index chunks = map of_nat [0..<length chunks] \<and>
    of_nat (length p) = mf_PlaintextBytes (rf_Manifest ref) \<and>
    mt_PlaintextDigest (rf_Metadata ref) \<in> {'''', Digest p} \<and> unix now < mt_ExpiresAtUnix (rf_Metadata ref)"
proof -
  have O: "ValidateReference ref = None" "Policy_validate policy ref now = None"
    "length chunks = length (mf_ChunkDigests (rf_Manifest ref))"
    "of_nat (length p) = mf_PlaintextBytes (rf_Manifest ref)" "mt_PlaintextDigest (rf_Metadata ref) \<in> {'''', Digest p}"
    "open_chunks gcm_open ref (raw_hex (rf_KeyHex ref)) (raw_hex (mf_NoncePrefixHex (rf_Manifest ref)))
       (raw_hex (mf_AttachmentIDHex (rf_Manifest ref))) (length chunks) 0 chunks [] = Inr p"
    using assms by (auto simp: Open_def failE_eq_Inr bindE_eq_Inr split: if_splits)
  have "unix now < mt_ExpiresAtUnix (rf_Metadata ref)"
    using O(2) by (auto simp: Policy_validate_def Let_def not_le split: if_splits)
  then show ?thesis
    using O open_chunks_Inr [OF O(6)] by simp
qed

theorem Open_authentic_witness:
  "\<exists>ref chunks. Open ex_open ref chunks DefaultPolicy 10 = Inr ''hi'' \<and>
     map ck_Digest chunks = mf_ChunkDigests (rf_Manifest ref) \<and> unix 10 < mt_ExpiresAtUnix (rf_Metadata ref)"
proof -
  obtain ref chunks where S: "Seal ex_seal ex_rng ''hi'' ex_metadata = Inr (ref, chunks)"
    "rf_Metadata ref = ex_metadata" "mf_PlaintextBytes (rf_Manifest ref) = 2"
    using ex_sealed by blast
  have O: "Open ex_open ref chunks DefaultPolicy 10 = Inr ''hi''" using ex_opened [OF S] .
  from Open_authentic [OF O] O show ?thesis by blast
qed

text \<open>
  A manifest digest names one manifest: two valid manifests with the same canonical bytes
  are equal in every field.
\<close>

theorem manifestCanonical_injective:
  assumes "manifestCanonical m = Inr b" and "manifestCanonical n = Inr b"
  shows "m = n"
proof -
  have v: "validateManifest m = None" "validateManifest n = None"
    using assms by (auto simp: manifestCanonical_def failE_eq_Inr)
  note M = validateManifest_short [OF v(1)] and N = validateManifest_short [OF v(2)]
  have "canon_Text (mf_Schema m) @ canon_Text (mf_Algorithm m) @ canon_Text (mf_AttachmentIDHex m) @
     canon_Text (mf_NoncePrefixHex m) @ canon_Uint64 (mf_PlaintextBytes m) @ canon_Uint32 (mf_ChunkBytes m) @
     canon_Text (mf_MetadataDigest m) @ canon_Uint32 (of_nat (length (mf_ChunkDigests m))) @
     concat (map canon_Text (mf_ChunkDigests m)) =
     canon_Text (mf_Schema n) @ canon_Text (mf_Algorithm n) @ canon_Text (mf_AttachmentIDHex n) @
     canon_Text (mf_NoncePrefixHex n) @ canon_Uint64 (mf_PlaintextBytes n) @ canon_Uint32 (mf_ChunkBytes n) @
     canon_Text (mf_MetadataDigest n) @ canon_Uint32 (of_nat (length (mf_ChunkDigests n))) @
     concat (map canon_Text (mf_ChunkDigests n))"
    using assms v by (auto simp: manifestCanonical_def)
  then have "mf_Schema m = mf_Schema n \<and> mf_Algorithm m = mf_Algorithm n \<and> mf_AttachmentIDHex m = mf_AttachmentIDHex n \<and>
    mf_NoncePrefixHex m = mf_NoncePrefixHex n \<and> mf_PlaintextBytes m = mf_PlaintextBytes n \<and>
    mf_ChunkBytes m = mf_ChunkBytes n \<and> mf_MetadataDigest m = mf_MetadataDigest n \<and>
    (of_nat (length (mf_ChunkDigests m)) :: u32) = of_nat (length (mf_ChunkDigests n)) \<and>
    concat (map canon_Text (mf_ChunkDigests m)) = concat (map canon_Text (mf_ChunkDigests n))"
    using M(1-6) N(1-6) by (simp add: ctext.enc_eq ru64.enc_eq ru32.enc_eq)
  moreover from this have "length (mf_ChunkDigests m) = length (mf_ChunkDigests n)"
    using M(7) N(7) by (simp add: word_of_nat_eq_iff take_bit_nat_eq_self)
  ultimately show ?thesis
    using ctext.enc_list_last [OF M(6) N(6)] by (auto intro: Manifest.equality)
qed

theorem manifestCanonical_injective_witness:
  "\<exists>m n b. manifestCanonical m = Inr b \<and> manifestCanonical n = Inr b \<and> mf_PlaintextBytes m = 2 \<and> m = n"
proof -
  obtain ref chunks where S: "Seal ex_seal ex_rng ''hi'' ex_metadata = Inr (ref, chunks)"
    "mf_PlaintextBytes (rf_Manifest ref) = 2"
    using ex_sealed by blast
  have "validateManifest (rf_Manifest ref) = None"
    using Seal_Inr [OF S(1)] by (metis ValidateReference_def thenE_None)
  then obtain b where b: "manifestCanonical (rf_Manifest ref) = Inr b" by (simp add: manifestCanonical_def)
  from manifestCanonical_injective [OF b b] b S(2) show ?thesis by blast
qed

end
