(* ===== verification/AttachmentAccess.thy ===== *)
theory AttachmentAccess
  imports Attachments Mandates
begin

text \<open>
  Remote access to stored attachments (\<open>pkg/attachments/remote_auth.go\<close> and
  \<open>remote_ack.go\<close>): the capability grant an Endpoint signs, the single-use request a
  capability key signs for one exact operation body, the acknowledgements a storage operator
  signs, and what each verification checks.

  Ed25519 is a parameter: a key's public half, signing and verification. The text between the
  JSON wire and the structs is the standard library's; \<open>json\<close> is what its strict decoder makes
  of the bytes.
\<close>

section \<open>Grants and requests\<close>

definition CapabilityGrantSchema :: string where
  "CapabilityGrantSchema = ''tos.messaging.attachment-capability-grant.v1''"

definition AccessRequestSchema :: string where
  "AccessRequestSchema = ''tos.messaging.attachment-access-request.v1''"

definition MaxGrantBytes :: nat where
  "MaxGrantBytes = 262144"

definition MaxAccessRequestBytes :: nat where
  "MaxAccessRequestBytes = 4096"

definition MaxGrantLifetime :: duration where
  "MaxGrantLifetime = 30 * 24 * Hour"

definition MaxRequestLifetime :: duration where
  "MaxRequestLifetime = 2 * Minute"

definition MaxRequestFutureSkew :: duration where
  "MaxRequestFutureSkew = 30 * Second"

definition OperationUpload :: string where
  "OperationUpload = ''upload''"

definition OperationFetch :: string where
  "OperationFetch = ''fetch''"

definition OperationDelete :: string where
  "OperationDelete = ''delete''"

record CapabilityGrant =
  gr_Schema :: string
  gr_NetworkID :: string
  gr_GenesisRootHash :: string
  gr_GenesisFileHash :: string
  gr_AgentID :: string
  gr_EndpointID :: string
  gr_StoragePublicKeyHex :: string
  gr_CapabilityPublicKeyHex :: string
  gr_ManifestDigest :: string
  gr_ChunkDigests :: "string list"
  gr_CiphertextBytes :: u64
  gr_RetainUntilUnix :: u64
  gr_Operations :: "string list"
  gr_IssuedAtUnix :: u64
  gr_ExpiresAtUnix :: u64
  gr_EndpointSignatureHex :: string

record AccessRequest =
  rq_Schema :: string
  rq_GrantDigest :: string
  rq_Operation :: string
  rq_BodyDigest :: string
  rq_NonceHex :: string
  rq_IssuedAtUnix :: u64
  rq_ExpiresAtUnix :: u64
  rq_CapabilitySignatureHex :: string

definition validOperation :: "string \<Rightarrow> bool" where
  "validOperation op \<longleftrightarrow> op = OperationUpload \<or> op = OperationFetch \<or> op = OperationDelete"

definition grantAllows :: "CapabilityGrant \<Rightarrow> string \<Rightarrow> bool" where
  "grantAllows grant expected \<longleftrightarrow> list_ex (\<lambda>op. op = expected) (gr_Operations grant)"

definition operationBody :: "string \<Rightarrow> bytes" where
  "operationBody op = DomainAttachmentOperationBody @ canon_Text op"

definition decodeFixedHex :: "string \<Rightarrow> nat \<Rightarrow> bytes res" where
  "decodeFixedHex v n =
     (if length v \<noteq> n * 2 then Inl (Msg ''wrong hexadecimal length'')
      else case hex_decode v of
        None \<Rightarrow> Inl (Msg ''non-canonical hexadecimal value'')
      | Some decoded \<Rightarrow>
          if hex_encode decoded \<noteq> v then Inl (Msg ''non-canonical hexadecimal value'') else Inr decoded)"

text \<open>A loop that refuses a malformed digest and a digest it has seen before.\<close>

fun fresh_digests :: "string \<Rightarrow> string \<Rightarrow> string list \<Rightarrow> string list \<Rightarrow> err option" where
  "fresh_digests bad dup seen [] = None"
| "fresh_digests bad dup seen (digest # ds) =
     (if \<not> validContentDigest digest then Some (Msg bad)
      else if digest \<in> set seen then Some (Msg dup)
      else fresh_digests bad dup (digest # seen) ds)"

text \<open>\<open>sort.SliceIsSorted\<close> looks for an element below the one before it.\<close>

definition slice_sorted :: "string list \<Rightarrow> bool" where
  "slice_sorted ops \<longleftrightarrow> list_all (\<lambda>i. \<not> ops ! Suc i < ops ! i) [0..<length ops - 1]"

fun bad_operation :: "string option \<Rightarrow> string list \<Rightarrow> bool" where
  "bad_operation previous [] = False"
| "bad_operation previous (op # ops) = (\<not> validOperation op \<or> previous = Some op \<or> bad_operation (Some op) ops)"

definition nonzero32 :: "string \<Rightarrow> string \<Rightarrow> bytes res" where
  "nonzero32 m v = (case decodeFixedHex v 32 of
     Inl e \<Rightarrow> Inl (Msg m)
   | Inr key \<Rightarrow> if canon_IsZero key then Inl (Msg m) else Inr key)"

definition validateGrant :: "CapabilityGrant \<Rightarrow> (bytes \<times> bytes) res" where
  "validateGrant g =
     (if gr_Schema g \<noteq> CapabilityGrantSchema \<or> gr_NetworkID g = '''' \<or> length (gr_NetworkID g) > 128 \<or>
         \<not> ids_Agent (gr_AgentID g) \<or> \<not> ids_Endpoint (gr_EndpointID g) \<or>
         \<not> HashPattern (gr_GenesisRootHash g) \<or> \<not> HashPattern (gr_GenesisFileHash g) \<or>
         \<not> validContentDigest (gr_ManifestDigest g) \<or> gr_ChunkDigests g = [] \<or>
         int (length (gr_ChunkDigests g)) > uint MaxChunks \<or>
         gr_CiphertextBytes g = 0 \<or> gr_CiphertextBytes g > MaxPlaintextBytes + MaxChunks * 16 \<or>
         gr_IssuedAtUnix g = 0 \<or> gr_RetainUntilUnix g \<le> gr_IssuedAtUnix g \<or>
         gr_ExpiresAtUnix g < gr_RetainUntilUnix g \<or>
         gr_ExpiresAtUnix g - gr_IssuedAtUnix g > word_of_int (in_seconds MaxGrantLifetime) \<or>
         gr_Operations g = [] \<or> length (gr_Operations g) > 3
      then Inl (Msg ''invalid attachment capability grant'')
      else failE (fresh_digests ''invalid attachment grant chunk digest'' ''duplicate attachment grant chunk digest''
          [] (gr_ChunkDigests g))
      (if \<not> slice_sorted (gr_Operations g) then Inl (Msg ''attachment grant operations are not canonical'')
       else if bad_operation None (gr_Operations g) then Inl (Msg ''invalid attachment grant operation'')
       else bindE (nonzero32 ''invalid attachment storage public key'' (gr_StoragePublicKeyHex g)) (\<lambda>storage.
         bindE (nonzero32 ''invalid attachment capability public key'' (gr_CapabilityPublicKeyHex g)) (\<lambda>capability.
         Inr (storage, capability)))))"

definition GrantCanonicalBytes :: "CapabilityGrant \<Rightarrow> bytes res" where
  "GrantCanonicalBytes g = bindE (validateGrant g) (\<lambda>(storage, capability).
     bindE (canon_Hash32 (gr_GenesisRootHash g)) (\<lambda>root.
     bindE (canon_Hash32 (gr_GenesisFileHash g)) (\<lambda>file.
     Inr (DomainAttachmentCapabilityGrant @ canon_Text CapabilityGrantSchema @ canon_Text (gr_NetworkID g) @
       root @ file @ canon_Text (gr_AgentID g) @ canon_Text (gr_EndpointID g) @
       canon_Bytes storage @ canon_Bytes capability @ canon_Text (gr_ManifestDigest g) @
       canon_Uint32 (of_nat (length (gr_ChunkDigests g))) @ concat (map canon_Text (gr_ChunkDigests g)) @
       canon_Uint64 (gr_CiphertextBytes g) @ canon_Uint64 (gr_RetainUntilUnix g) @
       canon_Uint32 (of_nat (length (gr_Operations g))) @ concat (map canon_Text (gr_Operations g)) @
       canon_Uint64 (gr_IssuedAtUnix g) @ canon_Uint64 (gr_ExpiresAtUnix g)))))"

definition GrantDigest :: "CapabilityGrant \<Rightarrow> string res" where
  "GrantDigest g = bindE (GrantCanonicalBytes g) (\<lambda>preimage. Inr (Digest preimage))"

definition SignGrantWithSigner :: "Ed25519 \<Rightarrow> CapabilityGrant \<Rightarrow> Signer \<Rightarrow> CapabilityGrant res" where
  "SignGrantWithSigner ed g signer = (case sg_Public signer of
     None \<Rightarrow> Inl (Msg ''attachment Endpoint signer is not Ed25519'')
   | Some endpointPublic \<Rightarrow>
       if length endpointPublic \<noteq> 32 \<or> canon_IsZero endpointPublic
       then Inl (Msg ''attachment Endpoint signer is not Ed25519'')
       else let g = g\<lparr>gr_Schema := CapabilityGrantSchema, gr_EndpointSignatureHex := ''''\<rparr> in
       bindE (GrantCanonicalBytes g) (\<lambda>preimage.
       bindE (validateGrant g) (\<lambda>(storage, capability).
       if storage = capability \<or> storage = endpointPublic \<or> capability = endpointPublic
       then Inl (Msg ''attachment Endpoint, storage, and capability keys must be distinct'')
       else case sg_Sign signer preimage of
         Inl e \<Rightarrow> Inl (Msg ''sign attachment capability grant: '')
       | Inr signature \<Rightarrow>
           if length signature \<noteq> 64 \<or> \<not> ed_Verify ed endpointPublic preimage signature
           then Inl (Msg ''attachment Endpoint signer returned an invalid signature'')
           else Inr (g\<lparr>gr_EndpointSignatureHex := hex_encode signature\<rparr>))))"

definition SignGrant :: "Ed25519 \<Rightarrow> CapabilityGrant \<Rightarrow> bytes \<Rightarrow> CapabilityGrant res" where
  "SignGrant ed g endpointKey =
     (if length endpointKey \<noteq> 64 then Inl (Msg ''invalid attachment Endpoint signing key'')
      else SignGrantWithSigner ed g (key_signer ed endpointKey))"

text \<open>The last check of every verification: a hexadecimal signature of the preimage.\<close>

definition bad_signature :: "Ed25519 \<Rightarrow> bytes \<Rightarrow> bytes \<Rightarrow> string \<Rightarrow> bool" where
  "bad_signature ed key preimage signatureHex = (case hex_decode signatureHex of
     None \<Rightarrow> True
   | Some signature \<Rightarrow> length signature \<noteq> 64 \<or> \<not> ed_Verify ed key preimage signature)"

definition VerifyGrant :: "Ed25519 \<Rightarrow> CapabilityGrant \<Rightarrow> bytes \<Rightarrow> bytes \<Rightarrow> gotime \<Rightarrow> err option" where
  "VerifyGrant ed g endpointKey storageKey now = (case GrantCanonicalBytes g of
     Inl e \<Rightarrow> Some e
   | Inr preimage \<Rightarrow>
       if length endpointKey \<noteq> 32 \<or> canon_IsZero endpointKey \<or> length storageKey \<noteq> 32 \<or> canon_IsZero storageKey
       then Some (Msg ''invalid attachment authority key'')
       else (case decodeFixedHex (gr_StoragePublicKeyHex g) 32 of
         Inl e \<Rightarrow> Some e
       | Inr bound \<Rightarrow>
           if bound \<noteq> storageKey then Some (Msg ''attachment grant names another storage operator'')
           else (case decodeFixedHex (gr_CapabilityPublicKeyHex g) 32 of
             Inl e \<Rightarrow> Some e
           | Inr capability \<Rightarrow>
               if bound = capability \<or> bound = endpointKey \<or> capability = endpointKey
               then Some (Msg ''attachment Endpoint, storage, and capability keys are not separated'')
               else if bad_time now \<or> unix now < gr_IssuedAtUnix g \<or> unix now \<ge> gr_ExpiresAtUnix g
               then Some (Msg ''attachment grant is outside its validity window'')
               else if bad_signature ed endpointKey preimage (gr_EndpointSignatureHex g)
               then Some (Msg ''invalid attachment grant signature'')
               else None)))"

definition AccessRequestCanonicalBytes :: "AccessRequest \<Rightarrow> bytes res" where
  "AccessRequestCanonicalBytes r =
     (if rq_Schema r \<noteq> AccessRequestSchema \<or> \<not> ValidDigest (rq_GrantDigest r) \<or> \<not> validOperation (rq_Operation r) \<or>
         \<not> ValidDigest (rq_BodyDigest r) \<or> rq_IssuedAtUnix r = 0 \<or> rq_ExpiresAtUnix r \<le> rq_IssuedAtUnix r \<or>
         rq_ExpiresAtUnix r - rq_IssuedAtUnix r > word_of_int (in_seconds MaxRequestLifetime)
      then Inl (Msg ''invalid attachment access request'')
      else bindE (nonzero32 ''invalid attachment access nonce'' (rq_NonceHex r)) (\<lambda>nonce.
        Inr (DomainAttachmentAccessRequest @ canon_Text AccessRequestSchema @ canon_Text (rq_GrantDigest r) @
          canon_Text (rq_Operation r) @ canon_Text (rq_BodyDigest r) @ canon_Bytes nonce @
          canon_Uint64 (rq_IssuedAtUnix r) @ canon_Uint64 (rq_ExpiresAtUnix r))))"

definition SignAccessRequest :: "Ed25519 \<Rightarrow> AccessRequest \<Rightarrow> bytes \<Rightarrow> AccessRequest res" where
  "SignAccessRequest ed r capabilityKey =
     (if length capabilityKey \<noteq> 64 then Inl (Msg ''invalid attachment capability signing key'')
      else let r = r\<lparr>rq_Schema := AccessRequestSchema, rq_CapabilitySignatureHex := ''''\<rparr> in
        bindE (AccessRequestCanonicalBytes r) (\<lambda>preimage.
        Inr (r\<lparr>rq_CapabilitySignatureHex := hex_encode (ed_Sign ed capabilityKey preimage)\<rparr>)))"

definition VerifyAccessRequest ::
    "Ed25519 \<Rightarrow> CapabilityGrant \<Rightarrow> AccessRequest \<Rightarrow> string \<Rightarrow> string \<Rightarrow> gotime \<Rightarrow> err option" where
  "VerifyAccessRequest ed g r expected bodyDigest now = (case GrantDigest g of
     Inl e \<Rightarrow> Some e
   | Inr grantDigest \<Rightarrow> (case AccessRequestCanonicalBytes r of
     Inl e \<Rightarrow> Some e
   | Inr preimage \<Rightarrow>
       if rq_GrantDigest r \<noteq> grantDigest \<or> rq_Operation r \<noteq> expected \<or> rq_BodyDigest r \<noteq> bodyDigest
       then Some (Msg ''attachment request does not match its grant or operation body'')
       else if \<not> grantAllows g expected then Some (Msg ''attachment grant does not allow the operation'')
       else if bad_time now \<or> unix (now + in_seconds MaxRequestFutureSkew) < rq_IssuedAtUnix r \<or>
         unix now \<ge> rq_ExpiresAtUnix r \<or> rq_IssuedAtUnix r < gr_IssuedAtUnix g \<or> rq_ExpiresAtUnix r > gr_ExpiresAtUnix g
       then Some (Msg ''attachment request is outside its validity window'')
       else (case decodeFixedHex (gr_CapabilityPublicKeyHex g) 32 of
         Inl e \<Rightarrow> Some e
       | Inr capability \<Rightarrow>
           if bad_signature ed capability preimage (rq_CapabilitySignatureHex r)
           then Some (Msg ''invalid attachment capability signature'')
           else None)))"


section \<open>Operation bodies\<close>

text \<open>A Go map from digests to indexes built by a loop: a later entry replaces an earlier one.\<close>

definition positions :: "string list \<Rightarrow> string \<Rightarrow> u32 option" where
  "positions ds = map_of (rev (zip ds (map of_nat [0..<length ds])))"

fun upload_body :: "(string \<Rightarrow> u32 option) \<Rightarrow> string list \<Rightarrow> bytes \<Rightarrow> u64 \<Rightarrow> Chunk list \<Rightarrow> (bytes \<times> u64) res" where
  "upload_body pos seen b tot [] = Inr (b, tot)"
| "upload_body pos seen b tot (chunk # chunks) =
     (if pos (ck_Digest chunk) \<noteq> Some (ck_Index chunk) \<or> length (ck_Ciphertext chunk) \<le> 16 \<or>
         int (length (ck_Ciphertext chunk)) > uint MaxChunkBytes + 16 \<or>
         Digest (ck_Ciphertext chunk) \<noteq> ck_Digest chunk
      then Inl (Msg ''invalid attachment upload chunk'')
      else if ck_Digest chunk \<in> set seen then Inl (Msg ''duplicate attachment upload chunk'')
      else upload_body pos (ck_Digest chunk # seen)
        (b @ canon_Uint32 (ck_Index chunk) @ canon_Text (ck_Digest chunk) @
         canon_Uint64 (of_nat (length (ck_Ciphertext chunk))))
        (tot + of_nat (length (ck_Ciphertext chunk))) chunks)"

definition UploadBodyDigest :: "CapabilityGrant \<Rightarrow> Chunk list \<Rightarrow> string res" where
  "UploadBodyDigest g chunks = bindE (validateGrant g) (\<lambda>_.
     if chunks = [] \<or> length chunks > length (gr_ChunkDigests g)
     then Inl (Msg ''invalid attachment upload batch'')
     else bindE (upload_body (positions (gr_ChunkDigests g)) []
         (operationBody OperationUpload @ canon_Text (gr_ManifestDigest g) @ canon_Uint64 (gr_RetainUntilUnix g) @
          canon_Uint32 (of_nat (length chunks))) 0 chunks) (\<lambda>(b, tot).
       if tot > gr_CiphertextBytes g
       then Inl (Msg ''attachment upload byte count exceeds its grant'') else Inr (Digest b)))"

fun fetch_body :: "string list \<Rightarrow> string list \<Rightarrow> bytes \<Rightarrow> string list \<Rightarrow> bytes res" where
  "fetch_body allowed seen b [] = Inr b"
| "fetch_body allowed seen b (digest # ds) =
     (if digest \<notin> set allowed then Inl (Msg ''attachment fetch requests an object outside its grant'')
      else if digest \<in> set seen then Inl (Msg ''attachment fetch repeats an object'')
      else fetch_body allowed (digest # seen) (b @ canon_Text digest) ds)"

definition FetchBodyDigest :: "CapabilityGrant \<Rightarrow> string list \<Rightarrow> string res" where
  "FetchBodyDigest g digests = bindE (validateGrant g) (\<lambda>_.
     if digests = [] \<or> int (length digests) > uint MaxChunks then Inl (Msg ''invalid attachment fetch set'')
     else bindE (fetch_body (gr_ChunkDigests g) [] (operationBody OperationFetch @ canon_Text (gr_ManifestDigest g) @
         canon_Uint32 (of_nat (length digests))) digests) (\<lambda>b. Inr (Digest b)))"

definition DeleteBodyDigest :: "CapabilityGrant \<Rightarrow> string res" where
  "DeleteBodyDigest g = bindE (validateGrant g) (\<lambda>_.
     Inr (Digest (operationBody OperationDelete @ canon_Text (gr_ManifestDigest g))))"

section \<open>Wire forms\<close>

definition strictAuthJSON :: "(bytes \<Rightarrow> 'a res) \<Rightarrow> bytes \<Rightarrow> nat \<Rightarrow> 'a res" where
  "strictAuthJSON json raw limit =
     (if raw = [] \<or> length raw > limit then Inl (Msg ''attachment authentication wire is outside its bound'')
      else json raw)"

text \<open>A signature field must be the hexadecimal form of 64 bytes.\<close>

definition signature_hex :: "string \<Rightarrow> bool" where
  "signature_hex s = (case hex_decode s of None \<Rightarrow> False | Some signature \<Rightarrow> length signature = 64)"

definition EncodeGrantJSON :: "(CapabilityGrant \<Rightarrow> bytes res) \<Rightarrow> CapabilityGrant \<Rightarrow> bytes res" where
  "EncodeGrantJSON marshal g = bindE (GrantCanonicalBytes g) (\<lambda>_.
     if \<not> signature_hex (gr_EndpointSignatureHex g)
     then Inl (Msg ''invalid attachment grant signature encoding'') else marshal g)"

definition DecodeGrantJSON :: "(bytes \<Rightarrow> CapabilityGrant res) \<Rightarrow> bytes \<Rightarrow> CapabilityGrant res" where
  "DecodeGrantJSON json raw = bindE (strictAuthJSON json raw MaxGrantBytes) (\<lambda>g.
     bindE (GrantCanonicalBytes g) (\<lambda>_.
     if \<not> signature_hex (gr_EndpointSignatureHex g)
     then Inl (Msg ''invalid attachment grant signature encoding'') else Inr g))"

definition EncodeAccessRequestJSON :: "(AccessRequest \<Rightarrow> bytes res) \<Rightarrow> AccessRequest \<Rightarrow> bytes res" where
  "EncodeAccessRequestJSON marshal r = bindE (AccessRequestCanonicalBytes r) (\<lambda>_.
     if \<not> signature_hex (rq_CapabilitySignatureHex r)
     then Inl (Msg ''invalid attachment request signature encoding'') else marshal r)"

definition DecodeAccessRequestJSON :: "(bytes \<Rightarrow> AccessRequest res) \<Rightarrow> bytes \<Rightarrow> AccessRequest res" where
  "DecodeAccessRequestJSON json raw = bindE (strictAuthJSON json raw MaxAccessRequestBytes) (\<lambda>r.
     bindE (AccessRequestCanonicalBytes r) (\<lambda>_.
     if \<not> signature_hex (rq_CapabilitySignatureHex r)
     then Inl (Msg ''invalid attachment request signature encoding'') else Inr r))"

section \<open>Acknowledgements\<close>

definition StoredAckSchema :: string where
  "StoredAckSchema = ''tos.messaging.attachment-stored-ack.v1''"

definition DeleteAckSchema :: string where
  "DeleteAckSchema = ''tos.messaging.attachment-delete-ack.v1''"

definition MaxAckBytes :: nat where
  "MaxAckBytes = 262144"

record StoredAck =
  sa_Schema :: string
  sa_GrantDigest :: string
  sa_ManifestDigest :: string
  sa_ChunkDigests :: "string list"
  sa_CiphertextBytes :: u64
  sa_StoredAtUnix :: u64
  sa_RetainUntilUnix :: u64
  sa_Fresh :: bool
  sa_StoragePublicKeyHex :: string
  sa_StorageSignatureHex :: string

record DeleteAck =
  da_Schema :: string
  da_GrantDigest :: string
  da_ManifestDigest :: string
  da_ObservedAtUnix :: u64
  da_Deleted :: bool
  da_StoragePublicKeyHex :: string
  da_StorageSignatureHex :: string

definition validateStoredAck :: "StoredAck \<Rightarrow> bytes res" where
  "validateStoredAck a =
     (if sa_Schema a \<noteq> StoredAckSchema \<or> \<not> ValidDigest (sa_GrantDigest a) \<or> \<not> validContentDigest (sa_ManifestDigest a) \<or>
         sa_ChunkDigests a = [] \<or> int (length (sa_ChunkDigests a)) > uint MaxChunks \<or> sa_CiphertextBytes a = 0 \<or>
         sa_CiphertextBytes a > MaxPlaintextBytes + MaxChunks * 16 \<or> sa_StoredAtUnix a = 0 \<or>
         sa_RetainUntilUnix a \<le> sa_StoredAtUnix a
      then Inl (Msg ''invalid attachment StoredAck'')
      else failE (fresh_digests ''invalid attachment StoredAck digest'' ''duplicate attachment StoredAck digest''
          [] (sa_ChunkDigests a))
        (nonzero32 ''invalid attachment StoredAck storage key'' (sa_StoragePublicKeyHex a)))"

definition StoredAckCanonicalBytes :: "StoredAck \<Rightarrow> bytes res" where
  "StoredAckCanonicalBytes a = bindE (validateStoredAck a) (\<lambda>key.
     Inr (DomainAttachmentStoredAck @ canon_Text StoredAckSchema @ canon_Text (sa_GrantDigest a) @
       canon_Text (sa_ManifestDigest a) @ canon_Uint32 (of_nat (length (sa_ChunkDigests a))) @
       concat (map canon_Text (sa_ChunkDigests a)) @ canon_Uint64 (sa_CiphertextBytes a) @
       canon_Uint64 (sa_StoredAtUnix a) @ canon_Uint64 (sa_RetainUntilUnix a) @ canon_Bool (sa_Fresh a) @
       canon_Bytes key))"

definition SignStoredAck :: "Ed25519 \<Rightarrow> StoredAck \<Rightarrow> bytes \<Rightarrow> StoredAck res" where
  "SignStoredAck ed a key =
     (if length key \<noteq> 64 then Inl (Msg ''invalid attachment storage signing key'')
      else let a = a\<lparr>sa_Schema := StoredAckSchema, sa_StoragePublicKeyHex := hex_encode (ed_Public ed key),
          sa_StorageSignatureHex := ''''\<rparr> in
        bindE (StoredAckCanonicalBytes a) (\<lambda>preimage.
        Inr (a\<lparr>sa_StorageSignatureHex := hex_encode (ed_Sign ed key preimage)\<rparr>)))"

definition VerifyStoredAck :: "Ed25519 \<Rightarrow> StoredAck \<Rightarrow> bytes \<Rightarrow> err option" where
  "VerifyStoredAck ed a expectedStorage = (case StoredAckCanonicalBytes a of
     Inl e \<Rightarrow> Some e
   | Inr preimage \<Rightarrow> (case decodeFixedHex (sa_StoragePublicKeyHex a) 32 of
     Inl e \<Rightarrow> Some e
   | Inr key \<Rightarrow>
       if length expectedStorage \<noteq> 32 \<or> key \<noteq> expectedStorage
       then Some (Msg ''attachment StoredAck names another storage operator'')
       else if bad_signature ed key preimage (sa_StorageSignatureHex a)
       then Some (Msg ''invalid attachment StoredAck signature'')
       else None))"

definition DeleteAckCanonicalBytes :: "DeleteAck \<Rightarrow> bytes res" where
  "DeleteAckCanonicalBytes a =
     (if da_Schema a \<noteq> DeleteAckSchema \<or> \<not> ValidDigest (da_GrantDigest a) \<or> \<not> validContentDigest (da_ManifestDigest a) \<or>
         da_ObservedAtUnix a = 0
      then Inl (Msg ''invalid attachment DeleteAck'')
      else bindE (nonzero32 ''invalid attachment DeleteAck storage key'' (da_StoragePublicKeyHex a)) (\<lambda>key.
        Inr (DomainAttachmentDeleteAck @ canon_Text DeleteAckSchema @ canon_Text (da_GrantDigest a) @
          canon_Text (da_ManifestDigest a) @ canon_Uint64 (da_ObservedAtUnix a) @ canon_Bool (da_Deleted a) @
          canon_Bytes key)))"

definition SignDeleteAck :: "Ed25519 \<Rightarrow> DeleteAck \<Rightarrow> bytes \<Rightarrow> DeleteAck res" where
  "SignDeleteAck ed a key =
     (if length key \<noteq> 64 then Inl (Msg ''invalid attachment storage signing key'')
      else let a = a\<lparr>da_Schema := DeleteAckSchema, da_StoragePublicKeyHex := hex_encode (ed_Public ed key),
          da_StorageSignatureHex := ''''\<rparr> in
        bindE (DeleteAckCanonicalBytes a) (\<lambda>preimage.
        Inr (a\<lparr>da_StorageSignatureHex := hex_encode (ed_Sign ed key preimage)\<rparr>)))"

definition VerifyDeleteAck :: "Ed25519 \<Rightarrow> DeleteAck \<Rightarrow> bytes \<Rightarrow> err option" where
  "VerifyDeleteAck ed a expectedStorage = (case DeleteAckCanonicalBytes a of
     Inl e \<Rightarrow> Some e
   | Inr preimage \<Rightarrow> (case decodeFixedHex (da_StoragePublicKeyHex a) 32 of
     Inl e \<Rightarrow> Some e
   | Inr key \<Rightarrow>
       if length expectedStorage \<noteq> 32 \<or> key \<noteq> expectedStorage
       then Some (Msg ''attachment DeleteAck names another storage operator'')
       else if bad_signature ed key preimage (da_StorageSignatureHex a)
       then Some (Msg ''invalid attachment DeleteAck signature'')
       else None))"

text \<open>An acknowledgement is written and read only when it verifies under the key it names.\<close>

definition stored_self :: "Ed25519 \<Rightarrow> StoredAck \<Rightarrow> bool" where
  "stored_self ed a = (case decodeFixedHex (sa_StoragePublicKeyHex a) 32 of
     Inl e \<Rightarrow> False | Inr key \<Rightarrow> VerifyStoredAck ed a key = None)"

definition delete_self :: "Ed25519 \<Rightarrow> DeleteAck \<Rightarrow> bool" where
  "delete_self ed a = (case decodeFixedHex (da_StoragePublicKeyHex a) 32 of
     Inl e \<Rightarrow> False | Inr key \<Rightarrow> VerifyDeleteAck ed a key = None)"

definition EncodeStoredAckJSON :: "Ed25519 \<Rightarrow> (StoredAck \<Rightarrow> bytes res) \<Rightarrow> StoredAck \<Rightarrow> bytes res" where
  "EncodeStoredAckJSON ed marshal a =
     (if \<not> stored_self ed a then Inl (Msg ''invalid attachment StoredAck'') else marshal a)"

definition DecodeStoredAckJSON :: "Ed25519 \<Rightarrow> (bytes \<Rightarrow> StoredAck res) \<Rightarrow> bytes \<Rightarrow> StoredAck res" where
  "DecodeStoredAckJSON ed json raw = bindE (strictAuthJSON json raw MaxAckBytes) (\<lambda>a.
     if \<not> stored_self ed a then Inl (Msg ''invalid attachment StoredAck'') else Inr a)"

definition EncodeDeleteAckJSON :: "Ed25519 \<Rightarrow> (DeleteAck \<Rightarrow> bytes res) \<Rightarrow> DeleteAck \<Rightarrow> bytes res" where
  "EncodeDeleteAckJSON ed marshal a =
     (if \<not> delete_self ed a then Inl (Msg ''invalid attachment DeleteAck'') else marshal a)"

definition DecodeDeleteAckJSON :: "Ed25519 \<Rightarrow> (bytes \<Rightarrow> DeleteAck res) \<Rightarrow> bytes \<Rightarrow> DeleteAck res" where
  "DecodeDeleteAckJSON ed json raw = bindE (strictAuthJSON json raw MaxAckBytes) (\<lambda>a.
     if \<not> delete_self ed a then Inl (Msg ''invalid attachment DeleteAck'') else Inr a)"


section \<open>Locators\<close>

text \<open>
  A parsed URL is what \<open>net/url\<close> reports of it, and \<open>Urls\<close> the standard library's functions
  the locator code calls: parsing, printing, lower-casing, and recognising an IP address.
\<close>

record Url =
  ul_Scheme :: string
  ul_Opaque :: string
  ul_HasUser :: bool
  ul_Host :: string
  ul_Hostname :: string
  ul_Port :: string
  ul_Path :: string
  ul_RawPath :: string
  ul_RawQuery :: string
  ul_ForceQuery :: bool
  ul_Fragment :: string

record Urls =
  us_Parse :: "string \<Rightarrow> Url option"
  us_String :: "Url \<Rightarrow> string"
  us_ToLower :: "string \<Rightarrow> string"
  us_IsAddr :: "string \<Rightarrow> bool"

definition locatorPathPrefix :: string where
  "locatorPathPrefix = ''/.well-known/tos-messenger/attachments/''"

definition safehttps_ParseURL :: "Urls \<Rightarrow> string \<Rightarrow> Url res" where
  "safehttps_ParseURL us reference = (case us_Parse us reference of
     None \<Rightarrow> Inl (Msg ''invalid HTTPS object URL'')
   | Some u \<Rightarrow>
       if ul_Scheme u \<noteq> ''https'' \<or> ul_Host u = '''' \<or> ul_HasUser u \<or> ul_RawQuery u \<noteq> '''' \<or> ul_ForceQuery u \<or>
          ul_Fragment u \<noteq> ''''
       then Inl (Msg ''invalid HTTPS object URL'')
       else if ul_Port u \<noteq> '''' \<and> ul_Port u \<noteq> ''443''
       then Inl (Msg ''HTTPS object URL must use port 443'')
       else Inr u)"

fun split_dots :: "string \<Rightarrow> string list" where
  "split_dots [] = [[]]"
| "split_dots (c # s) = (if c = CHR ''.'' then [] # split_dots s
     else (case split_dots s of [] \<Rightarrow> [[c]] | l # ls \<Rightarrow> (c # l) # ls))"

definition bad_label :: "string \<Rightarrow> bool" where
  "bad_label l \<longleftrightarrow> l = [] \<or> length l > 63 \<or> hd l = CHR ''-'' \<or> last l = CHR ''-'' \<or>
     list_ex (\<lambda>c. c \<noteq> CHR ''-'' \<and> \<not> is_lower c \<and> \<not> is_digit c) l"

definition validDNSName :: "string \<Rightarrow> bool" where
  "validDNSName host \<longleftrightarrow> \<not> length host > 253 \<and> CHR ''.'' \<in> set host \<and>
     \<not> list_ex bad_label (split_dots host) \<and> list_ex (list_ex (\<lambda>c. \<not> is_digit c)) (split_dots host)"

definition validateCanonicalAuthority :: "Urls \<Rightarrow> Url \<Rightarrow> err option" where
  "validateCanonicalAuthority us u = (let host = ul_Hostname u in
     if host = '''' \<or> host \<noteq> us_ToLower us host \<or> last host = CHR ''.'' \<or> CHR 0x25 \<in> set host
     then Some (Msg ''attachment HTTPS authority is not canonical'')
     else if \<not> us_IsAddr us host \<and> \<not> validDNSName host
     then Some (Msg ''attachment HTTPS authority is not a canonical absolute DNS name'')
     else if ul_Port u \<noteq> '''' \<or> ul_Host u \<noteq> (if CHR '':'' \<in> set host then ''['' @ host @ '']'' else host)
     then Some (Msg ''attachment HTTPS authority is not canonical'')
     else None)"

definition HTTPSLocator :: "Urls \<Rightarrow> string \<Rightarrow> string \<Rightarrow> string res" where
  "HTTPSLocator us origin manifestDigest =
     (if \<not> validContentDigest manifestDigest then Inl (Msg ''invalid attachment locator manifest digest'')
      else case safehttps_ParseURL us origin of
        Inl e \<Rightarrow> Inl (Msg ''invalid attachment storage origin'')
      | Inr base \<Rightarrow>
          if ul_Path base \<noteq> '''' \<and> ul_Path base \<noteq> ''/'' \<or> ul_RawPath base \<noteq> ''''
          then Inl (Msg ''invalid attachment storage origin'')
          else failE (validateCanonicalAuthority us base)
            (Inr (us_String us (base\<lparr>ul_Path := locatorPathPrefix @ drop 7 manifestDigest\<rparr>))))"

definition ParseHTTPSLocator :: "Urls \<Rightarrow> string \<Rightarrow> string \<Rightarrow> Url res" where
  "ParseHTTPSLocator us reference manifestDigest =
     (if \<not> validContentDigest manifestDigest then Inl (Msg ''invalid attachment locator manifest digest'')
      else case safehttps_ParseURL us reference of
        Inl e \<Rightarrow> Inl (Msg ''invalid attachment HTTPS locator'')
      | Inr u \<Rightarrow>
          if ul_RawPath u \<noteq> '''' \<or> ul_Opaque u \<noteq> '''' \<or> ul_Path u \<noteq> locatorPathPrefix @ drop 7 manifestDigest
          then Inl (Msg ''invalid attachment HTTPS locator'')
          else failE (validateCanonicalAuthority us u)
            (if us_String us u \<noteq> reference then Inl (Msg ''attachment HTTPS locator is not canonical'')
             else Inr u))"

section \<open>Examples\<close>

definition ex_ed :: Ed25519 where
  "ex_ed = \<lparr>ed_Public = take 32, ed_Sign = (\<lambda>k m. replicate 64 (CHR ''x'')),
     ed_Verify = (\<lambda>k m s. s = replicate 64 (CHR ''x''))\<rparr>"

definition ex_grant :: CapabilityGrant where
  "ex_grant = \<lparr>gr_Schema = CapabilityGrantSchema, gr_NetworkID = ''net'', gr_GenesisRootHash = ex_hash,
     gr_GenesisFileHash = ex_hash, gr_AgentID = ''agent_'' @ ex_hash, gr_EndpointID = ''mep_'' @ ex_hash,
     gr_StoragePublicKeyHex = hex_encode (replicate 32 (CHR ''s'')),
     gr_CapabilityPublicKeyHex = hex_encode (replicate 32 (CHR ''c'')), gr_ManifestDigest = ex_digest,
     gr_ChunkDigests = [ex_digest], gr_CiphertextBytes = 18, gr_RetainUntilUnix = 200, gr_Operations = [OperationFetch],
     gr_IssuedAtUnix = 100, gr_ExpiresAtUnix = 300, gr_EndpointSignatureHex = ''''\<rparr>"

definition ex_request :: AccessRequest where
  "ex_request = \<lparr>rq_Schema = AccessRequestSchema, rq_GrantDigest = ex_digest, rq_Operation = OperationFetch,
     rq_BodyDigest = ex_digest, rq_NonceHex = hex_encode (replicate 32 (CHR ''n'')), rq_IssuedAtUnix = 120,
     rq_ExpiresAtUnix = 180, rq_CapabilitySignatureHex = ''''\<rparr>"

section \<open>Lemmas\<close>

lemma decodeFixedHex_encode [simp]: "length b = n \<Longrightarrow> decodeFixedHex (hex_encode b) n = Inr b"
  by (simp add: decodeFixedHex_def)

lemma decodeFixedHex_Inr: "decodeFixedHex v n = Inr b \<longleftrightarrow> v = hex_encode b \<and> length b = n"
proof
  assume d: "decodeFixedHex v n = Inr b"
  then have "hex_decode v = Some b" "hex_encode b = v" "length v = n * 2"
    by (auto simp: decodeFixedHex_def simp del: hex_decode.simps split: if_splits option.splits)
  with hex_decode_length [of v b] show "v = hex_encode b \<and> length b = n" by simp
qed auto

lemma nonzero32_Inr: "nonzero32 m v = Inr b \<longleftrightarrow> v = hex_encode b \<and> length b = 32 \<and> \<not> canon_IsZero b"
  by (auto simp: nonzero32_def decodeFixedHex_Inr split: sum.splits)

lemma fresh_digests_None:
  "fresh_digests bad dup seen ds = None \<longleftrightarrow> list_all validContentDigest ds \<and> distinct ds \<and> set ds \<inter> set seen = {}"
  by (induction bad dup seen ds rule: fresh_digests.induct) auto

lemma bad_operation_valid: "\<not> bad_operation p ops \<Longrightarrow> list_all validOperation ops"
  by (induction p ops rule: bad_operation.induct) auto

lemma validContentDigest_prefixed: "validContentDigest v \<Longrightarrow> prefixed_hex64 ''sha256:'' v"
  by (simp add: validContentDigest_def ValidDigest_prefixed)

lemma validContentDigest_short: "validContentDigest v \<Longrightarrow> short v"
  by (auto intro: prefixed_hex64_short [OF validContentDigest_prefixed])

lemma validOperation_short: "validOperation op \<Longrightarrow> short op"
  by (auto simp: validOperation_def OperationUpload_def OperationFetch_def OperationDelete_def short_def)

lemma validateGrant_Inr:
  assumes "validateGrant g = Inr (s, c)"
  shows "gr_Schema g = CapabilityGrantSchema" "short (gr_NetworkID g)" "short (gr_AgentID g)" "short (gr_EndpointID g)"
    "hex64 (gr_GenesisRootHash g)" "hex64 (gr_GenesisFileHash g)" "validContentDigest (gr_ManifestDigest g)"
    "list_all validContentDigest (gr_ChunkDigests g)" "distinct (gr_ChunkDigests g)" "length (gr_ChunkDigests g) \<le> 2048"
    "list_all validOperation (gr_Operations g)" "length (gr_Operations g) \<le> 3"
    "gr_StoragePublicKeyHex g = hex_encode s" "gr_CapabilityPublicKeyHex g = hex_encode c" "length s = 32" "length c = 32"
    "\<not> canon_IsZero s" "\<not> canon_IsZero c"
proof -
  show "gr_Schema g = CapabilityGrantSchema" "hex64 (gr_GenesisRootHash g)" "hex64 (gr_GenesisFileHash g)"
    "validContentDigest (gr_ManifestDigest g)"
    using assms by (auto simp: validateGrant_def HashPattern_def split: if_splits)
  show "short (gr_NetworkID g)" using assms by (auto simp: validateGrant_def short_def split: if_splits)
  show "short (gr_AgentID g)" "short (gr_EndpointID g)"
    using assms by (auto simp: validateGrant_def ids_defs intro: prefixed_hex64_short split: if_splits)
  show "length (gr_ChunkDigests g) \<le> 2048" "length (gr_Operations g) \<le> 3"
    using assms by (auto simp: validateGrant_def MaxChunks_def split: if_splits)
  show "list_all validContentDigest (gr_ChunkDigests g)" "distinct (gr_ChunkDigests g)"
    "list_all validOperation (gr_Operations g)"
    using assms by (auto simp: validateGrant_def failE_eq_Inr fresh_digests_None intro: bad_operation_valid split: if_splits)
  show "gr_StoragePublicKeyHex g = hex_encode s" "gr_CapabilityPublicKeyHex g = hex_encode c" "length s = 32" "length c = 32"
    "\<not> canon_IsZero s" "\<not> canon_IsZero c"
    using assms by (auto simp: validateGrant_def failE_eq_Inr bindE_eq_Inr nonzero32_Inr split: if_splits)
qed


lemma list_all_short:
  "list_all validContentDigest ds \<Longrightarrow> list_all short ds" "list_all validOperation ops \<Longrightarrow> list_all short ops"
  by (auto simp: list_all_iff validContentDigest_short validOperation_short)

lemma GrantCanonicalBytes_Inr:
  "GrantCanonicalBytes g = Inr b \<longleftrightarrow> (\<exists>s c. validateGrant g = Inr (s, c) \<and> b =
     DomainAttachmentCapabilityGrant @ canon_Text CapabilityGrantSchema @ canon_Text (gr_NetworkID g) @
       hash_bytes (gr_GenesisRootHash g) @ hash_bytes (gr_GenesisFileHash g) @
       canon_Text (gr_AgentID g) @ canon_Text (gr_EndpointID g) @
       canon_Bytes s @ canon_Bytes c @ canon_Text (gr_ManifestDigest g) @
       (canon_Uint32 (of_nat (length (gr_ChunkDigests g))) @ concat (map canon_Text (gr_ChunkDigests g))) @
       canon_Uint64 (gr_CiphertextBytes g) @ canon_Uint64 (gr_RetainUntilUnix g) @
       (canon_Uint32 (of_nat (length (gr_Operations g))) @ concat (map canon_Text (gr_Operations g))) @
       canon_Uint64 (gr_IssuedAtUnix g) @ canon_Uint64 (gr_ExpiresAtUnix g))"
  unfolding GrantCanonicalBytes_def bindE_eq_Inr
  by (auto simp: bindE_eq_Inr canon_Hash32_ok validateGrant_Inr)

lemma grant_fields:
  assumes "GrantCanonicalBytes g = Inr b" and "GrantCanonicalBytes h = Inr b"
  shows "g\<lparr>gr_EndpointSignatureHex := sig\<rparr> = h\<lparr>gr_EndpointSignatureHex := sig\<rparr>"
proof -
  obtain s c t d where v: "validateGrant g = Inr (s, c)" "validateGrant h = Inr (t, d)"
    using assms unfolding GrantCanonicalBytes_Inr by blast
  note G = validateGrant_Inr [OF v(1)] and H = validateGrant_Inr [OF v(2)]
  note short = list_all_short(1) [OF G(8)] list_all_short(1) [OF H(8)] list_all_short(2) [OF G(11)] list_all_short(2) [OF H(11)]
  have k: "fits 100 s" "fits 100 c" "fits 100 t" "fits 100 d" using G(15,16) H(15,16) by (simp_all add: fits_def)
  have "gr_NetworkID g = gr_NetworkID h \<and> gr_GenesisRootHash g = gr_GenesisRootHash h \<and>
      gr_GenesisFileHash g = gr_GenesisFileHash h \<and> gr_AgentID g = gr_AgentID h \<and> gr_EndpointID g = gr_EndpointID h \<and>
      s = t \<and> c = d \<and> gr_ManifestDigest g = gr_ManifestDigest h \<and> gr_ChunkDigests g = gr_ChunkDigests h \<and>
      gr_CiphertextBytes g = gr_CiphertextBytes h \<and> gr_RetainUntilUnix g = gr_RetainUntilUnix h \<and>
      gr_Operations g = gr_Operations h \<and> gr_IssuedAtUnix g = gr_IssuedAtUnix h \<and> gr_ExpiresAtUnix g = gr_ExpiresAtUnix h"
    using assms [unfolded GrantCanonicalBytes_Inr v] G(2-7,10,12) H(2-7,10,12) k short
    by (auto simp: ctext.enc_eq rhash.enc_eq rbytes.enc_eq [of 100] ctexts_eq ru64.enc_eq ru64.enc_last
        validContentDigest_short)
  then show ?thesis
    using G(1,13,14) H(1,13,14) by (intro CapabilityGrant.equality) simp_all
qed

lemma AccessRequestCanonicalBytes_Inr:
  "AccessRequestCanonicalBytes r = Inr b \<longleftrightarrow> rq_Schema r = AccessRequestSchema \<and> ValidDigest (rq_GrantDigest r) \<and>
     validOperation (rq_Operation r) \<and> ValidDigest (rq_BodyDigest r) \<and> rq_IssuedAtUnix r \<noteq> 0 \<and>
     rq_IssuedAtUnix r < rq_ExpiresAtUnix r \<and>
     rq_ExpiresAtUnix r - rq_IssuedAtUnix r \<le> word_of_int (in_seconds MaxRequestLifetime) \<and>
     (\<exists>n. rq_NonceHex r = hex_encode n \<and> length n = 32 \<and> \<not> canon_IsZero n \<and>
       b = DomainAttachmentAccessRequest @ canon_Text AccessRequestSchema @ canon_Text (rq_GrantDigest r) @
          canon_Text (rq_Operation r) @ canon_Text (rq_BodyDigest r) @ canon_Bytes n @
          canon_Uint64 (rq_IssuedAtUnix r) @ canon_Uint64 (rq_ExpiresAtUnix r))"
  by (auto simp: AccessRequestCanonicalBytes_def bindE_eq_Inr nonzero32_Inr not_le not_less)

lemma request_fields:
  assumes "AccessRequestCanonicalBytes r = Inr b" and "AccessRequestCanonicalBytes q = Inr b"
  shows "r\<lparr>rq_CapabilitySignatureHex := sig\<rparr> = q\<lparr>rq_CapabilitySignatureHex := sig\<rparr>"
proof -
  obtain n m where n: "rq_NonceHex r = hex_encode n" "rq_NonceHex q = hex_encode m" "fits 100 n" "fits 100 m"
    using assms unfolding AccessRequestCanonicalBytes_Inr by (auto simp: fits_def)
  show ?thesis
    using assms n unfolding AccessRequestCanonicalBytes_Inr
    by (auto simp: ctext.enc_eq rbytes.enc_eq [of 100] ru64.enc_eq ru64.enc_last ValidDigest_short validOperation_short)
qed

text \<open>Fields outside the preimage do not change it.\<close>

lemma unsigned_grant [simp]:
  "validateGrant (g\<lparr>gr_EndpointSignatureHex := x\<rparr>) = validateGrant g"
  "GrantCanonicalBytes (g\<lparr>gr_EndpointSignatureHex := x\<rparr>) = GrantCanonicalBytes g"
  by (simp_all add: validateGrant_def GrantCanonicalBytes_def)

lemma unsigned_request [simp]:
  "AccessRequestCanonicalBytes (r\<lparr>rq_CapabilitySignatureHex := x\<rparr>) = AccessRequestCanonicalBytes r"
  by (simp add: AccessRequestCanonicalBytes_def)

lemma unsigned_stored [simp]:
  "StoredAckCanonicalBytes (a\<lparr>sa_StorageSignatureHex := x\<rparr>) = StoredAckCanonicalBytes a"
  by (simp add: StoredAckCanonicalBytes_def validateStoredAck_def)

lemma good_signature:
  assumes "ed_laws ed" and "length key = 64"
  shows "\<not> bad_signature ed (ed_Public ed key) m (hex_encode (ed_Sign ed key m))"
  using assms by (simp add: bad_signature_def ed_laws_def)


lemma ex_content_digest [simp]: "validContentDigest ex_digest"
  using prefixed_hex64_length [OF ValidDigest_prefixed [OF ex_digest_facts(1)]]
  by (simp add: validContentDigest_def) (simp add: ex_digest_def)

lemma in_seconds_values [simp]:
  "in_seconds MaxGrantLifetime = 2592000" "in_seconds MaxRequestLifetime = 120" "in_seconds MaxRequestFutureSkew = 30"
  by code_simp+

lemma ex_ed_laws: "ed_laws ex_ed"
  by (simp add: ed_laws_def ex_ed_def)

lemma ex_keys [simp]: "\<not> canon_IsZero (replicate 32 (CHR ''s''))" "\<not> canon_IsZero (replicate 32 (CHR ''c''))"
  "\<not> canon_IsZero (replicate 32 (CHR ''e''))" "\<not> canon_IsZero (replicate 32 (CHR ''n''))"
  by (simp_all add: canon_IsZero_def)

lemma ex_grant_valid:
  "validateGrant ex_grant = Inr (replicate 32 (CHR ''s''), replicate 32 (CHR ''c''))"
  by (simp add: validateGrant_def ex_grant_def ids_defs prefixed_hex64_def HashPattern_def MaxChunks_def
      MaxPlaintextBytes_def slice_sorted_def validOperation_def OperationFetch_def nonzero32_def)

lemma ex_grant_bytes: "\<exists>b. GrantCanonicalBytes ex_grant = Inr b"
  using ex_grant_valid by (auto simp: GrantCanonicalBytes_Inr)

lemma ex_request_bytes: "\<exists>b. AccessRequestCanonicalBytes ex_request = Inr b"
  by (auto simp: AccessRequestCanonicalBytes_Inr ex_request_def validOperation_def OperationFetch_def)

section \<open>Properties\<close>

text \<open>
  A signature under a grant commits everything the grant says: two grants with the same
  canonical bytes are equal in every field but the signature itself.
\<close>

theorem GrantCanonicalBytes_injective:
  assumes "GrantCanonicalBytes g = Inr b" and "GrantCanonicalBytes h = Inr b"
  shows "g\<lparr>gr_EndpointSignatureHex := sig\<rparr> = h\<lparr>gr_EndpointSignatureHex := sig\<rparr>"
  by (rule grant_fields [OF assms])

theorem GrantCanonicalBytes_injective_witness:
  "\<exists>b. GrantCanonicalBytes ex_grant = Inr b \<and> GrantCanonicalBytes (ex_grant\<lparr>gr_EndpointSignatureHex := ''ff''\<rparr>) = Inr b \<and>
     ex_grant\<lparr>gr_EndpointSignatureHex := ''''\<rparr> =
       ex_grant\<lparr>gr_EndpointSignatureHex := ''ff''\<rparr>\<lparr>gr_EndpointSignatureHex := ''''\<rparr>"
proof -
  obtain b where b: "GrantCanonicalBytes ex_grant = Inr b" using ex_grant_bytes by blast
  then have c: "GrantCanonicalBytes (ex_grant\<lparr>gr_EndpointSignatureHex := ''ff''\<rparr>) = Inr b" by simp
  from GrantCanonicalBytes_injective [OF b c] b c show ?thesis by blast
qed

text \<open>
  A capability signature cannot be moved to another operation, body, nonce, grant or
  validity window: two access requests with the same canonical bytes are equal in every
  field but the signature.
\<close>

theorem AccessRequestCanonicalBytes_injective:
  assumes "AccessRequestCanonicalBytes r = Inr b" and "AccessRequestCanonicalBytes q = Inr b"
  shows "r\<lparr>rq_CapabilitySignatureHex := sig\<rparr> = q\<lparr>rq_CapabilitySignatureHex := sig\<rparr>"
  by (rule request_fields [OF assms])

theorem AccessRequestCanonicalBytes_injective_witness:
  "\<exists>b. AccessRequestCanonicalBytes ex_request = Inr b \<and>
     AccessRequestCanonicalBytes (ex_request\<lparr>rq_CapabilitySignatureHex := ''ff''\<rparr>) = Inr b \<and>
     ex_request\<lparr>rq_CapabilitySignatureHex := ''''\<rparr> =
       ex_request\<lparr>rq_CapabilitySignatureHex := ''ff''\<rparr>\<lparr>rq_CapabilitySignatureHex := ''''\<rparr>"
proof -
  obtain b where b: "AccessRequestCanonicalBytes ex_request = Inr b" using ex_request_bytes by blast
  then have c: "AccessRequestCanonicalBytes (ex_request\<lparr>rq_CapabilitySignatureHex := ''ff''\<rparr>) = Inr b" by simp
  from AccessRequestCanonicalBytes_injective [OF b c] b c show ?thesis by blast
qed

text \<open>
  C34. A grant an Endpoint key signed is accepted: under any signature scheme with the laws of
  Ed25519, \<open>VerifyGrant\<close> passes for that Endpoint's public key and the storage operator the
  grant names, at every time of the grant's validity window.
\<close>

theorem SignGrant_VerifyGrant:
  assumes "SignGrant ed g key = Inr h" and "ed_laws ed" and "gr_StoragePublicKeyHex g = hex_encode storage"
    and "0 \<le> now" and "gr_IssuedAtUnix g \<le> unix now" and "unix now < gr_ExpiresAtUnix g"
  shows "VerifyGrant ed h (ed_Public ed key) storage now = None"
proof -
  let ?g = "g\<lparr>gr_Schema := CapabilityGrantSchema, gr_EndpointSignatureHex := ''''\<rparr>"
  let ?e = "ed_Public ed key"
  obtain b s c where S: "length key = 64" "\<not> canon_IsZero ?e" "length ?e = 32" "GrantCanonicalBytes ?g = Inr b"
    "validateGrant ?g = Inr (s, c)" "s \<noteq> c" "s \<noteq> ?e" "c \<noteq> ?e"
    "h = ?g\<lparr>gr_EndpointSignatureHex := hex_encode (ed_Sign ed key b)\<rparr>"
    using assms(1)
    by (auto simp: SignGrant_def SignGrantWithSigner_def key_signer_def Let_def bindE_eq_Inr split: if_splits)
  note V = validateGrant_Inr [OF S(5)]
  have h: "GrantCanonicalBytes h = Inr b" using S(4) unfolding S(9) by simp
  have st: "storage = s" using V(13) assms(3) by simp
  have f: "gr_StoragePublicKeyHex h = hex_encode s" "gr_CapabilityPublicKeyHex h = hex_encode c"
    "gr_IssuedAtUnix h = gr_IssuedAtUnix g" "gr_ExpiresAtUnix h = gr_ExpiresAtUnix g"
    "gr_EndpointSignatureHex h = hex_encode (ed_Sign ed key b)"
    using V(13,14) S(9) by simp_all
  show ?thesis
    unfolding VerifyGrant_def h f st using V(15-18) S(2,3,6-8) assms(4-6) good_signature [OF assms(2) S(1)]
    by (simp add: bad_time_iff not_less not_le)
qed

theorem SignGrant_VerifyGrant_witness:
  "\<exists>h. SignGrant ex_ed ex_grant (replicate 64 (CHR ''e'')) = Inr h \<and>
     VerifyGrant ex_ed h (replicate 32 (CHR ''e'')) (replicate 32 (CHR ''s'')) 150 = None"
proof -
  have g: "ex_grant\<lparr>gr_Schema := CapabilityGrantSchema, gr_EndpointSignatureHex := ''''\<rparr> = ex_grant"
    by (simp add: ex_grant_def)
  obtain b where b: "GrantCanonicalBytes ex_grant = Inr b" using ex_grant_bytes by blast
  have p: "ed_Public ex_ed (replicate 64 (CHR ''e'')) = replicate 32 (CHR ''e'')"
    by (simp add: ex_ed_def)
  have "\<exists>h. SignGrant ex_ed ex_grant (replicate 64 (CHR ''e'')) = Inr h"
    using b ex_grant_valid
    by (simp add: SignGrant_def SignGrantWithSigner_def key_signer_def g p Let_def)
      (simp add: ex_ed_def)
  then obtain h where h: "SignGrant ex_ed ex_grant (replicate 64 (CHR ''e'')) = Inr h" ..
  have "VerifyGrant ex_ed h (ed_Public ex_ed (replicate 64 (CHR ''e''))) (replicate 32 (CHR ''s'')) 150 = None"
    by (rule SignGrant_VerifyGrant [OF h ex_ed_laws]) (simp_all add: ex_grant_def unix_def)
  with h p show ?thesis by auto
qed

end
