(* ===== verification/AttachmentStore.thy ===== *)
theory AttachmentStore
  imports AttachmentAccess
begin

text \<open>
  The attachment store of a storage operator (\<open>pkg/attachments/store.go\<close>), the replay guard
  in front of it (\<open>access_replay.go\<close>), and the authenticated store that puts the two
  together (\<open>AuthenticatedStore\<close> of \<open>remote_auth.go\<close>).

  The state is what is on disk: the directories of ciphertext objects, of leases and of access
  claims, and the access clock, each a list of entries by file name. A lease, a claim and the
  clock are held decoded; \<open>Broken\<close> is a file that does not decode, which a crash can leave
  behind. What the disk does during one operation is an argument of it: the outcome of each
  file written and of each file removed.
\<close>

section \<open>Disk\<close>

text \<open>
  \<open>writeSync\<close> on a file just created: the file is written and durable; it is not there and the
  caller is told; it is there and the directory sync failed; or the process died with only
  the first bytes of it written.
\<close>

datatype cout = Created | NotCreated | CreatedUnsynced | Died nat

text \<open>
  \<open>replaceFile\<close>: the rename is durable; nothing changed; the rename happened and its sync
  failed; or the process died with a temporary file, of a given name, left in the directory.
\<close>

datatype rout = Replaced | NotReplaced | ReplacedUnsynced | DiedWithTemp string

record disk =
  dk_create :: "string \<Rightarrow> cout"
  dk_replace :: rout
  dk_remove :: "string \<Rightarrow> bool"
  dk_sync :: bool
  dk_touch :: "string \<Rightarrow> bool"
  dk_list :: bool
  dk_now :: gotime

definition create_file :: "cout \<Rightarrow> string \<Rightarrow> 'v \<Rightarrow> (nat \<Rightarrow> 'v) \<Rightarrow> (string, 'v) dir \<Rightarrow> err option \<times> (string, 'v) dir" where
  "create_file w name v torn d = (case w of
     Created \<Rightarrow> (None, (name, v) # d)
   | NotCreated \<Rightarrow> (Some (Msg ''write attachment record''), d)
   | CreatedUnsynced \<Rightarrow> (Some (Msg ''sync attachment record''), (name, v) # d)
   | Died n \<Rightarrow> (Some (Msg ''died''), (name, torn n) # d))"

definition attach_replaceFile :: "rout \<Rightarrow> string \<Rightarrow> 'v \<Rightarrow> (string, 'v stored) dir \<Rightarrow> err option \<times> (string, 'v stored) dir" where
  "attach_replaceFile w name v d = (case w of
     Replaced \<Rightarrow> (None, AList.update name (Whole v) d)
   | NotReplaced \<Rightarrow> (Some (Msg ''replace attachment record''), d)
   | ReplacedUnsynced \<Rightarrow> (Some (Msg ''replace attachment record''), AList.update name (Whole v) d)
   | DiedWithTemp temp \<Rightarrow> (Some (Msg ''died''), AList.update (''.attachment-'' @ temp) Broken d))"

section \<open>Store\<close>

definition leaseSchema :: string where
  "leaseSchema = ''tos.messaging.attachment-lease.v1''"

definition MaxStoreObjects :: int where
  "MaxStoreObjects = 100000"

definition MaxStoreBytes :: int where
  "MaxStoreBytes = 2 ^ 40"

definition DefaultStagingGrace :: duration where
  "DefaultStagingGrace = 10 * Minute"

record StoreQuota =
  sq_MaxLeases :: int
  sq_MaxObjects :: int
  sq_MaxBytes :: int
  sq_MaxRetention :: duration

definition DefaultStoreQuota :: StoreQuota where
  "DefaultStoreQuota = \<lparr>sq_MaxLeases = 1024, sq_MaxObjects = 10000, sq_MaxBytes = 2 ^ 30, sq_MaxRetention = 30 * 24 * Hour\<rparr>"

definition StoreQuota_validate :: "StoreQuota \<Rightarrow> err option" where
  "StoreQuota_validate q =
     (if sq_MaxLeases q < 1 \<or> sq_MaxLeases q > MaxStoreObjects \<or> sq_MaxObjects q < 1 \<or> sq_MaxObjects q > MaxStoreObjects \<or>
         sq_MaxBytes q < 1 \<or> sq_MaxBytes q > MaxStoreBytes \<or>
         sq_MaxRetention q < Second \<or> sq_MaxRetention q > 365 * 24 * Hour
      then Some (Msg ''invalid attachment store quota'') else None)"

record lease =
  le_Schema :: string
  le_ManifestDigest :: string
  le_ChunkDigests :: "string list"
  le_ExpiresAtUnix :: u64

record StorageLease =
  sl_ManifestDigest :: string
  sl_ChunkDigests :: "string list"
  sl_ExpiresAtUnix :: u64

record GCReport =
  gc_ExpiredLeases :: nat
  gc_ObjectsRemoved :: nat
  gc_BytesRemoved :: nat

record accessClaim =
  ac_Schema :: string
  ac_GrantDigest :: string
  ac_NonceHex :: string
  ac_ExpiresAtUnix :: u64

record accessClock =
  ak_Schema :: string
  ak_HighestUnixTime :: u64

record object =
  ob_raw :: bytes
  ob_ModTime :: gotime

text \<open>\<open>st_held\<close> is whether the directory lock is held.\<close>

record Store =
  st_held :: bool
  st_quota :: StoreQuota
  st_objects :: "(string, object) dir"
  st_leases :: "(string, lease stored) dir"
  st_claims :: "(string, accessClaim stored) dir"
  st_clock :: "accessClock stored option"

definition Store_usable :: "Store \<Rightarrow> err option" where
  "Store_usable s = failIf (\<not> st_held s) ''attachment store is not owned''"

definition objectPath :: "string \<Rightarrow> string" where
  "objectPath d = drop 7 d @ ''.bin''"

definition leasePath :: "string \<Rightarrow> string" where
  "leasePath d = drop 7 d @ ''.json''"

text \<open>\<open>filepath.Ext(name) == ext\<close> for an extension with one dot, and the name without it.\<close>

definition has_ext :: "string \<Rightarrow> string \<Rightarrow> bool" where
  "has_ext ext name \<longleftrightarrow> length ext \<le> length name \<and> drop (length name - length ext) name = ext"

definition without_ext :: "string \<Rightarrow> string \<Rightarrow> string" where
  "without_ext ext name = take (length name - length ext) name"

text \<open>\<open>readPrivateFile\<close> of an object: \<open>Inl None\<close> is a missing file, \<open>Inl (Some e)\<close> a refused one.\<close>

definition read_object :: "Store \<Rightarrow> string \<Rightarrow> (err option) + bytes" where
  "read_object s digest = (case map_of (st_objects s) (objectPath digest) of
     None \<Rightarrow> Inl None
   | Some ob \<Rightarrow>
       if ob_raw ob = [] \<or> int (length (ob_raw ob)) > uint MaxChunkBytes + 32
       then Inl (Some (Msg ''invalid private attachment record'')) else Inr (ob_raw ob))"

text \<open>An object that is read whole and has its digest.\<close>

definition holds_object :: "Store \<Rightarrow> string \<Rightarrow> bool" where
  "holds_object s digest = (case read_object s digest of Inl _ \<Rightarrow> False | Inr raw \<Rightarrow> Digest raw = digest)"

definition readLease :: "Store \<Rightarrow> string \<Rightarrow> lease option res" where
  "readLease s digest = (case map_of (st_leases s) (leasePath digest) of
     None \<Rightarrow> Inr None
   | Some Broken \<Rightarrow> Inl (Msg ''invalid attachment lease'')
   | Some (Whole l) \<Rightarrow>
       if le_Schema l \<noteq> leaseSchema \<or> le_ManifestDigest l \<noteq> digest \<or> \<not> validContentDigest digest \<or>
          le_ChunkDigests l = [] \<or> int (length (le_ChunkDigests l)) > uint MaxChunks \<or> le_ExpiresAtUnix l = 0
       then Inl (Msg ''invalid attachment lease'')
       else if \<not> list_all validContentDigest (le_ChunkDigests l) then Inl (Msg ''invalid attachment lease'')
       else Inr (Some l))"

fun read_leases :: "Store \<Rightarrow> string list \<Rightarrow> lease list res" where
  "read_leases s [] = Inr []"
| "read_leases s (name # names) =
     (if \<not> has_ext ''.json'' name then Inl (Msg ''invalid attachment lease entry'')
      else case readLease s (''sha256:'' @ without_ext ''.json'' name) of
        Inr (Some l) \<Rightarrow> bindE (read_leases s names) (\<lambda>ls. Inr (l # ls))
      | _ \<Rightarrow> Inl (Msg ''invalid attachment lease set''))"

definition allLeases :: "disk \<Rightarrow> Store \<Rightarrow> lease list res" where
  "allLeases dk s = (if \<not> dk_list dk then Inl (Msg ''read attachment leases'')
     else bindE (read_leases s (map fst (st_leases s))) (\<lambda>ls. Inr (sort_key le_ManifestDigest ls)))"

fun verify_sum :: "Store \<Rightarrow> u64 \<Rightarrow> string list \<Rightarrow> u64 option" where
  "verify_sum s tot [] = Some tot"
| "verify_sum s tot (digest # ds) = (case read_object s digest of
     Inl _ \<Rightarrow> None
   | Inr raw \<Rightarrow> if Digest raw \<noteq> digest then None else verify_sum s (tot + of_nat (length raw)) ds)"

definition verifyLeaseObjects :: "Store \<Rightarrow> StorageLease \<Rightarrow> u64 \<Rightarrow> err option" where
  "verifyLeaseObjects s v expectedBytes = (case verify_sum s 0 (sl_ChunkDigests v) of
     None \<Rightarrow> Some ErrLeaseNotFound
   | Some tot \<Rightarrow> if tot \<noteq> expectedBytes then Some ErrStoreConflict else None)"

fun newObjectCost :: "Store \<Rightarrow> Chunk list \<Rightarrow> (int \<times> int) res" where
  "newObjectCost s [] = Inr (0, 0)"
| "newObjectCost s (c # cs) = (case read_object s (ck_Digest c) of
     Inl None \<Rightarrow> bindE (newObjectCost s cs) (\<lambda>(n, b). Inr (n + 1, b + int (length (ck_Ciphertext c))))
   | Inl (Some e) \<Rightarrow> Inl ErrStoreConflict
   | Inr raw \<Rightarrow> if raw \<noteq> ck_Ciphertext c then Inl ErrStoreConflict else newObjectCost s cs)"

text \<open>One entry of the objects directory, as \<open>usage\<close> and the collector check it.\<close>

definition object_entry :: "Store \<Rightarrow> string \<Rightarrow> (string \<times> object) res" where
  "object_entry s name =
     (if \<not> has_ext ''.bin'' name then Inl (Msg ''invalid attachment object entry'')
      else let digest = ''sha256:'' @ without_ext ''.bin'' name in
      if \<not> validContentDigest digest then Inl (Msg ''invalid attachment object name'')
      else case map_of (st_objects s) name of
        None \<Rightarrow> Inl (Msg ''invalid attachment object'')
      | Some ob \<Rightarrow>
          if ob_raw ob = [] \<or> int (length (ob_raw ob)) > uint MaxChunkBytes + 32 \<or> Digest (ob_raw ob) \<noteq> digest
          then Inl (Msg ''invalid attachment object'') else Inr (digest, ob))"

fun usage_of :: "Store \<Rightarrow> string list \<Rightarrow> int res" where
  "usage_of s [] = Inr 0"
| "usage_of s (name # names) = bindE (object_entry s name) (\<lambda>(_, ob).
     bindE (usage_of s names) (\<lambda>b. Inr (int (length (ob_raw ob)) + b)))"

definition usage :: "disk \<Rightarrow> Store \<Rightarrow> (int \<times> int) res" where
  "usage dk s = (if \<not> dk_list dk then Inl (Msg ''read attachment objects'')
     else bindE (usage_of s (map fst (st_objects s))) (\<lambda>b. Inr (int (length (st_objects s)), b)))"

definition putObject :: "disk \<Rightarrow> Chunk \<Rightarrow> Store \<Rightarrow> err option \<times> Store" where
  "putObject dk c s = (let path = objectPath (ck_Digest c) in
     case map_of (st_objects s) path of
       Some ob \<Rightarrow>
         if read_object s (ck_Digest c) \<noteq> Inr (ck_Ciphertext c) then (Some ErrStoreConflict, s)
         else if \<not> dk_touch dk path then (Some (Msg ''refresh attachment object staging time''), s)
         else (None, s\<lparr>st_objects := AList.update path (ob\<lparr>ob_ModTime := dk_now dk\<rparr>) (st_objects s)\<rparr>)
     | None \<Rightarrow>
         (case create_file (dk_create dk path) path \<lparr>ob_raw = ck_Ciphertext c, ob_ModTime = dk_now dk\<rparr>
             (\<lambda>n. \<lparr>ob_raw = take n (ck_Ciphertext c), ob_ModTime = dk_now dk\<rparr>) (st_objects s) of
           (e, objects) \<Rightarrow> (e, s\<lparr>st_objects := objects\<rparr>)))"

fun put_objects :: "disk \<Rightarrow> Chunk list \<Rightarrow> Store \<Rightarrow> err option \<times> Store" where
  "put_objects dk [] s = (None, s)"
| "put_objects dk (c # cs) s = (case putObject dk c s of
     (Some e, s') \<Rightarrow> (Some e, s')
   | (None, s') \<Rightarrow> put_objects dk cs s')"

fun opaque_batch :: "string list \<Rightarrow> u64 \<Rightarrow> Chunk list \<Rightarrow> err option" where
  "opaque_batch seen tot [] = None"
| "opaque_batch seen tot (c # cs) =
     (if ck_Index c \<ge> ucast MaxChunks \<or> \<not> validContentDigest (ck_Digest c) \<or> length (ck_Ciphertext c) \<le> 16 \<or>
         int (length (ck_Ciphertext c)) > uint MaxChunkBytes + 16 \<or> Digest (ck_Ciphertext c) \<noteq> ck_Digest c
      then Some (Msg ''invalid opaque attachment ciphertext chunk'')
      else if ck_Digest c \<in> set seen then Some (Msg ''duplicate opaque attachment ciphertext chunk'')
      else if tot + of_nat (length (ck_Ciphertext c)) > MaxPlaintextBytes + MaxChunks * 16
      then Some (Msg ''opaque attachment ciphertext exceeds its bound'')
      else opaque_batch (ck_Digest c # seen) (tot + of_nat (length (ck_Ciphertext c))) cs)"

definition validateOpaqueChunkBatch :: "Chunk list \<Rightarrow> err option" where
  "validateOpaqueChunkBatch chunks =
     (if chunks = [] \<or> int (length chunks) > uint MaxChunks then Some (Msg ''invalid opaque attachment chunk batch'')
      else opaque_batch [] 0 chunks)"

definition PutObjects :: "disk \<Rightarrow> Chunk list \<Rightarrow> Store \<Rightarrow> int res \<times> Store" where
  "PutObjects dk chunks s = (case thenE (Store_usable s) (validateOpaqueChunkBatch chunks) of
     Some e \<Rightarrow> (Inl e, s)
   | None \<Rightarrow> (case newObjectCost s chunks of
     Inl e \<Rightarrow> (Inl e, s)
   | Inr (newObjects, newBytes) \<Rightarrow> (case usage dk s of
     Inl e \<Rightarrow> (Inl e, s)
   | Inr (count, heldBytes) \<Rightarrow>
       if count + newObjects > sq_MaxObjects (st_quota s) \<or> heldBytes + newBytes > sq_MaxBytes (st_quota s)
       then (Inl ErrStoreQuota, s)
       else (case put_objects dk chunks s of
         (Some e, s') \<Rightarrow> (Inl e, s')
       | (None, s') \<Rightarrow> (Inr newObjects, s')))))"


definition validateStorageLeaseMetadata :: "StorageLease \<Rightarrow> gotime \<Rightarrow> duration \<Rightarrow> err option" where
  "validateStorageLeaseMetadata v now maxRetention =
     (if \<not> validContentDigest (sl_ManifestDigest v) \<or> sl_ChunkDigests v = [] \<or>
         int (length (sl_ChunkDigests v)) > uint MaxChunks \<or> bad_time now \<or> sl_ExpiresAtUnix v \<le> unix now \<or>
         sl_ExpiresAtUnix v - unix now > word_of_int (in_seconds maxRetention)
      then Some (Msg ''invalid attachment storage lease'')
      else fresh_digests ''invalid attachment storage lease digest'' ''duplicate attachment storage lease digest''
        [] (sl_ChunkDigests v))"

definition validateStorageLease :: "StorageLease \<Rightarrow> Chunk list \<Rightarrow> gotime \<Rightarrow> duration \<Rightarrow> err option" where
  "validateStorageLease v chunks now maxRetention = thenE (validateStorageLeaseMetadata v now maxRetention)
     (if length chunks \<noteq> length (sl_ChunkDigests v) then Some (Msg ''attachment storage lease is incomplete'')
      else if list_ex (\<lambda>index. let digest = sl_ChunkDigests v ! index; chunk = chunks ! index in
          ck_Index chunk \<noteq> of_nat index \<or> ck_Digest chunk \<noteq> digest \<or> length (ck_Ciphertext chunk) \<le> 16 \<or>
          int (length (ck_Ciphertext chunk)) > uint MaxChunkBytes + 16 \<or> Digest (ck_Ciphertext chunk) \<noteq> digest)
          [0..<length (sl_ChunkDigests v)]
      then Some (Msg ''invalid opaque attachment ciphertext chunk'') else None)"

definition validateStoredChunks :: "Reference \<Rightarrow> Chunk list \<Rightarrow> err option" where
  "validateStoredChunks ref chunks = thenE (ValidateReference ref)
     (let m = rf_Manifest ref in
      if length chunks \<noteq> length (mf_ChunkDigests m) then Some (Msg ''attachment chunk set is incomplete'')
      else if list_ex (\<lambda>index. let chunk = chunks ! index in
          ck_Index chunk \<noteq> of_nat index \<or> ck_Digest chunk \<noteq> mf_ChunkDigests m ! index \<or>
          Digest (ck_Ciphertext chunk) \<noteq> ck_Digest chunk \<or>
          int (length (ck_Ciphertext chunk)) \<noteq> expectedChunkPlaintext m index + 16) [0..<length chunks]
      then Some (Msg ''invalid attachment ciphertext chunk'') else None)"

definition sameLease :: "lease \<Rightarrow> lease \<Rightarrow> bool" where
  "sameLease a b \<longleftrightarrow> le_Schema a = le_Schema b \<and> le_ManifestDigest a = le_ManifestDigest b \<and>
     le_ExpiresAtUnix a = le_ExpiresAtUnix b \<and> le_ChunkDigests a = le_ChunkDigests b"

definition CommitOpaque :: "disk \<Rightarrow> StorageLease \<Rightarrow> u64 \<Rightarrow> gotime \<Rightarrow> Store \<Rightarrow> bool res \<times> Store" where
  "CommitOpaque dk v ciphertextBytes now s =
     (case thenE (Store_usable s) (thenE (validateStorageLeaseMetadata v now (sq_MaxRetention (st_quota s)))
         (failIf (ciphertextBytes = 0) ''invalid attachment ciphertext byte count'')) of
       Some e \<Rightarrow> (Inl e, s)
     | None \<Rightarrow>
       let wanted = \<lparr>le_Schema = leaseSchema, le_ManifestDigest = sl_ManifestDigest v,
         le_ChunkDigests = sl_ChunkDigests v, le_ExpiresAtUnix = sl_ExpiresAtUnix v\<rparr> in
       (case readLease s (sl_ManifestDigest v) of
         Inl e \<Rightarrow> (Inl e, s)
       | Inr (Some existing) \<Rightarrow>
           if \<not> sameLease existing wanted then (Inl ErrStoreConflict, s)
           else (case verifyLeaseObjects s v ciphertextBytes of Some e \<Rightarrow> (Inl e, s) | None \<Rightarrow> (Inr False, s))
       | Inr None \<Rightarrow> (case allLeases dk s of
           Inl e \<Rightarrow> (Inl e, s)
         | Inr leases \<Rightarrow>
             if int (length leases) \<ge> sq_MaxLeases (st_quota s) then (Inl ErrStoreQuota, s)
             else (case verifyLeaseObjects s v ciphertextBytes of
               Some e \<Rightarrow> (Inl e, s)
             | None \<Rightarrow> (case attach_replaceFile (dk_replace dk) (leasePath (sl_ManifestDigest v)) wanted (st_leases s) of
                 (Some e, leases') \<Rightarrow> (Inl e, s\<lparr>st_leases := leases'\<rparr>)
               | (None, leases') \<Rightarrow> (Inr True, s\<lparr>st_leases := leases'\<rparr>))))))"

definition PutOpaque :: "disk \<Rightarrow> StorageLease \<Rightarrow> Chunk list \<Rightarrow> gotime \<Rightarrow> Store \<Rightarrow> bool res \<times> Store" where
  "PutOpaque dk v chunks now s =
     (case thenE (Store_usable s) (validateStorageLease v chunks now (sq_MaxRetention (st_quota s))) of
       Some e \<Rightarrow> (Inl e, s)
     | None \<Rightarrow> (case PutObjects dk chunks s of
         (Inl e, s') \<Rightarrow> (Inl e, s')
       | (Inr _, s') \<Rightarrow> CommitOpaque dk v (sum_list (map (\<lambda>c. of_nat (length (ck_Ciphertext c))) chunks)) now s'))"

definition Store_Put :: "disk \<Rightarrow> Reference \<Rightarrow> Chunk list \<Rightarrow> gotime \<Rightarrow> Store \<Rightarrow> bool res \<times> Store" where
  "Store_Put dk ref chunks now s = (case failE (validateStoredChunks ref chunks) (ManifestDigest (rf_Manifest ref)) of
     Inl e \<Rightarrow> (Inl e, s)
   | Inr manifestDigest \<Rightarrow> PutOpaque dk \<lparr>sl_ManifestDigest = manifestDigest,
       sl_ChunkDigests = mf_ChunkDigests (rf_Manifest ref), sl_ExpiresAtUnix = mt_ExpiresAtUnix (rf_Metadata ref)\<rparr> chunks now s)"

fun fetch_chunks :: "Store \<Rightarrow> (string \<Rightarrow> u32 option) \<Rightarrow> string list \<Rightarrow> Chunk list res" where
  "fetch_chunks s pos [] = Inr []"
| "fetch_chunks s pos (digest # ds) = (case pos digest of
     None \<Rightarrow> Inl (Msg ''attachment object is outside its lease'')
   | Some index \<Rightarrow> (case read_object s digest of
       Inl _ \<Rightarrow> Inl (Msg ''attachment ciphertext object is missing or corrupt'')
     | Inr raw \<Rightarrow>
         if Digest raw \<noteq> digest then Inl (Msg ''attachment ciphertext object is missing or corrupt'')
         else bindE (fetch_chunks s pos ds) (\<lambda>cs.
           Inr (\<lparr>ck_Index = index, ck_Digest = digest, ck_Ciphertext = raw\<rparr> # cs))))"

definition fetchOpaque :: "Store \<Rightarrow> string \<Rightarrow> string list \<Rightarrow> gotime \<Rightarrow> bool \<Rightarrow> (Chunk list \<times> u64) res" where
  "fetchOpaque s manifestDigest digests now enforceExpiry = failE (Store_usable s)
     (if \<not> validContentDigest manifestDigest \<or> digests = [] \<or> int (length digests) > uint MaxChunks \<or>
         enforceExpiry \<and> bad_time now
      then Inl (Msg ''invalid attachment object fetch'')
      else failE (fresh_digests ''invalid attachment object digest'' ''duplicate attachment object digest'' [] digests)
      (bindE (readLease s manifestDigest) (\<lambda>found. case found of
         None \<Rightarrow> Inl ErrLeaseNotFound
       | Some stored \<Rightarrow>
           if enforceExpiry \<and> le_ExpiresAtUnix stored \<le> unix now then Inl ErrLeaseNotFound
           else bindE (fetch_chunks s (positions (le_ChunkDigests stored)) digests) (\<lambda>chunks.
             Inr (chunks, le_ExpiresAtUnix stored)))))"

definition FetchOpaque :: "Store \<Rightarrow> string \<Rightarrow> string list \<Rightarrow> gotime \<Rightarrow> (Chunk list \<times> u64) res" where
  "FetchOpaque s manifestDigest digests now = fetchOpaque s manifestDigest digests now True"

text \<open>The zero time, which is not checked when expiry is not enforced.\<close>

definition Store_Fetch :: "Store \<Rightarrow> Reference \<Rightarrow> Chunk list res" where
  "Store_Fetch s ref = failE (Store_usable s) (failE (ValidateReference ref)
     (bindE (ManifestDigest (rf_Manifest ref)) (\<lambda>digest.
      bindE (fetchOpaque s digest (mf_ChunkDigests (rf_Manifest ref)) (- 62135596800) False) (\<lambda>(chunks, expiresAt).
      if expiresAt \<noteq> mt_ExpiresAtUnix (rf_Metadata ref) then Inl (Msg ''attachment lease expiry mismatch'')
      else Inr chunks))))"

definition Store_Held :: "Store \<Rightarrow> Reference \<Rightarrow> (string, bool) dir res" where
  "Store_Held s ref = failE (Store_usable s) (failE (ValidateReference ref)
     (Inr (map (\<lambda>d. (d, holds_object s d)) (mf_ChunkDigests (rf_Manifest ref)))))"

definition Store_Delete :: "disk \<Rightarrow> string \<Rightarrow> Store \<Rightarrow> bool res \<times> Store" where
  "Store_Delete dk manifestDigest s =
     (case thenE (Store_usable s) (failIf (\<not> validContentDigest manifestDigest) ''invalid attachment manifest digest'') of
       Some e \<Rightarrow> (Inl e, s)
     | None \<Rightarrow> let path = leasePath manifestDigest in
       if map_of (st_leases s) path = None then (Inr False, s)
       else if \<not> dk_remove dk path then (Inl (Msg ''remove attachment lease''), s)
       else let s' = s\<lparr>st_leases := AList.delete path (st_leases s)\<rparr> in
         (if dk_sync dk then Inr True else Inl (Msg ''sync attachment leases''), s'))"

section \<open>Collection\<close>

text \<open>The objects to remove, with their sizes; every entry is checked first.\<close>

fun collectable :: "Store \<Rightarrow> string list \<Rightarrow> gotime \<Rightarrow> duration \<Rightarrow> string list \<Rightarrow> (string \<times> nat) list res" where
  "collectable s referenced now grace [] = Inr []"
| "collectable s referenced now grace (name # names) = bindE (object_entry s name) (\<lambda>(digest, ob).
     bindE (collectable s referenced now grace names) (\<lambda>rest.
     if digest \<in> set referenced \<or> grace > 0 \<and> now < ob_ModTime ob + in_seconds grace
     then Inr rest else Inr ((name, length (ob_raw ob)) # rest)))"

fun remove_leases :: "disk \<Rightarrow> u64 \<Rightarrow> lease list \<Rightarrow> nat \<Rightarrow> Store \<Rightarrow> nat res \<times> Store" where
  "remove_leases dk now [] n s = (Inr n, s)"
| "remove_leases dk now (l # ls) n s =
     (if le_ExpiresAtUnix l > now then remove_leases dk now ls n s
      else let path = leasePath (le_ManifestDigest l) in
      if \<not> dk_remove dk path then (Inl (Msg ''remove expired attachment lease''), s)
      else remove_leases dk now ls (Suc n) (s\<lparr>st_leases := AList.delete path (st_leases s)\<rparr>))"

fun remove_objects :: "disk \<Rightarrow> (string \<times> nat) list \<Rightarrow> nat \<Rightarrow> nat \<Rightarrow> Store \<Rightarrow> (nat \<times> nat) res \<times> Store" where
  "remove_objects dk [] n b s = (Inr (n, b), s)"
| "remove_objects dk ((path, sz) # os) n b s =
     (if \<not> dk_remove dk path then (Inl (Msg ''remove attachment object''), s)
      else remove_objects dk os (Suc n) (b + sz) (s\<lparr>st_objects := AList.delete path (st_objects s)\<rparr>))"

text \<open>
  \<open>now.Before(info.ModTime().Add(stagingGrace))\<close> is read in whole seconds.
\<close>

definition GCWithStagingGrace :: "disk \<Rightarrow> gotime \<Rightarrow> duration \<Rightarrow> Store \<Rightarrow> GCReport res \<times> Store" where
  "GCWithStagingGrace dk now stagingGrace s =
     (case thenE (Store_usable s) (thenE (failIf (bad_time now) ''invalid attachment GC time'')
         (failIf (stagingGrace < 0 \<or> stagingGrace > 24 * Hour) ''invalid attachment staging grace'')) of
       Some e \<Rightarrow> (Inl e, s)
     | None \<Rightarrow> (case allLeases dk s of
       Inl e \<Rightarrow> (Inl e, s)
     | Inr leases \<Rightarrow>
       let referenced = concat (map le_ChunkDigests (filter (\<lambda>l. le_ExpiresAtUnix l > unix now) leases)) in
       (case collectable s referenced now stagingGrace (map fst (st_objects s)) of
         Inl e \<Rightarrow> (Inl e, s)
       | Inr gone \<Rightarrow> (case remove_leases dk (unix now) leases 0 s of
         (Inl e, s1) \<Rightarrow> (Inl e, s1)
       | (Inr expired, s1) \<Rightarrow> (case remove_objects dk gone 0 0 s1 of
         (Inl e, s2) \<Rightarrow> (Inl e, s2)
       | (Inr (removed, bytes), s2) \<Rightarrow>
           if (expired > 0 \<or> removed > 0) \<and> \<not> dk_sync dk then (Inl (Msg ''sync attachment store''), s2)
           else (Inr \<lparr>gc_ExpiredLeases = expired, gc_ObjectsRemoved = removed, gc_BytesRemoved = bytes\<rparr>, s2))))))"

definition Store_GC :: "disk \<Rightarrow> gotime \<Rightarrow> Store \<Rightarrow> GCReport res \<times> Store" where
  "Store_GC dk now s = GCWithStagingGrace dk now 0 s"


section \<open>Replay guard\<close>

definition accessClaimSchema :: string where
  "accessClaimSchema = ''tos.messaging.attachment-access-claim.v1''"

definition accessClockSchema :: string where
  "accessClockSchema = ''tos.messaging.attachment-access-clock.v1''"

definition MaxAccessClaims :: nat where
  "MaxAccessClaims = 100000"

definition advanceAccessClock :: "rout \<Rightarrow> u64 \<Rightarrow> Store \<Rightarrow> err option \<times> Store" where
  "advanceAccessClock w now s =
     (let written = s\<lparr>st_clock := Some (Whole \<lparr>ak_Schema = accessClockSchema, ak_HighestUnixTime = now\<rparr>)\<rparr>;
          write = (case w of
            Replaced \<Rightarrow> (None, written)
          | NotReplaced \<Rightarrow> (Some (Msg ''replace attachment record''), s)
          | ReplacedUnsynced \<Rightarrow> (Some (Msg ''replace attachment record''), written)
          | DiedWithTemp _ \<Rightarrow> (Some (Msg ''died''), s)) in
      case st_clock s of
        None \<Rightarrow> write
      | Some Broken \<Rightarrow> (Some (Msg ''invalid attachment access clock''), s)
      | Some (Whole checkpoint) \<Rightarrow>
          if ak_Schema checkpoint \<noteq> accessClockSchema \<or> ak_HighestUnixTime checkpoint = 0
          then (Some (Msg ''invalid attachment access clock''), s)
          else if now < ak_HighestUnixTime checkpoint then (Some ErrClockRollback, s)
          else if now = ak_HighestUnixTime checkpoint then (None, s)
          else write)"

definition accessClaimName :: "string \<Rightarrow> string \<Rightarrow> string" where
  "accessClaimName grantDigest nonceHex =
     drop 7 (Digest (DomainAttachmentAccessClaim @ canon_Text grantDigest @ canon_Text nonceHex))"

definition readAccessClaim :: "string \<Rightarrow> accessClaim stored \<Rightarrow> accessClaim res" where
  "readAccessClaim name f = (case f of
     Broken \<Rightarrow> Inl (Msg ''invalid attachment access claim'')
   | Whole c \<Rightarrow>
       if ac_Schema c \<noteq> accessClaimSchema \<or> \<not> ValidDigest (ac_GrantDigest c) \<or> ac_ExpiresAtUnix c = 0
       then Inl (Msg ''invalid attachment access claim'')
       else bindE (nonzero32 ''invalid attachment access claim nonce'' (ac_NonceHex c)) (\<lambda>_.
         if name \<noteq> accessClaimName (ac_GrantDigest c) (ac_NonceHex c) @ ''.json''
         then Inl (Msg ''attachment access claim is under the wrong name'') else Inr c))"

fun read_claims :: "(string, accessClaim stored) dir \<Rightarrow> (string \<times> accessClaim) list res" where
  "read_claims [] = Inr []"
| "read_claims ((name, f) # d) = bindE (readAccessClaim name f) (\<lambda>c.
     bindE (read_claims d) (\<lambda>cs. Inr ((name, c) # cs)))"

text \<open>The loop over the expired claims; the flag is whether one was removed.\<close>

fun prune_claims :: "disk \<Rightarrow> u64 \<Rightarrow> (string \<times> accessClaim) list \<Rightarrow> bool \<Rightarrow> Store \<Rightarrow> bool res \<times> Store" where
  "prune_claims dk now [] removed s = (Inr removed, s)"
| "prune_claims dk now ((path, c) # cs) removed s =
     (if ac_ExpiresAtUnix c > now then prune_claims dk now cs removed s
      else if \<not> dk_remove dk path then (Inl (Msg ''remove expired attachment access claim''), s)
      else prune_claims dk now cs True (s\<lparr>st_claims := AList.delete path (st_claims s)\<rparr>))"

definition claimAccess :: "disk \<Rightarrow> AccessRequest \<Rightarrow> gotime \<Rightarrow> Store \<Rightarrow> err option \<times> Store" where
  "claimAccess dk r now s =
     (case failE (Store_usable s) (AccessRequestCanonicalBytes r) of
       Inl e \<Rightarrow> (Some e, s)
     | Inr _ \<Rightarrow>
       if bad_time now then (Some (Msg ''invalid attachment access claim time''), s)
       else (case advanceAccessClock (dk_replace dk) (unix now) s of
         (Some e, s1) \<Rightarrow> (Some e, s1)
       | (None, s1) \<Rightarrow>
         if \<not> dk_list dk then (Some (Msg ''read attachment access claims''), s1)
         else (case read_claims (st_claims s1) of
           Inl e \<Rightarrow> (Some e, s1)
         | Inr claims \<Rightarrow>
           if length (filter (\<lambda>(_, c). ac_ExpiresAtUnix c > unix now) claims) \<ge> MaxAccessClaims
           then (Some ErrStoreQuota, s1)
           else (case prune_claims dk (unix now) claims False s1 of
             (Inl e, s2) \<Rightarrow> (Some e, s2)
           | (Inr removed, s2) \<Rightarrow>
             if removed \<and> \<not> dk_sync dk then (Some (Msg ''sync attachment access claims''), s2)
             else let path = accessClaimName (rq_GrantDigest r) (rq_NonceHex r) @ ''.json'' in
             if map_of (st_claims s2) path \<noteq> None then (Some ErrAccessReplay, s2)
             else (case create_file (dk_create dk path) path (Whole \<lparr>ac_Schema = accessClaimSchema,
                 ac_GrantDigest = rq_GrantDigest r, ac_NonceHex = rq_NonceHex r,
                 ac_ExpiresAtUnix = rq_ExpiresAtUnix r\<rparr>) (\<lambda>_. Broken) (st_claims s2) of
               (e, claims') \<Rightarrow> (e, s2\<lparr>st_claims := claims'\<rparr>))))))"

section \<open>Authenticated store\<close>

record AuthenticatedStore =
  au_store :: Store
  au_authority :: "CapabilityGrant \<Rightarrow> gotime \<Rightarrow> bytes res"
  au_storageKey :: bytes

definition NewAuthenticatedStore ::
    "Store \<Rightarrow> (CapabilityGrant \<Rightarrow> gotime \<Rightarrow> bytes res) option \<Rightarrow> bytes \<Rightarrow> AuthenticatedStore res" where
  "NewAuthenticatedStore s authority storageKey = (case authority of
     None \<Rightarrow> Inl (Msg ''invalid authenticated attachment store'')
   | Some resolve \<Rightarrow>
       if length storageKey \<noteq> 64 then Inl (Msg ''invalid authenticated attachment store'')
       else failE (Store_usable s) (Inr \<lparr>au_store = s, au_authority = resolve, au_storageKey = storageKey\<rparr>))"

definition StoragePublicKey :: "Ed25519 \<Rightarrow> AuthenticatedStore \<Rightarrow> bytes" where
  "StoragePublicKey ed au = (if length (au_storageKey au) \<noteq> 64 then [] else ed_Public ed (au_storageKey au))"

definition authorize :: "Ed25519 \<Rightarrow> disk \<Rightarrow> CapabilityGrant \<Rightarrow> AccessRequest \<Rightarrow> string \<Rightarrow> string \<Rightarrow> gotime \<Rightarrow>
    AuthenticatedStore \<Rightarrow> err option \<times> AuthenticatedStore" where
  "authorize ed dk g r operation bodyDigest now au = (case au_authority au g now of
     Inl e \<Rightarrow> (Some e, au)
   | Inr endpointKey \<Rightarrow>
     (case thenE (VerifyGrant ed g endpointKey (StoragePublicKey ed au) now)
         (VerifyAccessRequest ed g r operation bodyDigest now) of
       Some e \<Rightarrow> (Some e, au)
     | None \<Rightarrow> (case claimAccess dk r now (au_store au) of (e, s) \<Rightarrow> (e, au\<lparr>au_store := s\<rparr>))))"

text \<open>
  The disks are those of the claim, of the objects and of the lease. The second result is
  whether a lease is published; an upload that still lacks objects returns no acknowledgement.
\<close>

definition auth_Upload :: "Ed25519 \<Rightarrow> disk \<Rightarrow> disk \<Rightarrow> disk \<Rightarrow> CapabilityGrant \<Rightarrow> AccessRequest \<Rightarrow> Chunk list \<Rightarrow> gotime \<Rightarrow>
    AuthenticatedStore \<Rightarrow> StoredAck option res \<times> AuthenticatedStore" where
  "auth_Upload ed dk dk' dk'' g r chunks now au = (case UploadBodyDigest g chunks of
     Inl e \<Rightarrow> (Inl e, au)
   | Inr digest \<Rightarrow> (case authorize ed dk g r OperationUpload digest now au of
     (Some e, au) \<Rightarrow> (Inl e, au)
   | (None, au) \<Rightarrow> (case PutObjects dk' chunks (au_store au) of
     (Inl e, s) \<Rightarrow> (Inl e, au\<lparr>au_store := s\<rparr>)
   | (Inr _, s) \<Rightarrow> (case CommitOpaque dk'' \<lparr>sl_ManifestDigest = gr_ManifestDigest g, sl_ChunkDigests = gr_ChunkDigests g,
         sl_ExpiresAtUnix = gr_RetainUntilUnix g\<rparr> (gr_CiphertextBytes g) now s of
     (Inl e, s) \<Rightarrow> (if e = ErrLeaseNotFound then Inr None else Inl e, au\<lparr>au_store := s\<rparr>)
   | (Inr is_fresh, s) \<Rightarrow>
       (bindE (SignStoredAck ed \<lparr>sa_Schema = '''', sa_GrantDigest = rq_GrantDigest r,
          sa_ManifestDigest = gr_ManifestDigest g, sa_ChunkDigests = gr_ChunkDigests g,
          sa_CiphertextBytes = gr_CiphertextBytes g, sa_StoredAtUnix = unix now,
          sa_RetainUntilUnix = gr_RetainUntilUnix g, sa_Fresh = is_fresh, sa_StoragePublicKeyHex = '''',
          sa_StorageSignatureHex = ''''\<rparr> (au_storageKey au)) (\<lambda>ack. Inr (Some ack)), au\<lparr>au_store := s\<rparr>)))))"

definition auth_Fetch :: "Ed25519 \<Rightarrow> disk \<Rightarrow> CapabilityGrant \<Rightarrow> AccessRequest \<Rightarrow> string list \<Rightarrow> gotime \<Rightarrow>
    AuthenticatedStore \<Rightarrow> Chunk list res \<times> AuthenticatedStore" where
  "auth_Fetch ed dk g r digests now au = (case FetchBodyDigest g digests of
     Inl e \<Rightarrow> (Inl e, au)
   | Inr digest \<Rightarrow> (case authorize ed dk g r OperationFetch digest now au of
     (Some e, au) \<Rightarrow> (Inl e, au)
   | (None, au) \<Rightarrow> (bindE (FetchOpaque (au_store au) (gr_ManifestDigest g) digests now) (\<lambda>(chunks, expires).
       if expires \<noteq> gr_RetainUntilUnix g then Inl (Msg ''attachment lease retention conflicts with its grant'')
       else Inr chunks), au)))"

definition auth_Delete :: "Ed25519 \<Rightarrow> disk \<Rightarrow> disk \<Rightarrow> CapabilityGrant \<Rightarrow> AccessRequest \<Rightarrow> gotime \<Rightarrow>
    AuthenticatedStore \<Rightarrow> DeleteAck res \<times> AuthenticatedStore" where
  "auth_Delete ed dk dk' g r now au = (case DeleteBodyDigest g of
     Inl e \<Rightarrow> (Inl e, au)
   | Inr digest \<Rightarrow> (case authorize ed dk g r OperationDelete digest now au of
     (Some e, au) \<Rightarrow> (Inl e, au)
   | (None, au) \<Rightarrow> (case Store_Delete dk' (gr_ManifestDigest g) (au_store au) of
     (Inl e, s) \<Rightarrow> (Inl e, au\<lparr>au_store := s\<rparr>)
   | (Inr deleted, s) \<Rightarrow>
       (SignDeleteAck ed \<lparr>da_Schema = '''', da_GrantDigest = rq_GrantDigest r, da_ManifestDigest = gr_ManifestDigest g,
          da_ObservedAtUnix = unix now, da_Deleted = deleted, da_StoragePublicKeyHex = '''', da_StorageSignatureHex = ''''\<rparr>
          (au_storageKey au), au\<lparr>au_store := s\<rparr>))))"


section \<open>Runs\<close>

text \<open>
  What can happen to an operator's store: the three authenticated operations, a local upload
  and a collection, each with what the disk does and with any arguments.
\<close>

datatype call =
    Upload disk disk disk CapabilityGrant AccessRequest "Chunk list" gotime
  | Fetch disk CapabilityGrant AccessRequest "string list" gotime
  | Delete disk disk CapabilityGrant AccessRequest gotime
  | LocalPut disk disk StorageLease "Chunk list" gotime
  | LocalDelete disk string
  | Collect disk gotime duration

fun perform :: "Ed25519 \<Rightarrow> call \<Rightarrow> AuthenticatedStore \<Rightarrow> AuthenticatedStore" where
  "perform ed (Upload dk dk' dk'' g r chunks now) au = snd (auth_Upload ed dk dk' dk'' g r chunks now au)"
| "perform ed (Fetch dk g r digests now) au = snd (auth_Fetch ed dk g r digests now au)"
| "perform ed (Delete dk dk' g r now) au = snd (auth_Delete ed dk dk' g r now au)"
| "perform ed (LocalPut dk dk' v chunks now) au = au\<lparr>au_store := snd (PutOpaque dk v chunks now (au_store au))\<rparr>"
| "perform ed (LocalDelete dk digest) au = au\<lparr>au_store := snd (Store_Delete dk digest (au_store au))\<rparr>"
| "perform ed (Collect dk now grace) au = au\<lparr>au_store := snd (GCWithStagingGrace dk now grace (au_store au))\<rparr>"

fun run :: "Ed25519 \<Rightarrow> call list \<Rightarrow> AuthenticatedStore \<Rightarrow> AuthenticatedStore" where
  "run ed [] au = au"
| "run ed (c # cs) au = run ed cs (perform ed c au)"

text \<open>The request a call was authorized by, if it was.\<close>

definition authorized :: "Ed25519 \<Rightarrow> disk \<Rightarrow> CapabilityGrant \<Rightarrow> AccessRequest \<Rightarrow> string \<Rightarrow> string res \<Rightarrow> gotime \<Rightarrow>
    AuthenticatedStore \<Rightarrow> AccessRequest list" where
  "authorized ed dk g r operation body now au = (case body of
     Inl _ \<Rightarrow> []
   | Inr digest \<Rightarrow> if fst (authorize ed dk g r operation digest now au) = None then [r] else [])"

fun accepts :: "Ed25519 \<Rightarrow> call \<Rightarrow> AuthenticatedStore \<Rightarrow> AccessRequest list" where
  "accepts ed (Upload dk dk' dk'' g r chunks now) au = authorized ed dk g r OperationUpload (UploadBodyDigest g chunks) now au"
| "accepts ed (Fetch dk g r digests now) au = authorized ed dk g r OperationFetch (FetchBodyDigest g digests) now au"
| "accepts ed (Delete dk dk' g r now) au = authorized ed dk g r OperationDelete (DeleteBodyDigest g) now au"
| "accepts ed _ au = []"

fun accepted :: "Ed25519 \<Rightarrow> call list \<Rightarrow> AuthenticatedStore \<Rightarrow> AccessRequest list" where
  "accepted ed [] au = []"
| "accepted ed (c # cs) au = accepts ed c au @ accepted ed cs (perform ed c au)"

definition unsigned :: "AccessRequest \<Rightarrow> AccessRequest" where
  "unsigned r = r\<lparr>rq_CapabilitySignatureHex := ''''\<rparr>"

text \<open>An authenticated store on an empty disk.\<close>

definition fresh_store :: "StoreQuota \<Rightarrow> (CapabilityGrant \<Rightarrow> gotime \<Rightarrow> bytes res) \<Rightarrow> bytes \<Rightarrow> AuthenticatedStore" where
  "fresh_store q authority key = \<lparr>au_store = \<lparr>st_held = True, st_quota = q, st_objects = [], st_leases = [],
     st_claims = [], st_clock = None\<rparr>, au_authority = authority, au_storageKey = key\<rparr>"

section \<open>Lemmas on the replay guard\<close>

definition claim_path :: "AccessRequest \<Rightarrow> string" where
  "claim_path r = accessClaimName (rq_GrantDigest r) (rq_NonceHex r) @ ''.json''"

text \<open>An accepted request is claimed, or the clock has passed its expiry.\<close>

definition guarded :: "Store \<Rightarrow> AccessRequest \<Rightarrow> bool" where
  "guarded s r \<longleftrightarrow> (\<exists>c. map_of (st_claims s) (claim_path r) = Some (Whole c) \<and> ac_ExpiresAtUnix c = rq_ExpiresAtUnix r) \<or>
     (\<exists>k. st_clock s = Some (Whole k) \<and> rq_ExpiresAtUnix r \<le> ak_HighestUnixTime k)"

definition guard :: "Store \<Rightarrow> (string, accessClaim stored) dir \<times> accessClock stored option" where
  "guard s = (st_claims s, st_clock s)"

text \<open>An authorization never loses a guarded request; a granted one guards its request, which was not.\<close>

definition keeps_guard :: "Store \<Rightarrow> Store \<Rightarrow> bool" where
  "keeps_guard s s' \<longleftrightarrow> distinct (map fst (st_claims s)) \<longrightarrow>
     distinct (map fst (st_claims s')) \<and> (\<forall>q. guarded s q \<longrightarrow> guarded s' q)"

definition claims_once :: "AccessRequest \<Rightarrow> Store \<Rightarrow> Store \<Rightarrow> bool" where
  "claims_once r s s' \<longleftrightarrow> distinct (map fst (st_claims s)) \<longrightarrow>
     guarded s' r \<and> (\<forall>q. unsigned q = unsigned r \<longrightarrow> \<not> guarded s q)"

text \<open>Every object a lease names is held whole.\<close>

definition leases_held :: "Store \<Rightarrow> bool" where
  "leases_held s \<longleftrightarrow> (\<forall>name l. map_of (st_leases s) name = Some (Whole l) \<longrightarrow>
     (\<forall>d \<in> set (le_ChunkDigests l). validContentDigest d \<and> holds_object s d))"

definition stored_bytes :: "Store \<Rightarrow> nat" where
  "stored_bytes s = sum_list (map (\<lambda>(_, ob). length (ob_raw ob)) (st_objects s))"

definition within_quota :: "StoreQuota \<Rightarrow> Store \<Rightarrow> bool" where
  "within_quota q s \<longleftrightarrow> st_quota s = q \<and> distinct (map fst (st_objects s)) \<and>
     int (length (st_objects s)) \<le> sq_MaxObjects q \<and> int (stored_bytes s) \<le> sq_MaxBytes q \<and>
     int (length (st_leases s)) \<le> sq_MaxLeases q"

text \<open>Objects are added and refreshed, never rewritten.\<close>

definition grows :: "Store \<Rightarrow> Store \<Rightarrow> bool" where
  "grows s s' \<longleftrightarrow> (\<forall>p ob. map_of (st_objects s) p = Some ob \<longrightarrow>
     (\<exists>ob'. map_of (st_objects s') p = Some ob' \<and> ob_raw ob' = ob_raw ob))"

definition held :: "Store \<Rightarrow> (string, object) dir \<times> (string, lease stored) dir \<times> StoreQuota" where
  "held s = (st_objects s, st_leases s, st_quota s)"

text \<open>A commit changes the leases only by the one it verified, or by a temporary file.\<close>

definition lease_of :: "StorageLease \<Rightarrow> lease" where
  "lease_of v = \<lparr>le_Schema = leaseSchema, le_ManifestDigest = sl_ManifestDigest v,
     le_ChunkDigests = sl_ChunkDigests v, le_ExpiresAtUnix = sl_ExpiresAtUnix v\<rparr>"

text \<open>The count and the bytes of the objects, over the additions of a batch.\<close>

definition absent :: "Store \<Rightarrow> Chunk \<Rightarrow> bool" where
  "absent s c \<longleftrightarrow> map_of (st_objects s) (objectPath (ck_Digest c)) = None"

text \<open>What a batch adds, by the count of the objects it does not find.\<close>

fun cost :: "Store \<Rightarrow> Chunk list \<Rightarrow> nat \<times> nat" where
  "cost s [] = (0, 0)"
| "cost s (c # cs) = (case cost s cs of (n, b) \<Rightarrow> if absent s c then (Suc n, b + length (ck_Ciphertext c)) else (n, b))"

text \<open>An empty object file, as a crash between its creation and its writing leaves it.\<close>

definition torn :: "string \<Rightarrow> Store \<Rightarrow> bool" where
  "torn p s \<longleftrightarrow> (\<exists>ob. map_of (st_objects s) p = Some ob \<and> ob_raw ob = [])"

text \<open>A claim file that does not decode.\<close>

definition damaged :: "Store \<Rightarrow> bool" where
  "damaged s \<longleftrightarrow> Broken \<in> snd ` set (st_claims s)"

lemma advance_None:
  assumes "advanceAccessClock w n s = (None, s')"
  shows "st_claims s' = st_claims s" "\<exists>k. st_clock s' = Some (Whole k) \<and> ak_HighestUnixTime k = n"
    "st_clock s = Some (Whole k) \<Longrightarrow> ak_HighestUnixTime k \<le> n"
  using assms
  by (auto simp: advanceAccessClock_def Let_def split: option.splits stored.splits rout.splits if_splits)

lemma advance_clock:
  assumes "advanceAccessClock w n s = (e, s')"
  shows "st_claims s' = st_claims s"
    "st_clock s = Some (Whole k) \<Longrightarrow> \<exists>k'. st_clock s' = Some (Whole k') \<and> ak_HighestUnixTime k \<le> ak_HighestUnixTime k'"
  using assms
  by (auto simp: advanceAccessClock_def Let_def split: option.splits stored.splits rout.splits if_splits)

lemma read_claims_Inr:
  "read_claims d = Inr cs \<Longrightarrow> d = map (\<lambda>(n, c). (n, Whole c)) cs"
proof (induction d arbitrary: cs rule: read_claims.induct)
  case (2 name f d)
  then show ?case
    by (auto simp: bindE_eq_Inr readAccessClaim_def split: stored.splits if_splits)
qed simp

lemma prune_claims_clock: "st_clock (snd (prune_claims dk n cs b s)) = st_clock s"
  by (induction dk n cs b s rule: prune_claims.induct) (auto)

lemma prune_claims_map:
  "map_of (st_claims (snd (prune_claims dk n cs b s))) p = map_of (st_claims s) p \<or>
     map_of (st_claims (snd (prune_claims dk n cs b s))) p = None \<and> (\<exists>c. (p, c) \<in> set cs \<and> ac_ExpiresAtUnix c \<le> n)"
proof (induction dk n cs b s rule: prune_claims.induct)
  case (2 dk n path c cs b s)
  then show ?case by (cases "p = path") (auto simp: delete_conv' not_less)
qed simp

lemma prune_claims_distinct:
  "distinct (map fst (st_claims s)) \<Longrightarrow> distinct (map fst (st_claims (snd (prune_claims dk n cs b s))))"
  by (induction dk n cs b s rule: prune_claims.induct) (auto simp: distinct_delete)


text \<open>
  A claim either stops before it reads the claims, or prunes the expired ones and then at most
  adds its own.
\<close>

lemma claimAccess_cases:
  assumes "claimAccess dk r now s = (e, s')"
  obtains s1 where "advanceAccessClock (dk_replace dk) (unix now) s = (None, s1) \<or> s1 = s \<or>
      (\<exists>e1. advanceAccessClock (dk_replace dk) (unix now) s = (e1, s1))" "s' = s1" "e \<noteq> None"
  | s1 cs s2 where "advanceAccessClock (dk_replace dk) (unix now) s = (None, s1)" "read_claims (st_claims s1) = Inr cs"
      "s2 = snd (prune_claims dk (unix now) cs False s1)" "s' = s2" "e \<noteq> None"
  | s1 cs s2 v where "advanceAccessClock (dk_replace dk) (unix now) s = (None, s1)" "read_claims (st_claims s1) = Inr cs"
      "s2 = snd (prune_claims dk (unix now) cs False s1)" "map_of (st_claims s2) (claim_path r) = None"
      "s' = s2\<lparr>st_claims := (claim_path r, v) # st_claims s2\<rparr>"
      "e = None \<Longrightarrow> v = Whole \<lparr>ac_Schema = accessClaimSchema, ac_GrantDigest = rq_GrantDigest r,
         ac_NonceHex = rq_NonceHex r, ac_ExpiresAtUnix = rq_ExpiresAtUnix r\<rparr>"
proof -
  obtain e1 s1 where a: "advanceAccessClock (dk_replace dk) (unix now) s = (e1, s1)" by fastforce
  show thesis
  proof (cases "(s' = s \<or> s' = s1) \<and> e \<noteq> None")
    case True
    with a that(1) [of s'] show thesis by blast
  next
    case False
    then obtain cs where c: "e1 = None" "read_claims (st_claims s1) = Inr cs"
      using assms a by (auto simp: claimAccess_def split: sum.splits if_splits option.splits)
    define s2 where "s2 = snd (prune_claims dk (unix now) cs False s1)"
    have "s' = s2 \<and> e \<noteq> None \<or> map_of (st_claims s2) (claim_path r) = None \<and>
        (\<exists>v. s' = s2\<lparr>st_claims := (claim_path r, v) # st_claims s2\<rparr> \<and> (e = None \<longrightarrow> v = Whole \<lparr>ac_Schema = accessClaimSchema,
          ac_GrantDigest = rq_GrantDigest r, ac_NonceHex = rq_NonceHex r, ac_ExpiresAtUnix = rq_ExpiresAtUnix r\<rparr>))"
      using assms a c False unfolding s2_def claim_path_def claimAccess_def
      by (auto simp: create_file_def Let_def split: prod.splits sum.splits if_splits cout.splits)
    with that(2,3) [OF a [unfolded c(1)] c(2) s2_def] show thesis by blast
  qed
qed

lemma guarded_advance:
  "advanceAccessClock w n s = (e, s') \<Longrightarrow> guarded s q \<Longrightarrow> guarded s' q"
  unfolding guarded_def using advance_clock [of w n s e s'] by (auto intro: order_trans)

text \<open>Pruning keeps the requests guarded, the clock having reached the pruning time.\<close>

lemma prune_keeps:
  assumes "distinct (map fst (st_claims s))" and "read_claims (st_claims s) = Inr cs"
    and "map_of (st_claims s) p = Some (Whole c)" and "n < ac_ExpiresAtUnix c"
  shows "map_of (st_claims (snd (prune_claims dk n cs b s))) p = Some (Whole c)"
proof -
  have "c' = c" if "(p, c') \<in> set cs" for c'
  proof -
    have "(p, Whole c') \<in> set (st_claims s)" using that read_claims_Inr [OF assms(2)] by force
    then show ?thesis using eq_key_imp_eq_value [OF assms(1)] map_of_SomeD [OF assms(3)] by blast
  qed
  then show ?thesis
    using prune_claims_map [of dk n cs b s p] assms(3,4) by auto
qed

lemma guarded_prune:
  assumes "distinct (map fst (st_claims s))" and "read_claims (st_claims s) = Inr cs" and "guarded s q"
    and "st_clock s = Some (Whole k)" and "n \<le> ak_HighestUnixTime k"
  shows "guarded (snd (prune_claims dk n cs b s)) q"
proof (cases "\<exists>c. map_of (st_claims s) (claim_path q) = Some (Whole c) \<and> ac_ExpiresAtUnix c = rq_ExpiresAtUnix q \<and> n < rq_ExpiresAtUnix q")
  case True
  then show ?thesis using prune_keeps [OF assms(1,2), of "claim_path q"] unfolding guarded_def by force
next
  case False
  then have "rq_ExpiresAtUnix q \<le> ak_HighestUnixTime k" using assms(3-5) unfolding guarded_def by fastforce
  then show ?thesis using assms(4) by (simp add: guarded_def prune_claims_clock)
qed

text \<open>
  What a claim does to the guard: the names stay distinct, every request guarded before is
  guarded after, and a request that is claimed is guarded after and was not before.
\<close>

lemma claimAccess_distinct:
  assumes "claimAccess dk r now s = (e, s')" and "distinct (map fst (st_claims s))"
  shows "distinct (map fst (st_claims s'))"
  using assms(1)
proof (cases rule: claimAccess_cases)
  case (1 s1)
  then show ?thesis using advance_clock(1) assms(2) by auto
next
  case (2 s1 cs s2)
  then show ?thesis using advance_clock(1) [OF 2(1)] assms(2) by (simp add: prune_claims_distinct)
next
  case (3 s1 cs s2 v)
  then show ?thesis using advance_clock(1) [OF 3(1)] assms(2)
    by (simp add: prune_claims_distinct map_of_eq_None_iff)
qed

lemma claimAccess_guarded:
  assumes "claimAccess dk r now s = (e, s')" and "distinct (map fst (st_claims s))" and "guarded s q"
  shows "guarded s' q"
  using assms(1)
proof (cases rule: claimAccess_cases)
  case (1 s1)
  then show ?thesis using guarded_advance assms(3) by auto
next
  case (2 s1 cs s2)
  obtain k where "st_clock s1 = Some (Whole k)" "ak_HighestUnixTime k = unix now" using advance_None(2) [OF 2(1)] by blast
  with 2 guarded_prune [OF _ 2(2) guarded_advance [OF 2(1) assms(3)]] advance_clock(1) [OF 2(1)] assms(2)
  show ?thesis by simp
next
  case (3 s1 cs s2 v)
  obtain k where "st_clock s1 = Some (Whole k)" "ak_HighestUnixTime k = unix now" using advance_None(2) [OF 3(1)] by blast
  with 3 guarded_prune [OF _ 3(2) guarded_advance [OF 3(1) assms(3)]] advance_clock(1) [OF 3(1)] assms(2)
  have "guarded s2 q" by simp
  with 3(4,5) show ?thesis by (auto simp: guarded_def)
qed

lemma claimAccess_claims:
  assumes "claimAccess dk r now s = (None, s')" and "distinct (map fst (st_claims s))"
  shows "guarded s' r" and "claim_path q = claim_path r \<Longrightarrow> unix now < rq_ExpiresAtUnix q \<Longrightarrow> \<not> guarded s q"
proof -
  obtain s1 cs s2 v where 3: "advanceAccessClock (dk_replace dk) (unix now) s = (None, s1)" "read_claims (st_claims s1) = Inr cs"
      "s2 = snd (prune_claims dk (unix now) cs False s1)" "map_of (st_claims s2) (claim_path r) = None"
      "s' = s2\<lparr>st_claims := (claim_path r, v) # st_claims s2\<rparr>"
      "v = Whole \<lparr>ac_Schema = accessClaimSchema, ac_GrantDigest = rq_GrantDigest r,
         ac_NonceHex = rq_NonceHex r, ac_ExpiresAtUnix = rq_ExpiresAtUnix r\<rparr>"
    using assms(1) by (cases rule: claimAccess_cases) auto
  show "guarded s' r" using 3(5,6) by (simp add: guarded_def)
  show "\<not> guarded s q" if q: "claim_path q = claim_path r" "unix now < rq_ExpiresAtUnix q"
  proof
    assume "guarded s q"
    moreover have "\<not> (\<exists>k. st_clock s = Some (Whole k) \<and> rq_ExpiresAtUnix q \<le> ak_HighestUnixTime k)"
      using advance_None(3) [OF 3(1)] q(2) by fastforce
    ultimately obtain c where c: "map_of (st_claims s1) (claim_path r) = Some (Whole c)" "unix now < ac_ExpiresAtUnix c"
      using q advance_clock(1) [OF 3(1)] unfolding guarded_def by auto
    have "distinct (map fst (st_claims s1))" using assms(2) advance_clock(1) [OF 3(1)] by simp
    from prune_keeps [OF this 3(2) c] 3(3,4) show False by simp
  qed
qed


section \<open>Lemmas on runs\<close>

text \<open>What each operation of the store leaves as it was: everything but the field updated.\<close>

lemma putObject_frame: "(snd (putObject dk c s))\<lparr>st_objects := x\<rparr> = s\<lparr>st_objects := x\<rparr>"
  by (simp add: putObject_def Let_def split: option.split prod.split)

lemma put_objects_frame: "(snd (put_objects dk cs s))\<lparr>st_objects := x\<rparr> = s\<lparr>st_objects := x\<rparr>"
proof (induction cs arbitrary: s)
  case (Cons c cs)
  obtain e s' where p: "putObject dk c s = (e, s')" by fastforce
  with putObject_frame [of x dk c s] Cons.IH [of s'] show ?case by (cases e) auto
qed simp

lemma PutObjects_frame: "(snd (PutObjects dk cs s))\<lparr>st_objects := x\<rparr> = s\<lparr>st_objects := x\<rparr>"
proof -
  obtain e s' where p: "put_objects dk cs s = (e, s')" by fastforce
  with put_objects_frame [of x dk cs s] show ?thesis
    by (simp add: PutObjects_def split: option.split sum.split prod.split)
qed

lemma CommitOpaque_frame: "(snd (CommitOpaque dk v b now s))\<lparr>st_leases := x\<rparr> = s\<lparr>st_leases := x\<rparr>"
  by (simp add: CommitOpaque_def Let_def split: option.split sum.split prod.split)

lemma Store_Delete_frame: "(snd (Store_Delete dk d s))\<lparr>st_leases := x\<rparr> = s\<lparr>st_leases := x\<rparr>"
  by (simp add: Store_Delete_def Let_def split: option.split)

lemma remove_leases_frame: "(snd (remove_leases dk n l k s))\<lparr>st_leases := x\<rparr> = s\<lparr>st_leases := x\<rparr>"
  by (induction dk n l k s rule: remove_leases.induct) (simp_all add: Let_def)

lemma remove_objects_frame: "(snd (remove_objects dk gone k sz s))\<lparr>st_objects := x\<rparr> = s\<lparr>st_objects := x\<rparr>"
  by (induction dk gone k sz s rule: remove_objects.induct) simp_all

lemma guard_update: "guard s = guard (s\<lparr>st_objects := os\<rparr>)" "guard s = guard (s\<lparr>st_leases := ls\<rparr>)"
  by (simp_all add: guard_def)

lemma guard_kept [simp]:
  "guard (snd (PutObjects dk cs s)) = guard s" "guard (snd (CommitOpaque dk v b now s)) = guard s"
  "guard (snd (Store_Delete dk d s)) = guard s" "guard (snd (remove_leases dk n l k s)) = guard s"
  "guard (snd (remove_objects dk gone k sz s)) = guard s"
  using PutObjects_frame CommitOpaque_frame Store_Delete_frame remove_leases_frame remove_objects_frame
  by (metis guard_update)+

lemma guard_PutOpaque [simp]: "guard (snd (PutOpaque dk v cs now s)) = guard s"
proof -
  obtain e s' where p: "PutObjects dk cs s = (e, s')" by fastforce
  with guard_kept(1) [of dk cs s] show ?thesis by (auto simp: PutOpaque_def split: option.split sum.split)
qed

lemma guard_GC [simp]: "guard (snd (GCWithStagingGrace dk now grace s)) = guard s"
proof -
  have 1: "guard s' = guard s" if "(x, s') = remove_leases dk n l k s" for n l k x s'
    using guard_kept(4) [of dk n l k s] by (simp flip: that)
  have 2: "guard s' = guard t" if "(x, s') = remove_objects dk gone k b t" for gone k b x s' t
    using guard_kept(5) [of dk gone k b t] by (simp flip: that)
  show ?thesis
    by (auto simp: GCWithStagingGrace_def Let_def split: option.split prod.split sum.split dest!: 1 [OF sym] 2 [OF sym])
qed

lemma guarded_guard: "guard s = guard t \<Longrightarrow> guarded s q = guarded t q"
  by (simp add: guard_def guarded_def)

lemma keeps_guard_same: "guard s' = guard s \<Longrightarrow> keeps_guard s s'"
  unfolding keeps_guard_def guard_def guarded_def by simp

lemma guard_cong:
  "guard t = guard s' \<Longrightarrow> keeps_guard s t = keeps_guard s s'" "guard t = guard s' \<Longrightarrow> claims_once r s t = claims_once r s s'"
  unfolding keeps_guard_def claims_once_def guard_def guarded_def by simp_all

lemma VerifyAccessRequest_live: "VerifyAccessRequest ed g r expected body now = None \<Longrightarrow> unix now < rq_ExpiresAtUnix r"
  by (auto simp: VerifyAccessRequest_def split: sum.splits if_splits)

lemma unsigned_same: "unsigned q = unsigned r \<Longrightarrow> claim_path q = claim_path r \<and> rq_ExpiresAtUnix q = rq_ExpiresAtUnix r"
  unfolding unsigned_def claim_path_def by (cases q; cases r) simp

lemma claimAccess_keeps: "claimAccess dk r now s = (e, s') \<Longrightarrow> keeps_guard s s'"
  unfolding keeps_guard_def using claimAccess_distinct claimAccess_guarded by blast

lemma claimAccess_once:
  "claimAccess dk r now s = (None, s') \<Longrightarrow> unix now < rq_ExpiresAtUnix r \<Longrightarrow> claims_once r s s'"
  unfolding claims_once_def using claimAccess_claims unsigned_same by metis

lemma authorize_guard:
  assumes "authorize ed dk g r operation body now au = (e, au')"
  shows "keeps_guard (au_store au) (au_store au')" and "e = None \<Longrightarrow> claims_once r (au_store au) (au_store au')"
  using assms claimAccess_keeps claimAccess_once VerifyAccessRequest_live keeps_guard_same [OF refl]
  by (fastforce simp: authorize_def thenE_def split: sum.splits option.splits prod.splits)+

text \<open>The three authenticated operations touch the guard only in their authorization.\<close>

lemma guard_after:
  "PutObjects dk cs s = (x, s') \<Longrightarrow> guard s' = guard s" "CommitOpaque dk v b now s = (y, s') \<Longrightarrow> guard s' = guard s"
  "Store_Delete dk d s = (y, s') \<Longrightarrow> guard s' = guard s"
  using guard_kept(1) [of dk cs s] guard_kept(2) [of dk v b now s] guard_kept(3) [of dk d s] by auto

lemma auth_Upload_guard:
  assumes "UploadBodyDigest g chunks = Inr d" and "authorize ed dk g r OperationUpload d now au = (e, au1)"
  shows "guard (au_store (snd (auth_Upload ed dk dk' dk'' g r chunks now au))) = guard (au_store au1)"
proof (cases e)
  case None
  obtain x s1 where p: "PutObjects dk' chunks (au_store au1) = (x, s1)" by fastforce
  obtain y s2 where c: "CommitOpaque dk'' \<lparr>sl_ManifestDigest = gr_ManifestDigest g, sl_ChunkDigests = gr_ChunkDigests g,
      sl_ExpiresAtUnix = gr_RetainUntilUnix g\<rparr> (gr_CiphertextBytes g) now s1 = (y, s2)" by fastforce
  show ?thesis using assms None p c guard_after(1) [OF p] guard_after(2) [OF c]
    by (auto simp: auth_Upload_def split: sum.split)
qed (use assms in \<open>simp add: auth_Upload_def\<close>)

lemma auth_Fetch_guard:
  "FetchBodyDigest g digests = Inr d \<Longrightarrow> authorize ed dk g r OperationFetch d now au = (e, au1) \<Longrightarrow>
    guard (au_store (snd (auth_Fetch ed dk g r digests now au))) = guard (au_store au1)"
  by (cases e) (simp_all add: auth_Fetch_def)

lemma auth_Delete_guard:
  assumes "DeleteBodyDigest g = Inr d" and "authorize ed dk g r OperationDelete d now au = (e, au1)"
  shows "guard (au_store (snd (auth_Delete ed dk dk' g r now au))) = guard (au_store au1)"
proof (cases e)
  case None
  obtain x s1 where p: "Store_Delete dk' (gr_ManifestDigest g) (au_store au1) = (x, s1)" by fastforce
  show ?thesis using assms None p guard_after(3) [OF p] by (auto simp: auth_Delete_def split: sum.split)
qed (use assms in \<open>simp add: auth_Delete_def\<close>)

lemma authorized_guard:
  assumes "\<And>d e au1. body = Inr d \<Longrightarrow> authorize ed dk g r operation d now au = (e, au1) \<Longrightarrow> guard s' = guard (au_store au1)"
    and "\<And>e. body = Inl e \<Longrightarrow> s' = au_store au"
  shows "keeps_guard (au_store au) s'"
    and "q \<in> set (authorized ed dk g r operation body now au) \<Longrightarrow> claims_once q (au_store au) s'"
    and "length (authorized ed dk g r operation body now au) \<le> 1"
proof -
  show "keeps_guard (au_store au) s'"
  proof (cases body)
    case (Inr d)
    obtain e au1 where a: "authorize ed dk g r operation d now au = (e, au1)" by fastforce
    show ?thesis using guard_cong(1) [OF assms(1) [OF Inr a]] authorize_guard(1) [OF a] by simp
  qed (use assms(2) keeps_guard_same in auto)
  show "claims_once q (au_store au) s'" if "q \<in> set (authorized ed dk g r operation body now au)"
  proof -
    from that obtain d where d: "body = Inr d" "fst (authorize ed dk g r operation d now au) = None" "q = r"
      by (auto simp: authorized_def split: sum.splits if_splits)
    then obtain au1 where a: "authorize ed dk g r operation d now au = (None, au1)" by (metis prod.collapse)
    show ?thesis using guard_cong(2) [OF assms(1) [OF d(1) a]] authorize_guard(2) [OF a refl] d(3) by simp
  qed
  show "length (authorized ed dk g r operation body now au) \<le> 1"
    by (simp add: authorized_def split: sum.split)
qed

lemma perform_guard:
  "keeps_guard (au_store au) (au_store (perform ed c au)) \<and>
   (\<forall>q \<in> set (accepts ed c au). claims_once q (au_store au) (au_store (perform ed c au))) \<and>
   length (accepts ed c au) \<le> 1"
proof (cases c)
  case (Upload dk dk' dk'' g r chunks now)
  have "au_store (snd (auth_Upload ed dk dk' dk'' g r chunks now au)) = au_store au" if "UploadBodyDigest g chunks = Inl e" for e
    using that by (simp add: auth_Upload_def)
  from authorized_guard [OF auth_Upload_guard this] Upload show ?thesis by auto
next
  case (Fetch dk g r digests now)
  have "au_store (snd (auth_Fetch ed dk g r digests now au)) = au_store au" if "FetchBodyDigest g digests = Inl e" for e
    using that by (simp add: auth_Fetch_def)
  from authorized_guard [OF auth_Fetch_guard this] Fetch show ?thesis by auto
next
  case (Delete dk dk' g r now)
  have "au_store (snd (auth_Delete ed dk dk' g r now au)) = au_store au" if "DeleteBodyDigest g = Inl e" for e
    using that by (simp add: auth_Delete_def)
  from authorized_guard [OF auth_Delete_guard this] Delete show ?thesis by auto
qed (simp_all add: keeps_guard_same)

lemma accepted_once:
  assumes "distinct (map fst (st_claims (au_store au)))"
  shows "distinct (map unsigned (accepted ed cs au)) \<and>
    (\<forall>q \<in> set (accepted ed cs au). \<not> guarded (au_store au) q)"
  using assms
proof (induction cs arbitrary: au)
  case (Cons c cs)
  let ?s = "au_store au" and ?s' = "au_store (perform ed c au)"
  note step = perform_guard [where ed = ed and c = c and au = au]
  have d: "distinct (map fst (st_claims ?s'))" and mono: "\<And>q. guarded ?s q \<Longrightarrow> guarded ?s' q"
    using step Cons.prems unfolding keeps_guard_def by auto
  have new: "guarded ?s' q" "\<not> guarded ?s p" if "q \<in> set (accepts ed c au)" "unsigned p = unsigned q" for p q
    using step Cons.prems that unfolding claims_once_def by auto
  have same: "guarded s p = guarded s q" if "unsigned p = unsigned q" for p q s
    using unsigned_same [OF that] by (simp add: guarded_def)
  note IH = Cons.IH [OF d]
  have "unsigned q \<notin> unsigned ` set (accepted ed cs (perform ed c au))" if "q \<in> set (accepts ed c au)" for q
    using new(1) [OF that refl] same IH by (metis imageE)
  moreover have "distinct (map unsigned (accepts ed c au))"
    using step by (cases "accepts ed c au") auto
  ultimately show ?case using IH new(2) mono by auto
qed simp

section \<open>Lemmas on objects and leases\<close>

lemma grows_refl [simp]: "grows s s"
  by (simp add: grows_def)

lemma grows_trans: "grows s t \<Longrightarrow> grows t u \<Longrightarrow> grows s u"
  unfolding grows_def by metis

lemma holds_object_alt: "holds_object s d = (\<exists>ob. map_of (st_objects s) (objectPath d) = Some ob \<and> ob_raw ob \<noteq> [] \<and>
    int (length (ob_raw ob)) \<le> uint MaxChunkBytes + 32 \<and> Digest (ob_raw ob) = d)"
  by (auto simp: holds_object_def read_object_def split: option.splits sum.splits if_splits)

lemma grows_holds: "grows s s' \<Longrightarrow> holds_object s d \<Longrightarrow> holds_object s' d"
  unfolding grows_def holds_object_alt by metis

lemma putObject_grows: "grows s (snd (putObject dk c s))"
  by (auto simp: grows_def putObject_def Let_def create_file_def update_conv' split: option.split cout.split)

lemma put_objects_grows: "grows s (snd (put_objects dk cs s))"
proof (induction cs arbitrary: s)
  case (Cons c cs)
  obtain e s' where p: "putObject dk c s = (e, s')" by fastforce
  with putObject_grows [of s dk c] Cons.IH [of s'] show ?case by (cases e) (auto intro: grows_trans)
qed simp

lemma PutObjects_result: "snd (PutObjects dk cs s) = s \<or> snd (PutObjects dk cs s) = snd (put_objects dk cs s)"
  by (auto simp: PutObjects_def split: option.split sum.split prod.split)

lemma PutObjects_grows: "grows s (snd (PutObjects dk cs s))"
  using PutObjects_result [of dk cs s] put_objects_grows [of s dk cs] by auto

lemma objects_only [simp]:
  "st_leases (snd (PutObjects dk cs s)) = st_leases s" "st_quota (snd (PutObjects dk cs s)) = st_quota s"
  using arg_cong [OF PutObjects_frame, of st_leases] arg_cong [OF PutObjects_frame, of st_quota] by simp_all

lemma leases_only [simp]:
  "st_objects (snd (CommitOpaque dk v b now s)) = st_objects s" "st_quota (snd (CommitOpaque dk v b now s)) = st_quota s"
  "st_objects (snd (Store_Delete dk d s)) = st_objects s" "st_quota (snd (Store_Delete dk d s)) = st_quota s"
  "st_objects (snd (remove_leases dk n l k s)) = st_objects s" "st_quota (snd (remove_leases dk n l k s)) = st_quota s"
  using arg_cong [OF CommitOpaque_frame, of st_objects] arg_cong [OF CommitOpaque_frame, of st_quota]
    arg_cong [OF Store_Delete_frame, of st_objects] arg_cong [OF Store_Delete_frame, of st_quota]
    arg_cong [OF remove_leases_frame, of st_objects] arg_cong [OF remove_leases_frame, of st_quota] by simp_all

lemma guard_only: "advanceAccessClock w n s = (e, s') \<Longrightarrow> s'\<lparr>st_clock := x, st_claims := y\<rparr> = s\<lparr>st_clock := x, st_claims := y\<rparr>"
  by (auto simp: advanceAccessClock_def Let_def split: option.splits stored.splits rout.splits if_splits)


lemma prune_claims_held: "held (snd (prune_claims dk n cs b s)) = held s"
  by (induction dk n cs b s rule: prune_claims.induct) (auto simp: held_def)

lemma advance_held: "advanceAccessClock w n s = (e, s') \<Longrightarrow> held s' = held s"
  by (auto simp: held_def advanceAccessClock_def Let_def split: option.splits stored.splits rout.splits if_splits)

lemma claimAccess_held: assumes "claimAccess dk r now s = (e, s')" shows "held s' = held s"
  using assms
proof (cases rule: claimAccess_cases)
  case (1 s1)
  then show ?thesis using advance_held by auto
next
  case (2 s1 cs s2)
  then show ?thesis using advance_held [OF 2(1)] by (simp add: prune_claims_held)
next
  case (3 s1 cs s2 v)
  then show ?thesis using advance_held [OF 3(1)] prune_claims_held [of dk "unix now" cs False s1] by (simp add: held_def)
qed

lemma authorize_held: "authorize ed dk g r operation body now au = (e, au') \<Longrightarrow> held (au_store au') = held (au_store au)"
  by (auto simp: authorize_def split: sum.splits option.splits prod.splits dest: claimAccess_held)

lemma leases_held_mono:
  assumes "leases_held s" and "grows s s'"
    and "\<And>n l. map_of (st_leases s') n = Some (Whole l) \<Longrightarrow> map_of (st_leases s) n = Some (Whole l)"
  shows "leases_held s'"
  using assms grows_holds unfolding leases_held_def by blast

lemma verify_sum_held: "verify_sum s tot ds = Some tot' \<Longrightarrow> d \<in> set ds \<Longrightarrow> holds_object s d"
  by (induction s tot ds rule: verify_sum.induct)
    (auto simp: holds_object_def split: sum.splits if_splits)

lemma read_leases_length: "read_leases s ns = Inr ls \<Longrightarrow> length ls = length ns"
  by (induction s ns arbitrary: ls rule: read_leases.induct)
    (auto simp: bindE_eq_Inr split: if_splits sum.splits option.splits)

lemma allLeases_Inr:
  assumes "allLeases dk s = Inr ls"
  obtains ls' where "read_leases s (map fst (st_leases s)) = Inr ls'" "set ls = set ls'" "length ls = length (st_leases s)"
  using assms that read_leases_length by (fastforce simp: allLeases_def bindE_eq_Inr split: if_splits)

lemma metadata_digests:
  "validateStorageLeaseMetadata v now m = None \<Longrightarrow> d \<in> set (sl_ChunkDigests v) \<Longrightarrow> validContentDigest d"
  by (auto simp: validateStorageLeaseMetadata_def fresh_digests_None list_all_iff split: if_splits)

lemma CommitOpaque_leases:
  assumes "CommitOpaque dk v b now s = (x, s')"
  obtains "s' = s" | "validateStorageLeaseMetadata v now (sq_MaxRetention (st_quota s)) = None"
    "int (length (st_leases s)) < sq_MaxLeases (st_quota s)" "verifyLeaseObjects s v b = None"
    "s' = s\<lparr>st_leases := snd (attach_replaceFile (dk_replace dk) (leasePath (sl_ManifestDigest v)) (lease_of v) (st_leases s))\<rparr>"
proof (cases "s' = s")
  case False
  then have "validateStorageLeaseMetadata v now (sq_MaxRetention (st_quota s)) = None"
      "int (length (st_leases s)) < sq_MaxLeases (st_quota s)" "verifyLeaseObjects s v b = None"
    using assms
    by (auto simp: CommitOpaque_def Let_def thenE_None elim: allLeases_Inr
      split: option.splits sum.splits if_splits prod.splits)
  moreover have "s' = s\<lparr>st_leases := snd (attach_replaceFile (dk_replace dk) (leasePath (sl_ManifestDigest v)) (lease_of v) (st_leases s))\<rparr>"
    using assms False
    by (auto simp: CommitOpaque_def Let_def lease_of_def split: option.splits sum.splits if_splits prod.splits)
  ultimately show thesis using that(2) by blast
qed (use that(1) in blast)

lemma update_length: "length (AList.update k v d) \<le> Suc (length d)"
  by (induction d) auto

lemma attach_replaceFile_map:
  "map_of (snd (attach_replaceFile w name v d)) n = Some (Whole l) \<Longrightarrow> map_of d n = Some (Whole l) \<or> l = v"
  "length (snd (attach_replaceFile w name v d)) \<le> Suc (length d)"
  by (auto simp: attach_replaceFile_def update_conv' update_length split: rout.splits if_splits)

lemma CommitOpaque_held: "CommitOpaque dk v b now s = (x, s') \<Longrightarrow> leases_held s \<Longrightarrow> leases_held s'"
proof (erule CommitOpaque_leases)
  assume v: "validateStorageLeaseMetadata v now (sq_MaxRetention (st_quota s)) = None" "verifyLeaseObjects s v b = None"
    and s': "s' = s\<lparr>st_leases := snd (attach_replaceFile (dk_replace dk) (leasePath (sl_ManifestDigest v)) (lease_of v) (st_leases s))\<rparr>"
    and h: "leases_held s"
  have "holds_object s d" "validContentDigest d" if "d \<in> set (sl_ChunkDigests v)" for d
    using v that metadata_digests verify_sum_held by (auto simp: verifyLeaseObjects_def split: option.splits)
  moreover have "holds_object s' = holds_object s" unfolding s' by (auto simp: holds_object_alt)
  ultimately show ?thesis using h attach_replaceFile_map(1) unfolding leases_held_def s'
    by (fastforce simp: lease_of_def)
qed simp

lemma has_ext_eq: "has_ext ext name \<Longrightarrow> without_ext ext name @ ext = name"
  unfolding has_ext_def without_ext_def by (metis append_take_drop_id)

lemma path_of_name:
  "has_ext ''.json'' name \<Longrightarrow> leasePath (''sha256:'' @ without_ext ''.json'' name) = name"
  "has_ext ''.bin'' name \<Longrightarrow> objectPath (''sha256:'' @ without_ext ''.bin'' name) = name"
  using has_ext_eq by (simp_all add: leasePath_def objectPath_def)

lemmas path_of_name_simps = path_of_name [simplified]

lemma digest_of_path:
  assumes "validContentDigest d"
  shows "''sha256:'' @ without_ext ''.bin'' (objectPath d) = d"
proof -
  have "''sha256:'' @ drop 7 d = d" using assms unfolding validContentDigest_def by (metis append_take_drop_id)
  then show ?thesis by (simp add: objectPath_def without_ext_def)
qed

text \<open>A readable directory of leases is all read, and each lease is under its own path.\<close>

lemma read_leases_all:
  "read_leases s ns = Inr ls \<Longrightarrow> n \<in> set ns \<Longrightarrow> map_of (st_leases s) n = Some (Whole l) \<Longrightarrow>
    l \<in> set ls \<and> leasePath (le_ManifestDigest l) = n \<and> list_all validContentDigest (le_ChunkDigests l)"
proof (induction s ns arbitrary: ls rule: read_leases.induct)
  case (2 s name names)
  then show ?case
    by (cases "n = name")
      (auto simp: bindE_eq_Inr readLease_def path_of_name_simps split: if_splits sum.splits option.splits stored.splits)
qed simp

lemma remove_leases_map:
  "map_of (st_leases (snd (remove_leases dk now ls k s))) n = Some v \<Longrightarrow> map_of (st_leases s) n = Some v"
  by (induction dk now ls k s rule: remove_leases.induct) (auto simp: Let_def delete_conv' split: if_splits)

lemma remove_leases_gone:
  "remove_leases dk now ls k s = (Inr m, s') \<Longrightarrow> l \<in> set ls \<Longrightarrow> le_ExpiresAtUnix l \<le> now \<Longrightarrow>
    map_of (st_leases s') (leasePath (le_ManifestDigest l)) = None"
proof (induction dk now ls k s rule: remove_leases.induct)
  case (2 dk now l' ls k s)
  show ?case
  proof (cases "l \<in> set ls")
    case True
    with 2 show ?thesis by (auto simp: Let_def split: if_splits)
  next
    case False
    let ?p = "leasePath (le_ManifestDigest l)" and ?s = "s\<lparr>st_leases := AList.delete (leasePath (le_ManifestDigest l)) (st_leases s)\<rparr>"
    from 2 False have r: "remove_leases dk now ls (Suc k) ?s = (Inr m, s')"
      by (auto simp: Let_def split: if_splits)
    have "map_of (st_leases ?s) ?p = None" by (simp add: delete_conv')
    then show ?thesis
      using remove_leases_map [of dk now ls "Suc k" ?s ?p] unfolding r snd_conv by (metis not_Some_eq option.simps(3))
  qed
qed simp

lemma remove_objects_map:
  "p \<notin> set (map fst gone) \<Longrightarrow> map_of (st_objects (snd (remove_objects dk gone k b s))) p = map_of (st_objects s) p"
  "map_of (st_objects (snd (remove_objects dk gone k b s))) p = Some ob \<Longrightarrow> map_of (st_objects s) p = Some ob"
  by (induction dk gone k b s rule: remove_objects.induct) (auto simp: delete_conv' split: if_splits)

lemma object_entry_Inr:
  "object_entry s name = Inr (digest, ob) \<Longrightarrow> digest = ''sha256:'' @ without_ext ''.bin'' name \<and>
    map_of (st_objects s) name = Some ob"
  unfolding object_entry_def Let_def by (simp split: if_splits option.splits)

lemma collectable_unreferenced:
  "collectable s referenced now grace names = Inr gone \<Longrightarrow> d \<in> set referenced \<Longrightarrow> validContentDigest d \<Longrightarrow>
    objectPath d \<notin> set (map fst gone)"
proof (induction names arbitrary: gone)
  case (Cons name names)
  then obtain digest ob rest where e: "object_entry s name = Inr (digest, ob)" "collectable s referenced now grace names = Inr rest"
    "gone = rest \<or> gone = (name, length (ob_raw ob)) # rest \<and> digest \<notin> set referenced"
    by (fastforce simp: bindE_eq_Inr split: if_splits)
  have "digest = d" if "name = objectPath d"
    using object_entry_Inr [OF e(1)] digest_of_path [OF Cons.prems(3)] that by metis
  then show ?case using e(3) Cons.IH [OF e(2) Cons.prems(2,3)] Cons.prems(2) by fastforce
qed simp

text \<open>The collector keeps every object that an unexpired lease names, and removes no other lease.\<close>

lemma GC_cases:
  assumes "GCWithStagingGrace dk now grace s = (x, s')"
  obtains "s' = s"
  | leases where "allLeases dk s = Inr leases" "s' = snd (remove_leases dk (unix now) leases 0 s)"
  | leases gone m s1 where "allLeases dk s = Inr leases" "remove_leases dk (unix now) leases 0 s = (Inr m, s1)"
      "collectable s (concat (map le_ChunkDigests (filter (\<lambda>l. le_ExpiresAtUnix l > unix now) leases))) now grace
         (map fst (st_objects s)) = Inr gone"
      "s' = snd (remove_objects dk gone 0 0 s1)"
proof (cases "s' = s")
  case False
  let ?ref = "\<lambda>leases. concat (map le_ChunkDigests (filter (\<lambda>l. le_ExpiresAtUnix l > unix now) leases))"
  from assms False obtain leases where l: "allLeases dk s = Inr leases"
    by (auto simp: GCWithStagingGrace_def split: option.splits sum.splits)
  from assms False l obtain gone where g: "collectable s (?ref leases) now grace (map fst (st_objects s)) = Inr gone"
    by (auto simp: GCWithStagingGrace_def split: option.splits sum.splits)
  obtain y s1 where r: "remove_leases dk (unix now) leases 0 s = (y, s1)" by fastforce
  obtain z s2 where o: "remove_objects dk gone 0 0 s1 = (z, s2)" by fastforce
  have "s' = s1 \<or> (\<exists>m. y = Inr m) \<and> s' = s2"
    using assms False l g r o by (auto simp: GCWithStagingGrace_def split: option.splits sum.splits if_splits)
  then show thesis using that(2) [OF l] that(3) [OF l _ g] r o by auto
qed (use that(1) in blast)

lemma remove_objects_leases [simp]:
  "st_leases (snd (remove_objects dk gone k b s)) = st_leases s" "st_quota (snd (remove_objects dk gone k b s)) = st_quota s"
  using arg_cong [OF remove_objects_frame, of st_leases] arg_cong [OF remove_objects_frame, of st_quota] by simp_all

lemma held_after_GC:
  assumes "GCWithStagingGrace dk now grace s = (x, s')" and "leases_held s"
  shows "leases_held s'"
  using assms(1)
proof (cases rule: GC_cases)
  case 1
  then show ?thesis using assms(2) by simp
next
  case (2 leases)
  have "grows s s'" unfolding 2(2) grows_def by simp
  then show ?thesis using leases_held_mono [OF assms(2)] remove_leases_map unfolding 2(2) by blast
next
  case (3 leases gone m s1)
  have s1: "s1 = snd (remove_leases dk (unix now) leases 0 s)" using 3(2) by simp
  have "validContentDigest d \<and> holds_object s' d"
    if l: "map_of (st_leases s') name = Some (Whole l)" "d \<in> set (le_ChunkDigests l)" for name l d
  proof -
    have m1: "map_of (st_leases s1) name = Some (Whole l)" using l(1) 3(4) by simp
    then have m: "map_of (st_leases s) name = Some (Whole l)" unfolding s1 by (rule remove_leases_map)
    obtain ls' where "read_leases s (map fst (st_leases s)) = Inr ls'" "set leases = set ls'" using allLeases_Inr [OF 3(1)] .
    moreover have "name \<in> set (map fst (st_leases s))" using map_of_SomeD [OF m] by force
    ultimately have a: "l \<in> set leases" "leasePath (le_ManifestDigest l) = name" using read_leases_all [OF _ _ m] by auto
    have "le_ExpiresAtUnix l > unix now" using remove_leases_gone [OF 3(2) a(1)] m1 a(2) by (fastforce simp: not_less)
    moreover have v: "validContentDigest d" "holds_object s d" using assms(2) m l(2) unfolding leases_held_def by auto
    ultimately have "objectPath d \<notin> set (map fst gone)"
      using collectable_unreferenced [OF 3(3)] a(1) l(2) by auto
    then have "map_of (st_objects s') (objectPath d) = map_of (st_objects s1) (objectPath d)"
      unfolding 3(4) by (rule remove_objects_map(1))
    then show ?thesis using v unfolding holds_object_alt s1 by simp
  qed
  then show ?thesis unfolding leases_held_def by blast
qed


lemma update_same_size:
  "map_of d p = Some ob \<Longrightarrow> f ob' = f ob \<Longrightarrow> length (AList.update p ob' d) = length d \<and>
    sum_list (map (\<lambda>(_, ob). f ob) (AList.update p ob' d)) = sum_list (map (\<lambda>(_, ob). f ob) d)"
  by (induction d) (auto split: if_splits)

lemma putObject_size:
  assumes "distinct (map fst (st_objects s))"
  shows "distinct (map fst (st_objects (snd (putObject dk c s))))"
    and "length (st_objects (snd (putObject dk c s))) \<le> length (st_objects s) + (if absent s c then 1 else 0)"
    and "stored_bytes (snd (putObject dk c s)) \<le> stored_bytes s + (if absent s c then length (ck_Ciphertext c) else 0)"
proof -
  let ?p = "objectPath (ck_Digest c)"
  have u: "length (AList.update ?p (ob\<lparr>ob_ModTime := t\<rparr>) (st_objects s)) = length (st_objects s)"
      "sum_list (map (\<lambda>(_, ob). length (ob_raw ob)) (AList.update ?p (ob\<lparr>ob_ModTime := t\<rparr>) (st_objects s))) =
         sum_list (map (\<lambda>(_, ob). length (ob_raw ob)) (st_objects s))"
    if "map_of (st_objects s) ?p = Some ob" for ob t
    using update_same_size [OF that, of "\<lambda>ob. length (ob_raw ob)" "ob\<lparr>ob_ModTime := t\<rparr>"] by auto
  show "distinct (map fst (st_objects (snd (putObject dk c s))))"
    using assms by (auto simp: putObject_def Let_def create_file_def distinct_update map_of_eq_None_iff split: option.split cout.split)
  show "length (st_objects (snd (putObject dk c s))) \<le> length (st_objects s) + (if absent s c then 1 else 0)"
    using u by (auto simp: putObject_def absent_def Let_def create_file_def split: option.split cout.split)
  show "stored_bytes (snd (putObject dk c s)) \<le> stored_bytes s + (if absent s c then length (ck_Ciphertext c) else 0)"
    using u by (auto simp: putObject_def absent_def stored_bytes_def Let_def create_file_def split: option.split cout.split)
qed

lemma grows_absent: "grows s s' \<Longrightarrow> absent s' c \<Longrightarrow> absent s c"
  unfolding grows_def absent_def by (metis not_Some_eq option.simps(3))

lemma cost_grows: "grows s s' \<Longrightarrow> fst (cost s' cs) \<le> fst (cost s cs) \<and> snd (cost s' cs) \<le> snd (cost s cs)"
  by (induction cs) (auto split: prod.splits dest: grows_absent)

lemma newObjectCost_cost: "newObjectCost s cs = Inr (n, b) \<Longrightarrow> n = int (fst (cost s cs)) \<and> b = int (snd (cost s cs))"
proof (induction cs arbitrary: n b)
  case (Cons c cs)
  have "absent s c \<longleftrightarrow> read_object s (ck_Digest c) = Inl None"
    by (auto simp: absent_def read_object_def split: option.splits)
  with Cons show ?case by (auto simp: bindE_eq_Inr split: sum.splits option.splits if_splits prod.splits)
qed simp

lemma put_objects_size:
  "distinct (map fst (st_objects s)) \<Longrightarrow> distinct (map fst (st_objects (snd (put_objects dk cs s)))) \<and>
    length (st_objects (snd (put_objects dk cs s))) \<le> length (st_objects s) + fst (cost s cs) \<and>
    stored_bytes (snd (put_objects dk cs s)) \<le> stored_bytes s + snd (cost s cs)"
proof (induction cs arbitrary: s)
  case (Cons c cs)
  obtain e s' where p: "putObject dk c s = (e, s')" by fastforce
  note size' = putObject_size [OF Cons.prems, of dk c, unfolded p snd_conv]
  have g: "grows s s'" using putObject_grows [of s dk c] p by simp
  from Cons.IH [OF size'(1)] cost_grows [OF g, of cs] size' p show ?case
    by (cases e) (fastforce split: prod.splits)+
qed simp


lemma usage_of_sum:
  "usage_of s ns = Inr b \<Longrightarrow> b = int (sum_list (map (\<lambda>n. length (ob_raw (the (map_of (st_objects s) n)))) ns))"
  by (induction ns arbitrary: b) (auto simp: bindE_eq_Inr dest!: object_entry_Inr)

lemma usage_exact:
  assumes "usage dk s = Inr (count, b)" and "distinct (map fst (st_objects s))"
  shows "count = int (length (st_objects s))" and "b = int (stored_bytes s)"
proof -
  have "map (\<lambda>n. length (ob_raw (the (map_of (st_objects s) n)))) (map fst (st_objects s)) =
      map (\<lambda>(_, ob). length (ob_raw ob)) (st_objects s)"
    using assms(2) by (auto simp: map_of_is_SomeI)
  then show "count = int (length (st_objects s))" "b = int (stored_bytes s)"
    using assms(1) usage_of_sum [of s "map fst (st_objects s)" b]
    by (auto simp: usage_def bindE_eq_Inr stored_bytes_def split: if_splits simp del: map_map)
qed

lemma PutObjects_quota:
  assumes "within_quota q s" shows "within_quota q (snd (PutObjects dk cs s))"
proof (cases "snd (PutObjects dk cs s) = s")
  case False
  have q: "st_quota s = q" "distinct (map fst (st_objects s))" using assms by (auto simp: within_quota_def)
  from False obtain n b count held' where c: "newObjectCost s cs = Inr (n, b)" "usage dk s = Inr (count, held')"
      "count + n \<le> sq_MaxObjects q" "held' + b \<le> sq_MaxBytes q"
    using q(1) by (fastforce simp: PutObjects_def not_less split: option.splits sum.splits prod.splits if_splits)
  note c' = newObjectCost_cost [OF c(1)] usage_exact [OF c(2) q(2)]
  have p: "snd (PutObjects dk cs s) = snd (put_objects dk cs s)" using PutObjects_result False by metis
  have "st_leases (snd (put_objects dk cs s)) = st_leases s" "st_quota (snd (put_objects dk cs s)) = q"
    using objects_only [of dk cs s] q(1) unfolding p by simp_all
  then show ?thesis
    using put_objects_size [OF q(2), of dk cs] c(3,4) c' assms unfolding within_quota_def p by auto
qed (use assms in simp)

lemma CommitOpaque_quota: "CommitOpaque dk v b now s = (x, s') \<Longrightarrow> within_quota q s \<Longrightarrow> within_quota q s'"
proof (erule CommitOpaque_leases)
  let ?ls = "snd (attach_replaceFile (dk_replace dk) (leasePath (sl_ManifestDigest v)) (lease_of v) (st_leases s))"
  assume "within_quota q s" "int (length (st_leases s)) < sq_MaxLeases (st_quota s)" "s' = s\<lparr>st_leases := ?ls\<rparr>"
  moreover have "length ?ls \<le> Suc (length (st_leases s))" by (rule attach_replaceFile_map(2))
  ultimately show "within_quota q s'" unfolding within_quota_def stored_bytes_def by auto
qed simp

text \<open>Removals keep the store within its quota.\<close>

lemma delete_size:
  "length (AList.delete k d) \<le> length d" "sum_list (map (f :: _ \<Rightarrow> nat) (AList.delete k d)) \<le> sum_list (map f d)"
  "distinct (map fst d) \<Longrightarrow> distinct (map fst (AList.delete k d))"
  subgoal by (simp add: AList.delete_eq)
  subgoal by (induction d) (auto simp: AList.delete_eq)
  subgoal by (rule distinct_delete)
  done

lemma remove_leases_length: "length (st_leases (snd (remove_leases dk n ls k s))) \<le> length (st_leases s)"
  by (induction dk n ls k s rule: remove_leases.induct) (auto simp: Let_def intro: order_trans delete_size(1))

lemma remove_objects_size:
  "length (st_objects (snd (remove_objects dk gone k b s))) \<le> length (st_objects s) \<and>
   stored_bytes (snd (remove_objects dk gone k b s)) \<le> stored_bytes s \<and>
   (distinct (map fst (st_objects s)) \<longrightarrow> distinct (map fst (st_objects (snd (remove_objects dk gone k b s)))))"
  by (induction dk gone k b s rule: remove_objects.induct)
    (auto simp: stored_bytes_def intro: order_trans delete_size dest: delete_size(3))

lemma within_quota_less:
  assumes "within_quota q s" and "st_quota s' = st_quota s" and "length (st_leases s') \<le> length (st_leases s)"
    and "length (st_objects s') \<le> length (st_objects s)" and "stored_bytes s' \<le> stored_bytes s"
    and "distinct (map fst (st_objects s'))"
  shows "within_quota q s'"
  using assms unfolding within_quota_def by auto

lemma Store_Delete_leases: "st_leases (snd (Store_Delete dk d s)) \<in> {st_leases s, AList.delete (leasePath d) (st_leases s)}"
  by (simp add: Store_Delete_def Let_def split: option.split)

lemma Store_Delete_kept:
  "within_quota q s \<Longrightarrow> within_quota q (snd (Store_Delete dk d s))" "leases_held s \<Longrightarrow> leases_held (snd (Store_Delete dk d s))"
proof -
  assume "within_quota q s"
  then show "within_quota q (snd (Store_Delete dk d s))"
    by (rule within_quota_less)
      (use \<open>within_quota q s\<close> Store_Delete_leases [of dk d s] in \<open>auto simp: within_quota_def stored_bytes_def delete_size(1)\<close>)
next
  assume "leases_held s"
  then show "leases_held (snd (Store_Delete dk d s))"
    by (rule leases_held_mono)
      (use Store_Delete_leases [of dk d s] in \<open>auto simp: grows_def delete_conv' split: if_splits\<close>)
qed

lemma GC_quota: "GCWithStagingGrace dk now grace s = (x, s') \<Longrightarrow> within_quota q s \<Longrightarrow> within_quota q s'"
proof (erule GC_cases)
  fix leases assume s': "s' = snd (remove_leases dk (unix now) leases 0 s)" and q: "within_quota q s"
  from q show ?thesis by (rule within_quota_less) (use q s' remove_leases_length in \<open>auto simp: within_quota_def stored_bytes_def\<close>)
next
  fix leases gone m s1
  assume s1: "remove_leases dk (unix now) leases 0 s = (Inr m, s1)" and s': "s' = snd (remove_objects dk gone 0 0 s1)"
    and q: "within_quota q s"
  have s1': "s1 = snd (remove_leases dk (unix now) leases 0 s)" using s1 by simp
  have "within_quota q s1" using q
    by (rule within_quota_less) (use q s1' remove_leases_length in \<open>auto simp: within_quota_def stored_bytes_def\<close>)
  then show ?thesis
    by (rule within_quota_less) (use \<open>within_quota q s1\<close> s' remove_objects_size [of dk gone 0 0 s1] in \<open>auto simp: within_quota_def\<close>)
qed simp


section \<open>Invariants of a run\<close>

text \<open>
  What is on disk is changed by four operations only; a property of the objects and leases
  that each of them keeps holds throughout a run.
\<close>

locale store_invariant =
  fixes inv :: "Store \<Rightarrow> bool"
  assumes of_held: "held s = held s' \<Longrightarrow> inv s \<Longrightarrow> inv s'"
    and put: "inv s \<Longrightarrow> inv (snd (PutObjects dk cs s))"
    and commit: "inv s \<Longrightarrow> CommitOpaque dk v b now s = (x, s') \<Longrightarrow> inv s'"
    and del: "inv s \<Longrightarrow> inv (snd (Store_Delete dk d s))"
    and gc: "inv s \<Longrightarrow> GCWithStagingGrace dk now grace s = (y, s') \<Longrightarrow> inv s'"
begin

lemma authorized_inv: "authorize ed dk g r operation body now au = (e, au') \<Longrightarrow> inv (au_store au) \<Longrightarrow> inv (au_store au')"
  using authorize_held of_held by metis

lemma commit_inv: "inv s \<Longrightarrow> inv (snd (CommitOpaque dk v b now s))"
  using commit by (metis prod.collapse)

lemma upload_inv:
  assumes "inv (au_store au)" shows "inv (au_store (snd (auth_Upload ed dk dk' dk'' g r chunks now au)))"
proof (cases "UploadBodyDigest g chunks")
  case (Inr d)
  obtain e au1 where a: "authorize ed dk g r OperationUpload d now au = (e, au1)" by fastforce
  obtain x s1 where p: "PutObjects dk' chunks (au_store au1) = (x, s1)" by fastforce
  obtain y s2 where c: "CommitOpaque dk'' \<lparr>sl_ManifestDigest = gr_ManifestDigest g, sl_ChunkDigests = gr_ChunkDigests g,
      sl_ExpiresAtUnix = gr_RetainUntilUnix g\<rparr> (gr_CiphertextBytes g) now s1 = (y, s2)" by fastforce
  have 1: "inv (au_store au1)" by (rule authorized_inv [OF a assms])
  then have 2: "inv s1" using put [of "au_store au1" dk' chunks] p by simp
  then have 3: "inv s2" by (rule commit [OF _ c])
  show ?thesis using 1 2 3 Inr a p c by (cases e) (auto simp: auth_Upload_def split: sum.split)
qed (use assms in \<open>simp add: auth_Upload_def\<close>)

lemma fetch_inv:
  assumes "inv (au_store au)" shows "inv (au_store (snd (auth_Fetch ed dk g r digests now au)))"
proof (cases "FetchBodyDigest g digests")
  case (Inr d)
  obtain e au1 where a: "authorize ed dk g r OperationFetch d now au = (e, au1)" by fastforce
  show ?thesis using authorized_inv [OF a assms] Inr a by (cases e) (auto simp: auth_Fetch_def)
qed (use assms in \<open>simp add: auth_Fetch_def\<close>)

lemma delete_inv:
  assumes "inv (au_store au)" shows "inv (au_store (snd (auth_Delete ed dk dk' g r now au)))"
proof (cases "DeleteBodyDigest g")
  case (Inr d)
  obtain e au1 where a: "authorize ed dk g r OperationDelete d now au = (e, au1)" by fastforce
  obtain x s1 where p: "Store_Delete dk' (gr_ManifestDigest g) (au_store au1) = (x, s1)" by fastforce
  have 1: "inv (au_store au1)" by (rule authorized_inv [OF a assms])
  then have "inv s1" using del [of "au_store au1" dk' "gr_ManifestDigest g"] p by simp
  with 1 show ?thesis using Inr a p by (cases e) (auto simp: auth_Delete_def split: sum.split)
qed (use assms in \<open>simp add: auth_Delete_def\<close>)

lemma local_put_inv: assumes "inv s" shows "inv (snd (PutOpaque dk v chunks now s))"
proof -
  obtain x s1 where p: "PutObjects dk chunks s = (x, s1)" by fastforce
  have "inv s1" using put [OF assms, of dk chunks] p by simp
  then show ?thesis using assms p commit_inv by (simp add: PutOpaque_def split: option.split sum.split)
qed

lemma perform_inv: "inv (au_store au) \<Longrightarrow> inv (au_store (perform ed c au))"
  using upload_inv fetch_inv delete_inv local_put_inv del gc by (cases c) (simp_all, metis prod.collapse)

lemma run_inv: "inv (au_store au) \<Longrightarrow> inv (au_store (run ed cs au))"
  by (induction cs arbitrary: au) (auto simp: perform_inv)

end

interpretation complete: store_invariant leases_held
proof unfold_locales
  show "leases_held s'" if "held s = held s'" "leases_held s" for s s'
    using that unfolding held_def leases_held_def holds_object_alt by auto
  show "leases_held (snd (PutObjects dk cs s))" if "leases_held s" for s dk cs
    using leases_held_mono [OF that PutObjects_grows] by simp
qed (auto intro: CommitOpaque_held Store_Delete_kept held_after_GC)

interpretation quota: store_invariant "within_quota q" for q
proof unfold_locales
  show "within_quota q s'" if "held s = held s'" "within_quota q s" for s s'
    using that unfolding held_def within_quota_def stored_bytes_def by auto
qed (auto intro: CommitOpaque_quota Store_Delete_kept GC_quota PutObjects_quota)


lemma torn_entry: "torn p s \<Longrightarrow> \<exists>e. object_entry s p = Inl e"
  by (auto simp: torn_def object_entry_def Let_def)

lemma torn_usage: "object_entry s p = Inl e \<Longrightarrow> p \<in> set ns \<Longrightarrow> \<exists>e. usage_of s ns = Inl e"
  by (induction ns) (auto simp: bindE_def split: sum.splits)

lemma torn_collectable: "object_entry s p = Inl e \<Longrightarrow> p \<in> set ns \<Longrightarrow> \<exists>e. collectable s ref now grace ns = Inl e"
  by (induction ns) (auto simp: bindE_def split: sum.splits)

lemma torn_blocks:
  assumes "torn p s"
  shows "\<exists>e. PutObjects dk cs s = (Inl e, s)" and "\<exists>e. GCWithStagingGrace dk now grace s = (Inl e, s)"
proof -
  obtain e where e: "object_entry s p = Inl e" using torn_entry [OF assms] by blast
  have p: "p \<in> set (map fst (st_objects s))" using assms by (force simp: torn_def dest: map_of_SomeD)
  show "\<exists>e. PutObjects dk cs s = (Inl e, s)"
    using torn_usage [OF e p] by (auto simp: PutObjects_def usage_def split: option.split sum.split)
  have "\<exists>e. collectable s ref now grace (map fst (st_objects s)) = Inl e" for ref by (rule torn_collectable [OF e p])
  then obtain err where "collectable s ref now grace (map fst (st_objects s)) = Inl (err ref)" for ref by metis
  then show "\<exists>e. GCWithStagingGrace dk now grace s = (Inl e, s)"
    by (simp add: GCWithStagingGrace_def Let_def split: option.split sum.split)
qed

interpretation torn: store_invariant "torn p" for p
proof unfold_locales
  show "torn p (snd (PutObjects dk cs s))" if "torn p s" for dk cs s
    using torn_blocks(1) [OF that, of dk cs] that by auto
  show "torn p s'" if "torn p s" "CommitOpaque dk v b now s = (x, s')" for dk v b now s x s'
    using that leases_only(1) [of dk v b now s] by (simp add: torn_def)
  show "torn p s'" if "torn p s" "GCWithStagingGrace dk now grace s = (y, s')" for dk now grace s y s'
    using torn_blocks(2) [OF that(1), of dk now grace] that by auto
qed (auto simp: torn_def held_def)

lemma damaged_unreadable: "Broken \<in> snd ` set d \<Longrightarrow> \<exists>e. read_claims d = Inl e"
  by (induction d) (auto simp: bindE_def readAccessClaim_def split: sum.splits)

lemma damaged_claim:
  assumes "claimAccess dk r now s = (e, s')" and "damaged s"
  shows "e \<noteq> None" and "damaged s'"
proof -
  have "read_claims (st_claims s1) \<noteq> Inr cs" if "advanceAccessClock w n s = (e1, s1)" for w n e1 s1 cs
    using damaged_unreadable assms(2) advance_clock(1) [OF that] unfolding damaged_def by fastforce
  with assms(1) have "e \<noteq> None \<and> st_claims s' = st_claims s"
    by (cases rule: claimAccess_cases) (auto dest: advance_clock(1))
  with assms(2) show "e \<noteq> None" "damaged s'" by (auto simp: damaged_def)
qed

lemma damaged_authorize:
  "authorize ed dk g r operation body now au = (e, au') \<Longrightarrow> damaged (au_store au) \<Longrightarrow> e \<noteq> None \<and> damaged (au_store au')"
  by (auto simp: authorize_def split: sum.splits option.splits prod.splits dest: damaged_claim sym [of "Some _"])

lemma damaged_guard: "guard s = guard s' \<Longrightarrow> damaged s = damaged s'"
  by (simp add: guard_def damaged_def)

lemma damaged_after:
  assumes "\<And>d e au1. body = Inr d \<Longrightarrow> authorize ed dk g r operation d now au = (e, au1) \<Longrightarrow> guard s' = guard (au_store au1)"
    and "\<And>e. body = Inl e \<Longrightarrow> s' = au_store au" and "damaged (au_store au)"
  shows "damaged s'" and "authorized ed dk g r operation body now au = []"
proof -
  have a: "fst (authorize ed dk g r operation d now au) \<noteq> None \<and> damaged (au_store (snd (authorize ed dk g r operation d now au)))" for d
    by (rule damaged_authorize [OF prod.collapse [symmetric] assms(3)])
  show "damaged s'"
  proof (cases body)
    case (Inr d)
    then show ?thesis using damaged_guard [OF assms(1) [OF Inr prod.collapse [symmetric]]] a by blast
  qed (use assms(2,3) in simp)
  show "authorized ed dk g r operation body now au = []"
    by (simp add: authorized_def a split: sum.split)
qed

lemma damaged_perform:
  assumes "damaged (au_store au)"
  shows "accepts ed c au = [] \<and> damaged (au_store (perform ed c au))"
proof (cases c)
  case (Upload dk dk' dk'' g r chunks now)
  have "au_store (snd (auth_Upload ed dk dk' dk'' g r chunks now au)) = au_store au" if "UploadBodyDigest g chunks = Inl e" for e
    using that by (simp add: auth_Upload_def)
  from damaged_after [OF auth_Upload_guard this assms] Upload show ?thesis by auto
next
  case (Fetch dk g r digests now)
  have "au_store (snd (auth_Fetch ed dk g r digests now au)) = au_store au" if "FetchBodyDigest g digests = Inl e" for e
    using that by (simp add: auth_Fetch_def)
  from damaged_after [OF auth_Fetch_guard this assms] Fetch show ?thesis by auto
next
  case (Delete dk dk' g r now)
  have "au_store (snd (auth_Delete ed dk dk' g r now au)) = au_store au" if "DeleteBodyDigest g = Inl e" for e
    using that by (simp add: auth_Delete_def)
  from damaged_after [OF auth_Delete_guard this assms] Delete show ?thesis by auto
qed (use assms in \<open>simp_all add: damaged_guard [OF guard_PutOpaque] damaged_guard [OF guard_kept(3)] damaged_guard [OF guard_GC]\<close>)

lemma damaged_run: "damaged (au_store au) \<Longrightarrow> accepted ed cs au = []"
  by (induction cs arbitrary: au) (simp_all add: damaged_perform)


text \<open>Every digest a lease lists can be fetched.\<close>

lemma positions_mem: "positions ds d = Some i \<Longrightarrow> d \<in> set ds"
  by (auto simp: positions_def dest!: map_of_SomeD set_zip_leftD)

lemma fetch_chunks_held:
  "\<forall>d i. pos d = Some i \<longrightarrow> holds_object s d \<Longrightarrow>
    fetch_chunks s pos ds \<noteq> Inl (Msg ''attachment ciphertext object is missing or corrupt'')"
proof (induction ds)
  case (Cons d ds)
  have "\<exists>raw. read_object s d = Inr raw \<and> Digest raw = d" if "pos d = Some i" for i
    using Cons.prems that by (cases "read_object s d") (auto simp: holds_object_def)
  with Cons.IH [OF Cons.prems] show ?case by (cases "pos d") (auto simp: bindE_def split: sum.splits)
qed simp

lemma readLease_Some: "readLease s d = Inr (Some l) \<Longrightarrow> map_of (st_leases s) (leasePath d) = Some (Whole l)"
  by (auto simp: readLease_def split: option.splits stored.splits if_splits)

lemma readLease_Inl: "readLease s d = Inl e \<Longrightarrow> e = Msg ''invalid attachment lease''"
  by (auto simp: readLease_def split: option.splits stored.splits if_splits)

lemma fresh_digests_error: "fresh_digests bad dup seen ds = Some e \<Longrightarrow> e = Msg bad \<or> e = Msg dup"
  by (induction bad dup seen ds rule: fresh_digests.induct) (auto split: if_splits)

lemma FetchOpaque_whole:
  assumes "leases_held s"
  shows "FetchOpaque s m ds now \<noteq> Inl (Msg ''attachment ciphertext object is missing or corrupt'')"
proof -
  have f: "fetch_chunks s (positions (le_ChunkDigests l)) ds \<noteq> Inl (Msg ''attachment ciphertext object is missing or corrupt'')"
    if "readLease s m = Inr (Some l)" for l
    using assms readLease_Some [OF that] positions_mem unfolding leases_held_def by (intro fetch_chunks_held) blast
  show ?thesis
  proof
    assume "FetchOpaque s m ds now = Inl (Msg ''attachment ciphertext object is missing or corrupt'')"
    then show False using f
      by (auto simp: FetchOpaque_def fetchOpaque_def failE_def bindE_def Store_usable_def failIf_def
        dest!: readLease_Inl fresh_digests_error split: option.splits sum.splits if_splits)
  qed
qed

section \<open>Properties\<close>

text \<open>
  C5. No access request is honoured twice: over any sequence of authenticated and local
  operations on a store, with any disk failures, restarts and clocks, the requests that are
  granted are pairwise different in what they ask for (everything but the signature).
\<close>

theorem no_replay: "distinct (map unsigned (accepted ed cs (fresh_store q authority key)))"
  using accepted_once [of "fresh_store q authority key" ed cs] by (simp add: fresh_store_def)

text \<open>
  C15. In every state a run of operations can leave, whatever the disk does, each object that a
  stored lease names is on disk with its digest, and so no fetch finds one missing or corrupt.
\<close>

theorem leased_objects_kept:
  "leases_held (au_store (run ed cs (fresh_store q authority key))) \<and>
   FetchOpaque (au_store (run ed cs (fresh_store q authority key))) m ds now \<noteq>
     Inl (Msg ''attachment ciphertext object is missing or corrupt'')"
proof -
  have "leases_held (au_store (run ed cs (fresh_store q authority key)))"
    by (rule complete.run_inv) (simp add: leases_held_def fresh_store_def)
  then show ?thesis using FetchOpaque_whole by blast
qed

text \<open>
  C16. A store opened with a valid quota never holds more objects, bytes or lease files than it,
  files that a crash leaves behind included.
\<close>

theorem quota_never_exceeded:
  assumes "StoreQuota_validate q = None"
  shows "within_quota q (au_store (run ed cs (fresh_store q authority key)))"
  by (rule quota.run_inv)
    (use assms in \<open>auto simp: within_quota_def stored_bytes_def fresh_store_def StoreQuota_validate_def split: if_splits\<close>)

theorem quota_never_exceeded_witness:
  "StoreQuota_validate DefaultStoreQuota = None \<and>
   within_quota DefaultStoreQuota (au_store (run ex_ed [Collect \<lparr>dk_create = (\<lambda>_. Created), dk_replace = Replaced,
     dk_remove = (\<lambda>_. True), dk_sync = True, dk_touch = (\<lambda>_. True), dk_list = True, dk_now = 5\<rparr> 5 0]
     (fresh_store DefaultStoreQuota (\<lambda>_ _. Inr []) [])))"
proof -
  have "StoreQuota_validate DefaultStoreQuota = None"
    by (simp add: StoreQuota_validate_def DefaultStoreQuota_def MaxStoreObjects_def MaxStoreBytes_def Hour_def Minute_def Second_def)
  then show ?thesis using quota_never_exceeded by blast
qed


end
