(* ===== verification/PayloadFields.thy ===== *)
theory PayloadFields
  imports Codec Mandates
begin

text \<open>
  What every payload body is built from (\<open>pkg/payload/fields.go\<close> and the bounds of
  \<open>payload.go\<close>): the checks a validator makes of one field, and the facts that a field that
  passes its check fits the bound its reader uses.
\<close>

section \<open>Bounds\<close>

definition MaxTextBytes :: int where
  "MaxTextBytes = 131072"

definition MaxShortTextBytes :: int where
  "MaxShortTextBytes = 512"

definition MaxDigestBytes :: int where
  "MaxDigestBytes = 128"

definition MaxOpaqueBytes :: int where
  "MaxOpaqueBytes = 131072"

definition MaxRepeated :: int where
  "MaxRepeated = 32"

section \<open>Field checks\<close>

definition mediaTypes :: "string list" where
  "mediaTypes = [''text/plain; charset=utf-8'', ''text/markdown'']"

definition protocolPattern :: "string \<Rightarrow> bool" where
  "protocolPattern = words_pattern (\<lambda>c. c = CHR ''.'')"

definition tokenPattern :: "string \<Rightarrow> bool" where
  "tokenPattern = words_pattern (\<lambda>c. c = CHR ''.'' \<or> c = CHR ''_'' \<or> c = CHR ''-'')"

definition requireText :: "string \<Rightarrow> string \<Rightarrow> int \<Rightarrow> err option" where
  "requireText name v maximum =
     (if v = '''' then Some (Msg (name @ '' is required''))
      else if int (length v) > maximum then Some (Msg (name @ '' exceeds its bound''))
      else if \<not> utf8_valid v then Some (Msg (name @ '' is not valid UTF-8''))
      else if list_ex (\<lambda>c. c = CHR 0x00 \<or> c = CHR 0x0D) v
      then Some (Msg (name @ '' contains control characters''))
      else None)"

definition optionalText :: "string \<Rightarrow> string \<Rightarrow> int \<Rightarrow> err option" where
  "optionalText name v maximum = (if v = '''' then None else requireText name v maximum)"

definition requireMatch :: "string \<Rightarrow> string \<Rightarrow> (string \<Rightarrow> bool) \<Rightarrow> err option" where
  "requireMatch name v pattern = (if \<not> pattern v then Some (Msg (name @ '' is not a valid identifier'')) else None)"

definition optionalMatch :: "string \<Rightarrow> string \<Rightarrow> (string \<Rightarrow> bool) \<Rightarrow> err option" where
  "optionalMatch name v pattern = (if v = '''' then None else requireMatch name v pattern)"

definition requireDigest :: "string \<Rightarrow> string \<Rightarrow> err option" where
  "requireDigest name v = (if \<not> ValidDigest v then Some (Msg (name @ '' is not a usable digest'')) else None)"

definition optionalDigest :: "string \<Rightarrow> string \<Rightarrow> err option" where
  "optionalDigest name v = (if v = '''' then None else requireDigest name v)"

definition requireTime :: "string \<Rightarrow> u64 \<Rightarrow> err option" where
  "requireTime name v = (if v = 0 then Some (Msg (name @ '' is required'')) else None)"

definition requireMember :: "string \<Rightarrow> string \<Rightarrow> string list \<Rightarrow> err option" where
  "requireMember name v members = (if v \<notin> set members then Some (Msg (name @ '' is not a recognised value'')) else None)"

definition requireEvent :: "string \<Rightarrow> string \<Rightarrow> err option" where
  "requireEvent name v = requireMatch name v ids_Event"

section \<open>What a passed check gives\<close>

named_theorems passed "what a field that passed its check is"
named_theorems fitting "a field that passed its check fits the bound it is read with"

lemma requireText_None [passed]:
  "requireText name v m = None \<longleftrightarrow> v \<noteq> '''' \<and> int (length v) \<le> m \<and> utf8_valid v \<and>
     \<not> list_ex (\<lambda>c. c = CHR 0x00 \<or> c = CHR 0x0D) v"
  by (simp add: requireText_def)

lemma optionalText_None [passed]: "optionalText name v m = None \<longleftrightarrow> v = '''' \<or> requireText name v m = None"
  by (simp add: optionalText_def)

lemma requireMatch_None [passed]: "requireMatch name v p = None \<longleftrightarrow> p v"
  by (simp add: requireMatch_def)

lemma optionalMatch_None [passed]: "optionalMatch name v p = None \<longleftrightarrow> v = '''' \<or> p v"
  by (simp add: optionalMatch_def requireMatch_def)

lemma requireDigest_None [passed]: "requireDigest name v = None \<longleftrightarrow> ValidDigest v"
  by (simp add: requireDigest_def)

lemma optionalDigest_None [passed]: "optionalDigest name v = None \<longleftrightarrow> v = '''' \<or> ValidDigest v"
  by (simp add: optionalDigest_def requireDigest_def)

lemma requireTime_None [passed]: "requireTime name v = None \<longleftrightarrow> v \<noteq> 0"
  by (simp add: requireTime_def)

lemma requireMember_None [passed]: "requireMember name v ms = None \<longleftrightarrow> v \<in> set ms"
  by (simp add: requireMember_def)

lemma requireEvent_None [passed]: "requireEvent name v = None \<longleftrightarrow> ids_Event v"
  by (simp add: requireEvent_def requireMatch_None)

lemmas bounds = MaxTextBytes_def MaxShortTextBytes_def MaxDigestBytes_def MaxOpaqueBytes_def

lemma fits_text_empty [simp]: "fits_text m '''' \<longleftrightarrow> 0 \<le> m"
  by (simp add: fits_text_def fits_def)

lemma fits_required [fitting]:
  "requireText name v m = None \<Longrightarrow> m \<le> n \<Longrightarrow> n < 2 ^ 32 \<Longrightarrow> fits_text n v"
  by (auto simp: requireText_None fits_text_def fits_def)

lemma fits_optional [fitting]:
  "optionalText name v m = None \<Longrightarrow> 0 \<le> n \<Longrightarrow> m \<le> n \<Longrightarrow> n < 2 ^ 32 \<Longrightarrow> fits_text n v"
  by (auto simp: optionalText_None fits_required)

lemma fits_digest [fitting]: "ValidDigest v \<Longrightarrow> 71 \<le> m \<Longrightarrow> m < 2 ^ 32 \<Longrightarrow> fits_text m v"
  using prefixed_hex64_fits [OF ValidDigest_prefixed, of v m] by (simp add: byte_val_def)

lemma fits_ids [fitting]:
  assumes "80 \<le> m" and "m < 2 ^ 32"
  shows "ids_Event v \<Longrightarrow> fits_text m v" "ids_Agent v \<Longrightarrow> fits_text m v" "ids_Room v \<Longrightarrow> fits_text m v"
    "ids_Capability v \<Longrightarrow> fits_text m v" "ids_Device v \<Longrightarrow> fits_text m v" "ids_Conversation v \<Longrightarrow> fits_text m v"
  unfolding ids_defs using assms by (auto elim!: prefixed_hex64_fits simp: byte_val_def)

lemma words_tail_ascii:
  assumes "\<And>c. issep c \<Longrightarrow> byte_val c < 128"
  shows "words_tail issep b s \<Longrightarrow> list_all (\<lambda>c. byte_val c < 128) s"
  by (induction s arbitrary: b) (auto simp: is_lower_def is_digit_def assms split: if_splits)

lemma words_pattern_utf8:
  assumes "words_pattern issep s" and "\<And>c. issep c \<Longrightarrow> byte_val c < 128"
  shows "utf8_valid s"
proof (rule ascii_utf8)
  obtain c cs where s: "s = c # cs" "is_lower c" "words_tail issep True cs"
    using assms(1) by (auto simp: words_pattern_def split: list.splits)
  then show "list_all (\<lambda>c. byte_val c < 128) s"
    using words_tail_ascii [of issep True cs] assms(2) by (auto simp: is_lower_def)
qed

lemma token_fits [fitting]: "tokenPattern v \<Longrightarrow> int (length v) \<le> m \<Longrightarrow> m < 2 ^ 32 \<Longrightarrow> fits_text m v"
  unfolding tokenPattern_def fits_text_def fits_def
  by (auto simp: byte_val_def elim!: words_pattern_utf8)

lemmas checked = requireMatch_None optionalMatch_None requireDigest_None optionalDigest_None
  requireTime_None requireMember_None requireEvent_None

lemma fits_ascii:
  "list_all (\<lambda>c. byte_val c < 128) v \<Longrightarrow> int (length v) \<le> m \<Longrightarrow> m < 2 ^ 32 \<Longrightarrow> fits_text m v"
  by (simp add: fits_text_def fits_def ascii_utf8)

lemma mediaTypes_fit [fitting]: "v \<in> set mediaTypes \<Longrightarrow> 25 \<le> m \<Longrightarrow> m < 2 ^ 32 \<Longrightarrow> fits_text m v"
  by (auto simp: mediaTypes_def byte_val_def intro!: fits_ascii)

lemma protocol_fits [fitting]: "protocolPattern v \<Longrightarrow> int (length v) \<le> m \<Longrightarrow> m < 2 ^ 32 \<Longrightarrow> fits_text m v"
  unfolding protocolPattern_def fits_text_def fits_def
  by (auto simp: byte_val_def elim!: words_pattern_utf8)

end
