(* ===== verification/PayloadKinds.thy ===== *)
theory PayloadKinds
  imports PayloadFields
begin

text \<open>
  The bodies of \<open>pkg/payload/kinds.go\<close>: text, conversation invitations, presence, tasks and
  negotiation messages. Each kind is its struct as a record, its schema identifier, its
  validator, its encoder and its decoder, in the order of the source. \<open>\<dots>_wire\<close> says which
  values fit the bounds the decoder reads with, and \<open>\<dots>_reader\<close> shows that the decoder is the
  strict inverse of the encoder on exactly those values.
\<close>

section \<open>Messages, invitations and presence\<close>

record Text =
  Text_MediaType :: string
  Text_Body :: string
  Text_ReplyToEventID :: string

definition Text_Schema :: string where
  "Text_Schema = ''tos.messaging.payload.text.v1''"

definition Text_Validate :: "Text \<Rightarrow> err option" where
  "Text_Validate v =
     thenE (requireMember ''media type'' (Text_MediaType v) mediaTypes)
     (thenE (requireText ''body'' (Text_Body v) MaxTextBytes)
     (optionalMatch ''reply-to event'' (Text_ReplyToEventID v) ids_Event))"

definition Text_encode :: "Text \<Rightarrow> bytes" where
  "Text_encode v = canon_Text (Text_MediaType v) @
     canon_Text (Text_Body v) @
     canon_Text (Text_ReplyToEventID v)"

definition decodeText :: "Reader \<Rightarrow> Text \<times> Reader" where
  "decodeText =
     bindR (r_Text MaxShortTextBytes) (\<lambda>mediaType.
     bindR (r_Text MaxTextBytes) (\<lambda>body.
     bindR (r_Text MaxShortTextBytes) (\<lambda>replyToEventID.
     returnR \<lparr>Text_MediaType = mediaType, Text_Body = body, Text_ReplyToEventID = replyToEventID\<rparr>)))"

definition Text_wire :: "Text \<Rightarrow> bool" where
  "Text_wire v \<longleftrightarrow> fits_text MaxShortTextBytes (Text_MediaType v) \<and>
     fits_text MaxTextBytes (Text_Body v) \<and>
     fits_text MaxShortTextBytes (Text_ReplyToEventID v)"

record ConversationInvite =
  ConversationInvite_Purpose :: string
  ConversationInvite_ExpiresAtUnix :: u64

definition ConversationInvite_Schema :: string where
  "ConversationInvite_Schema = ''tos.messaging.payload.conversation-invite.v1''"

definition ConversationInvite_Validate :: "ConversationInvite \<Rightarrow> err option" where
  "ConversationInvite_Validate v =
     thenE (requireText ''purpose'' (ConversationInvite_Purpose v) MaxShortTextBytes)
     (requireTime ''invitation expiry'' (ConversationInvite_ExpiresAtUnix v))"

definition ConversationInvite_encode :: "ConversationInvite \<Rightarrow> bytes" where
  "ConversationInvite_encode v = canon_Text (ConversationInvite_Purpose v) @
     canon_Uint64 (ConversationInvite_ExpiresAtUnix v)"

definition decodeConversationInvite :: "Reader \<Rightarrow> ConversationInvite \<times> Reader" where
  "decodeConversationInvite =
     bindR (r_Text MaxShortTextBytes) (\<lambda>purpose.
     bindR r_Uint64 (\<lambda>expiresAtUnix.
     returnR \<lparr>ConversationInvite_Purpose = purpose, ConversationInvite_ExpiresAtUnix = expiresAtUnix\<rparr>))"

definition ConversationInvite_wire :: "ConversationInvite \<Rightarrow> bool" where
  "ConversationInvite_wire v \<longleftrightarrow> fits_text MaxShortTextBytes (ConversationInvite_Purpose v)"

record ConversationAccept =
  ConversationAccept_InviteEventID :: string

definition ConversationAccept_Schema :: string where
  "ConversationAccept_Schema = ''tos.messaging.payload.conversation-accept.v1''"

definition ConversationAccept_Validate :: "ConversationAccept \<Rightarrow> err option" where
  "ConversationAccept_Validate v =
     requireEvent ''invitation event'' (ConversationAccept_InviteEventID v)"

definition ConversationAccept_encode :: "ConversationAccept \<Rightarrow> bytes" where
  "ConversationAccept_encode v = canon_Text (ConversationAccept_InviteEventID v)"

definition decodeConversationAccept :: "Reader \<Rightarrow> ConversationAccept \<times> Reader" where
  "decodeConversationAccept =
     bindR (r_Text MaxShortTextBytes) (\<lambda>inviteEventID.
     returnR \<lparr>ConversationAccept_InviteEventID = inviteEventID\<rparr>)"

definition ConversationAccept_wire :: "ConversationAccept \<Rightarrow> bool" where
  "ConversationAccept_wire v \<longleftrightarrow> fits_text MaxShortTextBytes (ConversationAccept_InviteEventID v)"

definition presenceStates :: "string list" where
  "presenceStates = [''available'', ''busy'', ''away'']"

record PresenceHint =
  PresenceHint_State :: string
  PresenceHint_StaleAfterUnix :: u64

definition PresenceHint_Schema :: string where
  "PresenceHint_Schema = ''tos.messaging.payload.presence-hint.v1''"

definition PresenceHint_Validate :: "PresenceHint \<Rightarrow> err option" where
  "PresenceHint_Validate v =
     thenE (requireMember ''presence state'' (PresenceHint_State v) presenceStates)
     (requireTime ''presence staleness'' (PresenceHint_StaleAfterUnix v))"

definition PresenceHint_encode :: "PresenceHint \<Rightarrow> bytes" where
  "PresenceHint_encode v = canon_Text (PresenceHint_State v) @
     canon_Uint64 (PresenceHint_StaleAfterUnix v)"

definition decodePresenceHint :: "Reader \<Rightarrow> PresenceHint \<times> Reader" where
  "decodePresenceHint =
     bindR (r_Text MaxShortTextBytes) (\<lambda>state.
     bindR r_Uint64 (\<lambda>staleAfterUnix.
     returnR \<lparr>PresenceHint_State = state, PresenceHint_StaleAfterUnix = staleAfterUnix\<rparr>))"

definition PresenceHint_wire :: "PresenceHint \<Rightarrow> bool" where
  "PresenceHint_wire v \<longleftrightarrow> fits_text MaxShortTextBytes (PresenceHint_State v)"

section \<open>Tasks\<close>

record TaskRequest =
  TaskRequest_TaskID :: string
  TaskRequest_CapabilityID :: string
  TaskRequest_InputDigest :: string
  TaskRequest_DeadlineUnix :: u64
  TaskRequest_AcceptedQuoteRef :: string

definition TaskRequest_Schema :: string where
  "TaskRequest_Schema = ''tos.messaging.payload.task-request.v1''"

definition TaskRequest_Validate :: "TaskRequest \<Rightarrow> err option" where
  "TaskRequest_Validate v =
     thenE (requireText ''task identifier'' (TaskRequest_TaskID v) MaxShortTextBytes)
     (thenE (requireMatch ''capability'' (TaskRequest_CapabilityID v) ids_Capability)
     (thenE (requireDigest ''input digest'' (TaskRequest_InputDigest v))
     (thenE (requireTime ''task deadline'' (TaskRequest_DeadlineUnix v))
     (optionalDigest ''accepted quote reference'' (TaskRequest_AcceptedQuoteRef v)))))"

definition TaskRequest_encode :: "TaskRequest \<Rightarrow> bytes" where
  "TaskRequest_encode v = canon_Text (TaskRequest_TaskID v) @
     canon_Text (TaskRequest_CapabilityID v) @
     canon_Text (TaskRequest_InputDigest v) @
     canon_Uint64 (TaskRequest_DeadlineUnix v) @
     canon_Text (TaskRequest_AcceptedQuoteRef v)"

definition decodeTaskRequest :: "Reader \<Rightarrow> TaskRequest \<times> Reader" where
  "decodeTaskRequest =
     bindR (r_Text MaxShortTextBytes) (\<lambda>taskID.
     bindR (r_Text MaxShortTextBytes) (\<lambda>capabilityID.
     bindR (r_Text MaxDigestBytes) (\<lambda>inputDigest.
     bindR r_Uint64 (\<lambda>deadlineUnix.
     bindR (r_Text MaxDigestBytes) (\<lambda>acceptedQuoteRef.
     returnR \<lparr>TaskRequest_TaskID = taskID, TaskRequest_CapabilityID = capabilityID, TaskRequest_InputDigest = inputDigest, TaskRequest_DeadlineUnix = deadlineUnix, TaskRequest_AcceptedQuoteRef = acceptedQuoteRef\<rparr>)))))"

definition TaskRequest_wire :: "TaskRequest \<Rightarrow> bool" where
  "TaskRequest_wire v \<longleftrightarrow> fits_text MaxShortTextBytes (TaskRequest_TaskID v) \<and>
     fits_text MaxShortTextBytes (TaskRequest_CapabilityID v) \<and>
     fits_text MaxDigestBytes (TaskRequest_InputDigest v) \<and>
     fits_text MaxDigestBytes (TaskRequest_AcceptedQuoteRef v)"

record TaskProgress =
  TaskProgress_TaskID :: string
  TaskProgress_Stage :: string
  TaskProgress_PercentComplete :: u32
  TaskProgress_Note :: string

definition TaskProgress_Schema :: string where
  "TaskProgress_Schema = ''tos.messaging.payload.task-progress.v1''"

definition TaskProgress_Validate :: "TaskProgress \<Rightarrow> err option" where
  "TaskProgress_Validate v =
     thenE (requireText ''task identifier'' (TaskProgress_TaskID v) MaxShortTextBytes)
     (thenE (requireMatch ''stage'' (TaskProgress_Stage v) tokenPattern)
     (thenE (failIf (TaskProgress_PercentComplete v > 100) ''progress exceeds its own scale'')
     (optionalText ''note'' (TaskProgress_Note v) MaxShortTextBytes)))"

definition TaskProgress_encode :: "TaskProgress \<Rightarrow> bytes" where
  "TaskProgress_encode v = canon_Text (TaskProgress_TaskID v) @
     canon_Text (TaskProgress_Stage v) @
     canon_Uint32 (TaskProgress_PercentComplete v) @
     canon_Text (TaskProgress_Note v)"

definition decodeTaskProgress :: "Reader \<Rightarrow> TaskProgress \<times> Reader" where
  "decodeTaskProgress =
     bindR (r_Text MaxShortTextBytes) (\<lambda>taskID.
     bindR (r_Text MaxShortTextBytes) (\<lambda>stage.
     bindR r_Uint32 (\<lambda>percentComplete.
     bindR (r_Text MaxShortTextBytes) (\<lambda>note.
     returnR \<lparr>TaskProgress_TaskID = taskID, TaskProgress_Stage = stage, TaskProgress_PercentComplete = percentComplete, TaskProgress_Note = note\<rparr>))))"

definition TaskProgress_wire :: "TaskProgress \<Rightarrow> bool" where
  "TaskProgress_wire v \<longleftrightarrow> fits_text MaxShortTextBytes (TaskProgress_TaskID v) \<and>
     fits_text MaxShortTextBytes (TaskProgress_Stage v) \<and>
     fits_text MaxShortTextBytes (TaskProgress_Note v)"

definition taskOutcomes :: "string list" where
  "taskOutcomes = [''succeeded'', ''failed'', ''refused'']"

record TaskResult =
  TaskResult_TaskID :: string
  TaskResult_Outcome :: string
  TaskResult_OutputDigest :: string
  TaskResult_Reason :: string

definition TaskResult_Schema :: string where
  "TaskResult_Schema = ''tos.messaging.payload.task-result.v1''"

definition TaskResult_Validate :: "TaskResult \<Rightarrow> err option" where
  "TaskResult_Validate v =
     thenE (requireText ''task identifier'' (TaskResult_TaskID v) MaxShortTextBytes)
     (thenE (requireMember ''task outcome'' (TaskResult_Outcome v) taskOutcomes)
     (if TaskResult_Outcome v = ''succeeded''
      then thenE (requireDigest ''output digest'' (TaskResult_OutputDigest v))
        (optionalText ''reason'' (TaskResult_Reason v) MaxShortTextBytes)
      else thenE (failIf (TaskResult_OutputDigest v \<noteq> '''') ''a task that did not succeed reported an output'')
        (requireText ''reason'' (TaskResult_Reason v) MaxShortTextBytes)))"

definition TaskResult_encode :: "TaskResult \<Rightarrow> bytes" where
  "TaskResult_encode v = canon_Text (TaskResult_TaskID v) @
     canon_Text (TaskResult_Outcome v) @
     canon_Text (TaskResult_OutputDigest v) @
     canon_Text (TaskResult_Reason v)"

definition decodeTaskResult :: "Reader \<Rightarrow> TaskResult \<times> Reader" where
  "decodeTaskResult =
     bindR (r_Text MaxShortTextBytes) (\<lambda>taskID.
     bindR (r_Text MaxShortTextBytes) (\<lambda>outcome.
     bindR (r_Text MaxDigestBytes) (\<lambda>outputDigest.
     bindR (r_Text MaxShortTextBytes) (\<lambda>reason.
     returnR \<lparr>TaskResult_TaskID = taskID, TaskResult_Outcome = outcome, TaskResult_OutputDigest = outputDigest, TaskResult_Reason = reason\<rparr>))))"

definition TaskResult_wire :: "TaskResult \<Rightarrow> bool" where
  "TaskResult_wire v \<longleftrightarrow> fits_text MaxShortTextBytes (TaskResult_TaskID v) \<and>
     fits_text MaxShortTextBytes (TaskResult_Outcome v) \<and>
     fits_text MaxDigestBytes (TaskResult_OutputDigest v) \<and>
     fits_text MaxShortTextBytes (TaskResult_Reason v)"

record TaskStatusRequest =
  TaskStatusRequest_TaskID :: string

definition TaskStatusRequest_Schema :: string where
  "TaskStatusRequest_Schema = ''tos.messaging.payload.task-status-request.v1''"

definition TaskStatusRequest_Validate :: "TaskStatusRequest \<Rightarrow> err option" where
  "TaskStatusRequest_Validate v =
     requireText ''task identifier'' (TaskStatusRequest_TaskID v) MaxShortTextBytes"

definition TaskStatusRequest_encode :: "TaskStatusRequest \<Rightarrow> bytes" where
  "TaskStatusRequest_encode v = canon_Text (TaskStatusRequest_TaskID v)"

definition decodeTaskStatusRequest :: "Reader \<Rightarrow> TaskStatusRequest \<times> Reader" where
  "decodeTaskStatusRequest =
     bindR (r_Text MaxShortTextBytes) (\<lambda>taskID.
     returnR \<lparr>TaskStatusRequest_TaskID = taskID\<rparr>)"

definition TaskStatusRequest_wire :: "TaskStatusRequest \<Rightarrow> bool" where
  "TaskStatusRequest_wire v \<longleftrightarrow> fits_text MaxShortTextBytes (TaskStatusRequest_TaskID v)"

section \<open>Negotiation messages\<close>

text \<open>The encoder panics, here \<open>None\<close>, on a network hash that is not one.\<close>

definition encodeTerms :: "Terms \<Rightarrow> bytes option" where
  "encodeTerms t = (let a = m_Asset (t_Price t); n = as_Network a in
     case (canon_MustHash32 (nw_GenesisRootHash n), canon_MustHash32 (nw_GenesisFileHash n)) of
       (Some root, Some file) \<Rightarrow> Some (
         canon_Text (t_CapabilityID t) @ canon_Text (t_CapabilityVersion t) @
         canon_Text (t_CapabilityClass t) @ canon_Text (t_ProviderAgentID t) @
         canon_Text (t_ManifestDigest t) @ canon_Text (t_TransportBindingDigest t) @
         canon_Text (nw_ID n) @ root @ file @ canon_Uint32 (as_Workchain a) @
         canon_Text (as_AccountID a) @ canon_Text (as_MasterCodeHash a) @ canon_Text (as_WalletCodeHash a) @
         canon_Uint32 (as_Decimals a) @ canon_Text (m_Atomic (t_Price t)) @
         canon_Text (t_EscrowTermsDigest t) @ canon_Text (t_DisputePolicyDigest t) @
         canon_Uint64 (t_NotAfterUnix t))
     | _ \<Rightarrow> None)"

definition decodeTerms :: "Reader \<Rightarrow> Terms \<times> Reader" where
  "decodeTerms =
     bindR (r_Text MaxShortTextBytes) (\<lambda>capabilityID.
     bindR (r_Text MaxShortTextBytes) (\<lambda>capabilityVersion.
     bindR (r_Text MaxShortTextBytes) (\<lambda>capabilityClass.
     bindR (r_Text MaxShortTextBytes) (\<lambda>providerAgentID.
     bindR (r_Text MaxDigestBytes) (\<lambda>manifestDigest.
     bindR (r_Text MaxDigestBytes) (\<lambda>transportBindingDigest.
     bindR (r_Text MaxShortTextBytes) (\<lambda>networkID.
     bindR r_Hash32 (\<lambda>genesisRootHash.
     bindR r_Hash32 (\<lambda>genesisFileHash.
     bindR r_Uint32 (\<lambda>workchain.
     bindR (r_Text MaxShortTextBytes) (\<lambda>accountID.
     bindR (r_Text MaxDigestBytes) (\<lambda>masterCodeHash.
     bindR (r_Text MaxDigestBytes) (\<lambda>walletCodeHash.
     bindR r_Uint32 (\<lambda>decimals.
     bindR (r_Text MaxShortTextBytes) (\<lambda>atomic.
     bindR (r_Text MaxDigestBytes) (\<lambda>escrowTermsDigest.
     bindR (r_Text MaxDigestBytes) (\<lambda>disputePolicyDigest.
     bindR r_Uint64 (\<lambda>notAfterUnix.
     returnR \<lparr>t_CapabilityID = capabilityID, t_CapabilityVersion = capabilityVersion,
       t_CapabilityClass = capabilityClass, t_ProviderAgentID = providerAgentID,
       t_ManifestDigest = manifestDigest, t_TransportBindingDigest = transportBindingDigest,
       t_Price = \<lparr>m_Asset = \<lparr>as_Network = \<lparr>nw_ID = networkID, nw_GenesisRootHash = genesisRootHash,
           nw_GenesisFileHash = genesisFileHash\<rparr>, as_Workchain = workchain, as_AccountID = accountID,
         as_MasterCodeHash = masterCodeHash, as_WalletCodeHash = walletCodeHash, as_Decimals = decimals\<rparr>,
         m_Atomic = atomic\<rparr>,
       t_EscrowTermsDigest = escrowTermsDigest, t_DisputePolicyDigest = disputePolicyDigest,
       t_NotAfterUnix = notAfterUnix\<rparr>))))))))))))))))))"

text \<open>The bytes of terms whose hashes are hashes, and the terms that fit the bounds.\<close>

definition terms_bytes :: "Terms \<Rightarrow> bytes" where
  "terms_bytes t =
     canon_Text (t_CapabilityID t) @ canon_Text (t_CapabilityVersion t) @
     canon_Text (t_CapabilityClass t) @ canon_Text (t_ProviderAgentID t) @
     canon_Text (t_ManifestDigest t) @ canon_Text (t_TransportBindingDigest t) @
     canon_Text (nw_ID (as_Network (m_Asset (t_Price t)))) @
     hash_bytes (nw_GenesisRootHash (as_Network (m_Asset (t_Price t)))) @
     hash_bytes (nw_GenesisFileHash (as_Network (m_Asset (t_Price t)))) @
     canon_Uint32 (as_Workchain (m_Asset (t_Price t))) @ canon_Text (as_AccountID (m_Asset (t_Price t))) @
     canon_Text (as_MasterCodeHash (m_Asset (t_Price t))) @ canon_Text (as_WalletCodeHash (m_Asset (t_Price t))) @
     canon_Uint32 (as_Decimals (m_Asset (t_Price t))) @ canon_Text (m_Atomic (t_Price t)) @
     canon_Text (t_EscrowTermsDigest t) @ canon_Text (t_DisputePolicyDigest t) @
     canon_Uint64 (t_NotAfterUnix t)"

definition terms_wire :: "Terms \<Rightarrow> bool" where
  "terms_wire t \<longleftrightarrow> fits_text MaxShortTextBytes (t_CapabilityID t) \<and>
     fits_text MaxShortTextBytes (t_CapabilityVersion t) \<and> fits_text MaxShortTextBytes (t_CapabilityClass t) \<and>
     fits_text MaxShortTextBytes (t_ProviderAgentID t) \<and> fits_text MaxDigestBytes (t_ManifestDigest t) \<and>
     fits_text MaxDigestBytes (t_TransportBindingDigest t) \<and>
     fits_text MaxShortTextBytes (nw_ID (as_Network (m_Asset (t_Price t)))) \<and>
     hex64 (nw_GenesisRootHash (as_Network (m_Asset (t_Price t)))) \<and>
     hex64 (nw_GenesisFileHash (as_Network (m_Asset (t_Price t)))) \<and>
     fits_text MaxShortTextBytes (as_AccountID (m_Asset (t_Price t))) \<and>
     fits_text MaxDigestBytes (as_MasterCodeHash (m_Asset (t_Price t))) \<and>
     fits_text MaxDigestBytes (as_WalletCodeHash (m_Asset (t_Price t))) \<and>
     fits_text MaxShortTextBytes (m_Atomic (t_Price t)) \<and> fits_text MaxDigestBytes (t_EscrowTermsDigest t) \<and>
     fits_text MaxDigestBytes (t_DisputePolicyDigest t)"

text \<open>What a validated terms value may still lack for the wire: its class has no bound of its own,
  and neither the version nor the network name is checked to be UTF-8.\<close>

definition terms_fit :: "Terms \<Rightarrow> bool" where
  "terms_fit t \<longleftrightarrow> int (length (t_CapabilityClass t)) \<le> 512 \<and> utf8_valid (t_CapabilityVersion t) \<and>
     utf8_valid (nw_ID (as_Network (m_Asset (t_Price t))))"

record NegotiationProposal =
  NegotiationProposal_NegotiationID :: string
  NegotiationProposal_Terms :: Terms

definition NegotiationProposal_Schema :: string where
  "NegotiationProposal_Schema = ''tos.messaging.payload.negotiation-proposal.v3''"

definition NegotiationProposal_Validate :: "NegotiationProposal \<Rightarrow> err option" where
  "NegotiationProposal_Validate v =
     thenE (requireText ''negotiation identifier'' (NegotiationProposal_NegotiationID v) MaxShortTextBytes)
     (Terms_Validate (NegotiationProposal_Terms v))"

definition NegotiationProposal_encode :: "NegotiationProposal \<Rightarrow> bytes option" where
  "NegotiationProposal_encode v = (case encodeTerms (NegotiationProposal_Terms v) of
     None \<Rightarrow> None
   | Some b \<Rightarrow> Some (canon_Text (NegotiationProposal_NegotiationID v) @ b))"

definition decodeNegotiationProposal :: "Reader \<Rightarrow> NegotiationProposal \<times> Reader" where
  "decodeNegotiationProposal =
     bindR (r_Text MaxShortTextBytes) (\<lambda>negotiationID.
     bindR decodeTerms (\<lambda>terms.
     returnR \<lparr>NegotiationProposal_NegotiationID = negotiationID, NegotiationProposal_Terms = terms\<rparr>))"

definition NegotiationProposal_wire :: "NegotiationProposal \<Rightarrow> bool" where
  "NegotiationProposal_wire v \<longleftrightarrow> fits_text MaxShortTextBytes (NegotiationProposal_NegotiationID v) \<and>
     terms_wire (NegotiationProposal_Terms v)"

record NegotiationCounterproposal =
  NegotiationCounterproposal_NegotiationID :: string
  NegotiationCounterproposal_Terms :: Terms

definition NegotiationCounterproposal_Schema :: string where
  "NegotiationCounterproposal_Schema = ''tos.messaging.payload.negotiation-counterproposal.v3''"

definition NegotiationCounterproposal_Validate :: "NegotiationCounterproposal \<Rightarrow> err option" where
  "NegotiationCounterproposal_Validate v =
     thenE (requireText ''negotiation identifier'' (NegotiationCounterproposal_NegotiationID v) MaxShortTextBytes)
     (Terms_Validate (NegotiationCounterproposal_Terms v))"

definition NegotiationCounterproposal_encode :: "NegotiationCounterproposal \<Rightarrow> bytes option" where
  "NegotiationCounterproposal_encode v = (case encodeTerms (NegotiationCounterproposal_Terms v) of
     None \<Rightarrow> None
   | Some b \<Rightarrow> Some (canon_Text (NegotiationCounterproposal_NegotiationID v) @ b))"

definition decodeNegotiationCounterproposal :: "Reader \<Rightarrow> NegotiationCounterproposal \<times> Reader" where
  "decodeNegotiationCounterproposal =
     bindR (r_Text MaxShortTextBytes) (\<lambda>negotiationID.
     bindR decodeTerms (\<lambda>terms.
     returnR \<lparr>NegotiationCounterproposal_NegotiationID = negotiationID, NegotiationCounterproposal_Terms = terms\<rparr>))"

definition NegotiationCounterproposal_wire :: "NegotiationCounterproposal \<Rightarrow> bool" where
  "NegotiationCounterproposal_wire v \<longleftrightarrow> fits_text MaxShortTextBytes (NegotiationCounterproposal_NegotiationID v) \<and>
     terms_wire (NegotiationCounterproposal_Terms v)"

record NegotiationWithdraw =
  NegotiationWithdraw_NegotiationID :: string
  NegotiationWithdraw_Reason :: string

definition NegotiationWithdraw_Schema :: string where
  "NegotiationWithdraw_Schema = ''tos.messaging.payload.negotiation-withdraw.v1''"

definition NegotiationWithdraw_Validate :: "NegotiationWithdraw \<Rightarrow> err option" where
  "NegotiationWithdraw_Validate v =
     thenE (requireText ''negotiation identifier'' (NegotiationWithdraw_NegotiationID v) MaxShortTextBytes)
     (requireText ''reason'' (NegotiationWithdraw_Reason v) MaxShortTextBytes)"

definition NegotiationWithdraw_encode :: "NegotiationWithdraw \<Rightarrow> bytes" where
  "NegotiationWithdraw_encode v = canon_Text (NegotiationWithdraw_NegotiationID v) @
     canon_Text (NegotiationWithdraw_Reason v)"

definition decodeNegotiationWithdraw :: "Reader \<Rightarrow> NegotiationWithdraw \<times> Reader" where
  "decodeNegotiationWithdraw =
     bindR (r_Text MaxShortTextBytes) (\<lambda>negotiationID.
     bindR (r_Text MaxShortTextBytes) (\<lambda>reason.
     returnR \<lparr>NegotiationWithdraw_NegotiationID = negotiationID, NegotiationWithdraw_Reason = reason\<rparr>))"

definition NegotiationWithdraw_wire :: "NegotiationWithdraw \<Rightarrow> bool" where
  "NegotiationWithdraw_wire v \<longleftrightarrow> fits_text MaxShortTextBytes (NegotiationWithdraw_NegotiationID v) \<and>
     fits_text MaxShortTextBytes (NegotiationWithdraw_Reason v)"

record NegotiationIntentAccept =
  NegotiationIntentAccept_NegotiationID :: string
  NegotiationIntentAccept_Terms :: Terms

definition NegotiationIntentAccept_Schema :: string where
  "NegotiationIntentAccept_Schema = ''tos.messaging.payload.negotiation-intent-accept.v3''"

definition NegotiationIntentAccept_Validate :: "NegotiationIntentAccept \<Rightarrow> err option" where
  "NegotiationIntentAccept_Validate v =
     thenE (requireText ''negotiation identifier'' (NegotiationIntentAccept_NegotiationID v) MaxShortTextBytes)
     (Terms_Validate (NegotiationIntentAccept_Terms v))"

definition NegotiationIntentAccept_encode :: "NegotiationIntentAccept \<Rightarrow> bytes option" where
  "NegotiationIntentAccept_encode v = (case encodeTerms (NegotiationIntentAccept_Terms v) of
     None \<Rightarrow> None
   | Some b \<Rightarrow> Some (canon_Text (NegotiationIntentAccept_NegotiationID v) @ b))"

definition decodeNegotiationIntentAccept :: "Reader \<Rightarrow> NegotiationIntentAccept \<times> Reader" where
  "decodeNegotiationIntentAccept =
     bindR (r_Text MaxShortTextBytes) (\<lambda>negotiationID.
     bindR decodeTerms (\<lambda>terms.
     returnR \<lparr>NegotiationIntentAccept_NegotiationID = negotiationID, NegotiationIntentAccept_Terms = terms\<rparr>))"

definition NegotiationIntentAccept_wire :: "NegotiationIntentAccept \<Rightarrow> bool" where
  "NegotiationIntentAccept_wire v \<longleftrightarrow> fits_text MaxShortTextBytes (NegotiationIntentAccept_NegotiationID v) \<and>
     terms_wire (NegotiationIntentAccept_Terms v)"

record NegotiationIntentReject =
  NegotiationIntentReject_NegotiationID :: string
  NegotiationIntentReject_Reason :: string

definition NegotiationIntentReject_Schema :: string where
  "NegotiationIntentReject_Schema = ''tos.messaging.payload.negotiation-intent-reject.v1''"

definition NegotiationIntentReject_Validate :: "NegotiationIntentReject \<Rightarrow> err option" where
  "NegotiationIntentReject_Validate v =
     thenE (requireText ''negotiation identifier'' (NegotiationIntentReject_NegotiationID v) MaxShortTextBytes)
     (requireText ''reason'' (NegotiationIntentReject_Reason v) MaxShortTextBytes)"

definition NegotiationIntentReject_encode :: "NegotiationIntentReject \<Rightarrow> bytes" where
  "NegotiationIntentReject_encode v = canon_Text (NegotiationIntentReject_NegotiationID v) @
     canon_Text (NegotiationIntentReject_Reason v)"

definition decodeNegotiationIntentReject :: "Reader \<Rightarrow> NegotiationIntentReject \<times> Reader" where
  "decodeNegotiationIntentReject =
     bindR (r_Text MaxShortTextBytes) (\<lambda>negotiationID.
     bindR (r_Text MaxShortTextBytes) (\<lambda>reason.
     returnR \<lparr>NegotiationIntentReject_NegotiationID = negotiationID, NegotiationIntentReject_Reason = reason\<rparr>))"

definition NegotiationIntentReject_wire :: "NegotiationIntentReject \<Rightarrow> bool" where
  "NegotiationIntentReject_wire v \<longleftrightarrow> fits_text MaxShortTextBytes (NegotiationIntentReject_NegotiationID v) \<and>
     fits_text MaxShortTextBytes (NegotiationIntentReject_Reason v)"

section \<open>Readers\<close>

lemma terms_reader: "field_reader terms_bytes terms_wire decodeTerms"
  unfolding terms_bytes_def [abs_def] decodeTerms_def
  by (rule field_reader_cong, (rule parses_rules)+) (auto simp: terms_wire_def)

lemmas last_terms = parses_last [OF terms_reader]

lemma encodeTerms_eq:
  "encodeTerms t = Some b \<longleftrightarrow> hex64 (nw_GenesisRootHash (as_Network (m_Asset (t_Price t)))) \<and>
     hex64 (nw_GenesisFileHash (as_Network (m_Asset (t_Price t)))) \<and> b = terms_bytes t"
  by (auto simp: encodeTerms_def terms_bytes_def Let_def canon_MustHash32_eq_Some canon_MustHash32_ok split: option.splits)


lemma hex64_fits: "hex64 v \<Longrightarrow> 64 \<le> m \<Longrightarrow> m < 2 ^ 32 \<Longrightarrow> fits_text m v"
  by (rule fits_ascii) (auto simp: hex64_def list_all_iff ascii_hex)

lemma atomic_fits:
  assumes "atomicPattern v" and "78 \<le> m" and "m < 2 ^ 32"
  shows "fits_text m v"
  using assms
  by (intro fits_ascii)
    (auto simp: atomicPattern_def is_digit_def byte_val_def list_all_iff split: list.splits)

lemma commitment_fits:
  assumes "\<not> bad_commitment v" and "80 \<le> m" and "m < 2 ^ 32"
  shows "fits_text m v"
  using assms prefixed_hex64_fits [of "''sha256:''" v m] prefixed_hex64_fits [of "''tvm-cell-sha256:''" v m]
  by (auto simp: bad_commitment_def digestPattern_def byte_val_def)

lemma code_hash_fits: "codeHashRegexp v \<Longrightarrow> 80 \<le> m \<Longrightarrow> m < 2 ^ 32 \<Longrightarrow> fits_text m v"
  using prefixed_hex64_fits [of "''tvm-cell-sha256:''" v m] by (simp add: codeHashRegexp_def byte_val_def)

lemma utf8_fits: "utf8_valid v \<Longrightarrow> int (length v) \<le> m \<Longrightarrow> m < 2 ^ 32 \<Longrightarrow> fits_text m v"
  by (simp add: fits_text_def fits_def)

lemma class_fits: "capabilityClassPattern v \<Longrightarrow> int (length v) \<le> m \<Longrightarrow> m < 2 ^ 32 \<Longrightarrow> fits_text m v"
  using protocol_fits [of v m] by (simp add: capabilityClassPattern_def protocolPattern_def)

lemma Terms_fits:
  assumes "Terms_Validate t = None" and "terms_fit t"
  shows "terms_wire t"
  using assms
  unfolding Terms_Validate_None Money_Validate_None Asset_Validate_None Network_Validate_None terms_wire_def terms_fit_def bounds
  by (simp add: fits_ids hex64_fits atomic_fits commitment_fits code_hash_fits class_fits utf8_fits)

lemma presenceStates_fit: "v \<in> set presenceStates \<Longrightarrow> fits_text 512 v"
  by (auto simp: presenceStates_def byte_val_def intro!: fits_ascii)

lemma taskOutcomes_fit: "v \<in> set taskOutcomes \<Longrightarrow> fits_text 512 v"
  by (auto simp: taskOutcomes_def byte_val_def intro!: fits_ascii)

lemma Text_reader: "field_reader Text_encode (Text_wire) (decodeText)"
  unfolding Text_encode_def [abs_def] decodeText_def
  by (rule field_reader_cong, (rule parses_rules)+) (auto simp: Text_wire_def)

lemma Text_fits: "Text_Validate v = None \<Longrightarrow> Text_wire v"
  unfolding Text_Validate_def Text_wire_def bounds
  by (auto simp: checked  intro: fitting split: if_splits)

lemma ConversationInvite_reader: "field_reader ConversationInvite_encode (ConversationInvite_wire) (decodeConversationInvite)"
  unfolding ConversationInvite_encode_def [abs_def] decodeConversationInvite_def
  by (rule field_reader_cong, (rule parses_rules)+) (auto simp: ConversationInvite_wire_def)

lemma ConversationInvite_fits: "ConversationInvite_Validate v = None \<Longrightarrow> ConversationInvite_wire v"
  unfolding ConversationInvite_Validate_def ConversationInvite_wire_def bounds
  by (auto simp: checked  intro: fitting split: if_splits)

lemma ConversationAccept_reader: "field_reader ConversationAccept_encode (ConversationAccept_wire) (decodeConversationAccept)"
  unfolding ConversationAccept_encode_def [abs_def] decodeConversationAccept_def
  by (rule field_reader_cong, (rule parses_rules)+) (auto simp: ConversationAccept_wire_def)

lemma ConversationAccept_fits: "ConversationAccept_Validate v = None \<Longrightarrow> ConversationAccept_wire v"
  unfolding ConversationAccept_Validate_def ConversationAccept_wire_def bounds
  by (auto simp: checked  intro: fitting split: if_splits)

lemma PresenceHint_reader: "field_reader PresenceHint_encode (PresenceHint_wire) (decodePresenceHint)"
  unfolding PresenceHint_encode_def [abs_def] decodePresenceHint_def
  by (rule field_reader_cong, (rule parses_rules)+) (auto simp: PresenceHint_wire_def)

lemma PresenceHint_fits: "PresenceHint_Validate v = None \<Longrightarrow> PresenceHint_wire v"
  unfolding PresenceHint_Validate_def PresenceHint_wire_def bounds
  by (auto simp: checked  intro: fitting presenceStates_fit split: if_splits)

lemma TaskRequest_reader: "field_reader TaskRequest_encode (TaskRequest_wire) (decodeTaskRequest)"
  unfolding TaskRequest_encode_def [abs_def] decodeTaskRequest_def
  by (rule field_reader_cong, (rule parses_rules)+) (auto simp: TaskRequest_wire_def)

lemma TaskRequest_fits: "TaskRequest_Validate v = None \<Longrightarrow> TaskRequest_wire v"
  unfolding TaskRequest_Validate_def TaskRequest_wire_def bounds
  by (auto simp: checked  intro: fitting split: if_splits)

lemma TaskProgress_reader: "field_reader TaskProgress_encode (TaskProgress_wire) (decodeTaskProgress)"
  unfolding TaskProgress_encode_def [abs_def] decodeTaskProgress_def
  by (rule field_reader_cong, (rule parses_rules)+) (auto simp: TaskProgress_wire_def)

lemma TaskProgress_fits: "TaskProgress_Validate v = None \<Longrightarrow> int (length (TaskProgress_Stage v)) \<le> 512 \<Longrightarrow> TaskProgress_wire v"
  unfolding TaskProgress_Validate_def TaskProgress_wire_def bounds
  by (auto simp: checked  intro: fitting split: if_splits)

lemma TaskResult_reader: "field_reader TaskResult_encode (TaskResult_wire) (decodeTaskResult)"
  unfolding TaskResult_encode_def [abs_def] decodeTaskResult_def
  by (rule field_reader_cong, (rule parses_rules)+) (auto simp: TaskResult_wire_def)

lemma TaskResult_fits: "TaskResult_Validate v = None \<Longrightarrow> TaskResult_wire v"
  unfolding TaskResult_Validate_def TaskResult_wire_def bounds
  by (auto simp: checked  intro: fitting taskOutcomes_fit split: if_splits)

lemma TaskStatusRequest_reader: "field_reader TaskStatusRequest_encode (TaskStatusRequest_wire) (decodeTaskStatusRequest)"
  unfolding TaskStatusRequest_encode_def [abs_def] decodeTaskStatusRequest_def
  by (rule field_reader_cong, (rule parses_rules)+) (auto simp: TaskStatusRequest_wire_def)

lemma TaskStatusRequest_fits: "TaskStatusRequest_Validate v = None \<Longrightarrow> TaskStatusRequest_wire v"
  unfolding TaskStatusRequest_Validate_def TaskStatusRequest_wire_def bounds
  by (auto simp: checked  intro: fitting split: if_splits)

lemma NegotiationProposal_reader: "field_reader (\<lambda>v. canon_Text (NegotiationProposal_NegotiationID v) @ terms_bytes (NegotiationProposal_Terms v)) NegotiationProposal_wire decodeNegotiationProposal"
  unfolding decodeNegotiationProposal_def
  by (rule field_reader_cong, (rule parses_rules last_terms)+) (auto simp: NegotiationProposal_wire_def)

lemma NegotiationProposal_fits: "NegotiationProposal_Validate v = None \<Longrightarrow> terms_fit (NegotiationProposal_Terms v) \<Longrightarrow> NegotiationProposal_wire v"
  by (auto simp: NegotiationProposal_Validate_def NegotiationProposal_wire_def bounds intro: fitting Terms_fits)

lemma NegotiationCounterproposal_reader: "field_reader (\<lambda>v. canon_Text (NegotiationCounterproposal_NegotiationID v) @ terms_bytes (NegotiationCounterproposal_Terms v)) NegotiationCounterproposal_wire decodeNegotiationCounterproposal"
  unfolding decodeNegotiationCounterproposal_def
  by (rule field_reader_cong, (rule parses_rules last_terms)+) (auto simp: NegotiationCounterproposal_wire_def)

lemma NegotiationCounterproposal_fits: "NegotiationCounterproposal_Validate v = None \<Longrightarrow> terms_fit (NegotiationCounterproposal_Terms v) \<Longrightarrow> NegotiationCounterproposal_wire v"
  by (auto simp: NegotiationCounterproposal_Validate_def NegotiationCounterproposal_wire_def bounds intro: fitting Terms_fits)

lemma NegotiationWithdraw_reader: "field_reader NegotiationWithdraw_encode (NegotiationWithdraw_wire) (decodeNegotiationWithdraw)"
  unfolding NegotiationWithdraw_encode_def [abs_def] decodeNegotiationWithdraw_def
  by (rule field_reader_cong, (rule parses_rules)+) (auto simp: NegotiationWithdraw_wire_def)

lemma NegotiationWithdraw_fits: "NegotiationWithdraw_Validate v = None \<Longrightarrow> NegotiationWithdraw_wire v"
  unfolding NegotiationWithdraw_Validate_def NegotiationWithdraw_wire_def bounds
  by (auto simp: checked  intro: fitting split: if_splits)

lemma NegotiationIntentAccept_reader: "field_reader (\<lambda>v. canon_Text (NegotiationIntentAccept_NegotiationID v) @ terms_bytes (NegotiationIntentAccept_Terms v)) NegotiationIntentAccept_wire decodeNegotiationIntentAccept"
  unfolding decodeNegotiationIntentAccept_def
  by (rule field_reader_cong, (rule parses_rules last_terms)+) (auto simp: NegotiationIntentAccept_wire_def)

lemma NegotiationIntentAccept_fits: "NegotiationIntentAccept_Validate v = None \<Longrightarrow> terms_fit (NegotiationIntentAccept_Terms v) \<Longrightarrow> NegotiationIntentAccept_wire v"
  by (auto simp: NegotiationIntentAccept_Validate_def NegotiationIntentAccept_wire_def bounds intro: fitting Terms_fits)

lemma NegotiationIntentReject_reader: "field_reader NegotiationIntentReject_encode (NegotiationIntentReject_wire) (decodeNegotiationIntentReject)"
  unfolding NegotiationIntentReject_encode_def [abs_def] decodeNegotiationIntentReject_def
  by (rule field_reader_cong, (rule parses_rules)+) (auto simp: NegotiationIntentReject_wire_def)

lemma NegotiationIntentReject_fits: "NegotiationIntentReject_Validate v = None \<Longrightarrow> NegotiationIntentReject_wire v"
  unfolding NegotiationIntentReject_Validate_def NegotiationIntentReject_wire_def bounds
  by (auto simp: checked  intro: fitting split: if_splits)

end
