(* ===== verification/PayloadMore.thy ===== *)
theory PayloadMore
  imports PayloadKinds
begin

text \<open>
  The bodies of \<open>pkg/payload/kinds_more.go\<close> other than the encrypted attachment, of
  \<open>device_history.go\<close> and of \<open>agent_gift.go\<close>: approvals, carried foreign messages, artifacts,
  references to finalized state, acknowledgements, rooms, history segments and gifts.
  The types that only embed \<open>Foreign\<close> or \<open>ChainReference\<close> share its record, encoder and
  reader, as they do in the source.
\<close>

section \<open>Approvals\<close>

record CounterpartyApprovalRequest =
  CounterpartyApprovalRequest_ApprovalID :: string
  CounterpartyApprovalRequest_Subject :: string
  CounterpartyApprovalRequest_Detail :: string

definition CounterpartyApprovalRequest_Schema :: string where
  "CounterpartyApprovalRequest_Schema = ''tos.messaging.payload.counterparty-approval-request.v1''"

definition CounterpartyApprovalRequest_Validate :: "CounterpartyApprovalRequest \<Rightarrow> err option" where
  "CounterpartyApprovalRequest_Validate v =
     thenE (requireText ''approval identifier'' (CounterpartyApprovalRequest_ApprovalID v) MaxShortTextBytes)
     (thenE (requireMatch ''subject'' (CounterpartyApprovalRequest_Subject v) tokenPattern)
     (optionalText ''detail'' (CounterpartyApprovalRequest_Detail v) MaxShortTextBytes))"

definition CounterpartyApprovalRequest_encode :: "CounterpartyApprovalRequest \<Rightarrow> bytes" where
  "CounterpartyApprovalRequest_encode v = canon_Text (CounterpartyApprovalRequest_ApprovalID v) @
     canon_Text (CounterpartyApprovalRequest_Subject v) @
     canon_Text (CounterpartyApprovalRequest_Detail v)"

definition decodeCounterpartyApprovalRequest :: "Reader \<Rightarrow> CounterpartyApprovalRequest \<times> Reader" where
  "decodeCounterpartyApprovalRequest =
     bindR (r_Text MaxShortTextBytes) (\<lambda>approvalID.
     bindR (r_Text MaxShortTextBytes) (\<lambda>subject.
     bindR (r_Text MaxShortTextBytes) (\<lambda>detail.
     returnR \<lparr>CounterpartyApprovalRequest_ApprovalID = approvalID, CounterpartyApprovalRequest_Subject = subject, CounterpartyApprovalRequest_Detail = detail\<rparr>)))"

definition CounterpartyApprovalRequest_wire :: "CounterpartyApprovalRequest \<Rightarrow> bool" where
  "CounterpartyApprovalRequest_wire v \<longleftrightarrow> fits_text MaxShortTextBytes (CounterpartyApprovalRequest_ApprovalID v) \<and>
     fits_text MaxShortTextBytes (CounterpartyApprovalRequest_Subject v) \<and>
     fits_text MaxShortTextBytes (CounterpartyApprovalRequest_Detail v)"

record CounterpartyApprovalGranted =
  CounterpartyApprovalGranted_ApprovalID :: string
  CounterpartyApprovalGranted_DecidedAtUnix :: u64

definition CounterpartyApprovalGranted_Schema :: string where
  "CounterpartyApprovalGranted_Schema = ''tos.messaging.payload.counterparty-approval-granted.v1''"

definition CounterpartyApprovalGranted_Validate :: "CounterpartyApprovalGranted \<Rightarrow> err option" where
  "CounterpartyApprovalGranted_Validate v =
     thenE (requireText ''approval identifier'' (CounterpartyApprovalGranted_ApprovalID v) MaxShortTextBytes)
     (requireTime ''decision time'' (CounterpartyApprovalGranted_DecidedAtUnix v))"

definition CounterpartyApprovalGranted_encode :: "CounterpartyApprovalGranted \<Rightarrow> bytes" where
  "CounterpartyApprovalGranted_encode v = canon_Text (CounterpartyApprovalGranted_ApprovalID v) @
     canon_Uint64 (CounterpartyApprovalGranted_DecidedAtUnix v)"

definition decodeCounterpartyApprovalGranted :: "Reader \<Rightarrow> CounterpartyApprovalGranted \<times> Reader" where
  "decodeCounterpartyApprovalGranted =
     bindR (r_Text MaxShortTextBytes) (\<lambda>approvalID.
     bindR r_Uint64 (\<lambda>decidedAtUnix.
     returnR \<lparr>CounterpartyApprovalGranted_ApprovalID = approvalID, CounterpartyApprovalGranted_DecidedAtUnix = decidedAtUnix\<rparr>))"

definition CounterpartyApprovalGranted_wire :: "CounterpartyApprovalGranted \<Rightarrow> bool" where
  "CounterpartyApprovalGranted_wire v \<longleftrightarrow> fits_text MaxShortTextBytes (CounterpartyApprovalGranted_ApprovalID v)"

record CounterpartyApprovalDenied =
  CounterpartyApprovalDenied_ApprovalID :: string
  CounterpartyApprovalDenied_DecidedAtUnix :: u64
  CounterpartyApprovalDenied_Reason :: string

definition CounterpartyApprovalDenied_Schema :: string where
  "CounterpartyApprovalDenied_Schema = ''tos.messaging.payload.counterparty-approval-denied.v1''"

definition CounterpartyApprovalDenied_Validate :: "CounterpartyApprovalDenied \<Rightarrow> err option" where
  "CounterpartyApprovalDenied_Validate v =
     thenE (requireText ''approval identifier'' (CounterpartyApprovalDenied_ApprovalID v) MaxShortTextBytes)
     (thenE (requireTime ''decision time'' (CounterpartyApprovalDenied_DecidedAtUnix v))
     (optionalText ''reason'' (CounterpartyApprovalDenied_Reason v) MaxShortTextBytes))"

definition CounterpartyApprovalDenied_encode :: "CounterpartyApprovalDenied \<Rightarrow> bytes" where
  "CounterpartyApprovalDenied_encode v = canon_Text (CounterpartyApprovalDenied_ApprovalID v) @
     canon_Uint64 (CounterpartyApprovalDenied_DecidedAtUnix v) @
     canon_Text (CounterpartyApprovalDenied_Reason v)"

definition decodeCounterpartyApprovalDenied :: "Reader \<Rightarrow> CounterpartyApprovalDenied \<times> Reader" where
  "decodeCounterpartyApprovalDenied =
     bindR (r_Text MaxShortTextBytes) (\<lambda>approvalID.
     bindR r_Uint64 (\<lambda>decidedAtUnix.
     bindR (r_Text MaxShortTextBytes) (\<lambda>reason.
     returnR \<lparr>CounterpartyApprovalDenied_ApprovalID = approvalID, CounterpartyApprovalDenied_DecidedAtUnix = decidedAtUnix, CounterpartyApprovalDenied_Reason = reason\<rparr>)))"

definition CounterpartyApprovalDenied_wire :: "CounterpartyApprovalDenied \<Rightarrow> bool" where
  "CounterpartyApprovalDenied_wire v \<longleftrightarrow> fits_text MaxShortTextBytes (CounterpartyApprovalDenied_ApprovalID v) \<and>
     fits_text MaxShortTextBytes (CounterpartyApprovalDenied_Reason v)"

record OwnerApprovalGrant =
  OwnerApprovalGrant_ApprovalID :: string
  OwnerApprovalGrant_EventID :: string
  OwnerApprovalGrant_DecidedAtUnix :: u64

definition OwnerApprovalGrant_Schema :: string where
  "OwnerApprovalGrant_Schema = ''tos.messaging.payload.owner-approval-grant.v1''"

definition OwnerApprovalGrant_Validate :: "OwnerApprovalGrant \<Rightarrow> err option" where
  "OwnerApprovalGrant_Validate v =
     thenE (requireText ''approval identifier'' (OwnerApprovalGrant_ApprovalID v) MaxShortTextBytes)
     (thenE (requireEvent ''approved event'' (OwnerApprovalGrant_EventID v))
     (requireTime ''decision time'' (OwnerApprovalGrant_DecidedAtUnix v)))"

definition OwnerApprovalGrant_encode :: "OwnerApprovalGrant \<Rightarrow> bytes" where
  "OwnerApprovalGrant_encode v = canon_Text (OwnerApprovalGrant_ApprovalID v) @
     canon_Text (OwnerApprovalGrant_EventID v) @
     canon_Uint64 (OwnerApprovalGrant_DecidedAtUnix v)"

definition decodeOwnerApprovalGrant :: "Reader \<Rightarrow> OwnerApprovalGrant \<times> Reader" where
  "decodeOwnerApprovalGrant =
     bindR (r_Text MaxShortTextBytes) (\<lambda>approvalID.
     bindR (r_Text MaxShortTextBytes) (\<lambda>eventID.
     bindR r_Uint64 (\<lambda>decidedAtUnix.
     returnR \<lparr>OwnerApprovalGrant_ApprovalID = approvalID, OwnerApprovalGrant_EventID = eventID, OwnerApprovalGrant_DecidedAtUnix = decidedAtUnix\<rparr>)))"

definition OwnerApprovalGrant_wire :: "OwnerApprovalGrant \<Rightarrow> bool" where
  "OwnerApprovalGrant_wire v \<longleftrightarrow> fits_text MaxShortTextBytes (OwnerApprovalGrant_ApprovalID v) \<and>
     fits_text MaxShortTextBytes (OwnerApprovalGrant_EventID v)"

record OwnerApprovalDeny =
  OwnerApprovalDeny_ApprovalID :: string
  OwnerApprovalDeny_EventID :: string
  OwnerApprovalDeny_DecidedAtUnix :: u64
  OwnerApprovalDeny_Reason :: string

definition OwnerApprovalDeny_Schema :: string where
  "OwnerApprovalDeny_Schema = ''tos.messaging.payload.owner-approval-deny.v1''"

definition OwnerApprovalDeny_Validate :: "OwnerApprovalDeny \<Rightarrow> err option" where
  "OwnerApprovalDeny_Validate v =
     thenE (requireText ''approval identifier'' (OwnerApprovalDeny_ApprovalID v) MaxShortTextBytes)
     (thenE (requireEvent ''refused event'' (OwnerApprovalDeny_EventID v))
     (thenE (requireTime ''decision time'' (OwnerApprovalDeny_DecidedAtUnix v))
     (optionalText ''reason'' (OwnerApprovalDeny_Reason v) MaxShortTextBytes)))"

definition OwnerApprovalDeny_encode :: "OwnerApprovalDeny \<Rightarrow> bytes" where
  "OwnerApprovalDeny_encode v = canon_Text (OwnerApprovalDeny_ApprovalID v) @
     canon_Text (OwnerApprovalDeny_EventID v) @
     canon_Uint64 (OwnerApprovalDeny_DecidedAtUnix v) @
     canon_Text (OwnerApprovalDeny_Reason v)"

definition decodeOwnerApprovalDeny :: "Reader \<Rightarrow> OwnerApprovalDeny \<times> Reader" where
  "decodeOwnerApprovalDeny =
     bindR (r_Text MaxShortTextBytes) (\<lambda>approvalID.
     bindR (r_Text MaxShortTextBytes) (\<lambda>eventID.
     bindR r_Uint64 (\<lambda>decidedAtUnix.
     bindR (r_Text MaxShortTextBytes) (\<lambda>reason.
     returnR \<lparr>OwnerApprovalDeny_ApprovalID = approvalID, OwnerApprovalDeny_EventID = eventID, OwnerApprovalDeny_DecidedAtUnix = decidedAtUnix, OwnerApprovalDeny_Reason = reason\<rparr>))))"

definition OwnerApprovalDeny_wire :: "OwnerApprovalDeny \<Rightarrow> bool" where
  "OwnerApprovalDeny_wire v \<longleftrightarrow> fits_text MaxShortTextBytes (OwnerApprovalDeny_ApprovalID v) \<and>
     fits_text MaxShortTextBytes (OwnerApprovalDeny_EventID v) \<and>
     fits_text MaxShortTextBytes (OwnerApprovalDeny_Reason v)"

section \<open>Messages of other protocols\<close>

record Foreign =
  Foreign_Protocol :: string
  Foreign_Version :: string
  Foreign_Body :: bytes

definition Foreign_validate :: "Foreign \<Rightarrow> err option" where
  "Foreign_validate v =
     thenE (requireMatch ''protocol'' (Foreign_Protocol v) protocolPattern)
     (thenE (requireText ''protocol version'' (Foreign_Version v) MaxShortTextBytes)
     (thenE (failIf (Foreign_Body v = []) ''a carried message has no body'')
     (failIf (int (length (Foreign_Body v)) > MaxOpaqueBytes) ''a carried message exceeds its bound'')))"

definition Foreign_encode :: "Foreign \<Rightarrow> bytes" where
  "Foreign_encode v = canon_Text (Foreign_Protocol v) @
     canon_Text (Foreign_Version v) @
     canon_Bytes (Foreign_Body v)"

definition decodeForeign :: "Reader \<Rightarrow> Foreign \<times> Reader" where
  "decodeForeign =
     bindR (r_Text MaxShortTextBytes) (\<lambda>protocol.
     bindR (r_Text MaxShortTextBytes) (\<lambda>version.
     bindR (r_Bytes MaxOpaqueBytes) (\<lambda>body.
     returnR \<lparr>Foreign_Protocol = protocol, Foreign_Version = version, Foreign_Body = body\<rparr>)))"

definition Foreign_wire :: "Foreign \<Rightarrow> bool" where
  "Foreign_wire v \<longleftrightarrow> fits_text MaxShortTextBytes (Foreign_Protocol v) \<and>
     fits_text MaxShortTextBytes (Foreign_Version v) \<and>
     fits MaxOpaqueBytes (Foreign_Body v)"

definition A2AMessage_Schema :: string where
  "A2AMessage_Schema = ''tos.messaging.payload.a2a-message.v1''"

definition A2AMessage_Validate :: "Foreign \<Rightarrow> err option" where
  "A2AMessage_Validate v =
     thenE (failIf (Foreign_Protocol v \<noteq> ''a2a'') ''invalid A2A carriage profile'')
     (Foreign_validate v)"

definition decodeA2AMessage :: "Reader \<Rightarrow> Foreign \<times> Reader" where
  "decodeA2AMessage = decodeForeign"

definition MCPCall_Schema :: string where
  "MCPCall_Schema = ''tos.messaging.payload.mcp-call.v1''"

definition MCPCall_Validate :: "Foreign \<Rightarrow> err option" where
  "MCPCall_Validate v =
     thenE (failIf (Foreign_Protocol v \<noteq> ''mcp'') ''invalid MCP call carriage profile'')
     (Foreign_validate v)"

definition decodeMCPCall :: "Reader \<Rightarrow> Foreign \<times> Reader" where
  "decodeMCPCall = decodeForeign"

definition MCPResult_Schema :: string where
  "MCPResult_Schema = ''tos.messaging.payload.mcp-result.v1''"

definition MCPResult_Validate :: "Foreign \<Rightarrow> err option" where
  "MCPResult_Validate v =
     thenE (failIf (Foreign_Protocol v \<noteq> ''mcp'') ''invalid MCP result carriage profile'')
     (Foreign_validate v)"

definition decodeMCPResult :: "Reader \<Rightarrow> Foreign \<times> Reader" where
  "decodeMCPResult = decodeForeign"

definition AgentPacketMessage_Schema :: string where
  "AgentPacketMessage_Schema = ''tos.messaging.payload.agent-packet.v1''"

definition AgentPacketMessage_Validate :: "Foreign \<Rightarrow> err option" where
  "AgentPacketMessage_Validate v =
     thenE (failIf (Foreign_Protocol v \<noteq> ''agentpacket'' \<or> Foreign_Version v \<noteq> ''1'') ''invalid Agent Packet carriage profile'')
     (Foreign_validate v)"

definition decodeAgentPacketMessage :: "Reader \<Rightarrow> Foreign \<times> Reader" where
  "decodeAgentPacketMessage = decodeForeign"

section \<open>Artifacts\<close>

record ArtifactOffer =
  ArtifactOffer_ArtifactDigest :: string
  ArtifactOffer_MediaType :: string
  ArtifactOffer_SizeBytes :: u64
  ArtifactOffer_Description :: string

definition ArtifactOffer_Schema :: string where
  "ArtifactOffer_Schema = ''tos.messaging.payload.artifact-offer.v1''"

definition ArtifactOffer_Validate :: "ArtifactOffer \<Rightarrow> err option" where
  "ArtifactOffer_Validate v =
     thenE (requireDigest ''artifact digest'' (ArtifactOffer_ArtifactDigest v))
     (thenE (requireText ''media type'' (ArtifactOffer_MediaType v) MaxShortTextBytes)
     (thenE (failIf (ArtifactOffer_SizeBytes v = 0) ''an offered artifact has no size'')
     (optionalText ''description'' (ArtifactOffer_Description v) MaxShortTextBytes)))"

definition ArtifactOffer_encode :: "ArtifactOffer \<Rightarrow> bytes" where
  "ArtifactOffer_encode v = canon_Text (ArtifactOffer_ArtifactDigest v) @
     canon_Text (ArtifactOffer_MediaType v) @
     canon_Uint64 (ArtifactOffer_SizeBytes v) @
     canon_Text (ArtifactOffer_Description v)"

definition decodeArtifactOffer :: "Reader \<Rightarrow> ArtifactOffer \<times> Reader" where
  "decodeArtifactOffer =
     bindR (r_Text MaxDigestBytes) (\<lambda>artifactDigest.
     bindR (r_Text MaxShortTextBytes) (\<lambda>mediaType.
     bindR r_Uint64 (\<lambda>sizeBytes.
     bindR (r_Text MaxShortTextBytes) (\<lambda>description.
     returnR \<lparr>ArtifactOffer_ArtifactDigest = artifactDigest, ArtifactOffer_MediaType = mediaType, ArtifactOffer_SizeBytes = sizeBytes, ArtifactOffer_Description = description\<rparr>))))"

definition ArtifactOffer_wire :: "ArtifactOffer \<Rightarrow> bool" where
  "ArtifactOffer_wire v \<longleftrightarrow> fits_text MaxDigestBytes (ArtifactOffer_ArtifactDigest v) \<and>
     fits_text MaxShortTextBytes (ArtifactOffer_MediaType v) \<and>
     fits_text MaxShortTextBytes (ArtifactOffer_Description v)"

record ArtifactReference =
  ArtifactReference_ArtifactDigest :: string
  ArtifactReference_Locator :: string

definition ArtifactReference_Schema :: string where
  "ArtifactReference_Schema = ''tos.messaging.payload.artifact-reference.v1''"

definition ArtifactReference_Validate :: "ArtifactReference \<Rightarrow> err option" where
  "ArtifactReference_Validate v =
     thenE (requireDigest ''artifact digest'' (ArtifactReference_ArtifactDigest v))
     (requireText ''locator'' (ArtifactReference_Locator v) MaxShortTextBytes)"

definition ArtifactReference_encode :: "ArtifactReference \<Rightarrow> bytes" where
  "ArtifactReference_encode v = canon_Text (ArtifactReference_ArtifactDigest v) @
     canon_Text (ArtifactReference_Locator v)"

definition decodeArtifactReference :: "Reader \<Rightarrow> ArtifactReference \<times> Reader" where
  "decodeArtifactReference =
     bindR (r_Text MaxDigestBytes) (\<lambda>artifactDigest.
     bindR (r_Text MaxShortTextBytes) (\<lambda>locator.
     returnR \<lparr>ArtifactReference_ArtifactDigest = artifactDigest, ArtifactReference_Locator = locator\<rparr>))"

definition ArtifactReference_wire :: "ArtifactReference \<Rightarrow> bool" where
  "ArtifactReference_wire v \<longleftrightarrow> fits_text MaxDigestBytes (ArtifactReference_ArtifactDigest v) \<and>
     fits_text MaxShortTextBytes (ArtifactReference_Locator v)"

section \<open>References to finalized state\<close>

record ChainReference =
  ChainReference_Account :: string
  ChainReference_StateDigest :: string

definition ChainReference_validate :: "ChainReference \<Rightarrow> err option" where
  "ChainReference_validate v =
     thenE (requireText ''account'' (ChainReference_Account v) MaxShortTextBytes)
     (requireDigest ''state digest'' (ChainReference_StateDigest v))"

definition ChainReference_encode :: "ChainReference \<Rightarrow> bytes" where
  "ChainReference_encode v = canon_Text (ChainReference_Account v) @
     canon_Text (ChainReference_StateDigest v)"

definition decodeChainReference :: "Reader \<Rightarrow> ChainReference \<times> Reader" where
  "decodeChainReference =
     bindR (r_Text MaxShortTextBytes) (\<lambda>account.
     bindR (r_Text MaxDigestBytes) (\<lambda>stateDigest.
     returnR \<lparr>ChainReference_Account = account, ChainReference_StateDigest = stateDigest\<rparr>))"

definition ChainReference_wire :: "ChainReference \<Rightarrow> bool" where
  "ChainReference_wire v \<longleftrightarrow> fits_text MaxShortTextBytes (ChainReference_Account v) \<and>
     fits_text MaxDigestBytes (ChainReference_StateDigest v)"

definition QuoteReference_Schema :: string where
  "QuoteReference_Schema = ''tos.messaging.payload.quote-reference.v1''"

definition QuoteReference_Validate :: "ChainReference \<Rightarrow> err option" where
  "QuoteReference_Validate v =
     ChainReference_validate v"

definition decodeQuoteReference :: "Reader \<Rightarrow> ChainReference \<times> Reader" where
  "decodeQuoteReference = decodeChainReference"

definition EscrowReference_Schema :: string where
  "EscrowReference_Schema = ''tos.messaging.payload.escrow-reference.v1''"

definition EscrowReference_Validate :: "ChainReference \<Rightarrow> err option" where
  "EscrowReference_Validate v =
     ChainReference_validate v"

definition decodeEscrowReference :: "Reader \<Rightarrow> ChainReference \<times> Reader" where
  "decodeEscrowReference = decodeChainReference"

definition ReceiptReference_Schema :: string where
  "ReceiptReference_Schema = ''tos.messaging.payload.receipt-reference.v1''"

definition ReceiptReference_Validate :: "ChainReference \<Rightarrow> err option" where
  "ReceiptReference_Validate v =
     ChainReference_validate v"

definition decodeReceiptReference :: "Reader \<Rightarrow> ChainReference \<times> Reader" where
  "decodeReceiptReference = decodeChainReference"

section \<open>Acknowledgements\<close>

record DeliveryAck =
  DeliveryAck_EventID :: string
  DeliveryAck_ReceivedAtUnix :: u64

definition DeliveryAck_Schema :: string where
  "DeliveryAck_Schema = ''tos.messaging.payload.delivery-ack.v1''"

definition DeliveryAck_Validate :: "DeliveryAck \<Rightarrow> err option" where
  "DeliveryAck_Validate v =
     thenE (requireEvent ''acknowledged event'' (DeliveryAck_EventID v))
     (requireTime ''arrival time'' (DeliveryAck_ReceivedAtUnix v))"

definition DeliveryAck_encode :: "DeliveryAck \<Rightarrow> bytes" where
  "DeliveryAck_encode v = canon_Text (DeliveryAck_EventID v) @
     canon_Uint64 (DeliveryAck_ReceivedAtUnix v)"

definition decodeDeliveryAck :: "Reader \<Rightarrow> DeliveryAck \<times> Reader" where
  "decodeDeliveryAck =
     bindR (r_Text MaxShortTextBytes) (\<lambda>eventID.
     bindR r_Uint64 (\<lambda>receivedAtUnix.
     returnR \<lparr>DeliveryAck_EventID = eventID, DeliveryAck_ReceivedAtUnix = receivedAtUnix\<rparr>))"

definition DeliveryAck_wire :: "DeliveryAck \<Rightarrow> bool" where
  "DeliveryAck_wire v \<longleftrightarrow> fits_text MaxShortTextBytes (DeliveryAck_EventID v)"

definition applicationOutcomes :: "string list" where
  "applicationOutcomes = [''applied'', ''rejected'', ''held-for-approval'']"

record ApplicationAck =
  ApplicationAck_EventID :: string
  ApplicationAck_Outcome :: string
  ApplicationAck_DecidedAtUnix :: u64
  ApplicationAck_Reason :: string

definition ApplicationAck_Schema :: string where
  "ApplicationAck_Schema = ''tos.messaging.payload.application-ack.v1''"

definition ApplicationAck_Validate :: "ApplicationAck \<Rightarrow> err option" where
  "ApplicationAck_Validate v =
     thenE (requireEvent ''acknowledged event'' (ApplicationAck_EventID v))
     (thenE (requireMember ''application outcome'' (ApplicationAck_Outcome v) applicationOutcomes)
     (thenE (requireTime ''decision time'' (ApplicationAck_DecidedAtUnix v))
     (if ApplicationAck_Outcome v = ''rejected''
      then requireText ''reason'' (ApplicationAck_Reason v) MaxShortTextBytes
      else optionalText ''reason'' (ApplicationAck_Reason v) MaxShortTextBytes)))"

definition ApplicationAck_encode :: "ApplicationAck \<Rightarrow> bytes" where
  "ApplicationAck_encode v = canon_Text (ApplicationAck_EventID v) @
     canon_Text (ApplicationAck_Outcome v) @
     canon_Uint64 (ApplicationAck_DecidedAtUnix v) @
     canon_Text (ApplicationAck_Reason v)"

definition decodeApplicationAck :: "Reader \<Rightarrow> ApplicationAck \<times> Reader" where
  "decodeApplicationAck =
     bindR (r_Text MaxShortTextBytes) (\<lambda>eventID.
     bindR (r_Text MaxShortTextBytes) (\<lambda>outcome.
     bindR r_Uint64 (\<lambda>decidedAtUnix.
     bindR (r_Text MaxShortTextBytes) (\<lambda>reason.
     returnR \<lparr>ApplicationAck_EventID = eventID, ApplicationAck_Outcome = outcome, ApplicationAck_DecidedAtUnix = decidedAtUnix, ApplicationAck_Reason = reason\<rparr>))))"

definition ApplicationAck_wire :: "ApplicationAck \<Rightarrow> bool" where
  "ApplicationAck_wire v \<longleftrightarrow> fits_text MaxShortTextBytes (ApplicationAck_EventID v) \<and>
     fits_text MaxShortTextBytes (ApplicationAck_Outcome v) \<and>
     fits_text MaxShortTextBytes (ApplicationAck_Reason v)"

record ReadAck =
  ReadAck_EventID :: string
  ReadAck_ReadAtUnix :: u64

definition ReadAck_Schema :: string where
  "ReadAck_Schema = ''tos.messaging.payload.read-ack.v1''"

definition ReadAck_Validate :: "ReadAck \<Rightarrow> err option" where
  "ReadAck_Validate v =
     thenE (requireEvent ''read event'' (ReadAck_EventID v))
     (requireTime ''read time'' (ReadAck_ReadAtUnix v))"

definition ReadAck_encode :: "ReadAck \<Rightarrow> bytes" where
  "ReadAck_encode v = canon_Text (ReadAck_EventID v) @
     canon_Uint64 (ReadAck_ReadAtUnix v)"

definition decodeReadAck :: "Reader \<Rightarrow> ReadAck \<times> Reader" where
  "decodeReadAck =
     bindR (r_Text MaxShortTextBytes) (\<lambda>eventID.
     bindR r_Uint64 (\<lambda>readAtUnix.
     returnR \<lparr>ReadAck_EventID = eventID, ReadAck_ReadAtUnix = readAtUnix\<rparr>))"

definition ReadAck_wire :: "ReadAck \<Rightarrow> bool" where
  "ReadAck_wire v \<longleftrightarrow> fits_text MaxShortTextBytes (ReadAck_EventID v)"

section \<open>Rooms\<close>

record RoomInvite =
  RoomInvite_RoomID :: string
  RoomInvite_InviteeAgentID :: string
  RoomInvite_Purpose :: string
  RoomInvite_ExpiresAtUnix :: u64

definition RoomInvite_Schema :: string where
  "RoomInvite_Schema = ''tos.messaging.payload.room-invite.v1''"

definition RoomInvite_Validate :: "RoomInvite \<Rightarrow> err option" where
  "RoomInvite_Validate v =
     thenE (requireMatch ''room'' (RoomInvite_RoomID v) ids_Room)
     (thenE (requireMatch ''invitee'' (RoomInvite_InviteeAgentID v) ids_Agent)
     (thenE (requireText ''purpose'' (RoomInvite_Purpose v) MaxShortTextBytes)
     (requireTime ''invitation expiry'' (RoomInvite_ExpiresAtUnix v))))"

definition RoomInvite_encode :: "RoomInvite \<Rightarrow> bytes" where
  "RoomInvite_encode v = canon_Text (RoomInvite_RoomID v) @
     canon_Text (RoomInvite_InviteeAgentID v) @
     canon_Text (RoomInvite_Purpose v) @
     canon_Uint64 (RoomInvite_ExpiresAtUnix v)"

definition decodeRoomInvite :: "Reader \<Rightarrow> RoomInvite \<times> Reader" where
  "decodeRoomInvite =
     bindR (r_Text MaxShortTextBytes) (\<lambda>roomID.
     bindR (r_Text MaxShortTextBytes) (\<lambda>inviteeAgentID.
     bindR (r_Text MaxShortTextBytes) (\<lambda>purpose.
     bindR r_Uint64 (\<lambda>expiresAtUnix.
     returnR \<lparr>RoomInvite_RoomID = roomID, RoomInvite_InviteeAgentID = inviteeAgentID, RoomInvite_Purpose = purpose, RoomInvite_ExpiresAtUnix = expiresAtUnix\<rparr>))))"

definition RoomInvite_wire :: "RoomInvite \<Rightarrow> bool" where
  "RoomInvite_wire v \<longleftrightarrow> fits_text MaxShortTextBytes (RoomInvite_RoomID v) \<and>
     fits_text MaxShortTextBytes (RoomInvite_InviteeAgentID v) \<and>
     fits_text MaxShortTextBytes (RoomInvite_Purpose v)"

record RoomMembershipCommit =
  RoomMembershipCommit_RoomID :: string
  RoomMembershipCommit_Epoch :: u64
  RoomMembershipCommit_MembershipDigest :: string
  RoomMembershipCommit_MemberCount :: u32

definition RoomMembershipCommit_Schema :: string where
  "RoomMembershipCommit_Schema = ''tos.messaging.payload.room-membership-commit.v1''"

definition RoomMembershipCommit_Validate :: "RoomMembershipCommit \<Rightarrow> err option" where
  "RoomMembershipCommit_Validate v =
     thenE (requireMatch ''room'' (RoomMembershipCommit_RoomID v) ids_Room)
     (thenE (failIf (RoomMembershipCommit_Epoch v = 0) ''a membership commit has no epoch'')
     (thenE (requireDigest ''membership digest'' (RoomMembershipCommit_MembershipDigest v))
     (failIf (RoomMembershipCommit_MemberCount v = 0) ''a room with no members is not a room'')))"

definition RoomMembershipCommit_encode :: "RoomMembershipCommit \<Rightarrow> bytes" where
  "RoomMembershipCommit_encode v = canon_Text (RoomMembershipCommit_RoomID v) @
     canon_Uint64 (RoomMembershipCommit_Epoch v) @
     canon_Text (RoomMembershipCommit_MembershipDigest v) @
     canon_Uint32 (RoomMembershipCommit_MemberCount v)"

definition decodeRoomMembershipCommit :: "Reader \<Rightarrow> RoomMembershipCommit \<times> Reader" where
  "decodeRoomMembershipCommit =
     bindR (r_Text MaxShortTextBytes) (\<lambda>roomID.
     bindR r_Uint64 (\<lambda>epoch.
     bindR (r_Text MaxDigestBytes) (\<lambda>membershipDigest.
     bindR r_Uint32 (\<lambda>memberCount.
     returnR \<lparr>RoomMembershipCommit_RoomID = roomID, RoomMembershipCommit_Epoch = epoch, RoomMembershipCommit_MembershipDigest = membershipDigest, RoomMembershipCommit_MemberCount = memberCount\<rparr>))))"

definition RoomMembershipCommit_wire :: "RoomMembershipCommit \<Rightarrow> bool" where
  "RoomMembershipCommit_wire v \<longleftrightarrow> fits_text MaxShortTextBytes (RoomMembershipCommit_RoomID v) \<and>
     fits_text MaxDigestBytes (RoomMembershipCommit_MembershipDigest v)"

record RoomMessage =
  RoomMessage_RoomID :: string
  RoomMessage_Epoch :: u64
  RoomMessage_MediaType :: string
  RoomMessage_Body :: string

definition RoomMessage_Schema :: string where
  "RoomMessage_Schema = ''tos.messaging.payload.room-message.v1''"

definition RoomMessage_Validate :: "RoomMessage \<Rightarrow> err option" where
  "RoomMessage_Validate v =
     thenE (requireMatch ''room'' (RoomMessage_RoomID v) ids_Room)
     (thenE (failIf (RoomMessage_Epoch v = 0) ''a room message names no membership epoch'')
     (thenE (requireMember ''media type'' (RoomMessage_MediaType v) mediaTypes)
     (requireText ''body'' (RoomMessage_Body v) MaxTextBytes)))"

definition RoomMessage_encode :: "RoomMessage \<Rightarrow> bytes" where
  "RoomMessage_encode v = canon_Text (RoomMessage_RoomID v) @
     canon_Uint64 (RoomMessage_Epoch v) @
     canon_Text (RoomMessage_MediaType v) @
     canon_Text (RoomMessage_Body v)"

definition decodeRoomMessage :: "Reader \<Rightarrow> RoomMessage \<times> Reader" where
  "decodeRoomMessage =
     bindR (r_Text MaxShortTextBytes) (\<lambda>roomID.
     bindR r_Uint64 (\<lambda>epoch.
     bindR (r_Text MaxShortTextBytes) (\<lambda>mediaType.
     bindR (r_Text MaxTextBytes) (\<lambda>body.
     returnR \<lparr>RoomMessage_RoomID = roomID, RoomMessage_Epoch = epoch, RoomMessage_MediaType = mediaType, RoomMessage_Body = body\<rparr>))))"

definition RoomMessage_wire :: "RoomMessage \<Rightarrow> bool" where
  "RoomMessage_wire v \<longleftrightarrow> fits_text MaxShortTextBytes (RoomMessage_RoomID v) \<and>
     fits_text MaxShortTextBytes (RoomMessage_MediaType v) \<and>
     fits_text MaxTextBytes (RoomMessage_Body v)"

record RoomModeration =
  RoomModeration_RoomID :: string
  RoomModeration_MembershipEpoch :: u64
  RoomModeration_RolePolicyRevision :: u64
  RoomModeration_TargetEventID :: string
  RoomModeration_DecisionRevision :: u64
  RoomModeration_Action :: string
  RoomModeration_Reason :: string

definition RoomModeration_Schema :: string where
  "RoomModeration_Schema = ''tos.messaging.payload.room-moderation.v1''"

definition RoomModeration_Validate :: "RoomModeration \<Rightarrow> err option" where
  "RoomModeration_Validate v =
     thenE (requireMatch ''room'' (RoomModeration_RoomID v) ids_Room)
     (thenE (failIf (RoomModeration_MembershipEpoch v = 0 \<or> RoomModeration_RolePolicyRevision v = 0 \<or> RoomModeration_DecisionRevision v = 0) ''room moderation has no authority revision'')
     (thenE (requireEvent ''moderation target'' (RoomModeration_TargetEventID v))
     (thenE (failIf (RoomModeration_Action v \<noteq> ''hide'' \<and> RoomModeration_Action v \<noteq> ''restore'') ''unknown room moderation action'')
     (requireText ''moderation reason'' (RoomModeration_Reason v) MaxShortTextBytes))))"

definition RoomModeration_encode :: "RoomModeration \<Rightarrow> bytes" where
  "RoomModeration_encode v = canon_Text (RoomModeration_RoomID v) @
     canon_Uint64 (RoomModeration_MembershipEpoch v) @
     canon_Uint64 (RoomModeration_RolePolicyRevision v) @
     canon_Text (RoomModeration_TargetEventID v) @
     canon_Uint64 (RoomModeration_DecisionRevision v) @
     canon_Text (RoomModeration_Action v) @
     canon_Text (RoomModeration_Reason v)"

definition decodeRoomModeration :: "Reader \<Rightarrow> RoomModeration \<times> Reader" where
  "decodeRoomModeration =
     bindR (r_Text MaxShortTextBytes) (\<lambda>roomID.
     bindR r_Uint64 (\<lambda>membershipEpoch.
     bindR r_Uint64 (\<lambda>rolePolicyRevision.
     bindR (r_Text MaxShortTextBytes) (\<lambda>targetEventID.
     bindR r_Uint64 (\<lambda>decisionRevision.
     bindR (r_Text MaxShortTextBytes) (\<lambda>action.
     bindR (r_Text MaxShortTextBytes) (\<lambda>reason.
     returnR \<lparr>RoomModeration_RoomID = roomID, RoomModeration_MembershipEpoch = membershipEpoch, RoomModeration_RolePolicyRevision = rolePolicyRevision, RoomModeration_TargetEventID = targetEventID, RoomModeration_DecisionRevision = decisionRevision, RoomModeration_Action = action, RoomModeration_Reason = reason\<rparr>)))))))"

definition RoomModeration_wire :: "RoomModeration \<Rightarrow> bool" where
  "RoomModeration_wire v \<longleftrightarrow> fits_text MaxShortTextBytes (RoomModeration_RoomID v) \<and>
     fits_text MaxShortTextBytes (RoomModeration_TargetEventID v) \<and>
     fits_text MaxShortTextBytes (RoomModeration_Action v) \<and>
     fits_text MaxShortTextBytes (RoomModeration_Reason v)"

section \<open>History segments\<close>

definition MaxHistoryEventsPerSegment :: int where
  "MaxHistoryEventsPerSegment = 16"

definition MaxHistorySegmentEventBytes :: int where
  "MaxHistorySegmentEventBytes = 98304"

record DeviceHistorySegment =
  DeviceHistorySegment_SourceDeviceID :: string
  DeviceHistorySegment_TargetDeviceID :: string
  DeviceHistorySegment_ConversationID :: string
  DeviceHistorySegment_Sequence :: u64
  DeviceHistorySegment_PreviousSegmentDigest :: string
  DeviceHistorySegment_AfterCreatedAtUnix :: u64
  DeviceHistorySegment_AfterEventID :: string
  DeviceHistorySegment_Events :: "bytes list"

definition DeviceHistorySegment_Schema :: string where
  "DeviceHistorySegment_Schema = ''tos.messaging.payload.device-history-segment.v1''"

text \<open>The loop of the validator over the carried events, with the running total.\<close>

fun history_events :: "int \<Rightarrow> bytes list \<Rightarrow> err option" where
  "history_events running [] = None"
| "history_events running (event # events) =
     (if event = [] \<or> int (length event) > MaxOpaqueBytes
      then Some (Msg ''history segment contains an invalid event'')
      else if running + int (length event) > MaxHistorySegmentEventBytes
      then Some (Msg ''history segment exceeds its content bound'')
      else history_events (running + int (length event)) events)"

definition DeviceHistorySegment_Validate :: "DeviceHistorySegment \<Rightarrow> err option" where
  "DeviceHistorySegment_Validate v =
     thenE (failIf (\<not> ids_Device (DeviceHistorySegment_SourceDeviceID v) \<or> \<not> ids_Device (DeviceHistorySegment_TargetDeviceID v) \<or>
         DeviceHistorySegment_SourceDeviceID v = DeviceHistorySegment_TargetDeviceID v)
       ''history segment needs two distinct device identifiers'')
     (thenE (failIf (\<not> ids_Conversation (DeviceHistorySegment_ConversationID v)) ''history segment has an invalid conversation'')
     (thenE (failIf (DeviceHistorySegment_Sequence v = 0) ''history segment sequence must start at one'')
     (thenE (if DeviceHistorySegment_Sequence v = 1
        then failIf (DeviceHistorySegment_PreviousSegmentDigest v \<noteq> [] \<or> DeviceHistorySegment_AfterCreatedAtUnix v \<noteq> 0 \<or> DeviceHistorySegment_AfterEventID v \<noteq> [])
          ''first history segment cannot name a predecessor or cursor''
        else failIf (\<not> ValidDigest (DeviceHistorySegment_PreviousSegmentDigest v) \<or> DeviceHistorySegment_AfterCreatedAtUnix v = 0 \<or>
            \<not> ids_Event (DeviceHistorySegment_AfterEventID v))
          ''history segment needs its exact predecessor and cursor'')
     (thenE (failIf (DeviceHistorySegment_Events v = [] \<or> int (length (DeviceHistorySegment_Events v)) > MaxHistoryEventsPerSegment)
        ''history segment event count is outside its bound'')
     (history_events 0 (DeviceHistorySegment_Events v))))))"

definition DeviceHistorySegment_encode :: "DeviceHistorySegment \<Rightarrow> bytes" where
  "DeviceHistorySegment_encode v = canon_Text (DeviceHistorySegment_SourceDeviceID v) @ canon_Text (DeviceHistorySegment_TargetDeviceID v) @
     canon_Text (DeviceHistorySegment_ConversationID v) @ canon_Uint64 (DeviceHistorySegment_Sequence v) @
     canon_Text (DeviceHistorySegment_PreviousSegmentDigest v) @ canon_Uint64 (DeviceHistorySegment_AfterCreatedAtUnix v) @
     canon_Text (DeviceHistorySegment_AfterEventID v) @
     canon_Uint32 (of_nat (length (DeviceHistorySegment_Events v))) @ concat (map canon_Bytes (DeviceHistorySegment_Events v))"

definition decodeDeviceHistorySegment :: "Reader \<Rightarrow> DeviceHistorySegment \<times> Reader" where
  "decodeDeviceHistorySegment =
     bindR (r_Text MaxShortTextBytes) (\<lambda>sourceDeviceID.
     bindR (r_Text MaxShortTextBytes) (\<lambda>targetDeviceID.
     bindR (r_Text MaxShortTextBytes) (\<lambda>conversationID.
     bindR r_Uint64 (\<lambda>seq.
     bindR (r_Text MaxDigestBytes) (\<lambda>previousSegmentDigest.
     bindR r_Uint64 (\<lambda>afterCreatedAtUnix.
     bindR (r_Text MaxShortTextBytes) (\<lambda>afterEventID.
     bindR (r_Count MaxHistoryEventsPerSegment) (\<lambda>count.
     bindR (r_many count (r_Bytes MaxOpaqueBytes)) (\<lambda>events.
     returnR \<lparr>DeviceHistorySegment_SourceDeviceID = sourceDeviceID, DeviceHistorySegment_TargetDeviceID = targetDeviceID,
       DeviceHistorySegment_ConversationID = conversationID, DeviceHistorySegment_Sequence = seq,
       DeviceHistorySegment_PreviousSegmentDigest = previousSegmentDigest, DeviceHistorySegment_AfterCreatedAtUnix = afterCreatedAtUnix,
       DeviceHistorySegment_AfterEventID = afterEventID, DeviceHistorySegment_Events = events\<rparr>)))))))))"

definition DeviceHistorySegment_wire :: "DeviceHistorySegment \<Rightarrow> bool" where
  "DeviceHistorySegment_wire v \<longleftrightarrow> fits_text MaxShortTextBytes (DeviceHistorySegment_SourceDeviceID v) \<and>
     fits_text MaxShortTextBytes (DeviceHistorySegment_TargetDeviceID v) \<and> fits_text MaxShortTextBytes (DeviceHistorySegment_ConversationID v) \<and>
     fits_text MaxDigestBytes (DeviceHistorySegment_PreviousSegmentDigest v) \<and> fits_text MaxShortTextBytes (DeviceHistorySegment_AfterEventID v) \<and>
     count_ok MaxHistoryEventsPerSegment (length (DeviceHistorySegment_Events v)) \<and> list_all (fits MaxOpaqueBytes) (DeviceHistorySegment_Events v)"

section \<open>Gifts\<close>

definition MaxGiftCanonicalBytes :: int where
  "MaxGiftCanonicalBytes = 65536"

definition validateGiftCanonical :: "bytes \<Rightarrow> err option" where
  "validateGiftCanonical v =
     failIf (v = [] \<or> int (length v) > MaxGiftCanonicalBytes) ''canonical Agent Gift object has invalid size''"

record GiftAddressRequest =
  GiftAddressRequest_CanonicalRequest :: bytes

definition GiftAddressRequest_Schema :: string where
  "GiftAddressRequest_Schema = ''tos.messaging.payload.agent-gift-address-request.v1''"

definition GiftAddressRequest_Validate :: "GiftAddressRequest \<Rightarrow> err option" where
  "GiftAddressRequest_Validate v =
     validateGiftCanonical (GiftAddressRequest_CanonicalRequest v)"

definition GiftAddressRequest_encode :: "GiftAddressRequest \<Rightarrow> bytes" where
  "GiftAddressRequest_encode v = canon_Bytes (GiftAddressRequest_CanonicalRequest v)"

definition decodeGiftAddressRequest :: "Reader \<Rightarrow> GiftAddressRequest \<times> Reader" where
  "decodeGiftAddressRequest =
     bindR (r_Bytes MaxGiftCanonicalBytes) (\<lambda>canonicalRequest.
     returnR \<lparr>GiftAddressRequest_CanonicalRequest = canonicalRequest\<rparr>)"

definition GiftAddressRequest_wire :: "GiftAddressRequest \<Rightarrow> bool" where
  "GiftAddressRequest_wire v \<longleftrightarrow> fits MaxGiftCanonicalBytes (GiftAddressRequest_CanonicalRequest v)"

record GiftAddressResponse =
  GiftAddressResponse_CanonicalResponse :: bytes

definition GiftAddressResponse_Schema :: string where
  "GiftAddressResponse_Schema = ''tos.messaging.payload.agent-gift-address-response.v1''"

definition GiftAddressResponse_Validate :: "GiftAddressResponse \<Rightarrow> err option" where
  "GiftAddressResponse_Validate v =
     validateGiftCanonical (GiftAddressResponse_CanonicalResponse v)"

definition GiftAddressResponse_encode :: "GiftAddressResponse \<Rightarrow> bytes" where
  "GiftAddressResponse_encode v = canon_Bytes (GiftAddressResponse_CanonicalResponse v)"

definition decodeGiftAddressResponse :: "Reader \<Rightarrow> GiftAddressResponse \<times> Reader" where
  "decodeGiftAddressResponse =
     bindR (r_Bytes MaxGiftCanonicalBytes) (\<lambda>canonicalResponse.
     returnR \<lparr>GiftAddressResponse_CanonicalResponse = canonicalResponse\<rparr>)"

definition GiftAddressResponse_wire :: "GiftAddressResponse \<Rightarrow> bool" where
  "GiftAddressResponse_wire v \<longleftrightarrow> fits MaxGiftCanonicalBytes (GiftAddressResponse_CanonicalResponse v)"

record GiftSignedBOCOffer =
  GiftSignedBOCOffer_CanonicalOffer :: bytes

definition GiftSignedBOCOffer_Schema :: string where
  "GiftSignedBOCOffer_Schema = ''tos.messaging.payload.agent-gift-signed-boc-offer.v1''"

definition GiftSignedBOCOffer_Validate :: "GiftSignedBOCOffer \<Rightarrow> err option" where
  "GiftSignedBOCOffer_Validate v =
     validateGiftCanonical (GiftSignedBOCOffer_CanonicalOffer v)"

definition GiftSignedBOCOffer_encode :: "GiftSignedBOCOffer \<Rightarrow> bytes" where
  "GiftSignedBOCOffer_encode v = canon_Bytes (GiftSignedBOCOffer_CanonicalOffer v)"

definition decodeGiftSignedBOCOffer :: "Reader \<Rightarrow> GiftSignedBOCOffer \<times> Reader" where
  "decodeGiftSignedBOCOffer =
     bindR (r_Bytes MaxGiftCanonicalBytes) (\<lambda>canonicalOffer.
     returnR \<lparr>GiftSignedBOCOffer_CanonicalOffer = canonicalOffer\<rparr>)"

definition GiftSignedBOCOffer_wire :: "GiftSignedBOCOffer \<Rightarrow> bool" where
  "GiftSignedBOCOffer_wire v \<longleftrightarrow> fits MaxGiftCanonicalBytes (GiftSignedBOCOffer_CanonicalOffer v)"

section \<open>Readers\<close>

lemma CounterpartyApprovalRequest_reader: "field_reader CounterpartyApprovalRequest_encode (CounterpartyApprovalRequest_wire) (decodeCounterpartyApprovalRequest)"
  unfolding CounterpartyApprovalRequest_encode_def [abs_def] decodeCounterpartyApprovalRequest_def
  by (rule field_reader_cong, (rule parses_rules)+) (auto simp: CounterpartyApprovalRequest_wire_def)

lemma CounterpartyApprovalRequest_fits: "CounterpartyApprovalRequest_Validate v = None \<Longrightarrow> int (length (CounterpartyApprovalRequest_Subject v)) \<le> 512 \<Longrightarrow> CounterpartyApprovalRequest_wire v"
  unfolding CounterpartyApprovalRequest_Validate_def CounterpartyApprovalRequest_wire_def bounds
  by (auto simp: checked  intro: fitting split: if_splits)

lemma CounterpartyApprovalGranted_reader: "field_reader CounterpartyApprovalGranted_encode (CounterpartyApprovalGranted_wire) (decodeCounterpartyApprovalGranted)"
  unfolding CounterpartyApprovalGranted_encode_def [abs_def] decodeCounterpartyApprovalGranted_def
  by (rule field_reader_cong, (rule parses_rules)+) (auto simp: CounterpartyApprovalGranted_wire_def)

lemma CounterpartyApprovalGranted_fits: "CounterpartyApprovalGranted_Validate v = None \<Longrightarrow> CounterpartyApprovalGranted_wire v"
  unfolding CounterpartyApprovalGranted_Validate_def CounterpartyApprovalGranted_wire_def bounds
  by (auto simp: checked  intro: fitting split: if_splits)

lemma CounterpartyApprovalDenied_reader: "field_reader CounterpartyApprovalDenied_encode (CounterpartyApprovalDenied_wire) (decodeCounterpartyApprovalDenied)"
  unfolding CounterpartyApprovalDenied_encode_def [abs_def] decodeCounterpartyApprovalDenied_def
  by (rule field_reader_cong, (rule parses_rules)+) (auto simp: CounterpartyApprovalDenied_wire_def)

lemma CounterpartyApprovalDenied_fits: "CounterpartyApprovalDenied_Validate v = None \<Longrightarrow> CounterpartyApprovalDenied_wire v"
  unfolding CounterpartyApprovalDenied_Validate_def CounterpartyApprovalDenied_wire_def bounds
  by (auto simp: checked  intro: fitting split: if_splits)

lemma OwnerApprovalGrant_reader: "field_reader OwnerApprovalGrant_encode (OwnerApprovalGrant_wire) (decodeOwnerApprovalGrant)"
  unfolding OwnerApprovalGrant_encode_def [abs_def] decodeOwnerApprovalGrant_def
  by (rule field_reader_cong, (rule parses_rules)+) (auto simp: OwnerApprovalGrant_wire_def)

lemma OwnerApprovalGrant_fits: "OwnerApprovalGrant_Validate v = None \<Longrightarrow> OwnerApprovalGrant_wire v"
  unfolding OwnerApprovalGrant_Validate_def OwnerApprovalGrant_wire_def bounds
  by (auto simp: checked  intro: fitting split: if_splits)

lemma OwnerApprovalDeny_reader: "field_reader OwnerApprovalDeny_encode (OwnerApprovalDeny_wire) (decodeOwnerApprovalDeny)"
  unfolding OwnerApprovalDeny_encode_def [abs_def] decodeOwnerApprovalDeny_def
  by (rule field_reader_cong, (rule parses_rules)+) (auto simp: OwnerApprovalDeny_wire_def)

lemma OwnerApprovalDeny_fits: "OwnerApprovalDeny_Validate v = None \<Longrightarrow> OwnerApprovalDeny_wire v"
  unfolding OwnerApprovalDeny_Validate_def OwnerApprovalDeny_wire_def bounds
  by (auto simp: checked  intro: fitting split: if_splits)

lemma Foreign_reader: "field_reader Foreign_encode (Foreign_wire) (decodeForeign)"
  unfolding Foreign_encode_def [abs_def] decodeForeign_def
  by (rule field_reader_cong, (rule parses_rules)+) (auto simp: Foreign_wire_def)

lemma A2AMessage_fits: "A2AMessage_Validate v = None \<Longrightarrow> Foreign_wire v"
  unfolding A2AMessage_Validate_def Foreign_validate_def Foreign_wire_def bounds
  by (auto simp: checked fits_def byte_val_def intro: fits_required fits_ascii)

lemma MCPCall_fits: "MCPCall_Validate v = None \<Longrightarrow> Foreign_wire v"
  unfolding MCPCall_Validate_def Foreign_validate_def Foreign_wire_def bounds
  by (auto simp: checked fits_def byte_val_def intro: fits_required fits_ascii)

lemma MCPResult_fits: "MCPResult_Validate v = None \<Longrightarrow> Foreign_wire v"
  unfolding MCPResult_Validate_def Foreign_validate_def Foreign_wire_def bounds
  by (auto simp: checked fits_def byte_val_def intro: fits_required fits_ascii)

lemma AgentPacketMessage_fits: "AgentPacketMessage_Validate v = None \<Longrightarrow> Foreign_wire v"
  unfolding AgentPacketMessage_Validate_def Foreign_validate_def Foreign_wire_def bounds
  by (auto simp: checked fits_def byte_val_def intro: fits_required fits_ascii)

lemma ArtifactOffer_reader: "field_reader ArtifactOffer_encode (ArtifactOffer_wire) (decodeArtifactOffer)"
  unfolding ArtifactOffer_encode_def [abs_def] decodeArtifactOffer_def
  by (rule field_reader_cong, (rule parses_rules)+) (auto simp: ArtifactOffer_wire_def)

lemma ArtifactOffer_fits: "ArtifactOffer_Validate v = None \<Longrightarrow> ArtifactOffer_wire v"
  unfolding ArtifactOffer_Validate_def ArtifactOffer_wire_def bounds
  by (auto simp: checked  intro: fitting split: if_splits)

lemma ArtifactReference_reader: "field_reader ArtifactReference_encode (ArtifactReference_wire) (decodeArtifactReference)"
  unfolding ArtifactReference_encode_def [abs_def] decodeArtifactReference_def
  by (rule field_reader_cong, (rule parses_rules)+) (auto simp: ArtifactReference_wire_def)

lemma ArtifactReference_fits: "ArtifactReference_Validate v = None \<Longrightarrow> ArtifactReference_wire v"
  unfolding ArtifactReference_Validate_def ArtifactReference_wire_def bounds
  by (auto simp: checked  intro: fitting split: if_splits)

lemma ChainReference_reader: "field_reader ChainReference_encode (ChainReference_wire) (decodeChainReference)"
  unfolding ChainReference_encode_def [abs_def] decodeChainReference_def
  by (rule field_reader_cong, (rule parses_rules)+) (auto simp: ChainReference_wire_def)

lemma ChainReference_fits: "ChainReference_validate v = None \<Longrightarrow> ChainReference_wire v"
  unfolding ChainReference_validate_def ChainReference_wire_def bounds
  by (auto simp: checked  intro: fitting split: if_splits)

lemma DeliveryAck_reader: "field_reader DeliveryAck_encode (DeliveryAck_wire) (decodeDeliveryAck)"
  unfolding DeliveryAck_encode_def [abs_def] decodeDeliveryAck_def
  by (rule field_reader_cong, (rule parses_rules)+) (auto simp: DeliveryAck_wire_def)

lemma DeliveryAck_fits: "DeliveryAck_Validate v = None \<Longrightarrow> DeliveryAck_wire v"
  unfolding DeliveryAck_Validate_def DeliveryAck_wire_def bounds
  by (auto simp: checked  intro: fitting split: if_splits)

lemma applicationOutcomes_fit: "v \<in> set applicationOutcomes \<Longrightarrow> fits_text 512 v"
  by (auto simp: applicationOutcomes_def byte_val_def intro!: fits_ascii)

lemma moderation_fit: "fits_text 512 ''hide''" "fits_text 512 ''restore''"
  by (auto simp: byte_val_def intro!: fits_ascii)

lemma ApplicationAck_reader: "field_reader ApplicationAck_encode (ApplicationAck_wire) (decodeApplicationAck)"
  unfolding ApplicationAck_encode_def [abs_def] decodeApplicationAck_def
  by (rule field_reader_cong, (rule parses_rules)+) (auto simp: ApplicationAck_wire_def)

lemma ApplicationAck_fits: "ApplicationAck_Validate v = None \<Longrightarrow> ApplicationAck_wire v"
  unfolding ApplicationAck_Validate_def ApplicationAck_wire_def bounds
  by (auto simp: checked  intro: fitting applicationOutcomes_fit split: if_splits)

lemma ReadAck_reader: "field_reader ReadAck_encode (ReadAck_wire) (decodeReadAck)"
  unfolding ReadAck_encode_def [abs_def] decodeReadAck_def
  by (rule field_reader_cong, (rule parses_rules)+) (auto simp: ReadAck_wire_def)

lemma ReadAck_fits: "ReadAck_Validate v = None \<Longrightarrow> ReadAck_wire v"
  unfolding ReadAck_Validate_def ReadAck_wire_def bounds
  by (auto simp: checked  intro: fitting split: if_splits)

lemma RoomInvite_reader: "field_reader RoomInvite_encode (RoomInvite_wire) (decodeRoomInvite)"
  unfolding RoomInvite_encode_def [abs_def] decodeRoomInvite_def
  by (rule field_reader_cong, (rule parses_rules)+) (auto simp: RoomInvite_wire_def)

lemma RoomInvite_fits: "RoomInvite_Validate v = None \<Longrightarrow> RoomInvite_wire v"
  unfolding RoomInvite_Validate_def RoomInvite_wire_def bounds
  by (auto simp: checked  intro: fitting split: if_splits)

lemma RoomMembershipCommit_reader: "field_reader RoomMembershipCommit_encode (RoomMembershipCommit_wire) (decodeRoomMembershipCommit)"
  unfolding RoomMembershipCommit_encode_def [abs_def] decodeRoomMembershipCommit_def
  by (rule field_reader_cong, (rule parses_rules)+) (auto simp: RoomMembershipCommit_wire_def)

lemma RoomMembershipCommit_fits: "RoomMembershipCommit_Validate v = None \<Longrightarrow> RoomMembershipCommit_wire v"
  unfolding RoomMembershipCommit_Validate_def RoomMembershipCommit_wire_def bounds
  by (auto simp: checked  intro: fitting split: if_splits)

lemma RoomMessage_reader: "field_reader RoomMessage_encode (RoomMessage_wire) (decodeRoomMessage)"
  unfolding RoomMessage_encode_def [abs_def] decodeRoomMessage_def
  by (rule field_reader_cong, (rule parses_rules)+) (auto simp: RoomMessage_wire_def)

lemma RoomMessage_fits: "RoomMessage_Validate v = None \<Longrightarrow> RoomMessage_wire v"
  unfolding RoomMessage_Validate_def RoomMessage_wire_def bounds
  by (auto simp: checked  intro: fitting split: if_splits)

lemma RoomModeration_reader: "field_reader RoomModeration_encode (RoomModeration_wire) (decodeRoomModeration)"
  unfolding RoomModeration_encode_def [abs_def] decodeRoomModeration_def
  by (rule field_reader_cong, (rule parses_rules)+) (auto simp: RoomModeration_wire_def)

lemma RoomModeration_fits: "RoomModeration_Validate v = None \<Longrightarrow> RoomModeration_wire v"
  unfolding RoomModeration_Validate_def RoomModeration_wire_def bounds
  by (auto simp: checked moderation_fit intro: fitting split: if_splits)

lemma DeviceHistorySegment_reader:
  "field_reader DeviceHistorySegment_encode DeviceHistorySegment_wire decodeDeviceHistorySegment"
  unfolding DeviceHistorySegment_encode_def [abs_def] decodeDeviceHistorySegment_def
  by (rule field_reader_cong, (rule parses_rules last_counted)+) (auto simp: DeviceHistorySegment_wire_def)

lemma history_events_fit: "history_events n es = None \<Longrightarrow> list_all (fits MaxOpaqueBytes) es"
  by (induction n es rule: history_events.induct) (auto simp: fits_def bounds split: if_splits)

lemma DeviceHistorySegment_fits: "DeviceHistorySegment_Validate v = None \<Longrightarrow> DeviceHistorySegment_wire v"
  unfolding DeviceHistorySegment_Validate_def DeviceHistorySegment_wire_def
  by (auto simp: bounds count_ok_def MaxHistoryEventsPerSegment_def intro: fitting
      dest: history_events_fit [unfolded bounds] split: if_splits)

lemma GiftAddressRequest_reader: "field_reader GiftAddressRequest_encode (GiftAddressRequest_wire) (decodeGiftAddressRequest)"
  unfolding GiftAddressRequest_encode_def [abs_def] decodeGiftAddressRequest_def
  by (rule field_reader_cong, (rule parses_rules)+) (auto simp: GiftAddressRequest_wire_def)

lemma GiftAddressRequest_fits: "GiftAddressRequest_Validate v = None \<Longrightarrow> GiftAddressRequest_wire v"
  unfolding GiftAddressRequest_Validate_def GiftAddressRequest_wire_def bounds
  by (auto simp: checked validateGiftCanonical_def MaxGiftCanonicalBytes_def fits_def intro: fitting split: if_splits)

lemma GiftAddressResponse_reader: "field_reader GiftAddressResponse_encode (GiftAddressResponse_wire) (decodeGiftAddressResponse)"
  unfolding GiftAddressResponse_encode_def [abs_def] decodeGiftAddressResponse_def
  by (rule field_reader_cong, (rule parses_rules)+) (auto simp: GiftAddressResponse_wire_def)

lemma GiftAddressResponse_fits: "GiftAddressResponse_Validate v = None \<Longrightarrow> GiftAddressResponse_wire v"
  unfolding GiftAddressResponse_Validate_def GiftAddressResponse_wire_def bounds
  by (auto simp: checked validateGiftCanonical_def MaxGiftCanonicalBytes_def fits_def intro: fitting split: if_splits)

lemma GiftSignedBOCOffer_reader: "field_reader GiftSignedBOCOffer_encode (GiftSignedBOCOffer_wire) (decodeGiftSignedBOCOffer)"
  unfolding GiftSignedBOCOffer_encode_def [abs_def] decodeGiftSignedBOCOffer_def
  by (rule field_reader_cong, (rule parses_rules)+) (auto simp: GiftSignedBOCOffer_wire_def)

lemma GiftSignedBOCOffer_fits: "GiftSignedBOCOffer_Validate v = None \<Longrightarrow> GiftSignedBOCOffer_wire v"
  unfolding GiftSignedBOCOffer_Validate_def GiftSignedBOCOffer_wire_def bounds
  by (auto simp: checked validateGiftCanonical_def MaxGiftCanonicalBytes_def fits_def intro: fitting split: if_splits)

end
