(* ===== verification/PayloadService.thy ===== *)
theory PayloadService
  imports PayloadMore AttachmentAccess
begin

text \<open>
  The bodies that carry an object of the service protocol (\<open>agreement.go\<close>,
  \<open>commerce_profile.go\<close>, \<open>intent_application.go\<close>, \<open>operation_outcome.go\<close> and
  \<open>private_handoff.go\<close> of \<open>pkg/payload\<close>) and the encrypted attachment of
  \<open>kinds_more.go\<close> with its three schemas.

  The service protocol is another module: its functions are the fields of \<open>Service\<close>, over an
  abstract type of its decoded objects. \<open>sv_text\<close>, \<open>sv_num\<close> and \<open>sv_part\<close> read a field of
  such an object by its path. The standard library's JSON decoding of an attachment reference
  and of a grant, its URL functions and Ed25519 are fields of the same record.
\<close>

record 'x Service =
  sv_Unmarshal :: "string \<Rightarrow> bytes \<Rightarrow> 'x res"
  sv_Marshal :: "'x \<Rightarrow> bytes res"
  sv_Digest :: "string \<Rightarrow> 'x \<Rightarrow> string res"
  sv_text :: "string \<Rightarrow> 'x \<Rightarrow> string"
  sv_num :: "string \<Rightarrow> 'x \<Rightarrow> u64"
  sv_part :: "string \<Rightarrow> 'x \<Rightarrow> 'x"
  sv_ValidateAgreementBody :: "'x \<Rightarrow> err option"
  sv_AgreementBodyDigest :: "'x \<Rightarrow> string res"
  sv_DecodeSignedAgreementAcceptance :: "bytes \<Rightarrow> 'x res"
  sv_ProviderOfferDigest :: "'x \<Rightarrow> string res"
  sv_DecodeIntentApplication :: "bytes \<Rightarrow> 'x res"
  sv_MaxProfileEventBytes :: int
  sv_CanonicalCommerceProfileEventV1 :: "'x \<Rightarrow> gotime \<Rightarrow> bytes res"
  sv_ValidateOperationPrivateRequestV1 :: "'x \<Rightarrow> err option"
  sv_ValidatePrivateHandoffChallenge :: "'x \<Rightarrow> gotime \<Rightarrow> err option"
  sv_PrivateHandoffChallengeDigest :: "'x \<Rightarrow> string res"
  sv_PrivateHandoffAuthorizationDigest :: "'x \<Rightarrow> string res"
  sv_PrivateHandoffAcknowledgementDigest :: "'x \<Rightarrow> string res"
  sv_ReferenceJSON :: "bytes \<Rightarrow> Reference res"
  sv_GrantJSON :: "bytes \<Rightarrow> CapabilityGrant res"
  sv_Urls :: Urls
  sv_Ed25519 :: Ed25519

text \<open>\<open>if err != nil { return err }\<close> after a call whose value the rest of a validator uses.\<close>

definition withE :: "'a res \<Rightarrow> ('a \<Rightarrow> err option) \<Rightarrow> err option" where
  "withE m f = (case m of Inl e \<Rightarrow> Some e | Inr v \<Rightarrow> f v)"

section \<open>Agreements\<close>

definition MaxAgreementPromotionBytes :: int where
  "MaxAgreementPromotionBytes = 98304"

record AgreementPropose =
  AgreementPropose_AgreementBodyDigest :: string
  AgreementPropose_CanonicalBody :: bytes

definition AgreementPropose_Schema :: string where
  "AgreementPropose_Schema = ''tos.messaging.payload.agreement-propose.v1''"

definition AgreementPropose_Validate :: "'x Service \<Rightarrow> AgreementPropose \<Rightarrow> err option" where
  "AgreementPropose_Validate sv v =
     thenE (failIf (\<not> ValidDigest (AgreementPropose_AgreementBodyDigest v) \<or> AgreementPropose_CanonicalBody v = [] \<or>
         int (length (AgreementPropose_CanonicalBody v)) > MaxAgreementPromotionBytes) ''Agreement proposal is invalid or oversized'')
     (withE (sv_Unmarshal sv ''AgentAgreementBody'' (AgreementPropose_CanonicalBody v)) (\<lambda>body.
      thenE (sv_ValidateAgreementBody sv body)
      (failIf (sv_AgreementBodyDigest sv body \<noteq> Inr (AgreementPropose_AgreementBodyDigest v))
        ''Agreement proposal digest mismatch'')))"

definition AgreementPropose_encode :: "AgreementPropose \<Rightarrow> bytes" where
  "AgreementPropose_encode v = canon_Text (AgreementPropose_AgreementBodyDigest v) @
     canon_Bytes (AgreementPropose_CanonicalBody v)"

definition decodeAgreementPropose :: "Reader \<Rightarrow> AgreementPropose \<times> Reader" where
  "decodeAgreementPropose =
     bindR (r_Text MaxDigestBytes) (\<lambda>agreementBodyDigest.
     bindR (r_Bytes MaxAgreementPromotionBytes) (\<lambda>canonicalBody.
     returnR \<lparr>AgreementPropose_AgreementBodyDigest = agreementBodyDigest, AgreementPropose_CanonicalBody = canonicalBody\<rparr>))"

definition AgreementPropose_wire :: "AgreementPropose \<Rightarrow> bool" where
  "AgreementPropose_wire v \<longleftrightarrow> fits_text MaxDigestBytes (AgreementPropose_AgreementBodyDigest v) \<and>
     fits MaxAgreementPromotionBytes (AgreementPropose_CanonicalBody v)"

record AgreementAccept =
  AgreementAccept_AgreementBodyDigest :: string
  AgreementAccept_CanonicalAcceptance :: bytes

definition AgreementAccept_Schema :: string where
  "AgreementAccept_Schema = ''tos.messaging.payload.agreement-accept.v1''"

definition AgreementAccept_Validate :: "'x Service \<Rightarrow> AgreementAccept \<Rightarrow> err option" where
  "AgreementAccept_Validate sv v =
     thenE (failIf (\<not> ValidDigest (AgreementAccept_AgreementBodyDigest v) \<or> AgreementAccept_CanonicalAcceptance v = [] \<or>
         int (length (AgreementAccept_CanonicalAcceptance v)) > MaxAgreementPromotionBytes) ''Agreement acceptance is invalid or oversized'')
     (withE (sv_DecodeSignedAgreementAcceptance sv (AgreementAccept_CanonicalAcceptance v)) (\<lambda>decoded.
      failIf (sv_text sv ''Body.AgreementBodyDigest'' decoded \<noteq> AgreementAccept_AgreementBodyDigest v)
        ''Agreement acceptance digest mismatch''))"

definition AgreementAccept_encode :: "AgreementAccept \<Rightarrow> bytes" where
  "AgreementAccept_encode v = canon_Text (AgreementAccept_AgreementBodyDigest v) @
     canon_Bytes (AgreementAccept_CanonicalAcceptance v)"

definition decodeAgreementAccept :: "Reader \<Rightarrow> AgreementAccept \<times> Reader" where
  "decodeAgreementAccept =
     bindR (r_Text MaxDigestBytes) (\<lambda>agreementBodyDigest.
     bindR (r_Bytes MaxAgreementPromotionBytes) (\<lambda>canonicalAcceptance.
     returnR \<lparr>AgreementAccept_AgreementBodyDigest = agreementBodyDigest, AgreementAccept_CanonicalAcceptance = canonicalAcceptance\<rparr>))"

definition AgreementAccept_wire :: "AgreementAccept \<Rightarrow> bool" where
  "AgreementAccept_wire v \<longleftrightarrow> fits_text MaxDigestBytes (AgreementAccept_AgreementBodyDigest v) \<and>
     fits MaxAgreementPromotionBytes (AgreementAccept_CanonicalAcceptance v)"

record AgreementEvidence =
  AgreementEvidence_AgreementBodyDigest :: string
  AgreementEvidence_EvidenceDigest :: string
  AgreementEvidence_CanonicalEvidence :: bytes

definition AgreementEvidence_Schema :: string where
  "AgreementEvidence_Schema = ''tos.messaging.payload.agreement-evidence.v1''"

definition AgreementEvidence_Validate :: "'x Service \<Rightarrow> AgreementEvidence \<Rightarrow> err option" where
  "AgreementEvidence_Validate sv v =
     thenE (failIf (\<not> ValidDigest (AgreementEvidence_AgreementBodyDigest v) \<or> \<not> ValidDigest (AgreementEvidence_EvidenceDigest v) \<or>
         AgreementEvidence_CanonicalEvidence v = [] \<or> int (length (AgreementEvidence_CanonicalEvidence v)) > MaxAgreementPromotionBytes)
       ''Agreement evidence is invalid or oversized'')
     (case sv_Unmarshal sv ''AgreementAuthorizationEvidence'' (AgreementEvidence_CanonicalEvidence v) of
       Inl e \<Rightarrow> Some (Msg ''Agreement evidence body mismatch'')
     | Inr decoded \<Rightarrow>
        thenE (failIf (sv_text sv ''AgreementBodyDigest'' decoded \<noteq> AgreementEvidence_AgreementBodyDigest v)
          ''Agreement evidence body mismatch'')
        (failIf (sv_Digest sv ''tos.agreement-authorization-evidence.v1'' decoded \<noteq> Inr (AgreementEvidence_EvidenceDigest v))
          ''Agreement evidence digest mismatch''))"

definition AgreementEvidence_encode :: "AgreementEvidence \<Rightarrow> bytes" where
  "AgreementEvidence_encode v = canon_Text (AgreementEvidence_AgreementBodyDigest v) @
     canon_Text (AgreementEvidence_EvidenceDigest v) @
     canon_Bytes (AgreementEvidence_CanonicalEvidence v)"

definition decodeAgreementEvidence :: "Reader \<Rightarrow> AgreementEvidence \<times> Reader" where
  "decodeAgreementEvidence =
     bindR (r_Text MaxDigestBytes) (\<lambda>agreementBodyDigest.
     bindR (r_Text MaxDigestBytes) (\<lambda>evidenceDigest.
     bindR (r_Bytes MaxAgreementPromotionBytes) (\<lambda>canonicalEvidence.
     returnR \<lparr>AgreementEvidence_AgreementBodyDigest = agreementBodyDigest, AgreementEvidence_EvidenceDigest = evidenceDigest, AgreementEvidence_CanonicalEvidence = canonicalEvidence\<rparr>)))"

definition AgreementEvidence_wire :: "AgreementEvidence \<Rightarrow> bool" where
  "AgreementEvidence_wire v \<longleftrightarrow> fits_text MaxDigestBytes (AgreementEvidence_AgreementBodyDigest v) \<and>
     fits_text MaxDigestBytes (AgreementEvidence_EvidenceDigest v) \<and>
     fits MaxAgreementPromotionBytes (AgreementEvidence_CanonicalEvidence v)"

record PaidDemandProviderOffer =
  PaidDemandProviderOffer_AgreementBodyDigest :: string
  PaidDemandProviderOffer_ProviderOfferDigest :: string
  PaidDemandProviderOffer_CanonicalOffer :: bytes

definition PaidDemandProviderOffer_Schema :: string where
  "PaidDemandProviderOffer_Schema = ''tos.messaging.payload.paid-demand-provider-offer.v1''"

definition PaidDemandProviderOffer_Validate :: "'x Service \<Rightarrow> PaidDemandProviderOffer \<Rightarrow> err option" where
  "PaidDemandProviderOffer_Validate sv v =
     thenE (failIf (\<not> ValidDigest (PaidDemandProviderOffer_AgreementBodyDigest v) \<or> \<not> ValidDigest (PaidDemandProviderOffer_ProviderOfferDigest v) \<or>
         PaidDemandProviderOffer_CanonicalOffer v = [] \<or> int (length (PaidDemandProviderOffer_CanonicalOffer v)) > MaxAgreementPromotionBytes)
       ''Paid Demand Provider Offer is invalid or oversized'')
     (case sv_Unmarshal sv ''SignedProviderOffer'' (PaidDemandProviderOffer_CanonicalOffer v) of
       Inl e \<Rightarrow> Some (Msg ''Paid Demand Provider Offer Agreement mismatch'')
     | Inr decoded \<Rightarrow>
        thenE (failIf (sv_text sv ''Binding.AgreementBodyDigest'' decoded \<noteq> PaidDemandProviderOffer_AgreementBodyDigest v)
          ''Paid Demand Provider Offer Agreement mismatch'')
        (failIf (sv_ProviderOfferDigest sv decoded \<noteq> Inr (PaidDemandProviderOffer_ProviderOfferDigest v))
          ''Paid Demand Provider Offer digest mismatch''))"

definition PaidDemandProviderOffer_encode :: "PaidDemandProviderOffer \<Rightarrow> bytes" where
  "PaidDemandProviderOffer_encode v = canon_Text (PaidDemandProviderOffer_AgreementBodyDigest v) @
     canon_Text (PaidDemandProviderOffer_ProviderOfferDigest v) @
     canon_Bytes (PaidDemandProviderOffer_CanonicalOffer v)"

definition decodePaidDemandProviderOffer :: "Reader \<Rightarrow> PaidDemandProviderOffer \<times> Reader" where
  "decodePaidDemandProviderOffer =
     bindR (r_Text MaxDigestBytes) (\<lambda>agreementBodyDigest.
     bindR (r_Text MaxDigestBytes) (\<lambda>providerOfferDigest.
     bindR (r_Bytes MaxAgreementPromotionBytes) (\<lambda>canonicalOffer.
     returnR \<lparr>PaidDemandProviderOffer_AgreementBodyDigest = agreementBodyDigest, PaidDemandProviderOffer_ProviderOfferDigest = providerOfferDigest, PaidDemandProviderOffer_CanonicalOffer = canonicalOffer\<rparr>)))"

definition PaidDemandProviderOffer_wire :: "PaidDemandProviderOffer \<Rightarrow> bool" where
  "PaidDemandProviderOffer_wire v \<longleftrightarrow> fits_text MaxDigestBytes (PaidDemandProviderOffer_AgreementBodyDigest v) \<and>
     fits_text MaxDigestBytes (PaidDemandProviderOffer_ProviderOfferDigest v) \<and>
     fits MaxAgreementPromotionBytes (PaidDemandProviderOffer_CanonicalOffer v)"

record AgreementWithdraw =
  AgreementWithdraw_AgreementBodyDigest :: string
  AgreementWithdraw_ProposalActionID :: string
  AgreementWithdraw_Reason :: string

definition AgreementWithdraw_Schema :: string where
  "AgreementWithdraw_Schema = ''tos.messaging.payload.agreement-withdraw.v1''"

definition AgreementWithdraw_Validate :: "AgreementWithdraw \<Rightarrow> err option" where
  "AgreementWithdraw_Validate v =
     thenE (failIf (\<not> ValidDigest (AgreementWithdraw_AgreementBodyDigest v) \<or> \<not> ValidDigest (AgreementWithdraw_ProposalActionID v)) ''Agreement withdrawal does not bind its exact proposal'')
     (requireText ''Agreement withdrawal reason'' (AgreementWithdraw_Reason v) MaxShortTextBytes)"

definition AgreementWithdraw_encode :: "AgreementWithdraw \<Rightarrow> bytes" where
  "AgreementWithdraw_encode v = canon_Text (AgreementWithdraw_AgreementBodyDigest v) @
     canon_Text (AgreementWithdraw_ProposalActionID v) @
     canon_Text (AgreementWithdraw_Reason v)"

definition decodeAgreementWithdraw :: "Reader \<Rightarrow> AgreementWithdraw \<times> Reader" where
  "decodeAgreementWithdraw =
     bindR (r_Text MaxDigestBytes) (\<lambda>agreementBodyDigest.
     bindR (r_Text MaxDigestBytes) (\<lambda>proposalActionID.
     bindR (r_Text MaxShortTextBytes) (\<lambda>reason.
     returnR \<lparr>AgreementWithdraw_AgreementBodyDigest = agreementBodyDigest, AgreementWithdraw_ProposalActionID = proposalActionID, AgreementWithdraw_Reason = reason\<rparr>)))"

definition AgreementWithdraw_wire :: "AgreementWithdraw \<Rightarrow> bool" where
  "AgreementWithdraw_wire v \<longleftrightarrow> fits_text MaxDigestBytes (AgreementWithdraw_AgreementBodyDigest v) \<and>
     fits_text MaxDigestBytes (AgreementWithdraw_ProposalActionID v) \<and>
     fits_text MaxShortTextBytes (AgreementWithdraw_Reason v)"

record AgreementDelivery =
  AgreementDelivery_AgreementBodyDigest :: string
  AgreementDelivery_ObligationID :: string
  AgreementDelivery_DeliverableManifestDigest :: string

definition AgreementDelivery_Schema :: string where
  "AgreementDelivery_Schema = ''tos.messaging.payload.agreement-delivery.v1''"

definition AgreementDelivery_Validate :: "AgreementDelivery \<Rightarrow> err option" where
  "AgreementDelivery_Validate v =
     thenE (failIf (\<not> ValidDigest (AgreementDelivery_AgreementBodyDigest v) \<or> \<not> ValidDigest (AgreementDelivery_DeliverableManifestDigest v)) ''Agreement delivery digest is invalid'')
     (requireText ''Agreement delivery obligation'' (AgreementDelivery_ObligationID v) MaxShortTextBytes)"

definition AgreementDelivery_encode :: "AgreementDelivery \<Rightarrow> bytes" where
  "AgreementDelivery_encode v = canon_Text (AgreementDelivery_AgreementBodyDigest v) @
     canon_Text (AgreementDelivery_ObligationID v) @
     canon_Text (AgreementDelivery_DeliverableManifestDigest v)"

definition decodeAgreementDelivery :: "Reader \<Rightarrow> AgreementDelivery \<times> Reader" where
  "decodeAgreementDelivery =
     bindR (r_Text MaxDigestBytes) (\<lambda>agreementBodyDigest.
     bindR (r_Text MaxShortTextBytes) (\<lambda>obligationID.
     bindR (r_Text MaxDigestBytes) (\<lambda>deliverableManifestDigest.
     returnR \<lparr>AgreementDelivery_AgreementBodyDigest = agreementBodyDigest, AgreementDelivery_ObligationID = obligationID, AgreementDelivery_DeliverableManifestDigest = deliverableManifestDigest\<rparr>)))"

definition AgreementDelivery_wire :: "AgreementDelivery \<Rightarrow> bool" where
  "AgreementDelivery_wire v \<longleftrightarrow> fits_text MaxDigestBytes (AgreementDelivery_AgreementBodyDigest v) \<and>
     fits_text MaxShortTextBytes (AgreementDelivery_ObligationID v) \<and>
     fits_text MaxDigestBytes (AgreementDelivery_DeliverableManifestDigest v)"

section \<open>Commerce profile events\<close>

record CommerceProfileEvent =
  CommerceProfileEvent_ObjectDigest :: string
  CommerceProfileEvent_CanonicalEvent :: bytes

definition CommerceProfileEvent_Schema :: string where
  "CommerceProfileEvent_Schema = ''tos.messaging.payload.commerce-profile-event.v1''"

definition CommerceProfileEvent_Validate :: "'x Service \<Rightarrow> CommerceProfileEvent \<Rightarrow> err option" where
  "CommerceProfileEvent_Validate sv v =
     thenE (failIf (\<not> ValidDigest (CommerceProfileEvent_ObjectDigest v) \<or> CommerceProfileEvent_CanonicalEvent v = [] \<or>
         int (length (CommerceProfileEvent_CanonicalEvent v)) > sv_MaxProfileEventBytes sv)
       ''commerce profile event payload is invalid or oversized'')
     (withE (sv_Unmarshal sv ''CommerceProfileEventV1'' (CommerceProfileEvent_CanonicalEvent v)) (\<lambda>event.
      thenE (failIf (sv_text sv ''ObjectDigest'' event \<noteq> CommerceProfileEvent_ObjectDigest v \<or> sv_num sv ''CreatedAtUnix'' event = 0)
        ''commerce profile event payload digest mismatch'')
      (failIf (sv_CanonicalCommerceProfileEventV1 sv event (sint (sv_num sv ''CreatedAtUnix'' event)) \<noteq>
          Inr (CommerceProfileEvent_CanonicalEvent v))
        ''commerce profile event payload is not canonical'')))"

definition CommerceProfileEvent_encode :: "CommerceProfileEvent \<Rightarrow> bytes" where
  "CommerceProfileEvent_encode v = canon_Text (CommerceProfileEvent_ObjectDigest v) @
     canon_Bytes (CommerceProfileEvent_CanonicalEvent v)"

definition decodeCommerceProfileEvent :: "'x Service \<Rightarrow> Reader \<Rightarrow> CommerceProfileEvent \<times> Reader" where
  "decodeCommerceProfileEvent sv =
     bindR (r_Text MaxDigestBytes) (\<lambda>objectDigest.
     bindR (r_Bytes (sv_MaxProfileEventBytes sv)) (\<lambda>canonicalEvent.
     returnR \<lparr>CommerceProfileEvent_ObjectDigest = objectDigest, CommerceProfileEvent_CanonicalEvent = canonicalEvent\<rparr>))"

definition CommerceProfileEvent_wire :: "'x Service \<Rightarrow> CommerceProfileEvent \<Rightarrow> bool" where
  "CommerceProfileEvent_wire sv v \<longleftrightarrow> fits_text MaxDigestBytes (CommerceProfileEvent_ObjectDigest v) \<and>
     fits (sv_MaxProfileEventBytes sv) (CommerceProfileEvent_CanonicalEvent v)"

section \<open>Intent applications\<close>

definition MaxIntentApplicationBytes :: int where
  "MaxIntentApplicationBytes = 65536"

record IntentApplication =
  IntentApplication_CanonicalApplication :: bytes

definition IntentApplication_Schema :: string where
  "IntentApplication_Schema = ''tos.messaging.payload.intent-application.v1''"

definition IntentApplication_Validate :: "'x Service \<Rightarrow> IntentApplication \<Rightarrow> err option" where
  "IntentApplication_Validate sv v =
     thenE (failIf (IntentApplication_CanonicalApplication v = [] \<or>
         int (length (IntentApplication_CanonicalApplication v)) > MaxIntentApplicationBytes)
       ''Intent application is absent or oversized'')
     (withE (sv_DecodeIntentApplication sv (IntentApplication_CanonicalApplication v)) (\<lambda>_. None))"

definition IntentApplication_encode :: "IntentApplication \<Rightarrow> bytes" where
  "IntentApplication_encode v = canon_Bytes (IntentApplication_CanonicalApplication v)"

definition decodeIntentApplication :: "Reader \<Rightarrow> IntentApplication \<times> Reader" where
  "decodeIntentApplication =
     bindR (r_Bytes MaxIntentApplicationBytes) (\<lambda>canonicalApplication.
     returnR \<lparr>IntentApplication_CanonicalApplication = canonicalApplication\<rparr>)"

definition IntentApplication_wire :: "IntentApplication \<Rightarrow> bool" where
  "IntentApplication_wire v \<longleftrightarrow> fits MaxIntentApplicationBytes (IntentApplication_CanonicalApplication v)"

section \<open>Operation outcomes\<close>

definition MaxInlineOperationOutcomeBytes :: int where
  "MaxInlineOperationOutcomeBytes = 98304"

record OperationOutcome =
  OperationOutcome_OperationID :: string
  OperationOutcome_OperationEnvelopeDigest :: string
  OperationOutcome_CanonicalRequest :: bytes

definition OperationOutcome_Schema :: string where
  "OperationOutcome_Schema = ''tos.messaging.payload.operation-outcome.v1''"

definition OperationOutcome_Validate :: "'x Service \<Rightarrow> OperationOutcome \<Rightarrow> err option" where
  "OperationOutcome_Validate sv v =
     thenE (failIf (\<not> ValidDigest (OperationOutcome_OperationID v) \<or> \<not> ValidDigest (OperationOutcome_OperationEnvelopeDigest v) \<or>
         OperationOutcome_CanonicalRequest v = [] \<or> int (length (OperationOutcome_CanonicalRequest v)) > MaxInlineOperationOutcomeBytes)
       ''operation outcome payload is invalid or oversized'')
     (case sv_Unmarshal sv ''OperationPrivateRequestV1'' (OperationOutcome_CanonicalRequest v) of
       Inl e \<Rightarrow> Some (Msg ''operation outcome request binding is invalid'')
     | Inr request \<Rightarrow>
        thenE (failIf (sv_ValidateOperationPrivateRequestV1 sv request \<noteq> None \<or>
            sv_text sv ''OperationID'' request \<noteq> OperationOutcome_OperationID v \<or>
            sv_text sv ''OperationEnvelopeDigest'' request \<noteq> OperationOutcome_OperationEnvelopeDigest v)
          ''operation outcome request binding is invalid'')
        (failIf (sv_Marshal sv request \<noteq> Inr (OperationOutcome_CanonicalRequest v))
          ''operation outcome request is not canonical''))"

definition OperationOutcome_encode :: "OperationOutcome \<Rightarrow> bytes" where
  "OperationOutcome_encode v = canon_Text (OperationOutcome_OperationID v) @
     canon_Text (OperationOutcome_OperationEnvelopeDigest v) @
     canon_Bytes (OperationOutcome_CanonicalRequest v)"

definition decodeOperationOutcome :: "Reader \<Rightarrow> OperationOutcome \<times> Reader" where
  "decodeOperationOutcome =
     bindR (r_Text MaxDigestBytes) (\<lambda>operationID.
     bindR (r_Text MaxDigestBytes) (\<lambda>operationEnvelopeDigest.
     bindR (r_Bytes MaxInlineOperationOutcomeBytes) (\<lambda>canonicalRequest.
     returnR \<lparr>OperationOutcome_OperationID = operationID, OperationOutcome_OperationEnvelopeDigest = operationEnvelopeDigest, OperationOutcome_CanonicalRequest = canonicalRequest\<rparr>)))"

definition OperationOutcome_wire :: "OperationOutcome \<Rightarrow> bool" where
  "OperationOutcome_wire v \<longleftrightarrow> fits_text MaxDigestBytes (OperationOutcome_OperationID v) \<and>
     fits_text MaxDigestBytes (OperationOutcome_OperationEnvelopeDigest v) \<and>
     fits MaxInlineOperationOutcomeBytes (OperationOutcome_CanonicalRequest v)"

section \<open>Private handoffs\<close>

definition MaxPrivateHandoffControlBytes :: int where
  "MaxPrivateHandoffControlBytes = 98304"

record PrivateHandoffChallenge =
  PrivateHandoffChallenge_ChallengeDigest :: string
  PrivateHandoffChallenge_CanonicalChallenge :: bytes

definition PrivateHandoffChallenge_Schema :: string where
  "PrivateHandoffChallenge_Schema = ''tos.messaging.payload.private-handoff-challenge.v1''"

definition PrivateHandoffChallenge_Validate :: "'x Service \<Rightarrow> PrivateHandoffChallenge \<Rightarrow> err option" where
  "PrivateHandoffChallenge_Validate sv v =
     thenE (failIf (\<not> ValidDigest (PrivateHandoffChallenge_ChallengeDigest v) \<or> PrivateHandoffChallenge_CanonicalChallenge v = [] \<or>
         int (length (PrivateHandoffChallenge_CanonicalChallenge v)) > MaxPrivateHandoffControlBytes)
       ''private handoff challenge payload is invalid'')
     (withE (sv_Unmarshal sv ''SignedPrivateHandoffChallenge'' (PrivateHandoffChallenge_CanonicalChallenge v)) (\<lambda>challenge.
      let body = sv_part sv ''Body'' challenge in
      thenE (sv_ValidatePrivateHandoffChallenge sv body (sint (sv_num sv ''IssuedAtUnix'' body)))
      (failIf (sv_PrivateHandoffChallengeDigest sv body \<noteq> Inr (PrivateHandoffChallenge_ChallengeDigest v))
        ''private handoff challenge digest mismatch'')))"

definition PrivateHandoffChallenge_encode :: "PrivateHandoffChallenge \<Rightarrow> bytes" where
  "PrivateHandoffChallenge_encode v = canon_Text (PrivateHandoffChallenge_ChallengeDigest v) @
     canon_Bytes (PrivateHandoffChallenge_CanonicalChallenge v)"

definition decodePrivateHandoffChallenge :: "Reader \<Rightarrow> PrivateHandoffChallenge \<times> Reader" where
  "decodePrivateHandoffChallenge =
     bindR (r_Text MaxDigestBytes) (\<lambda>challengeDigest.
     bindR (r_Bytes MaxPrivateHandoffControlBytes) (\<lambda>canonicalChallenge.
     returnR \<lparr>PrivateHandoffChallenge_ChallengeDigest = challengeDigest, PrivateHandoffChallenge_CanonicalChallenge = canonicalChallenge\<rparr>))"

definition PrivateHandoffChallenge_wire :: "PrivateHandoffChallenge \<Rightarrow> bool" where
  "PrivateHandoffChallenge_wire v \<longleftrightarrow> fits_text MaxDigestBytes (PrivateHandoffChallenge_ChallengeDigest v) \<and>
     fits MaxPrivateHandoffControlBytes (PrivateHandoffChallenge_CanonicalChallenge v)"

record PrivateHandoffAuthorization =
  PrivateHandoffAuthorization_ChallengeDigest :: string
  PrivateHandoffAuthorization_AuthorizationDigest :: string
  PrivateHandoffAuthorization_CanonicalAuthorization :: bytes

definition PrivateHandoffAuthorization_Schema :: string where
  "PrivateHandoffAuthorization_Schema = ''tos.messaging.payload.private-handoff-authorization.v1''"

definition PrivateHandoffAuthorization_Validate :: "'x Service \<Rightarrow> PrivateHandoffAuthorization \<Rightarrow> err option" where
  "PrivateHandoffAuthorization_Validate sv v =
     thenE (failIf (\<not> ValidDigest (PrivateHandoffAuthorization_ChallengeDigest v) \<or> \<not> ValidDigest (PrivateHandoffAuthorization_AuthorizationDigest v) \<or>
         PrivateHandoffAuthorization_CanonicalAuthorization v = [] \<or> int (length (PrivateHandoffAuthorization_CanonicalAuthorization v)) > MaxPrivateHandoffControlBytes)
       ''private handoff authorization payload is invalid'')
     (withE (sv_Unmarshal sv ''SignedPrivateHandoffAuthorization'' (PrivateHandoffAuthorization_CanonicalAuthorization v)) (\<lambda>authorization.
      let body = sv_part sv ''Body'' authorization in
      failIf (sv_PrivateHandoffAuthorizationDigest sv body \<noteq> Inr (PrivateHandoffAuthorization_AuthorizationDigest v) \<or>
          sv_text sv ''ChallengeDigest'' body \<noteq> PrivateHandoffAuthorization_ChallengeDigest v)
        ''private handoff authorization digest mismatch''))"

definition PrivateHandoffAuthorization_encode :: "PrivateHandoffAuthorization \<Rightarrow> bytes" where
  "PrivateHandoffAuthorization_encode v = canon_Text (PrivateHandoffAuthorization_ChallengeDigest v) @
     canon_Text (PrivateHandoffAuthorization_AuthorizationDigest v) @
     canon_Bytes (PrivateHandoffAuthorization_CanonicalAuthorization v)"

definition decodePrivateHandoffAuthorization :: "Reader \<Rightarrow> PrivateHandoffAuthorization \<times> Reader" where
  "decodePrivateHandoffAuthorization =
     bindR (r_Text MaxDigestBytes) (\<lambda>challengeDigest.
     bindR (r_Text MaxDigestBytes) (\<lambda>authorizationDigest.
     bindR (r_Bytes MaxPrivateHandoffControlBytes) (\<lambda>canonicalAuthorization.
     returnR \<lparr>PrivateHandoffAuthorization_ChallengeDigest = challengeDigest, PrivateHandoffAuthorization_AuthorizationDigest = authorizationDigest, PrivateHandoffAuthorization_CanonicalAuthorization = canonicalAuthorization\<rparr>)))"

definition PrivateHandoffAuthorization_wire :: "PrivateHandoffAuthorization \<Rightarrow> bool" where
  "PrivateHandoffAuthorization_wire v \<longleftrightarrow> fits_text MaxDigestBytes (PrivateHandoffAuthorization_ChallengeDigest v) \<and>
     fits_text MaxDigestBytes (PrivateHandoffAuthorization_AuthorizationDigest v) \<and>
     fits MaxPrivateHandoffControlBytes (PrivateHandoffAuthorization_CanonicalAuthorization v)"

record PrivateHandoffAcknowledgement =
  PrivateHandoffAcknowledgement_ChallengeDigest :: string
  PrivateHandoffAcknowledgement_AcknowledgementDigest :: string
  PrivateHandoffAcknowledgement_CanonicalAcknowledgement :: bytes

definition PrivateHandoffAcknowledgement_Schema :: string where
  "PrivateHandoffAcknowledgement_Schema = ''tos.messaging.payload.private-handoff-acknowledgement.v1''"

definition PrivateHandoffAcknowledgement_Validate :: "'x Service \<Rightarrow> PrivateHandoffAcknowledgement \<Rightarrow> err option" where
  "PrivateHandoffAcknowledgement_Validate sv v =
     thenE (failIf (\<not> ValidDigest (PrivateHandoffAcknowledgement_ChallengeDigest v) \<or> \<not> ValidDigest (PrivateHandoffAcknowledgement_AcknowledgementDigest v) \<or>
         PrivateHandoffAcknowledgement_CanonicalAcknowledgement v = [] \<or> int (length (PrivateHandoffAcknowledgement_CanonicalAcknowledgement v)) > MaxPrivateHandoffControlBytes)
       ''private handoff acknowledgement payload is invalid'')
     (withE (sv_Unmarshal sv ''SignedPrivateHandoffAcknowledgement'' (PrivateHandoffAcknowledgement_CanonicalAcknowledgement v)) (\<lambda>acknowledgement.
      failIf (sv_PrivateHandoffAcknowledgementDigest sv acknowledgement \<noteq> Inr (PrivateHandoffAcknowledgement_AcknowledgementDigest v) \<or>
          sv_text sv ''Record.ChallengeDigest'' acknowledgement \<noteq> PrivateHandoffAcknowledgement_ChallengeDigest v)
        ''private handoff acknowledgement digest mismatch''))"

definition PrivateHandoffAcknowledgement_encode :: "PrivateHandoffAcknowledgement \<Rightarrow> bytes" where
  "PrivateHandoffAcknowledgement_encode v = canon_Text (PrivateHandoffAcknowledgement_ChallengeDigest v) @
     canon_Text (PrivateHandoffAcknowledgement_AcknowledgementDigest v) @
     canon_Bytes (PrivateHandoffAcknowledgement_CanonicalAcknowledgement v)"

definition decodePrivateHandoffAcknowledgement :: "Reader \<Rightarrow> PrivateHandoffAcknowledgement \<times> Reader" where
  "decodePrivateHandoffAcknowledgement =
     bindR (r_Text MaxDigestBytes) (\<lambda>challengeDigest.
     bindR (r_Text MaxDigestBytes) (\<lambda>acknowledgementDigest.
     bindR (r_Bytes MaxPrivateHandoffControlBytes) (\<lambda>canonicalAcknowledgement.
     returnR \<lparr>PrivateHandoffAcknowledgement_ChallengeDigest = challengeDigest, PrivateHandoffAcknowledgement_AcknowledgementDigest = acknowledgementDigest, PrivateHandoffAcknowledgement_CanonicalAcknowledgement = canonicalAcknowledgement\<rparr>)))"

definition PrivateHandoffAcknowledgement_wire :: "PrivateHandoffAcknowledgement \<Rightarrow> bool" where
  "PrivateHandoffAcknowledgement_wire v \<longleftrightarrow> fits_text MaxDigestBytes (PrivateHandoffAcknowledgement_ChallengeDigest v) \<and>
     fits_text MaxDigestBytes (PrivateHandoffAcknowledgement_AcknowledgementDigest v) \<and>
     fits MaxPrivateHandoffControlBytes (PrivateHandoffAcknowledgement_CanonicalAcknowledgement v)"

record PrivateHandoffStatus =
  PrivateHandoffStatus_HandoffID :: string
  PrivateHandoffStatus_ActionID :: string
  PrivateHandoffStatus_State :: string
  PrivateHandoffStatus_EvidenceDigest :: string

definition PrivateHandoffStatus_Schema :: string where
  "PrivateHandoffStatus_Schema = ''tos.messaging.payload.private-handoff-status.v1''"

definition PrivateHandoffStatus_Validate :: "PrivateHandoffStatus \<Rightarrow> err option" where
  "PrivateHandoffStatus_Validate v =
     thenE (requireText ''private handoff ID'' (PrivateHandoffStatus_HandoffID v) MaxShortTextBytes)
     (thenE (requireDigest ''private handoff action ID'' (PrivateHandoffStatus_ActionID v))
     (thenE (requireMatch ''private handoff state'' (PrivateHandoffStatus_State v) tokenPattern)
     (optionalDigest ''private handoff evidence'' (PrivateHandoffStatus_EvidenceDigest v))))"

definition PrivateHandoffStatus_encode :: "PrivateHandoffStatus \<Rightarrow> bytes" where
  "PrivateHandoffStatus_encode v = canon_Text (PrivateHandoffStatus_HandoffID v) @
     canon_Text (PrivateHandoffStatus_ActionID v) @
     canon_Text (PrivateHandoffStatus_State v) @
     canon_Text (PrivateHandoffStatus_EvidenceDigest v)"

definition decodePrivateHandoffStatus :: "Reader \<Rightarrow> PrivateHandoffStatus \<times> Reader" where
  "decodePrivateHandoffStatus =
     bindR (r_Text MaxShortTextBytes) (\<lambda>handoffID.
     bindR (r_Text MaxDigestBytes) (\<lambda>actionID.
     bindR (r_Text MaxShortTextBytes) (\<lambda>state.
     bindR (r_Text MaxDigestBytes) (\<lambda>evidenceDigest.
     returnR \<lparr>PrivateHandoffStatus_HandoffID = handoffID, PrivateHandoffStatus_ActionID = actionID, PrivateHandoffStatus_State = state, PrivateHandoffStatus_EvidenceDigest = evidenceDigest\<rparr>))))"

definition PrivateHandoffStatus_wire :: "PrivateHandoffStatus \<Rightarrow> bool" where
  "PrivateHandoffStatus_wire v \<longleftrightarrow> fits_text MaxShortTextBytes (PrivateHandoffStatus_HandoffID v) \<and>
     fits_text MaxDigestBytes (PrivateHandoffStatus_ActionID v) \<and>
     fits_text MaxShortTextBytes (PrivateHandoffStatus_State v) \<and>
     fits_text MaxDigestBytes (PrivateHandoffStatus_EvidenceDigest v)"

text \<open>
  The three digests are checked in the iteration order of a Go map, which is not specified;
  the order written here only decides which of several messages is reported.
\<close>

record PrivateHandoffDelete =
  PrivateHandoffDelete_HandoffID :: string
  PrivateHandoffDelete_ContentManifestDigest :: string
  PrivateHandoffDelete_RetentionPolicyDigest :: string
  PrivateHandoffDelete_DeleteActionID :: string

definition PrivateHandoffDelete_Schema :: string where
  "PrivateHandoffDelete_Schema = ''tos.messaging.payload.private-handoff-delete.v1''"

definition PrivateHandoffDelete_Validate :: "PrivateHandoffDelete \<Rightarrow> err option" where
  "PrivateHandoffDelete_Validate v =
     thenE (requireText ''private handoff ID'' (PrivateHandoffDelete_HandoffID v) MaxShortTextBytes)
     (thenE (requireDigest ''content manifest'' (PrivateHandoffDelete_ContentManifestDigest v))
     (thenE (requireDigest ''retention policy'' (PrivateHandoffDelete_RetentionPolicyDigest v))
     (requireDigest ''delete action'' (PrivateHandoffDelete_DeleteActionID v))))"

definition PrivateHandoffDelete_encode :: "PrivateHandoffDelete \<Rightarrow> bytes" where
  "PrivateHandoffDelete_encode v = canon_Text (PrivateHandoffDelete_HandoffID v) @
     canon_Text (PrivateHandoffDelete_ContentManifestDigest v) @
     canon_Text (PrivateHandoffDelete_RetentionPolicyDigest v) @
     canon_Text (PrivateHandoffDelete_DeleteActionID v)"

definition decodePrivateHandoffDelete :: "Reader \<Rightarrow> PrivateHandoffDelete \<times> Reader" where
  "decodePrivateHandoffDelete =
     bindR (r_Text MaxShortTextBytes) (\<lambda>handoffID.
     bindR (r_Text MaxDigestBytes) (\<lambda>contentManifestDigest.
     bindR (r_Text MaxDigestBytes) (\<lambda>retentionPolicyDigest.
     bindR (r_Text MaxDigestBytes) (\<lambda>deleteActionID.
     returnR \<lparr>PrivateHandoffDelete_HandoffID = handoffID, PrivateHandoffDelete_ContentManifestDigest = contentManifestDigest, PrivateHandoffDelete_RetentionPolicyDigest = retentionPolicyDigest, PrivateHandoffDelete_DeleteActionID = deleteActionID\<rparr>))))"

definition PrivateHandoffDelete_wire :: "PrivateHandoffDelete \<Rightarrow> bool" where
  "PrivateHandoffDelete_wire v \<longleftrightarrow> fits_text MaxShortTextBytes (PrivateHandoffDelete_HandoffID v) \<and>
     fits_text MaxDigestBytes (PrivateHandoffDelete_ContentManifestDigest v) \<and>
     fits_text MaxDigestBytes (PrivateHandoffDelete_RetentionPolicyDigest v) \<and>
     fits_text MaxDigestBytes (PrivateHandoffDelete_DeleteActionID v)"

section \<open>Encrypted attachments\<close>

record EncryptedAttachment =
  EncryptedAttachment_ManifestDigest :: string
  EncryptedAttachment_ReferenceJSON :: bytes
  EncryptedAttachment_Locator :: string
  EncryptedAttachment_FetchGrantJSON :: bytes
  EncryptedAttachment_FetchCapabilityPrivateKeyHex :: string
  EncryptedAttachment_schema :: string

definition encryptedAttachmentV1Schema :: string where
  "encryptedAttachmentV1Schema = ''tos.messaging.payload.encrypted-attachment.v1''"

definition encryptedAttachmentV2Schema :: string where
  "encryptedAttachmentV2Schema = ''tos.messaging.payload.encrypted-attachment.v2''"

definition encryptedAttachmentV3Schema :: string where
  "encryptedAttachmentV3Schema = ''tos.messaging.payload.encrypted-attachment.v3''"

definition EncryptedAttachment_Schema :: "EncryptedAttachment \<Rightarrow> string" where
  "EncryptedAttachment_Schema v = (if EncryptedAttachment_schema v \<noteq> [] then EncryptedAttachment_schema v else encryptedAttachmentV3Schema)"

definition EncryptedAttachment_FetchAccess :: "'x Service \<Rightarrow> EncryptedAttachment \<Rightarrow> (CapabilityGrant \<times> bytes) res" where
  "EncryptedAttachment_FetchAccess sv v =
     (if EncryptedAttachment_Schema v \<noteq> encryptedAttachmentV3Schema \<or> EncryptedAttachment_FetchGrantJSON v = [] \<or>
         int (length (EncryptedAttachment_FetchGrantJSON v)) > MaxOpaqueBytes
      then Inl (Msg ''encrypted attachment has no bounded v3 fetch grant'')
      else bindE (DecodeGrantJSON (sv_GrantJSON sv) (EncryptedAttachment_FetchGrantJSON v)) (\<lambda>grant.
        case hex_decode (EncryptedAttachment_FetchCapabilityPrivateKeyHex v) of
          None \<Rightarrow> Inl (Msg ''invalid attachment fetch capability private key'')
        | Some key \<Rightarrow>
            if length key \<noteq> 64 \<or> hex_encode key \<noteq> EncryptedAttachment_FetchCapabilityPrivateKeyHex v
            then Inl (Msg ''invalid attachment fetch capability private key'')
            else (case hex_decode (gr_CapabilityPublicKeyHex grant) of
              None \<Rightarrow> Inl (Msg ''attachment fetch capability key does not match its grant'')
            | Some public_key \<Rightarrow>
                if ed_Public (sv_Ed25519 sv) key \<noteq> public_key
                then Inl (Msg ''attachment fetch capability key does not match its grant'')
                else Inr (grant, key))))"

definition EncryptedAttachment_Validate :: "'x Service \<Rightarrow> EncryptedAttachment \<Rightarrow> err option" where
  "EncryptedAttachment_Validate sv v =
     thenE (requireDigest ''attachment manifest digest'' (EncryptedAttachment_ManifestDigest v))
     (thenE (failIf (EncryptedAttachment_ReferenceJSON v = [] \<or> int (length (EncryptedAttachment_ReferenceJSON v)) > MaxOpaqueBytes)
       ''invalid encrypted attachment reference size'')
     (withE (DecodeReferenceJSON (sv_ReferenceJSON sv) (EncryptedAttachment_ReferenceJSON v)) (\<lambda>reference.
      thenE (failIf (ManifestDigest (rf_Manifest reference) \<noteq> Inr (EncryptedAttachment_ManifestDigest v))
        ''encrypted attachment reference does not match its manifest digest'')
      (if EncryptedAttachment_Schema v = encryptedAttachmentV1Schema
       then requireText ''attachment locator'' (EncryptedAttachment_Locator v) MaxShortTextBytes
       else thenE (failIf (EncryptedAttachment_Locator v = [] \<or> int (length (EncryptedAttachment_Locator v)) > MaxShortTextBytes)
         ''invalid attachment locator size'')
       (withE (ParseHTTPSLocator (sv_Urls sv) (EncryptedAttachment_Locator v) (EncryptedAttachment_ManifestDigest v)) (\<lambda>_.
        if EncryptedAttachment_Schema v = encryptedAttachmentV2Schema
        then failIf (EncryptedAttachment_FetchGrantJSON v \<noteq> [] \<or> EncryptedAttachment_FetchCapabilityPrivateKeyHex v \<noteq> [])
          ''historical encrypted attachment carries fetch authority''
        else thenE (failIf (EncryptedAttachment_Schema v \<noteq> encryptedAttachmentV3Schema)
          ''unsupported encrypted attachment schema'')
        (withE (EncryptedAttachment_FetchAccess sv v) (\<lambda>(grant, key).
         thenE (failIf (gr_ManifestDigest grant \<noteq> EncryptedAttachment_ManifestDigest v \<or>
             gr_CiphertextBytes grant \<noteq> mf_PlaintextBytes (rf_Manifest reference) +
               of_nat (length (mf_ChunkDigests (rf_Manifest reference))) * 16 \<or>
             gr_RetainUntilUnix grant \<noteq> mt_ExpiresAtUnix (rf_Metadata reference) \<or>
             length (gr_ChunkDigests grant) \<noteq> length (mf_ChunkDigests (rf_Manifest reference)))
           ''attachment fetch grant does not match its secret reference'')
         (thenE (failIf (list_ex (\<lambda>(granted, digest). granted \<noteq> digest)
             (zip (gr_ChunkDigests grant) (mf_ChunkDigests (rf_Manifest reference))))
           ''attachment fetch grant substituted a ciphertext object'')
         (failIf (gr_Operations grant \<noteq> [OperationFetch]) ''attachment recipient grant must be fetch-only''))))))))))"

definition EncryptedAttachment_encode :: "EncryptedAttachment \<Rightarrow> bytes" where
  "EncryptedAttachment_encode v = canon_Text (EncryptedAttachment_ManifestDigest v) @ canon_Bytes (EncryptedAttachment_ReferenceJSON v) @ canon_Text (EncryptedAttachment_Locator v) @
     (if EncryptedAttachment_Schema v = encryptedAttachmentV3Schema
      then canon_Bytes (EncryptedAttachment_FetchGrantJSON v) @ canon_Text (EncryptedAttachment_FetchCapabilityPrivateKeyHex v) else [])"

definition decodeEncryptedAttachment :: "Reader \<Rightarrow> EncryptedAttachment \<times> Reader" where
  "decodeEncryptedAttachment =
     bindR (r_Text MaxDigestBytes) (\<lambda>manifestDigest.
     bindR (r_Bytes MaxOpaqueBytes) (\<lambda>referenceJSON.
     bindR (r_Text MaxShortTextBytes) (\<lambda>locator.
     bindR (r_Bytes MaxOpaqueBytes) (\<lambda>fetchGrantJSON.
     bindR (r_Text (2 * 64)) (\<lambda>fetchCapabilityPrivateKeyHex.
     returnR \<lparr>EncryptedAttachment_ManifestDigest = manifestDigest, EncryptedAttachment_ReferenceJSON = referenceJSON, EncryptedAttachment_Locator = locator,
       EncryptedAttachment_FetchGrantJSON = fetchGrantJSON, EncryptedAttachment_FetchCapabilityPrivateKeyHex = fetchCapabilityPrivateKeyHex,
       EncryptedAttachment_schema = []\<rparr>)))))"

definition decodeEncryptedAttachmentV2 :: "Reader \<Rightarrow> EncryptedAttachment \<times> Reader" where
  "decodeEncryptedAttachmentV2 =
     bindR (r_Text MaxDigestBytes) (\<lambda>manifestDigest.
     bindR (r_Bytes MaxOpaqueBytes) (\<lambda>referenceJSON.
     bindR (r_Text MaxShortTextBytes) (\<lambda>locator.
     returnR \<lparr>EncryptedAttachment_ManifestDigest = manifestDigest, EncryptedAttachment_ReferenceJSON = referenceJSON, EncryptedAttachment_Locator = locator,
       EncryptedAttachment_FetchGrantJSON = [], EncryptedAttachment_FetchCapabilityPrivateKeyHex = [], EncryptedAttachment_schema = encryptedAttachmentV2Schema\<rparr>)))"

definition decodeEncryptedAttachmentV1 :: "Reader \<Rightarrow> EncryptedAttachment \<times> Reader" where
  "decodeEncryptedAttachmentV1 =
     bindR (r_Text MaxDigestBytes) (\<lambda>manifestDigest.
     bindR (r_Bytes MaxOpaqueBytes) (\<lambda>referenceJSON.
     bindR (r_Text MaxShortTextBytes) (\<lambda>locator.
     returnR \<lparr>EncryptedAttachment_ManifestDigest = manifestDigest, EncryptedAttachment_ReferenceJSON = referenceJSON, EncryptedAttachment_Locator = locator,
       EncryptedAttachment_FetchGrantJSON = [], EncryptedAttachment_FetchCapabilityPrivateKeyHex = [], EncryptedAttachment_schema = encryptedAttachmentV1Schema\<rparr>)))"

text \<open>The values each of the three decoders can return.\<close>

definition EncryptedAttachment_wire :: "EncryptedAttachment \<Rightarrow> bool" where
  "EncryptedAttachment_wire v \<longleftrightarrow> fits_text MaxDigestBytes (EncryptedAttachment_ManifestDigest v) \<and>
     fits MaxOpaqueBytes (EncryptedAttachment_ReferenceJSON v) \<and> fits_text MaxShortTextBytes (EncryptedAttachment_Locator v) \<and>
     (if EncryptedAttachment_schema v = []
      then fits MaxOpaqueBytes (EncryptedAttachment_FetchGrantJSON v) \<and> fits_text (2 * 64) (EncryptedAttachment_FetchCapabilityPrivateKeyHex v)
      else (EncryptedAttachment_schema v = encryptedAttachmentV1Schema \<or> EncryptedAttachment_schema v = encryptedAttachmentV2Schema) \<and>
        EncryptedAttachment_FetchGrantJSON v = [] \<and> EncryptedAttachment_FetchCapabilityPrivateKeyHex v = [])"

section \<open>Readers\<close>

lemma withE_None [simp]: "withE m f = None \<longleftrightarrow> (\<exists>v. m = Inr v \<and> f v = None)"
  by (auto simp: withE_def split: sum.splits)

lemma AgreementPropose_reader: "field_reader AgreementPropose_encode (AgreementPropose_wire) (decodeAgreementPropose)"
  unfolding AgreementPropose_encode_def [abs_def] decodeAgreementPropose_def
  by (rule field_reader_cong, (rule parses_rules)+) (auto simp: AgreementPropose_wire_def)

lemma AgreementPropose_fits: "AgreementPropose_Validate sv v = None \<Longrightarrow> AgreementPropose_wire v"
  unfolding AgreementPropose_Validate_def AgreementPropose_wire_def bounds
  by (auto simp: checked fits_def MaxAgreementPromotionBytes_def intro: fitting split: if_splits)

lemma AgreementAccept_reader: "field_reader AgreementAccept_encode (AgreementAccept_wire) (decodeAgreementAccept)"
  unfolding AgreementAccept_encode_def [abs_def] decodeAgreementAccept_def
  by (rule field_reader_cong, (rule parses_rules)+) (auto simp: AgreementAccept_wire_def)

lemma AgreementAccept_fits: "AgreementAccept_Validate sv v = None \<Longrightarrow> AgreementAccept_wire v"
  unfolding AgreementAccept_Validate_def AgreementAccept_wire_def bounds
  by (auto simp: checked fits_def MaxAgreementPromotionBytes_def intro: fitting split: if_splits)

lemma AgreementEvidence_reader: "field_reader AgreementEvidence_encode (AgreementEvidence_wire) (decodeAgreementEvidence)"
  unfolding AgreementEvidence_encode_def [abs_def] decodeAgreementEvidence_def
  by (rule field_reader_cong, (rule parses_rules)+) (auto simp: AgreementEvidence_wire_def)

lemma AgreementEvidence_fits: "AgreementEvidence_Validate sv v = None \<Longrightarrow> AgreementEvidence_wire v"
  unfolding AgreementEvidence_Validate_def AgreementEvidence_wire_def bounds
  by (auto simp: checked fits_def MaxAgreementPromotionBytes_def intro: fitting split: if_splits)

lemma PaidDemandProviderOffer_reader: "field_reader PaidDemandProviderOffer_encode (PaidDemandProviderOffer_wire) (decodePaidDemandProviderOffer)"
  unfolding PaidDemandProviderOffer_encode_def [abs_def] decodePaidDemandProviderOffer_def
  by (rule field_reader_cong, (rule parses_rules)+) (auto simp: PaidDemandProviderOffer_wire_def)

lemma PaidDemandProviderOffer_fits: "PaidDemandProviderOffer_Validate sv v = None \<Longrightarrow> PaidDemandProviderOffer_wire v"
  unfolding PaidDemandProviderOffer_Validate_def PaidDemandProviderOffer_wire_def bounds
  by (auto simp: checked fits_def MaxAgreementPromotionBytes_def intro: fitting split: if_splits)

lemma AgreementWithdraw_reader: "field_reader AgreementWithdraw_encode (AgreementWithdraw_wire) (decodeAgreementWithdraw)"
  unfolding AgreementWithdraw_encode_def [abs_def] decodeAgreementWithdraw_def
  by (rule field_reader_cong, (rule parses_rules)+) (auto simp: AgreementWithdraw_wire_def)

lemma AgreementWithdraw_fits: "AgreementWithdraw_Validate v = None \<Longrightarrow> AgreementWithdraw_wire v"
  unfolding AgreementWithdraw_Validate_def AgreementWithdraw_wire_def bounds
  by (auto simp: checked fits_def  intro: fitting split: if_splits)

lemma AgreementDelivery_reader: "field_reader AgreementDelivery_encode (AgreementDelivery_wire) (decodeAgreementDelivery)"
  unfolding AgreementDelivery_encode_def [abs_def] decodeAgreementDelivery_def
  by (rule field_reader_cong, (rule parses_rules)+) (auto simp: AgreementDelivery_wire_def)

lemma AgreementDelivery_fits: "AgreementDelivery_Validate v = None \<Longrightarrow> AgreementDelivery_wire v"
  unfolding AgreementDelivery_Validate_def AgreementDelivery_wire_def bounds
  by (auto simp: checked fits_def  intro: fitting split: if_splits)

lemma CommerceProfileEvent_reader: "field_reader CommerceProfileEvent_encode (CommerceProfileEvent_wire sv) (decodeCommerceProfileEvent sv)"
  unfolding CommerceProfileEvent_encode_def [abs_def] decodeCommerceProfileEvent_def
  by (rule field_reader_cong, (rule parses_rules)+) (auto simp: CommerceProfileEvent_wire_def)

lemma CommerceProfileEvent_fits:
  "CommerceProfileEvent_Validate sv v = None \<Longrightarrow> sv_MaxProfileEventBytes sv < 2 ^ 32 \<Longrightarrow> CommerceProfileEvent_wire sv v"
  unfolding CommerceProfileEvent_Validate_def CommerceProfileEvent_wire_def bounds
  by (auto simp: fits_def intro: fitting)

lemma IntentApplication_reader: "field_reader IntentApplication_encode (IntentApplication_wire) (decodeIntentApplication)"
  unfolding IntentApplication_encode_def [abs_def] decodeIntentApplication_def
  by (rule field_reader_cong, (rule parses_rules)+) (auto simp: IntentApplication_wire_def)

lemma IntentApplication_fits: "IntentApplication_Validate sv v = None \<Longrightarrow> IntentApplication_wire v"
  unfolding IntentApplication_Validate_def IntentApplication_wire_def bounds
  by (auto simp: checked fits_def MaxIntentApplicationBytes_def intro: fitting split: if_splits)

lemma OperationOutcome_reader: "field_reader OperationOutcome_encode (OperationOutcome_wire) (decodeOperationOutcome)"
  unfolding OperationOutcome_encode_def [abs_def] decodeOperationOutcome_def
  by (rule field_reader_cong, (rule parses_rules)+) (auto simp: OperationOutcome_wire_def)

lemma OperationOutcome_fits: "OperationOutcome_Validate sv v = None \<Longrightarrow> OperationOutcome_wire v"
  unfolding OperationOutcome_Validate_def OperationOutcome_wire_def bounds
  by (auto simp: checked fits_def MaxInlineOperationOutcomeBytes_def intro: fitting split: if_splits)

lemma PrivateHandoffChallenge_reader: "field_reader PrivateHandoffChallenge_encode (PrivateHandoffChallenge_wire) (decodePrivateHandoffChallenge)"
  unfolding PrivateHandoffChallenge_encode_def [abs_def] decodePrivateHandoffChallenge_def
  by (rule field_reader_cong, (rule parses_rules)+) (auto simp: PrivateHandoffChallenge_wire_def)

lemma PrivateHandoffChallenge_fits: "PrivateHandoffChallenge_Validate sv v = None \<Longrightarrow> PrivateHandoffChallenge_wire v"
  unfolding PrivateHandoffChallenge_Validate_def PrivateHandoffChallenge_wire_def bounds
  by (auto simp: checked fits_def MaxPrivateHandoffControlBytes_def intro: fitting split: if_splits)

lemma PrivateHandoffAuthorization_reader: "field_reader PrivateHandoffAuthorization_encode (PrivateHandoffAuthorization_wire) (decodePrivateHandoffAuthorization)"
  unfolding PrivateHandoffAuthorization_encode_def [abs_def] decodePrivateHandoffAuthorization_def
  by (rule field_reader_cong, (rule parses_rules)+) (auto simp: PrivateHandoffAuthorization_wire_def)

lemma PrivateHandoffAuthorization_fits: "PrivateHandoffAuthorization_Validate sv v = None \<Longrightarrow> PrivateHandoffAuthorization_wire v"
  unfolding PrivateHandoffAuthorization_Validate_def PrivateHandoffAuthorization_wire_def bounds
  by (auto simp: checked fits_def MaxPrivateHandoffControlBytes_def intro: fitting split: if_splits)

lemma PrivateHandoffAcknowledgement_reader: "field_reader PrivateHandoffAcknowledgement_encode (PrivateHandoffAcknowledgement_wire) (decodePrivateHandoffAcknowledgement)"
  unfolding PrivateHandoffAcknowledgement_encode_def [abs_def] decodePrivateHandoffAcknowledgement_def
  by (rule field_reader_cong, (rule parses_rules)+) (auto simp: PrivateHandoffAcknowledgement_wire_def)

lemma PrivateHandoffAcknowledgement_fits: "PrivateHandoffAcknowledgement_Validate sv v = None \<Longrightarrow> PrivateHandoffAcknowledgement_wire v"
  unfolding PrivateHandoffAcknowledgement_Validate_def PrivateHandoffAcknowledgement_wire_def bounds
  by (auto simp: checked fits_def MaxPrivateHandoffControlBytes_def intro: fitting split: if_splits)

lemma PrivateHandoffStatus_reader: "field_reader PrivateHandoffStatus_encode (PrivateHandoffStatus_wire) (decodePrivateHandoffStatus)"
  unfolding PrivateHandoffStatus_encode_def [abs_def] decodePrivateHandoffStatus_def
  by (rule field_reader_cong, (rule parses_rules)+) (auto simp: PrivateHandoffStatus_wire_def)

lemma PrivateHandoffStatus_fits: "PrivateHandoffStatus_Validate v = None \<Longrightarrow> int (length (PrivateHandoffStatus_State v)) \<le> 512 \<Longrightarrow> PrivateHandoffStatus_wire v"
  unfolding PrivateHandoffStatus_Validate_def PrivateHandoffStatus_wire_def bounds
  by (auto simp: checked  intro: fitting split: if_splits)

lemma PrivateHandoffDelete_reader: "field_reader PrivateHandoffDelete_encode (PrivateHandoffDelete_wire) (decodePrivateHandoffDelete)"
  unfolding PrivateHandoffDelete_encode_def [abs_def] decodePrivateHandoffDelete_def
  by (rule field_reader_cong, (rule parses_rules)+) (auto simp: PrivateHandoffDelete_wire_def)

lemma PrivateHandoffDelete_fits: "PrivateHandoffDelete_Validate v = None \<Longrightarrow> PrivateHandoffDelete_wire v"
  unfolding PrivateHandoffDelete_Validate_def PrivateHandoffDelete_wire_def bounds
  by (auto simp: checked fits_def  intro: fitting split: if_splits)

lemma schema_versions [simp]: "encryptedAttachmentV1Schema \<noteq> encryptedAttachmentV2Schema" "encryptedAttachmentV1Schema \<noteq> encryptedAttachmentV3Schema"
  "encryptedAttachmentV2Schema \<noteq> encryptedAttachmentV3Schema" "encryptedAttachmentV1Schema \<noteq> []" "encryptedAttachmentV2Schema \<noteq> []"
  "encryptedAttachmentV2Schema \<noteq> encryptedAttachmentV1Schema" "encryptedAttachmentV3Schema \<noteq> encryptedAttachmentV1Schema"
  "encryptedAttachmentV3Schema \<noteq> encryptedAttachmentV2Schema" "[] \<noteq> encryptedAttachmentV1Schema" "[] \<noteq> encryptedAttachmentV2Schema"
  by (simp_all add: encryptedAttachmentV1Schema_def encryptedAttachmentV2Schema_def encryptedAttachmentV3Schema_def)

lemma EncryptedAttachment_reader:
  "field_reader EncryptedAttachment_encode (\<lambda>v. EncryptedAttachment_wire v \<and> EncryptedAttachment_schema v = []) decodeEncryptedAttachment"
proof (rule field_reader_enc)
  show "field_reader (\<lambda>v. canon_Text (EncryptedAttachment_ManifestDigest v) @ canon_Bytes (EncryptedAttachment_ReferenceJSON v) @
      canon_Text (EncryptedAttachment_Locator v) @ canon_Bytes (EncryptedAttachment_FetchGrantJSON v) @
      canon_Text (EncryptedAttachment_FetchCapabilityPrivateKeyHex v))
    (\<lambda>v. EncryptedAttachment_wire v \<and> EncryptedAttachment_schema v = []) decodeEncryptedAttachment"
    unfolding decodeEncryptedAttachment_def
    by (rule field_reader_cong, rule parses_from [of "\<lambda>v. EncryptedAttachment_schema v = []"], (rule parses_rules)+)
      (auto simp: EncryptedAttachment_wire_def)
qed (simp add: EncryptedAttachment_encode_def EncryptedAttachment_Schema_def)

lemma EncryptedAttachmentV2_reader:
  "field_reader EncryptedAttachment_encode (\<lambda>v. EncryptedAttachment_wire v \<and> EncryptedAttachment_schema v = encryptedAttachmentV2Schema)
     decodeEncryptedAttachmentV2"
proof (rule field_reader_enc)
  show "field_reader (\<lambda>v. canon_Text (EncryptedAttachment_ManifestDigest v) @ canon_Bytes (EncryptedAttachment_ReferenceJSON v) @
      canon_Text (EncryptedAttachment_Locator v))
    (\<lambda>v. EncryptedAttachment_wire v \<and> EncryptedAttachment_schema v = encryptedAttachmentV2Schema) decodeEncryptedAttachmentV2"
    unfolding decodeEncryptedAttachmentV2_def
    by (rule field_reader_cong, rule parses_from [of "\<lambda>v. EncryptedAttachment_schema v = encryptedAttachmentV2Schema \<and>
        EncryptedAttachment_FetchGrantJSON v = [] \<and> EncryptedAttachment_FetchCapabilityPrivateKeyHex v = []"], (rule parses_rules)+)
      (auto simp: EncryptedAttachment_wire_def)
qed (simp add: EncryptedAttachment_encode_def EncryptedAttachment_Schema_def)

lemma EncryptedAttachmentV1_reader:
  "field_reader EncryptedAttachment_encode (\<lambda>v. EncryptedAttachment_wire v \<and> EncryptedAttachment_schema v = encryptedAttachmentV1Schema)
     decodeEncryptedAttachmentV1"
proof (rule field_reader_enc)
  show "field_reader (\<lambda>v. canon_Text (EncryptedAttachment_ManifestDigest v) @ canon_Bytes (EncryptedAttachment_ReferenceJSON v) @
      canon_Text (EncryptedAttachment_Locator v))
    (\<lambda>v. EncryptedAttachment_wire v \<and> EncryptedAttachment_schema v = encryptedAttachmentV1Schema) decodeEncryptedAttachmentV1"
    unfolding decodeEncryptedAttachmentV1_def
    by (rule field_reader_cong, rule parses_from [of "\<lambda>v. EncryptedAttachment_schema v = encryptedAttachmentV1Schema \<and>
        EncryptedAttachment_FetchGrantJSON v = [] \<and> EncryptedAttachment_FetchCapabilityPrivateKeyHex v = []"], (rule parses_rules)+)
      (auto simp: EncryptedAttachment_wire_def)
qed (simp add: EncryptedAttachment_encode_def EncryptedAttachment_Schema_def)

end
