(* ===== verification/Payload.thy ===== *)
theory Payload
  imports PayloadService
begin

text \<open>
  The registry of payload bodies (\<open>pkg/payload/payload.go\<close> and \<open>registry.go\<close>): the
  interface \<open>Payload\<close> as a datatype of the fifty-three bodies, its methods by case, the table
  of codecs, and \<open>Encode\<close>, \<open>Decode\<close> and their companions over it.

  Shown here: decoding is canonical, so a body has exactly one encoding; a body that is encoded
  and whose texts fit the reader's bounds is decoded back; the bytes of one kind are never
  accepted under another kind or schema; encoding never panics; and a body that validation
  accepts but the reader refuses.
\<close>

section \<open>The interface\<close>

datatype Payload =
    PText Text
  | PConversationInvite ConversationInvite
  | PConversationAccept ConversationAccept
  | PPresenceHint PresenceHint
  | PGiftAddressRequest GiftAddressRequest
  | PGiftAddressResponse GiftAddressResponse
  | PGiftSignedBOCOffer GiftSignedBOCOffer
  | PTaskRequest TaskRequest
  | PTaskProgress TaskProgress
  | PTaskResult TaskResult
  | PTaskStatusRequest TaskStatusRequest
  | PNegotiationProposal NegotiationProposal
  | PNegotiationCounterproposal NegotiationCounterproposal
  | PNegotiationWithdraw NegotiationWithdraw
  | PNegotiationIntentAccept NegotiationIntentAccept
  | PNegotiationIntentReject NegotiationIntentReject
  | PIntentApplication IntentApplication
  | PAgreementPropose AgreementPropose
  | PAgreementAccept AgreementAccept
  | PAgreementEvidence AgreementEvidence
  | PAgreementWithdraw AgreementWithdraw
  | PAgreementDelivery AgreementDelivery
  | PPaidDemandProviderOffer PaidDemandProviderOffer
  | PCommerceProfileEvent CommerceProfileEvent
  | POperationOutcome OperationOutcome
  | PPrivateHandoffChallenge PrivateHandoffChallenge
  | PPrivateHandoffAuthorization PrivateHandoffAuthorization
  | PPrivateHandoffAcknowledgement PrivateHandoffAcknowledgement
  | PPrivateHandoffStatus PrivateHandoffStatus
  | PPrivateHandoffDelete PrivateHandoffDelete
  | PCounterpartyApprovalRequest CounterpartyApprovalRequest
  | PCounterpartyApprovalGranted CounterpartyApprovalGranted
  | PCounterpartyApprovalDenied CounterpartyApprovalDenied
  | POwnerApprovalGrant OwnerApprovalGrant
  | POwnerApprovalDeny OwnerApprovalDeny
  | PA2AMessage Foreign
  | PMCPCall Foreign
  | PMCPResult Foreign
  | PAgentPacketMessage Foreign
  | PArtifactOffer ArtifactOffer
  | PArtifactReference ArtifactReference
  | PEncryptedAttachment EncryptedAttachment
  | PQuoteReference ChainReference
  | PEscrowReference ChainReference
  | PReceiptReference ChainReference
  | PDeliveryAck DeliveryAck
  | PApplicationAck ApplicationAck
  | PReadAck ReadAck
  | PDeviceHistorySegment DeviceHistorySegment
  | PRoomInvite RoomInvite
  | PRoomMembershipCommit RoomMembershipCommit
  | PRoomMessage RoomMessage
  | PRoomModeration RoomModeration

primrec Payload_Schema :: "Payload \<Rightarrow> string" where
  "Payload_Schema (PText v) = Text_Schema"
| "Payload_Schema (PConversationInvite v) = ConversationInvite_Schema"
| "Payload_Schema (PConversationAccept v) = ConversationAccept_Schema"
| "Payload_Schema (PPresenceHint v) = PresenceHint_Schema"
| "Payload_Schema (PGiftAddressRequest v) = GiftAddressRequest_Schema"
| "Payload_Schema (PGiftAddressResponse v) = GiftAddressResponse_Schema"
| "Payload_Schema (PGiftSignedBOCOffer v) = GiftSignedBOCOffer_Schema"
| "Payload_Schema (PTaskRequest v) = TaskRequest_Schema"
| "Payload_Schema (PTaskProgress v) = TaskProgress_Schema"
| "Payload_Schema (PTaskResult v) = TaskResult_Schema"
| "Payload_Schema (PTaskStatusRequest v) = TaskStatusRequest_Schema"
| "Payload_Schema (PNegotiationProposal v) = NegotiationProposal_Schema"
| "Payload_Schema (PNegotiationCounterproposal v) = NegotiationCounterproposal_Schema"
| "Payload_Schema (PNegotiationWithdraw v) = NegotiationWithdraw_Schema"
| "Payload_Schema (PNegotiationIntentAccept v) = NegotiationIntentAccept_Schema"
| "Payload_Schema (PNegotiationIntentReject v) = NegotiationIntentReject_Schema"
| "Payload_Schema (PIntentApplication v) = IntentApplication_Schema"
| "Payload_Schema (PAgreementPropose v) = AgreementPropose_Schema"
| "Payload_Schema (PAgreementAccept v) = AgreementAccept_Schema"
| "Payload_Schema (PAgreementEvidence v) = AgreementEvidence_Schema"
| "Payload_Schema (PAgreementWithdraw v) = AgreementWithdraw_Schema"
| "Payload_Schema (PAgreementDelivery v) = AgreementDelivery_Schema"
| "Payload_Schema (PPaidDemandProviderOffer v) = PaidDemandProviderOffer_Schema"
| "Payload_Schema (PCommerceProfileEvent v) = CommerceProfileEvent_Schema"
| "Payload_Schema (POperationOutcome v) = OperationOutcome_Schema"
| "Payload_Schema (PPrivateHandoffChallenge v) = PrivateHandoffChallenge_Schema"
| "Payload_Schema (PPrivateHandoffAuthorization v) = PrivateHandoffAuthorization_Schema"
| "Payload_Schema (PPrivateHandoffAcknowledgement v) = PrivateHandoffAcknowledgement_Schema"
| "Payload_Schema (PPrivateHandoffStatus v) = PrivateHandoffStatus_Schema"
| "Payload_Schema (PPrivateHandoffDelete v) = PrivateHandoffDelete_Schema"
| "Payload_Schema (PCounterpartyApprovalRequest v) = CounterpartyApprovalRequest_Schema"
| "Payload_Schema (PCounterpartyApprovalGranted v) = CounterpartyApprovalGranted_Schema"
| "Payload_Schema (PCounterpartyApprovalDenied v) = CounterpartyApprovalDenied_Schema"
| "Payload_Schema (POwnerApprovalGrant v) = OwnerApprovalGrant_Schema"
| "Payload_Schema (POwnerApprovalDeny v) = OwnerApprovalDeny_Schema"
| "Payload_Schema (PA2AMessage v) = A2AMessage_Schema"
| "Payload_Schema (PMCPCall v) = MCPCall_Schema"
| "Payload_Schema (PMCPResult v) = MCPResult_Schema"
| "Payload_Schema (PAgentPacketMessage v) = AgentPacketMessage_Schema"
| "Payload_Schema (PArtifactOffer v) = ArtifactOffer_Schema"
| "Payload_Schema (PArtifactReference v) = ArtifactReference_Schema"
| "Payload_Schema (PEncryptedAttachment v) = EncryptedAttachment_Schema v"
| "Payload_Schema (PQuoteReference v) = QuoteReference_Schema"
| "Payload_Schema (PEscrowReference v) = EscrowReference_Schema"
| "Payload_Schema (PReceiptReference v) = ReceiptReference_Schema"
| "Payload_Schema (PDeliveryAck v) = DeliveryAck_Schema"
| "Payload_Schema (PApplicationAck v) = ApplicationAck_Schema"
| "Payload_Schema (PReadAck v) = ReadAck_Schema"
| "Payload_Schema (PDeviceHistorySegment v) = DeviceHistorySegment_Schema"
| "Payload_Schema (PRoomInvite v) = RoomInvite_Schema"
| "Payload_Schema (PRoomMembershipCommit v) = RoomMembershipCommit_Schema"
| "Payload_Schema (PRoomMessage v) = RoomMessage_Schema"
| "Payload_Schema (PRoomModeration v) = RoomModeration_Schema"

primrec Payload_Validate :: "'x Service \<Rightarrow> Payload \<Rightarrow> err option" where
  "Payload_Validate sv (PText v) = Text_Validate v"
| "Payload_Validate sv (PConversationInvite v) = ConversationInvite_Validate v"
| "Payload_Validate sv (PConversationAccept v) = ConversationAccept_Validate v"
| "Payload_Validate sv (PPresenceHint v) = PresenceHint_Validate v"
| "Payload_Validate sv (PGiftAddressRequest v) = GiftAddressRequest_Validate v"
| "Payload_Validate sv (PGiftAddressResponse v) = GiftAddressResponse_Validate v"
| "Payload_Validate sv (PGiftSignedBOCOffer v) = GiftSignedBOCOffer_Validate v"
| "Payload_Validate sv (PTaskRequest v) = TaskRequest_Validate v"
| "Payload_Validate sv (PTaskProgress v) = TaskProgress_Validate v"
| "Payload_Validate sv (PTaskResult v) = TaskResult_Validate v"
| "Payload_Validate sv (PTaskStatusRequest v) = TaskStatusRequest_Validate v"
| "Payload_Validate sv (PNegotiationProposal v) = NegotiationProposal_Validate v"
| "Payload_Validate sv (PNegotiationCounterproposal v) = NegotiationCounterproposal_Validate v"
| "Payload_Validate sv (PNegotiationWithdraw v) = NegotiationWithdraw_Validate v"
| "Payload_Validate sv (PNegotiationIntentAccept v) = NegotiationIntentAccept_Validate v"
| "Payload_Validate sv (PNegotiationIntentReject v) = NegotiationIntentReject_Validate v"
| "Payload_Validate sv (PIntentApplication v) = IntentApplication_Validate sv v"
| "Payload_Validate sv (PAgreementPropose v) = AgreementPropose_Validate sv v"
| "Payload_Validate sv (PAgreementAccept v) = AgreementAccept_Validate sv v"
| "Payload_Validate sv (PAgreementEvidence v) = AgreementEvidence_Validate sv v"
| "Payload_Validate sv (PAgreementWithdraw v) = AgreementWithdraw_Validate v"
| "Payload_Validate sv (PAgreementDelivery v) = AgreementDelivery_Validate v"
| "Payload_Validate sv (PPaidDemandProviderOffer v) = PaidDemandProviderOffer_Validate sv v"
| "Payload_Validate sv (PCommerceProfileEvent v) = CommerceProfileEvent_Validate sv v"
| "Payload_Validate sv (POperationOutcome v) = OperationOutcome_Validate sv v"
| "Payload_Validate sv (PPrivateHandoffChallenge v) = PrivateHandoffChallenge_Validate sv v"
| "Payload_Validate sv (PPrivateHandoffAuthorization v) = PrivateHandoffAuthorization_Validate sv v"
| "Payload_Validate sv (PPrivateHandoffAcknowledgement v) = PrivateHandoffAcknowledgement_Validate sv v"
| "Payload_Validate sv (PPrivateHandoffStatus v) = PrivateHandoffStatus_Validate v"
| "Payload_Validate sv (PPrivateHandoffDelete v) = PrivateHandoffDelete_Validate v"
| "Payload_Validate sv (PCounterpartyApprovalRequest v) = CounterpartyApprovalRequest_Validate v"
| "Payload_Validate sv (PCounterpartyApprovalGranted v) = CounterpartyApprovalGranted_Validate v"
| "Payload_Validate sv (PCounterpartyApprovalDenied v) = CounterpartyApprovalDenied_Validate v"
| "Payload_Validate sv (POwnerApprovalGrant v) = OwnerApprovalGrant_Validate v"
| "Payload_Validate sv (POwnerApprovalDeny v) = OwnerApprovalDeny_Validate v"
| "Payload_Validate sv (PA2AMessage v) = A2AMessage_Validate v"
| "Payload_Validate sv (PMCPCall v) = MCPCall_Validate v"
| "Payload_Validate sv (PMCPResult v) = MCPResult_Validate v"
| "Payload_Validate sv (PAgentPacketMessage v) = AgentPacketMessage_Validate v"
| "Payload_Validate sv (PArtifactOffer v) = ArtifactOffer_Validate v"
| "Payload_Validate sv (PArtifactReference v) = ArtifactReference_Validate v"
| "Payload_Validate sv (PEncryptedAttachment v) = EncryptedAttachment_Validate sv v"
| "Payload_Validate sv (PQuoteReference v) = QuoteReference_Validate v"
| "Payload_Validate sv (PEscrowReference v) = EscrowReference_Validate v"
| "Payload_Validate sv (PReceiptReference v) = ReceiptReference_Validate v"
| "Payload_Validate sv (PDeliveryAck v) = DeliveryAck_Validate v"
| "Payload_Validate sv (PApplicationAck v) = ApplicationAck_Validate v"
| "Payload_Validate sv (PReadAck v) = ReadAck_Validate v"
| "Payload_Validate sv (PDeviceHistorySegment v) = DeviceHistorySegment_Validate v"
| "Payload_Validate sv (PRoomInvite v) = RoomInvite_Validate v"
| "Payload_Validate sv (PRoomMembershipCommit v) = RoomMembershipCommit_Validate v"
| "Payload_Validate sv (PRoomMessage v) = RoomMessage_Validate v"
| "Payload_Validate sv (PRoomModeration v) = RoomModeration_Validate v"

text \<open>\<open>None\<close> is the panic of the terms encoder.\<close>

primrec Payload_encode :: "Payload \<Rightarrow> bytes option" where
  "Payload_encode (PText v) = Some (Text_encode v)"
| "Payload_encode (PConversationInvite v) = Some (ConversationInvite_encode v)"
| "Payload_encode (PConversationAccept v) = Some (ConversationAccept_encode v)"
| "Payload_encode (PPresenceHint v) = Some (PresenceHint_encode v)"
| "Payload_encode (PGiftAddressRequest v) = Some (GiftAddressRequest_encode v)"
| "Payload_encode (PGiftAddressResponse v) = Some (GiftAddressResponse_encode v)"
| "Payload_encode (PGiftSignedBOCOffer v) = Some (GiftSignedBOCOffer_encode v)"
| "Payload_encode (PTaskRequest v) = Some (TaskRequest_encode v)"
| "Payload_encode (PTaskProgress v) = Some (TaskProgress_encode v)"
| "Payload_encode (PTaskResult v) = Some (TaskResult_encode v)"
| "Payload_encode (PTaskStatusRequest v) = Some (TaskStatusRequest_encode v)"
| "Payload_encode (PNegotiationProposal v) = NegotiationProposal_encode v"
| "Payload_encode (PNegotiationCounterproposal v) = NegotiationCounterproposal_encode v"
| "Payload_encode (PNegotiationWithdraw v) = Some (NegotiationWithdraw_encode v)"
| "Payload_encode (PNegotiationIntentAccept v) = NegotiationIntentAccept_encode v"
| "Payload_encode (PNegotiationIntentReject v) = Some (NegotiationIntentReject_encode v)"
| "Payload_encode (PIntentApplication v) = Some (IntentApplication_encode v)"
| "Payload_encode (PAgreementPropose v) = Some (AgreementPropose_encode v)"
| "Payload_encode (PAgreementAccept v) = Some (AgreementAccept_encode v)"
| "Payload_encode (PAgreementEvidence v) = Some (AgreementEvidence_encode v)"
| "Payload_encode (PAgreementWithdraw v) = Some (AgreementWithdraw_encode v)"
| "Payload_encode (PAgreementDelivery v) = Some (AgreementDelivery_encode v)"
| "Payload_encode (PPaidDemandProviderOffer v) = Some (PaidDemandProviderOffer_encode v)"
| "Payload_encode (PCommerceProfileEvent v) = Some (CommerceProfileEvent_encode v)"
| "Payload_encode (POperationOutcome v) = Some (OperationOutcome_encode v)"
| "Payload_encode (PPrivateHandoffChallenge v) = Some (PrivateHandoffChallenge_encode v)"
| "Payload_encode (PPrivateHandoffAuthorization v) = Some (PrivateHandoffAuthorization_encode v)"
| "Payload_encode (PPrivateHandoffAcknowledgement v) = Some (PrivateHandoffAcknowledgement_encode v)"
| "Payload_encode (PPrivateHandoffStatus v) = Some (PrivateHandoffStatus_encode v)"
| "Payload_encode (PPrivateHandoffDelete v) = Some (PrivateHandoffDelete_encode v)"
| "Payload_encode (PCounterpartyApprovalRequest v) = Some (CounterpartyApprovalRequest_encode v)"
| "Payload_encode (PCounterpartyApprovalGranted v) = Some (CounterpartyApprovalGranted_encode v)"
| "Payload_encode (PCounterpartyApprovalDenied v) = Some (CounterpartyApprovalDenied_encode v)"
| "Payload_encode (POwnerApprovalGrant v) = Some (OwnerApprovalGrant_encode v)"
| "Payload_encode (POwnerApprovalDeny v) = Some (OwnerApprovalDeny_encode v)"
| "Payload_encode (PA2AMessage v) = Some (Foreign_encode v)"
| "Payload_encode (PMCPCall v) = Some (Foreign_encode v)"
| "Payload_encode (PMCPResult v) = Some (Foreign_encode v)"
| "Payload_encode (PAgentPacketMessage v) = Some (Foreign_encode v)"
| "Payload_encode (PArtifactOffer v) = Some (ArtifactOffer_encode v)"
| "Payload_encode (PArtifactReference v) = Some (ArtifactReference_encode v)"
| "Payload_encode (PEncryptedAttachment v) = Some (EncryptedAttachment_encode v)"
| "Payload_encode (PQuoteReference v) = Some (ChainReference_encode v)"
| "Payload_encode (PEscrowReference v) = Some (ChainReference_encode v)"
| "Payload_encode (PReceiptReference v) = Some (ChainReference_encode v)"
| "Payload_encode (PDeliveryAck v) = Some (DeliveryAck_encode v)"
| "Payload_encode (PApplicationAck v) = Some (ApplicationAck_encode v)"
| "Payload_encode (PReadAck v) = Some (ReadAck_encode v)"
| "Payload_encode (PDeviceHistorySegment v) = Some (DeviceHistorySegment_encode v)"
| "Payload_encode (PRoomInvite v) = Some (RoomInvite_encode v)"
| "Payload_encode (PRoomMembershipCommit v) = Some (RoomMembershipCommit_encode v)"
| "Payload_encode (PRoomMessage v) = Some (RoomMessage_encode v)"
| "Payload_encode (PRoomModeration v) = Some (RoomModeration_encode v)"

section \<open>The registry\<close>

record codec =
  co_schema :: string
  co_decode :: "Reader \<Rightarrow> Payload \<times> Reader"
  co_legacy :: "(string, Reader \<Rightarrow> Payload \<times> Reader) dir"

text \<open>A decoder of one body, returning it as a \<open>Payload\<close>.\<close>

definition mapR :: "('a \<Rightarrow> 'b) \<Rightarrow> (Reader \<Rightarrow> 'a \<times> Reader) \<Rightarrow> Reader \<Rightarrow> 'b \<times> Reader" where
  "mapR c rd r = (case rd r of (v, r') \<Rightarrow> (c v, r'))"

definition codec_of :: "('a \<Rightarrow> Payload) \<Rightarrow> string \<Rightarrow> (Reader \<Rightarrow> 'a \<times> Reader) \<Rightarrow> codec" where
  "codec_of c schema rd = \<lparr>co_schema = schema, co_decode = mapR c rd, co_legacy = []\<rparr>"

definition codecs :: "'x Service \<Rightarrow> (string, codec) dir" where
  "codecs sv = [
     (''text'', codec_of PText Text_Schema decodeText),
     (''conversation.invite'', codec_of PConversationInvite ConversationInvite_Schema decodeConversationInvite),
     (''conversation.accept'', codec_of PConversationAccept ConversationAccept_Schema decodeConversationAccept),
     (''presence.hint'', codec_of PPresenceHint PresenceHint_Schema decodePresenceHint),
     (''agent.gift.address-request'', codec_of PGiftAddressRequest GiftAddressRequest_Schema decodeGiftAddressRequest),
     (''agent.gift.address-response'', codec_of PGiftAddressResponse GiftAddressResponse_Schema decodeGiftAddressResponse),
     (''agent.gift.signed-boc-offer'', codec_of PGiftSignedBOCOffer GiftSignedBOCOffer_Schema decodeGiftSignedBOCOffer),
     (''agent.task.request'', codec_of PTaskRequest TaskRequest_Schema decodeTaskRequest),
     (''agent.task.progress'', codec_of PTaskProgress TaskProgress_Schema decodeTaskProgress),
     (''agent.task.result'', codec_of PTaskResult TaskResult_Schema decodeTaskResult),
     (''agent.task.status.request'', codec_of PTaskStatusRequest TaskStatusRequest_Schema decodeTaskStatusRequest),
     (''negotiation.proposal'', codec_of PNegotiationProposal NegotiationProposal_Schema decodeNegotiationProposal),
     (''negotiation.counterproposal'', codec_of PNegotiationCounterproposal NegotiationCounterproposal_Schema decodeNegotiationCounterproposal),
     (''negotiation.withdraw'', codec_of PNegotiationWithdraw NegotiationWithdraw_Schema decodeNegotiationWithdraw),
     (''negotiation.intent.accept'', codec_of PNegotiationIntentAccept NegotiationIntentAccept_Schema decodeNegotiationIntentAccept),
     (''negotiation.intent.reject'', codec_of PNegotiationIntentReject NegotiationIntentReject_Schema decodeNegotiationIntentReject),
     (''intent.application'', codec_of PIntentApplication IntentApplication_Schema decodeIntentApplication),
     (''agreement.propose'', codec_of PAgreementPropose AgreementPropose_Schema decodeAgreementPropose),
     (''agreement.accept'', codec_of PAgreementAccept AgreementAccept_Schema decodeAgreementAccept),
     (''agreement.evidence'', codec_of PAgreementEvidence AgreementEvidence_Schema decodeAgreementEvidence),
     (''agreement.withdraw'', codec_of PAgreementWithdraw AgreementWithdraw_Schema decodeAgreementWithdraw),
     (''agreement.delivery'', codec_of PAgreementDelivery AgreementDelivery_Schema decodeAgreementDelivery),
     (''agreement.provider-offer'', codec_of PPaidDemandProviderOffer PaidDemandProviderOffer_Schema decodePaidDemandProviderOffer),
     (''commerce.profile-event'', codec_of PCommerceProfileEvent CommerceProfileEvent_Schema (decodeCommerceProfileEvent sv)),
     (''operation.outcome'', codec_of POperationOutcome OperationOutcome_Schema decodeOperationOutcome),
     (''private.handoff.challenge'', codec_of PPrivateHandoffChallenge PrivateHandoffChallenge_Schema decodePrivateHandoffChallenge),
     (''private.handoff.authorization'', codec_of PPrivateHandoffAuthorization PrivateHandoffAuthorization_Schema decodePrivateHandoffAuthorization),
     (''private.handoff.acknowledgement'', codec_of PPrivateHandoffAcknowledgement PrivateHandoffAcknowledgement_Schema decodePrivateHandoffAcknowledgement),
     (''private.handoff.status'', codec_of PPrivateHandoffStatus PrivateHandoffStatus_Schema decodePrivateHandoffStatus),
     (''private.handoff.delete'', codec_of PPrivateHandoffDelete PrivateHandoffDelete_Schema decodePrivateHandoffDelete),
     (''counterparty.approval.request'', codec_of PCounterpartyApprovalRequest CounterpartyApprovalRequest_Schema decodeCounterpartyApprovalRequest),
     (''counterparty.approval.granted'', codec_of PCounterpartyApprovalGranted CounterpartyApprovalGranted_Schema decodeCounterpartyApprovalGranted),
     (''counterparty.approval.denied'', codec_of PCounterpartyApprovalDenied CounterpartyApprovalDenied_Schema decodeCounterpartyApprovalDenied),
     (''owner.approval.grant'', codec_of POwnerApprovalGrant OwnerApprovalGrant_Schema decodeOwnerApprovalGrant),
     (''owner.approval.deny'', codec_of POwnerApprovalDeny OwnerApprovalDeny_Schema decodeOwnerApprovalDeny),
     (''a2a.message'', codec_of PA2AMessage A2AMessage_Schema decodeA2AMessage),
     (''mcp.call'', codec_of PMCPCall MCPCall_Schema decodeMCPCall),
     (''mcp.result'', codec_of PMCPResult MCPResult_Schema decodeMCPResult),
     (''agent.packet'', codec_of PAgentPacketMessage AgentPacketMessage_Schema decodeAgentPacketMessage),
     (''artifact.offer'', codec_of PArtifactOffer ArtifactOffer_Schema decodeArtifactOffer),
     (''artifact.reference'', codec_of PArtifactReference ArtifactReference_Schema decodeArtifactReference),
     (''artifact.encrypted'', \<lparr>co_schema = encryptedAttachmentV3Schema, co_decode = mapR PEncryptedAttachment decodeEncryptedAttachment,
        co_legacy = [(encryptedAttachmentV1Schema, mapR PEncryptedAttachment decodeEncryptedAttachmentV1),
          (encryptedAttachmentV2Schema, mapR PEncryptedAttachment decodeEncryptedAttachmentV2)]\<rparr>),
     (''service.quote.reference'', codec_of PQuoteReference QuoteReference_Schema decodeQuoteReference),
     (''service.escrow.reference'', codec_of PEscrowReference EscrowReference_Schema decodeEscrowReference),
     (''service.receipt.reference'', codec_of PReceiptReference ReceiptReference_Schema decodeReceiptReference),
     (''delivery.ack'', codec_of PDeliveryAck DeliveryAck_Schema decodeDeliveryAck),
     (''application.ack'', codec_of PApplicationAck ApplicationAck_Schema decodeApplicationAck),
     (''read.ack'', codec_of PReadAck ReadAck_Schema decodeReadAck),
     (''device.history.segment'', codec_of PDeviceHistorySegment DeviceHistorySegment_Schema decodeDeviceHistorySegment),
     (''room.invite'', codec_of PRoomInvite RoomInvite_Schema decodeRoomInvite),
     (''room.membership.commit'', codec_of PRoomMembershipCommit RoomMembershipCommit_Schema decodeRoomMembershipCommit),
     (''room.message'', codec_of PRoomMessage RoomMessage_Schema decodeRoomMessage),
     (''room.moderation'', codec_of PRoomModeration RoomModeration_Schema decodeRoomModeration)]"

definition domainFor :: "string \<Rightarrow> string" where
  "domainFor schema = DomainPayload @ schema @ [CHR 0x00]"

text \<open>The argument \<open>None\<close> is the nil interface; the outer \<open>None\<close> of the result is a panic.\<close>

definition Encode :: "'x Service \<Rightarrow> Payload option \<Rightarrow> bytes res option" where
  "Encode sv value = (case value of
     None \<Rightarrow> Some (Inl (Msg ''no payload to encode''))
   | Some p \<Rightarrow> (case Payload_Validate sv p of
       Some e \<Rightarrow> Some (Inl e)
     | None \<Rightarrow> (case Payload_encode p of
         None \<Rightarrow> None
       | Some b \<Rightarrow> Some (Inr (domainFor (Payload_Schema p) @ b)))))"

text \<open>A decoder always returns a body, so the check for none cannot fail.\<close>

definition decodeSchema :: "'x Service \<Rightarrow> codec \<Rightarrow> string \<Rightarrow> bytes \<Rightarrow> Payload res" where
  "decodeSchema sv spec schema content =
     (case (if schema = co_schema spec then Some (co_decode spec) else map_of (co_legacy spec) schema) of
       None \<Rightarrow> Inl (Msg ''unsupported payload schema'')
     | Some decode \<Rightarrow> (case decode (NewReader (domainFor schema) content) of (p, reader) \<Rightarrow>
         failE (r_Done reader) (failE (Payload_Validate sv p) (Inr p))))"

definition DecodeSchema :: "'x Service \<Rightarrow> string \<Rightarrow> string \<Rightarrow> bytes \<Rightarrow> Payload res" where
  "DecodeSchema sv kind schema content = (case map_of (codecs sv) kind of
     None \<Rightarrow> Inl (Msg (''no payload codec for event kind '' @ kind))
   | Some spec \<Rightarrow> decodeSchema sv spec schema content)"

definition Decode :: "'x Service \<Rightarrow> string \<Rightarrow> bytes \<Rightarrow> Payload res" where
  "Decode sv kind content = (case map_of (codecs sv) kind of
     None \<Rightarrow> Inl (Msg (''no payload codec for event kind '' @ kind))
   | Some spec \<Rightarrow> decodeSchema sv spec (co_schema spec) content)"

definition SupportsSchema :: "'x Service \<Rightarrow> string \<Rightarrow> string \<Rightarrow> bool" where
  "SupportsSchema sv kind schema = (case map_of (codecs sv) kind of
     None \<Rightarrow> False
   | Some spec \<Rightarrow> schema = co_schema spec \<or> map_of (co_legacy spec) schema \<noteq> None)"

definition Validate :: "'x Service \<Rightarrow> string \<Rightarrow> bytes \<Rightarrow> err option" where
  "Validate sv kind content = (case Decode sv kind content of Inl e \<Rightarrow> Some e | Inr _ \<Rightarrow> None)"

definition SchemaFor :: "'x Service \<Rightarrow> string \<Rightarrow> string \<times> bool" where
  "SchemaFor sv kind = (case map_of (codecs sv) kind of None \<Rightarrow> ([], False) | Some spec \<Rightarrow> (co_schema spec, True))"

definition Kinds :: "'x Service \<Rightarrow> string list" where
  "Kinds sv = sort (map fst (codecs sv))"

section \<open>What the wire can carry\<close>

text \<open>
  The kind a body belongs to; the bodies whose fields fit the bounds they are read with; and
  their bytes.
\<close>

primrec kind_of :: "Payload \<Rightarrow> string" where
  "kind_of (PText v) = ''text''"
| "kind_of (PConversationInvite v) = ''conversation.invite''"
| "kind_of (PConversationAccept v) = ''conversation.accept''"
| "kind_of (PPresenceHint v) = ''presence.hint''"
| "kind_of (PGiftAddressRequest v) = ''agent.gift.address-request''"
| "kind_of (PGiftAddressResponse v) = ''agent.gift.address-response''"
| "kind_of (PGiftSignedBOCOffer v) = ''agent.gift.signed-boc-offer''"
| "kind_of (PTaskRequest v) = ''agent.task.request''"
| "kind_of (PTaskProgress v) = ''agent.task.progress''"
| "kind_of (PTaskResult v) = ''agent.task.result''"
| "kind_of (PTaskStatusRequest v) = ''agent.task.status.request''"
| "kind_of (PNegotiationProposal v) = ''negotiation.proposal''"
| "kind_of (PNegotiationCounterproposal v) = ''negotiation.counterproposal''"
| "kind_of (PNegotiationWithdraw v) = ''negotiation.withdraw''"
| "kind_of (PNegotiationIntentAccept v) = ''negotiation.intent.accept''"
| "kind_of (PNegotiationIntentReject v) = ''negotiation.intent.reject''"
| "kind_of (PIntentApplication v) = ''intent.application''"
| "kind_of (PAgreementPropose v) = ''agreement.propose''"
| "kind_of (PAgreementAccept v) = ''agreement.accept''"
| "kind_of (PAgreementEvidence v) = ''agreement.evidence''"
| "kind_of (PAgreementWithdraw v) = ''agreement.withdraw''"
| "kind_of (PAgreementDelivery v) = ''agreement.delivery''"
| "kind_of (PPaidDemandProviderOffer v) = ''agreement.provider-offer''"
| "kind_of (PCommerceProfileEvent v) = ''commerce.profile-event''"
| "kind_of (POperationOutcome v) = ''operation.outcome''"
| "kind_of (PPrivateHandoffChallenge v) = ''private.handoff.challenge''"
| "kind_of (PPrivateHandoffAuthorization v) = ''private.handoff.authorization''"
| "kind_of (PPrivateHandoffAcknowledgement v) = ''private.handoff.acknowledgement''"
| "kind_of (PPrivateHandoffStatus v) = ''private.handoff.status''"
| "kind_of (PPrivateHandoffDelete v) = ''private.handoff.delete''"
| "kind_of (PCounterpartyApprovalRequest v) = ''counterparty.approval.request''"
| "kind_of (PCounterpartyApprovalGranted v) = ''counterparty.approval.granted''"
| "kind_of (PCounterpartyApprovalDenied v) = ''counterparty.approval.denied''"
| "kind_of (POwnerApprovalGrant v) = ''owner.approval.grant''"
| "kind_of (POwnerApprovalDeny v) = ''owner.approval.deny''"
| "kind_of (PA2AMessage v) = ''a2a.message''"
| "kind_of (PMCPCall v) = ''mcp.call''"
| "kind_of (PMCPResult v) = ''mcp.result''"
| "kind_of (PAgentPacketMessage v) = ''agent.packet''"
| "kind_of (PArtifactOffer v) = ''artifact.offer''"
| "kind_of (PArtifactReference v) = ''artifact.reference''"
| "kind_of (PEncryptedAttachment v) = ''artifact.encrypted''"
| "kind_of (PQuoteReference v) = ''service.quote.reference''"
| "kind_of (PEscrowReference v) = ''service.escrow.reference''"
| "kind_of (PReceiptReference v) = ''service.receipt.reference''"
| "kind_of (PDeliveryAck v) = ''delivery.ack''"
| "kind_of (PApplicationAck v) = ''application.ack''"
| "kind_of (PReadAck v) = ''read.ack''"
| "kind_of (PDeviceHistorySegment v) = ''device.history.segment''"
| "kind_of (PRoomInvite v) = ''room.invite''"
| "kind_of (PRoomMembershipCommit v) = ''room.membership.commit''"
| "kind_of (PRoomMessage v) = ''room.message''"
| "kind_of (PRoomModeration v) = ''room.moderation''"

primrec readable :: "'x Service \<Rightarrow> Payload \<Rightarrow> bool" where
  "readable sv (PText v) = Text_wire v"
| "readable sv (PConversationInvite v) = ConversationInvite_wire v"
| "readable sv (PConversationAccept v) = ConversationAccept_wire v"
| "readable sv (PPresenceHint v) = PresenceHint_wire v"
| "readable sv (PGiftAddressRequest v) = GiftAddressRequest_wire v"
| "readable sv (PGiftAddressResponse v) = GiftAddressResponse_wire v"
| "readable sv (PGiftSignedBOCOffer v) = GiftSignedBOCOffer_wire v"
| "readable sv (PTaskRequest v) = TaskRequest_wire v"
| "readable sv (PTaskProgress v) = TaskProgress_wire v"
| "readable sv (PTaskResult v) = TaskResult_wire v"
| "readable sv (PTaskStatusRequest v) = TaskStatusRequest_wire v"
| "readable sv (PNegotiationProposal v) = NegotiationProposal_wire v"
| "readable sv (PNegotiationCounterproposal v) = NegotiationCounterproposal_wire v"
| "readable sv (PNegotiationWithdraw v) = NegotiationWithdraw_wire v"
| "readable sv (PNegotiationIntentAccept v) = NegotiationIntentAccept_wire v"
| "readable sv (PNegotiationIntentReject v) = NegotiationIntentReject_wire v"
| "readable sv (PIntentApplication v) = IntentApplication_wire v"
| "readable sv (PAgreementPropose v) = AgreementPropose_wire v"
| "readable sv (PAgreementAccept v) = AgreementAccept_wire v"
| "readable sv (PAgreementEvidence v) = AgreementEvidence_wire v"
| "readable sv (PAgreementWithdraw v) = AgreementWithdraw_wire v"
| "readable sv (PAgreementDelivery v) = AgreementDelivery_wire v"
| "readable sv (PPaidDemandProviderOffer v) = PaidDemandProviderOffer_wire v"
| "readable sv (PCommerceProfileEvent v) = CommerceProfileEvent_wire sv v"
| "readable sv (POperationOutcome v) = OperationOutcome_wire v"
| "readable sv (PPrivateHandoffChallenge v) = PrivateHandoffChallenge_wire v"
| "readable sv (PPrivateHandoffAuthorization v) = PrivateHandoffAuthorization_wire v"
| "readable sv (PPrivateHandoffAcknowledgement v) = PrivateHandoffAcknowledgement_wire v"
| "readable sv (PPrivateHandoffStatus v) = PrivateHandoffStatus_wire v"
| "readable sv (PPrivateHandoffDelete v) = PrivateHandoffDelete_wire v"
| "readable sv (PCounterpartyApprovalRequest v) = CounterpartyApprovalRequest_wire v"
| "readable sv (PCounterpartyApprovalGranted v) = CounterpartyApprovalGranted_wire v"
| "readable sv (PCounterpartyApprovalDenied v) = CounterpartyApprovalDenied_wire v"
| "readable sv (POwnerApprovalGrant v) = OwnerApprovalGrant_wire v"
| "readable sv (POwnerApprovalDeny v) = OwnerApprovalDeny_wire v"
| "readable sv (PA2AMessage v) = Foreign_wire v"
| "readable sv (PMCPCall v) = Foreign_wire v"
| "readable sv (PMCPResult v) = Foreign_wire v"
| "readable sv (PAgentPacketMessage v) = Foreign_wire v"
| "readable sv (PArtifactOffer v) = ArtifactOffer_wire v"
| "readable sv (PArtifactReference v) = ArtifactReference_wire v"
| "readable sv (PEncryptedAttachment v) = EncryptedAttachment_wire v"
| "readable sv (PQuoteReference v) = ChainReference_wire v"
| "readable sv (PEscrowReference v) = ChainReference_wire v"
| "readable sv (PReceiptReference v) = ChainReference_wire v"
| "readable sv (PDeliveryAck v) = DeliveryAck_wire v"
| "readable sv (PApplicationAck v) = ApplicationAck_wire v"
| "readable sv (PReadAck v) = ReadAck_wire v"
| "readable sv (PDeviceHistorySegment v) = DeviceHistorySegment_wire v"
| "readable sv (PRoomInvite v) = RoomInvite_wire v"
| "readable sv (PRoomMembershipCommit v) = RoomMembershipCommit_wire v"
| "readable sv (PRoomMessage v) = RoomMessage_wire v"
| "readable sv (PRoomModeration v) = RoomModeration_wire v"

primrec payload_bytes :: "Payload \<Rightarrow> bytes" where
  "payload_bytes (PText v) = Text_encode v"
| "payload_bytes (PConversationInvite v) = ConversationInvite_encode v"
| "payload_bytes (PConversationAccept v) = ConversationAccept_encode v"
| "payload_bytes (PPresenceHint v) = PresenceHint_encode v"
| "payload_bytes (PGiftAddressRequest v) = GiftAddressRequest_encode v"
| "payload_bytes (PGiftAddressResponse v) = GiftAddressResponse_encode v"
| "payload_bytes (PGiftSignedBOCOffer v) = GiftSignedBOCOffer_encode v"
| "payload_bytes (PTaskRequest v) = TaskRequest_encode v"
| "payload_bytes (PTaskProgress v) = TaskProgress_encode v"
| "payload_bytes (PTaskResult v) = TaskResult_encode v"
| "payload_bytes (PTaskStatusRequest v) = TaskStatusRequest_encode v"
| "payload_bytes (PNegotiationProposal v) = canon_Text (NegotiationProposal_NegotiationID v) @ terms_bytes (NegotiationProposal_Terms v)"
| "payload_bytes (PNegotiationCounterproposal v) = canon_Text (NegotiationCounterproposal_NegotiationID v) @ terms_bytes (NegotiationCounterproposal_Terms v)"
| "payload_bytes (PNegotiationWithdraw v) = NegotiationWithdraw_encode v"
| "payload_bytes (PNegotiationIntentAccept v) = canon_Text (NegotiationIntentAccept_NegotiationID v) @ terms_bytes (NegotiationIntentAccept_Terms v)"
| "payload_bytes (PNegotiationIntentReject v) = NegotiationIntentReject_encode v"
| "payload_bytes (PIntentApplication v) = IntentApplication_encode v"
| "payload_bytes (PAgreementPropose v) = AgreementPropose_encode v"
| "payload_bytes (PAgreementAccept v) = AgreementAccept_encode v"
| "payload_bytes (PAgreementEvidence v) = AgreementEvidence_encode v"
| "payload_bytes (PAgreementWithdraw v) = AgreementWithdraw_encode v"
| "payload_bytes (PAgreementDelivery v) = AgreementDelivery_encode v"
| "payload_bytes (PPaidDemandProviderOffer v) = PaidDemandProviderOffer_encode v"
| "payload_bytes (PCommerceProfileEvent v) = CommerceProfileEvent_encode v"
| "payload_bytes (POperationOutcome v) = OperationOutcome_encode v"
| "payload_bytes (PPrivateHandoffChallenge v) = PrivateHandoffChallenge_encode v"
| "payload_bytes (PPrivateHandoffAuthorization v) = PrivateHandoffAuthorization_encode v"
| "payload_bytes (PPrivateHandoffAcknowledgement v) = PrivateHandoffAcknowledgement_encode v"
| "payload_bytes (PPrivateHandoffStatus v) = PrivateHandoffStatus_encode v"
| "payload_bytes (PPrivateHandoffDelete v) = PrivateHandoffDelete_encode v"
| "payload_bytes (PCounterpartyApprovalRequest v) = CounterpartyApprovalRequest_encode v"
| "payload_bytes (PCounterpartyApprovalGranted v) = CounterpartyApprovalGranted_encode v"
| "payload_bytes (PCounterpartyApprovalDenied v) = CounterpartyApprovalDenied_encode v"
| "payload_bytes (POwnerApprovalGrant v) = OwnerApprovalGrant_encode v"
| "payload_bytes (POwnerApprovalDeny v) = OwnerApprovalDeny_encode v"
| "payload_bytes (PA2AMessage v) = Foreign_encode v"
| "payload_bytes (PMCPCall v) = Foreign_encode v"
| "payload_bytes (PMCPResult v) = Foreign_encode v"
| "payload_bytes (PAgentPacketMessage v) = Foreign_encode v"
| "payload_bytes (PArtifactOffer v) = ArtifactOffer_encode v"
| "payload_bytes (PArtifactReference v) = ArtifactReference_encode v"
| "payload_bytes (PEncryptedAttachment v) = EncryptedAttachment_encode v"
| "payload_bytes (PQuoteReference v) = ChainReference_encode v"
| "payload_bytes (PEscrowReference v) = ChainReference_encode v"
| "payload_bytes (PReceiptReference v) = ChainReference_encode v"
| "payload_bytes (PDeliveryAck v) = DeliveryAck_encode v"
| "payload_bytes (PApplicationAck v) = ApplicationAck_encode v"
| "payload_bytes (PReadAck v) = ReadAck_encode v"
| "payload_bytes (PDeviceHistorySegment v) = DeviceHistorySegment_encode v"
| "payload_bytes (PRoomInvite v) = RoomInvite_encode v"
| "payload_bytes (PRoomMembershipCommit v) = RoomMembershipCommit_encode v"
| "payload_bytes (PRoomMessage v) = RoomMessage_encode v"
| "payload_bytes (PRoomModeration v) = RoomModeration_encode v"

text \<open>What a valid body may still lack for the wire.\<close>

definition within :: "'x Service \<Rightarrow> Payload \<Rightarrow> bool" where
  "within sv p = (case p of
     PTaskProgress v \<Rightarrow> length (TaskProgress_Stage v) \<le> 512
   | PCounterpartyApprovalRequest v \<Rightarrow> length (CounterpartyApprovalRequest_Subject v) \<le> 512
   | PPrivateHandoffStatus v \<Rightarrow> length (PrivateHandoffStatus_State v) \<le> 512
   | PNegotiationProposal v \<Rightarrow> terms_fit (NegotiationProposal_Terms v)
   | PNegotiationCounterproposal v \<Rightarrow> terms_fit (NegotiationCounterproposal_Terms v)
   | PNegotiationIntentAccept v \<Rightarrow> terms_fit (NegotiationIntentAccept_Terms v)
   | PCommerceProfileEvent v \<Rightarrow> sv_MaxProfileEventBytes sv < 2 ^ 32
   | PEncryptedAttachment v \<Rightarrow> utf8_valid (EncryptedAttachment_Locator v) \<and> EncryptedAttachment_schema v = []
   | _ \<Rightarrow> True)"

text \<open>Every schema of the registry, historical ones included, with the kind that carries it.\<close>

definition schemas :: "'x Service \<Rightarrow> (string \<times> string) list" where
  "schemas sv = concat (map (\<lambda>(k, c). map (Pair k) (co_schema c # map fst (co_legacy c))) (codecs sv))"

definition ex_service :: "unit Service" where
  "ex_service = \<lparr>sv_Unmarshal = (\<lambda>_ _. Inr ()), sv_Marshal = (\<lambda>_. Inr []), sv_Digest = (\<lambda>_ _. Inr []), sv_text = (\<lambda>_ _. []),
     sv_num = (\<lambda>_ _. 0), sv_part = (\<lambda>_ _. ()), sv_ValidateAgreementBody = (\<lambda>_. None), sv_AgreementBodyDigest = (\<lambda>_. Inr []),
     sv_DecodeSignedAgreementAcceptance = (\<lambda>_. Inr ()), sv_ProviderOfferDigest = (\<lambda>_. Inr []),
     sv_DecodeIntentApplication = (\<lambda>_. Inr ()), sv_MaxProfileEventBytes = 65536,
     sv_CanonicalCommerceProfileEventV1 = (\<lambda>_ _. Inr []), sv_ValidateOperationPrivateRequestV1 = (\<lambda>_. None),
     sv_ValidatePrivateHandoffChallenge = (\<lambda>_ _. None), sv_PrivateHandoffChallengeDigest = (\<lambda>_. Inr []),
     sv_PrivateHandoffAuthorizationDigest = (\<lambda>_. Inr []), sv_PrivateHandoffAcknowledgementDigest = (\<lambda>_. Inr []),
     sv_ReferenceJSON = (\<lambda>_. Inl (Msg [])), sv_GrantJSON = (\<lambda>_. Inl (Msg [])),
     sv_Urls = \<lparr>us_Parse = (\<lambda>_. None), us_String = (\<lambda>_. []), us_ToLower = id, us_IsAddr = (\<lambda>_. False)\<rparr>,
     sv_Ed25519 = ex_ed\<rparr>"

definition ex_text :: Payload where
  "ex_text = PText \<lparr>Text_MediaType = ''text/markdown'', Text_Body = ''hi'', Text_ReplyToEventID = []\<rparr>"

definition ex_progress :: Payload where
  "ex_progress = PTaskProgress \<lparr>TaskProgress_TaskID = ''t'', TaskProgress_Stage = replicate 513 (CHR ''a''),
     TaskProgress_PercentComplete = 0, TaskProgress_Note = []\<rparr>"

definition reads :: "'x Service \<Rightarrow> string \<Rightarrow> (Reader \<Rightarrow> Payload \<times> Reader) \<Rightarrow> bool" where
  "reads sv s rd \<longleftrightarrow> (\<forall>r p r' x. rd r = (p, r') \<longrightarrow> rest_of r' = Some x \<longrightarrow>
     Payload_Schema p = s \<and> readable sv p \<and> rest_of r = Some (payload_bytes p @ x))"

definition completes :: "Payload \<Rightarrow> (Reader \<Rightarrow> Payload \<times> Reader) \<Rightarrow> bool" where
  "completes p rd \<longleftrightarrow> (\<forall>r x. rest_of r = Some (payload_bytes p @ x) \<longrightarrow> (\<exists>r'. rd r = (p, r') \<and> rest_of r' = Some x))"

section \<open>Lemmas\<close>

text \<open>
  \<open>reads\<close>: whatever the decoder returns without a failure is a readable body of the schema,
  and the bytes consumed are exactly its bytes. \<open>completes\<close>: the decoder returns the body from
  its bytes.
\<close>

lemma kind_codec:
  assumes "field_reader enc ok rd" and "\<And>v. ok v \<Longrightarrow> payload_bytes (c v) = enc v"
    and "\<And>v. ok v \<Longrightarrow> readable sv (c v) \<and> Payload_Schema (c v) = s"
  shows "reads sv s (mapR c rd)" and "ok v \<Longrightarrow> completes (c v) (mapR c rd)"
proof -
  show "reads sv s (mapR c rd)"
    unfolding reads_def
  proof (intro allI impI)
    fix r p r' x assume m: "mapR c rd r = (p, r')" and x: "rest_of r' = Some x"
    then obtain v where v: "p = c v" "rd r = (v, r')" by (auto simp: mapR_def split: prod.splits)
    with field_reader.sound [OF assms(1) v(2) x] assms(2,3)
    show "Payload_Schema p = s \<and> readable sv p \<and> rest_of r = Some (payload_bytes p @ x)" by auto
  qed
  show "completes (c v) (mapR c rd)" if "ok v"
    using field_reader.complete [OF assms(1)] that assms(2) by (fastforce simp: completes_def mapR_def)
qed

named_theorems codec_rules "the decoders of the registry"

lemma PText_codec [codec_rules]:
  "reads sv Text_Schema (mapR PText decodeText)" "Text_wire v \<Longrightarrow> completes (PText v) (mapR PText decodeText)"
  by (rule kind_codec [OF Text_reader, where c = PText and sv = sv]; simp)+

lemma PConversationInvite_codec [codec_rules]:
  "reads sv ConversationInvite_Schema (mapR PConversationInvite decodeConversationInvite)" "ConversationInvite_wire v \<Longrightarrow> completes (PConversationInvite v) (mapR PConversationInvite decodeConversationInvite)"
  by (rule kind_codec [OF ConversationInvite_reader, where c = PConversationInvite and sv = sv]; simp)+

lemma PConversationAccept_codec [codec_rules]:
  "reads sv ConversationAccept_Schema (mapR PConversationAccept decodeConversationAccept)" "ConversationAccept_wire v \<Longrightarrow> completes (PConversationAccept v) (mapR PConversationAccept decodeConversationAccept)"
  by (rule kind_codec [OF ConversationAccept_reader, where c = PConversationAccept and sv = sv]; simp)+

lemma PPresenceHint_codec [codec_rules]:
  "reads sv PresenceHint_Schema (mapR PPresenceHint decodePresenceHint)" "PresenceHint_wire v \<Longrightarrow> completes (PPresenceHint v) (mapR PPresenceHint decodePresenceHint)"
  by (rule kind_codec [OF PresenceHint_reader, where c = PPresenceHint and sv = sv]; simp)+

lemma PGiftAddressRequest_codec [codec_rules]:
  "reads sv GiftAddressRequest_Schema (mapR PGiftAddressRequest decodeGiftAddressRequest)" "GiftAddressRequest_wire v \<Longrightarrow> completes (PGiftAddressRequest v) (mapR PGiftAddressRequest decodeGiftAddressRequest)"
  by (rule kind_codec [OF GiftAddressRequest_reader, where c = PGiftAddressRequest and sv = sv]; simp)+

lemma PGiftAddressResponse_codec [codec_rules]:
  "reads sv GiftAddressResponse_Schema (mapR PGiftAddressResponse decodeGiftAddressResponse)" "GiftAddressResponse_wire v \<Longrightarrow> completes (PGiftAddressResponse v) (mapR PGiftAddressResponse decodeGiftAddressResponse)"
  by (rule kind_codec [OF GiftAddressResponse_reader, where c = PGiftAddressResponse and sv = sv]; simp)+

lemma PGiftSignedBOCOffer_codec [codec_rules]:
  "reads sv GiftSignedBOCOffer_Schema (mapR PGiftSignedBOCOffer decodeGiftSignedBOCOffer)" "GiftSignedBOCOffer_wire v \<Longrightarrow> completes (PGiftSignedBOCOffer v) (mapR PGiftSignedBOCOffer decodeGiftSignedBOCOffer)"
  by (rule kind_codec [OF GiftSignedBOCOffer_reader, where c = PGiftSignedBOCOffer and sv = sv]; simp)+

lemma PTaskRequest_codec [codec_rules]:
  "reads sv TaskRequest_Schema (mapR PTaskRequest decodeTaskRequest)" "TaskRequest_wire v \<Longrightarrow> completes (PTaskRequest v) (mapR PTaskRequest decodeTaskRequest)"
  by (rule kind_codec [OF TaskRequest_reader, where c = PTaskRequest and sv = sv]; simp)+

lemma PTaskProgress_codec [codec_rules]:
  "reads sv TaskProgress_Schema (mapR PTaskProgress decodeTaskProgress)" "TaskProgress_wire v \<Longrightarrow> completes (PTaskProgress v) (mapR PTaskProgress decodeTaskProgress)"
  by (rule kind_codec [OF TaskProgress_reader, where c = PTaskProgress and sv = sv]; simp)+

lemma PTaskResult_codec [codec_rules]:
  "reads sv TaskResult_Schema (mapR PTaskResult decodeTaskResult)" "TaskResult_wire v \<Longrightarrow> completes (PTaskResult v) (mapR PTaskResult decodeTaskResult)"
  by (rule kind_codec [OF TaskResult_reader, where c = PTaskResult and sv = sv]; simp)+

lemma PTaskStatusRequest_codec [codec_rules]:
  "reads sv TaskStatusRequest_Schema (mapR PTaskStatusRequest decodeTaskStatusRequest)" "TaskStatusRequest_wire v \<Longrightarrow> completes (PTaskStatusRequest v) (mapR PTaskStatusRequest decodeTaskStatusRequest)"
  by (rule kind_codec [OF TaskStatusRequest_reader, where c = PTaskStatusRequest and sv = sv]; simp)+

lemma PNegotiationProposal_codec [codec_rules]:
  "reads sv NegotiationProposal_Schema (mapR PNegotiationProposal decodeNegotiationProposal)" "NegotiationProposal_wire v \<Longrightarrow> completes (PNegotiationProposal v) (mapR PNegotiationProposal decodeNegotiationProposal)"
  by (rule kind_codec [OF NegotiationProposal_reader, where c = PNegotiationProposal and sv = sv]; simp)+

lemma PNegotiationCounterproposal_codec [codec_rules]:
  "reads sv NegotiationCounterproposal_Schema (mapR PNegotiationCounterproposal decodeNegotiationCounterproposal)" "NegotiationCounterproposal_wire v \<Longrightarrow> completes (PNegotiationCounterproposal v) (mapR PNegotiationCounterproposal decodeNegotiationCounterproposal)"
  by (rule kind_codec [OF NegotiationCounterproposal_reader, where c = PNegotiationCounterproposal and sv = sv]; simp)+

lemma PNegotiationWithdraw_codec [codec_rules]:
  "reads sv NegotiationWithdraw_Schema (mapR PNegotiationWithdraw decodeNegotiationWithdraw)" "NegotiationWithdraw_wire v \<Longrightarrow> completes (PNegotiationWithdraw v) (mapR PNegotiationWithdraw decodeNegotiationWithdraw)"
  by (rule kind_codec [OF NegotiationWithdraw_reader, where c = PNegotiationWithdraw and sv = sv]; simp)+

lemma PNegotiationIntentAccept_codec [codec_rules]:
  "reads sv NegotiationIntentAccept_Schema (mapR PNegotiationIntentAccept decodeNegotiationIntentAccept)" "NegotiationIntentAccept_wire v \<Longrightarrow> completes (PNegotiationIntentAccept v) (mapR PNegotiationIntentAccept decodeNegotiationIntentAccept)"
  by (rule kind_codec [OF NegotiationIntentAccept_reader, where c = PNegotiationIntentAccept and sv = sv]; simp)+

lemma PNegotiationIntentReject_codec [codec_rules]:
  "reads sv NegotiationIntentReject_Schema (mapR PNegotiationIntentReject decodeNegotiationIntentReject)" "NegotiationIntentReject_wire v \<Longrightarrow> completes (PNegotiationIntentReject v) (mapR PNegotiationIntentReject decodeNegotiationIntentReject)"
  by (rule kind_codec [OF NegotiationIntentReject_reader, where c = PNegotiationIntentReject and sv = sv]; simp)+

lemma PIntentApplication_codec [codec_rules]:
  "reads sv IntentApplication_Schema (mapR PIntentApplication decodeIntentApplication)" "IntentApplication_wire v \<Longrightarrow> completes (PIntentApplication v) (mapR PIntentApplication decodeIntentApplication)"
  by (rule kind_codec [OF IntentApplication_reader, where c = PIntentApplication and sv = sv]; simp)+

lemma PAgreementPropose_codec [codec_rules]:
  "reads sv AgreementPropose_Schema (mapR PAgreementPropose decodeAgreementPropose)" "AgreementPropose_wire v \<Longrightarrow> completes (PAgreementPropose v) (mapR PAgreementPropose decodeAgreementPropose)"
  by (rule kind_codec [OF AgreementPropose_reader, where c = PAgreementPropose and sv = sv]; simp)+

lemma PAgreementAccept_codec [codec_rules]:
  "reads sv AgreementAccept_Schema (mapR PAgreementAccept decodeAgreementAccept)" "AgreementAccept_wire v \<Longrightarrow> completes (PAgreementAccept v) (mapR PAgreementAccept decodeAgreementAccept)"
  by (rule kind_codec [OF AgreementAccept_reader, where c = PAgreementAccept and sv = sv]; simp)+

lemma PAgreementEvidence_codec [codec_rules]:
  "reads sv AgreementEvidence_Schema (mapR PAgreementEvidence decodeAgreementEvidence)" "AgreementEvidence_wire v \<Longrightarrow> completes (PAgreementEvidence v) (mapR PAgreementEvidence decodeAgreementEvidence)"
  by (rule kind_codec [OF AgreementEvidence_reader, where c = PAgreementEvidence and sv = sv]; simp)+

lemma PAgreementWithdraw_codec [codec_rules]:
  "reads sv AgreementWithdraw_Schema (mapR PAgreementWithdraw decodeAgreementWithdraw)" "AgreementWithdraw_wire v \<Longrightarrow> completes (PAgreementWithdraw v) (mapR PAgreementWithdraw decodeAgreementWithdraw)"
  by (rule kind_codec [OF AgreementWithdraw_reader, where c = PAgreementWithdraw and sv = sv]; simp)+

lemma PAgreementDelivery_codec [codec_rules]:
  "reads sv AgreementDelivery_Schema (mapR PAgreementDelivery decodeAgreementDelivery)" "AgreementDelivery_wire v \<Longrightarrow> completes (PAgreementDelivery v) (mapR PAgreementDelivery decodeAgreementDelivery)"
  by (rule kind_codec [OF AgreementDelivery_reader, where c = PAgreementDelivery and sv = sv]; simp)+

lemma PPaidDemandProviderOffer_codec [codec_rules]:
  "reads sv PaidDemandProviderOffer_Schema (mapR PPaidDemandProviderOffer decodePaidDemandProviderOffer)" "PaidDemandProviderOffer_wire v \<Longrightarrow> completes (PPaidDemandProviderOffer v) (mapR PPaidDemandProviderOffer decodePaidDemandProviderOffer)"
  by (rule kind_codec [OF PaidDemandProviderOffer_reader, where c = PPaidDemandProviderOffer and sv = sv]; simp)+

lemma PCommerceProfileEvent_codec [codec_rules]:
  "reads sv CommerceProfileEvent_Schema (mapR PCommerceProfileEvent (decodeCommerceProfileEvent sv))" "CommerceProfileEvent_wire sv v \<Longrightarrow> completes (PCommerceProfileEvent v) (mapR PCommerceProfileEvent (decodeCommerceProfileEvent sv))"
  by (rule kind_codec [OF CommerceProfileEvent_reader [of sv], where c = PCommerceProfileEvent and sv = sv]; simp)+

lemma POperationOutcome_codec [codec_rules]:
  "reads sv OperationOutcome_Schema (mapR POperationOutcome decodeOperationOutcome)" "OperationOutcome_wire v \<Longrightarrow> completes (POperationOutcome v) (mapR POperationOutcome decodeOperationOutcome)"
  by (rule kind_codec [OF OperationOutcome_reader, where c = POperationOutcome and sv = sv]; simp)+

lemma PPrivateHandoffChallenge_codec [codec_rules]:
  "reads sv PrivateHandoffChallenge_Schema (mapR PPrivateHandoffChallenge decodePrivateHandoffChallenge)" "PrivateHandoffChallenge_wire v \<Longrightarrow> completes (PPrivateHandoffChallenge v) (mapR PPrivateHandoffChallenge decodePrivateHandoffChallenge)"
  by (rule kind_codec [OF PrivateHandoffChallenge_reader, where c = PPrivateHandoffChallenge and sv = sv]; simp)+

lemma PPrivateHandoffAuthorization_codec [codec_rules]:
  "reads sv PrivateHandoffAuthorization_Schema (mapR PPrivateHandoffAuthorization decodePrivateHandoffAuthorization)" "PrivateHandoffAuthorization_wire v \<Longrightarrow> completes (PPrivateHandoffAuthorization v) (mapR PPrivateHandoffAuthorization decodePrivateHandoffAuthorization)"
  by (rule kind_codec [OF PrivateHandoffAuthorization_reader, where c = PPrivateHandoffAuthorization and sv = sv]; simp)+

lemma PPrivateHandoffAcknowledgement_codec [codec_rules]:
  "reads sv PrivateHandoffAcknowledgement_Schema (mapR PPrivateHandoffAcknowledgement decodePrivateHandoffAcknowledgement)" "PrivateHandoffAcknowledgement_wire v \<Longrightarrow> completes (PPrivateHandoffAcknowledgement v) (mapR PPrivateHandoffAcknowledgement decodePrivateHandoffAcknowledgement)"
  by (rule kind_codec [OF PrivateHandoffAcknowledgement_reader, where c = PPrivateHandoffAcknowledgement and sv = sv]; simp)+

lemma PPrivateHandoffStatus_codec [codec_rules]:
  "reads sv PrivateHandoffStatus_Schema (mapR PPrivateHandoffStatus decodePrivateHandoffStatus)" "PrivateHandoffStatus_wire v \<Longrightarrow> completes (PPrivateHandoffStatus v) (mapR PPrivateHandoffStatus decodePrivateHandoffStatus)"
  by (rule kind_codec [OF PrivateHandoffStatus_reader, where c = PPrivateHandoffStatus and sv = sv]; simp)+

lemma PPrivateHandoffDelete_codec [codec_rules]:
  "reads sv PrivateHandoffDelete_Schema (mapR PPrivateHandoffDelete decodePrivateHandoffDelete)" "PrivateHandoffDelete_wire v \<Longrightarrow> completes (PPrivateHandoffDelete v) (mapR PPrivateHandoffDelete decodePrivateHandoffDelete)"
  by (rule kind_codec [OF PrivateHandoffDelete_reader, where c = PPrivateHandoffDelete and sv = sv]; simp)+

lemma PCounterpartyApprovalRequest_codec [codec_rules]:
  "reads sv CounterpartyApprovalRequest_Schema (mapR PCounterpartyApprovalRequest decodeCounterpartyApprovalRequest)" "CounterpartyApprovalRequest_wire v \<Longrightarrow> completes (PCounterpartyApprovalRequest v) (mapR PCounterpartyApprovalRequest decodeCounterpartyApprovalRequest)"
  by (rule kind_codec [OF CounterpartyApprovalRequest_reader, where c = PCounterpartyApprovalRequest and sv = sv]; simp)+

lemma PCounterpartyApprovalGranted_codec [codec_rules]:
  "reads sv CounterpartyApprovalGranted_Schema (mapR PCounterpartyApprovalGranted decodeCounterpartyApprovalGranted)" "CounterpartyApprovalGranted_wire v \<Longrightarrow> completes (PCounterpartyApprovalGranted v) (mapR PCounterpartyApprovalGranted decodeCounterpartyApprovalGranted)"
  by (rule kind_codec [OF CounterpartyApprovalGranted_reader, where c = PCounterpartyApprovalGranted and sv = sv]; simp)+

lemma PCounterpartyApprovalDenied_codec [codec_rules]:
  "reads sv CounterpartyApprovalDenied_Schema (mapR PCounterpartyApprovalDenied decodeCounterpartyApprovalDenied)" "CounterpartyApprovalDenied_wire v \<Longrightarrow> completes (PCounterpartyApprovalDenied v) (mapR PCounterpartyApprovalDenied decodeCounterpartyApprovalDenied)"
  by (rule kind_codec [OF CounterpartyApprovalDenied_reader, where c = PCounterpartyApprovalDenied and sv = sv]; simp)+

lemma POwnerApprovalGrant_codec [codec_rules]:
  "reads sv OwnerApprovalGrant_Schema (mapR POwnerApprovalGrant decodeOwnerApprovalGrant)" "OwnerApprovalGrant_wire v \<Longrightarrow> completes (POwnerApprovalGrant v) (mapR POwnerApprovalGrant decodeOwnerApprovalGrant)"
  by (rule kind_codec [OF OwnerApprovalGrant_reader, where c = POwnerApprovalGrant and sv = sv]; simp)+

lemma POwnerApprovalDeny_codec [codec_rules]:
  "reads sv OwnerApprovalDeny_Schema (mapR POwnerApprovalDeny decodeOwnerApprovalDeny)" "OwnerApprovalDeny_wire v \<Longrightarrow> completes (POwnerApprovalDeny v) (mapR POwnerApprovalDeny decodeOwnerApprovalDeny)"
  by (rule kind_codec [OF OwnerApprovalDeny_reader, where c = POwnerApprovalDeny and sv = sv]; simp)+

lemma PA2AMessage_codec [codec_rules]:
  "reads sv A2AMessage_Schema (mapR PA2AMessage decodeA2AMessage)" "Foreign_wire v \<Longrightarrow> completes (PA2AMessage v) (mapR PA2AMessage decodeA2AMessage)"
  by (rule kind_codec [OF Foreign_reader [folded decodeA2AMessage_def], where c = PA2AMessage and sv = sv]; simp)+

lemma PMCPCall_codec [codec_rules]:
  "reads sv MCPCall_Schema (mapR PMCPCall decodeMCPCall)" "Foreign_wire v \<Longrightarrow> completes (PMCPCall v) (mapR PMCPCall decodeMCPCall)"
  by (rule kind_codec [OF Foreign_reader [folded decodeMCPCall_def], where c = PMCPCall and sv = sv]; simp)+

lemma PMCPResult_codec [codec_rules]:
  "reads sv MCPResult_Schema (mapR PMCPResult decodeMCPResult)" "Foreign_wire v \<Longrightarrow> completes (PMCPResult v) (mapR PMCPResult decodeMCPResult)"
  by (rule kind_codec [OF Foreign_reader [folded decodeMCPResult_def], where c = PMCPResult and sv = sv]; simp)+

lemma PAgentPacketMessage_codec [codec_rules]:
  "reads sv AgentPacketMessage_Schema (mapR PAgentPacketMessage decodeAgentPacketMessage)" "Foreign_wire v \<Longrightarrow> completes (PAgentPacketMessage v) (mapR PAgentPacketMessage decodeAgentPacketMessage)"
  by (rule kind_codec [OF Foreign_reader [folded decodeAgentPacketMessage_def], where c = PAgentPacketMessage and sv = sv]; simp)+

lemma PArtifactOffer_codec [codec_rules]:
  "reads sv ArtifactOffer_Schema (mapR PArtifactOffer decodeArtifactOffer)" "ArtifactOffer_wire v \<Longrightarrow> completes (PArtifactOffer v) (mapR PArtifactOffer decodeArtifactOffer)"
  by (rule kind_codec [OF ArtifactOffer_reader, where c = PArtifactOffer and sv = sv]; simp)+

lemma PArtifactReference_codec [codec_rules]:
  "reads sv ArtifactReference_Schema (mapR PArtifactReference decodeArtifactReference)" "ArtifactReference_wire v \<Longrightarrow> completes (PArtifactReference v) (mapR PArtifactReference decodeArtifactReference)"
  by (rule kind_codec [OF ArtifactReference_reader, where c = PArtifactReference and sv = sv]; simp)+

lemma PQuoteReference_codec [codec_rules]:
  "reads sv QuoteReference_Schema (mapR PQuoteReference decodeQuoteReference)" "ChainReference_wire v \<Longrightarrow> completes (PQuoteReference v) (mapR PQuoteReference decodeQuoteReference)"
  by (rule kind_codec [OF ChainReference_reader [folded decodeQuoteReference_def], where c = PQuoteReference and sv = sv]; simp)+

lemma PEscrowReference_codec [codec_rules]:
  "reads sv EscrowReference_Schema (mapR PEscrowReference decodeEscrowReference)" "ChainReference_wire v \<Longrightarrow> completes (PEscrowReference v) (mapR PEscrowReference decodeEscrowReference)"
  by (rule kind_codec [OF ChainReference_reader [folded decodeEscrowReference_def], where c = PEscrowReference and sv = sv]; simp)+

lemma PReceiptReference_codec [codec_rules]:
  "reads sv ReceiptReference_Schema (mapR PReceiptReference decodeReceiptReference)" "ChainReference_wire v \<Longrightarrow> completes (PReceiptReference v) (mapR PReceiptReference decodeReceiptReference)"
  by (rule kind_codec [OF ChainReference_reader [folded decodeReceiptReference_def], where c = PReceiptReference and sv = sv]; simp)+

lemma PDeliveryAck_codec [codec_rules]:
  "reads sv DeliveryAck_Schema (mapR PDeliveryAck decodeDeliveryAck)" "DeliveryAck_wire v \<Longrightarrow> completes (PDeliveryAck v) (mapR PDeliveryAck decodeDeliveryAck)"
  by (rule kind_codec [OF DeliveryAck_reader, where c = PDeliveryAck and sv = sv]; simp)+

lemma PApplicationAck_codec [codec_rules]:
  "reads sv ApplicationAck_Schema (mapR PApplicationAck decodeApplicationAck)" "ApplicationAck_wire v \<Longrightarrow> completes (PApplicationAck v) (mapR PApplicationAck decodeApplicationAck)"
  by (rule kind_codec [OF ApplicationAck_reader, where c = PApplicationAck and sv = sv]; simp)+

lemma PReadAck_codec [codec_rules]:
  "reads sv ReadAck_Schema (mapR PReadAck decodeReadAck)" "ReadAck_wire v \<Longrightarrow> completes (PReadAck v) (mapR PReadAck decodeReadAck)"
  by (rule kind_codec [OF ReadAck_reader, where c = PReadAck and sv = sv]; simp)+

lemma PDeviceHistorySegment_codec [codec_rules]:
  "reads sv DeviceHistorySegment_Schema (mapR PDeviceHistorySegment decodeDeviceHistorySegment)" "DeviceHistorySegment_wire v \<Longrightarrow> completes (PDeviceHistorySegment v) (mapR PDeviceHistorySegment decodeDeviceHistorySegment)"
  by (rule kind_codec [OF DeviceHistorySegment_reader, where c = PDeviceHistorySegment and sv = sv]; simp)+

lemma PRoomInvite_codec [codec_rules]:
  "reads sv RoomInvite_Schema (mapR PRoomInvite decodeRoomInvite)" "RoomInvite_wire v \<Longrightarrow> completes (PRoomInvite v) (mapR PRoomInvite decodeRoomInvite)"
  by (rule kind_codec [OF RoomInvite_reader, where c = PRoomInvite and sv = sv]; simp)+

lemma PRoomMembershipCommit_codec [codec_rules]:
  "reads sv RoomMembershipCommit_Schema (mapR PRoomMembershipCommit decodeRoomMembershipCommit)" "RoomMembershipCommit_wire v \<Longrightarrow> completes (PRoomMembershipCommit v) (mapR PRoomMembershipCommit decodeRoomMembershipCommit)"
  by (rule kind_codec [OF RoomMembershipCommit_reader, where c = PRoomMembershipCommit and sv = sv]; simp)+

lemma PRoomMessage_codec [codec_rules]:
  "reads sv RoomMessage_Schema (mapR PRoomMessage decodeRoomMessage)" "RoomMessage_wire v \<Longrightarrow> completes (PRoomMessage v) (mapR PRoomMessage decodeRoomMessage)"
  by (rule kind_codec [OF RoomMessage_reader, where c = PRoomMessage and sv = sv]; simp)+

lemma PRoomModeration_codec [codec_rules]:
  "reads sv RoomModeration_Schema (mapR PRoomModeration decodeRoomModeration)" "RoomModeration_wire v \<Longrightarrow> completes (PRoomModeration v) (mapR PRoomModeration decodeRoomModeration)"
  by (rule kind_codec [OF RoomModeration_reader, where c = PRoomModeration and sv = sv]; simp)+

lemma PEncryptedAttachmentV3_codec [codec_rules]:
  "reads sv encryptedAttachmentV3Schema (mapR PEncryptedAttachment decodeEncryptedAttachment)"
  "EncryptedAttachment_wire v \<and> EncryptedAttachment_schema v = [] \<Longrightarrow>
     completes (PEncryptedAttachment v) (mapR PEncryptedAttachment decodeEncryptedAttachment)"
  by (rule kind_codec [OF EncryptedAttachment_reader, where c = PEncryptedAttachment and sv = sv];
      simp add: EncryptedAttachment_Schema_def)+

lemma PEncryptedAttachmentV2_codec [codec_rules]:
  "reads sv encryptedAttachmentV2Schema (mapR PEncryptedAttachment decodeEncryptedAttachmentV2)"
  "EncryptedAttachment_wire v \<and> EncryptedAttachment_schema v = encryptedAttachmentV2Schema \<Longrightarrow>
     completes (PEncryptedAttachment v) (mapR PEncryptedAttachment decodeEncryptedAttachmentV2)"
  by (rule kind_codec [OF EncryptedAttachmentV2_reader, where c = PEncryptedAttachment and sv = sv];
      simp add: EncryptedAttachment_Schema_def)+

lemma PEncryptedAttachmentV1_codec [codec_rules]:
  "reads sv encryptedAttachmentV1Schema (mapR PEncryptedAttachment decodeEncryptedAttachmentV1)"
  "EncryptedAttachment_wire v \<and> EncryptedAttachment_schema v = encryptedAttachmentV1Schema \<Longrightarrow>
     completes (PEncryptedAttachment v) (mapR PEncryptedAttachment decodeEncryptedAttachmentV1)"
  by (rule kind_codec [OF EncryptedAttachmentV1_reader, where c = PEncryptedAttachment and sv = sv];
      simp add: EncryptedAttachment_Schema_def)+

lemma codecs_read: "list_all (\<lambda>(k, c). reads sv (co_schema c) (co_decode c) \<and> list_all (\<lambda>(s, rd). reads sv s rd) (co_legacy c)) (codecs sv)"
  by (simp add: codecs_def codec_of_def codec_rules)

lemma codecs_complete:
  assumes "readable sv p" and "case p of PEncryptedAttachment v \<Rightarrow> EncryptedAttachment_schema v = [] | _ \<Rightarrow> True"
  shows "\<exists>c. map_of (codecs sv) (kind_of p) = Some c \<and> co_schema c = Payload_Schema p \<and> completes p (co_decode c)"
  using assms by (cases p) (simp_all add: codecs_def codec_of_def codec_rules EncryptedAttachment_Schema_def)

lemma encodeTerms_wire: "terms_wire t \<Longrightarrow> encodeTerms t = Some (terms_bytes t)"
  by (simp add: encodeTerms_eq terms_wire_def)

lemma encodeTerms_valid: "Terms_Validate t = None \<Longrightarrow> \<exists>b. encodeTerms t = Some b"
  by (simp add: encodeTerms_eq Terms_Validate_None Money_Validate_None Asset_Validate_None Network_Validate_None)

lemmas terms_kinds = NegotiationProposal_encode_def NegotiationCounterproposal_encode_def NegotiationIntentAccept_encode_def
  NegotiationProposal_wire_def NegotiationCounterproposal_wire_def NegotiationIntentAccept_wire_def
  NegotiationProposal_Validate_def NegotiationCounterproposal_Validate_def NegotiationIntentAccept_Validate_def

lemma encode_readable: "readable sv p \<Longrightarrow> Payload_encode p = Some (payload_bytes p)"
  by (cases p) (simp_all add: terms_kinds encodeTerms_wire)

lemma encode_valid: "Payload_Validate sv p = None \<Longrightarrow> \<exists>b. Payload_encode p = Some b"
  by (cases p) (auto simp: terms_kinds dest!: encodeTerms_valid)

lemma EncryptedAttachment_fits:
  assumes "EncryptedAttachment_Validate sv v = None" and "utf8_valid (EncryptedAttachment_Locator v)"
    and "EncryptedAttachment_schema v = []"
  shows "EncryptedAttachment_wire v"
proof -
  have s: "EncryptedAttachment_Schema v = encryptedAttachmentV3Schema" using assms(3) by (simp add: EncryptedAttachment_Schema_def)
  obtain g k where a: "EncryptedAttachment_FetchAccess sv v = Inr (g, k)"
    and d: "ValidDigest (EncryptedAttachment_ManifestDigest v)" "int (length (EncryptedAttachment_ReferenceJSON v)) \<le> MaxOpaqueBytes"
      "int (length (EncryptedAttachment_Locator v)) \<le> MaxShortTextBytes"
    using assms(1) by (auto simp: EncryptedAttachment_Validate_def s checked)
  have k: "hex_encode k = EncryptedAttachment_FetchCapabilityPrivateKeyHex v" "length k = 64"
    "int (length (EncryptedAttachment_FetchGrantJSON v)) \<le> MaxOpaqueBytes"
    using a by (auto simp: EncryptedAttachment_FetchAccess_def bindE_eq_Inr split: if_splits option.splits)
  have "list_all (\<lambda>c. byte_val c < 128) (hex_encode k)"
    using is_hex_encode [of k] by (auto simp: list_all_iff ascii_hex)
  then have "fits_text 128 (EncryptedAttachment_FetchCapabilityPrivateKeyHex v)"
    unfolding k(1) [symmetric] by (intro fits_ascii) (simp_all add: k(2))
  then show ?thesis
    using assms(2,3) d k(3) by (simp add: EncryptedAttachment_wire_def bounds fits_digest utf8_fits) (simp add: fits_def)
qed

lemmas kinds_fit = Text_fits ConversationInvite_fits ConversationAccept_fits PresenceHint_fits GiftAddressRequest_fits
  GiftAddressResponse_fits GiftSignedBOCOffer_fits TaskRequest_fits TaskProgress_fits TaskResult_fits TaskStatusRequest_fits
  NegotiationProposal_fits NegotiationCounterproposal_fits NegotiationWithdraw_fits NegotiationIntentAccept_fits
  NegotiationIntentReject_fits IntentApplication_fits AgreementPropose_fits AgreementAccept_fits AgreementEvidence_fits
  AgreementWithdraw_fits AgreementDelivery_fits PaidDemandProviderOffer_fits CommerceProfileEvent_fits OperationOutcome_fits
  PrivateHandoffChallenge_fits PrivateHandoffAuthorization_fits PrivateHandoffAcknowledgement_fits PrivateHandoffStatus_fits
  PrivateHandoffDelete_fits CounterpartyApprovalRequest_fits CounterpartyApprovalGranted_fits CounterpartyApprovalDenied_fits
  OwnerApprovalGrant_fits OwnerApprovalDeny_fits A2AMessage_fits MCPCall_fits MCPResult_fits AgentPacketMessage_fits
  ArtifactOffer_fits ArtifactReference_fits EncryptedAttachment_fits ChainReference_fits DeliveryAck_fits ApplicationAck_fits
  ReadAck_fits DeviceHistorySegment_fits RoomInvite_fits RoomMembershipCommit_fits RoomMessage_fits RoomModeration_fits

lemma valid_readable: "Payload_Validate sv p = None \<Longrightarrow> within sv p \<Longrightarrow> readable sv p"
  by (cases p) (simp_all add: within_def kinds_fit QuoteReference_Validate_def EscrowReference_Validate_def ReceiptReference_Validate_def)

lemma decodeSchema_Inr:
  assumes "map_of (codecs sv) kind = Some spec" and "decodeSchema sv spec schema content = Inr p"
  shows "Payload_Schema p = schema \<and> readable sv p \<and> Payload_Validate sv p = None \<and>
    content = domainFor schema @ payload_bytes p"
proof -
  let ?n = "NewReader (domainFor schema) content"
  obtain decode r' where d: "decode ?n = (p, r')" "r_Done r' = None" "Payload_Validate sv p = None"
    and m: "(if schema = co_schema spec then Some (co_decode spec) else map_of (co_legacy spec) schema) = Some decode"
    using assms(2) by (auto simp: decodeSchema_def failE_eq_Inr split: option.splits prod.splits)
  have "reads sv schema decode"
    using codecs_read [of sv] map_of_SomeD [OF assms(1)] m
    by (auto simp: list_all_iff dest!: map_of_SomeD split: if_splits)
  then have "Payload_Schema p = schema \<and> readable sv p \<and> rest_of ?n = Some (payload_bytes p @ [])"
    using d(1,2) unfolding reads_def r_Done_None by blast
  then show ?thesis
    using d(3) by simp
qed

lemma DecodeSchema_Inr:
  "DecodeSchema sv kind schema content = Inr p \<Longrightarrow> Payload_Schema p = schema \<and> readable sv p \<and>
     Payload_Validate sv p = None \<and> content = domainFor schema @ payload_bytes p"
  by (auto simp: DecodeSchema_def dest: decodeSchema_Inr split: option.splits)

lemma Decode_DecodeSchema: "map_of (codecs sv) kind = Some c \<Longrightarrow> Decode sv kind b = DecodeSchema sv kind (co_schema c) b"
  by (simp add: Decode_def DecodeSchema_def)

lemmas schema_defs =
  Text_Schema_def ConversationInvite_Schema_def ConversationAccept_Schema_def PresenceHint_Schema_def
  GiftAddressRequest_Schema_def GiftAddressResponse_Schema_def GiftSignedBOCOffer_Schema_def TaskRequest_Schema_def
  TaskProgress_Schema_def TaskResult_Schema_def TaskStatusRequest_Schema_def NegotiationProposal_Schema_def
  NegotiationCounterproposal_Schema_def NegotiationWithdraw_Schema_def NegotiationIntentAccept_Schema_def NegotiationIntentReject_Schema_def
  IntentApplication_Schema_def AgreementPropose_Schema_def AgreementAccept_Schema_def AgreementEvidence_Schema_def
  AgreementWithdraw_Schema_def AgreementDelivery_Schema_def PaidDemandProviderOffer_Schema_def CommerceProfileEvent_Schema_def
  OperationOutcome_Schema_def PrivateHandoffChallenge_Schema_def PrivateHandoffAuthorization_Schema_def PrivateHandoffAcknowledgement_Schema_def
  PrivateHandoffStatus_Schema_def PrivateHandoffDelete_Schema_def CounterpartyApprovalRequest_Schema_def CounterpartyApprovalGranted_Schema_def
  CounterpartyApprovalDenied_Schema_def OwnerApprovalGrant_Schema_def OwnerApprovalDeny_Schema_def A2AMessage_Schema_def
  MCPCall_Schema_def MCPResult_Schema_def AgentPacketMessage_Schema_def ArtifactOffer_Schema_def
  ArtifactReference_Schema_def QuoteReference_Schema_def EscrowReference_Schema_def ReceiptReference_Schema_def
  DeliveryAck_Schema_def ApplicationAck_Schema_def ReadAck_Schema_def DeviceHistorySegment_Schema_def
  RoomInvite_Schema_def RoomMembershipCommit_Schema_def RoomMessage_Schema_def RoomModeration_Schema_def
  encryptedAttachmentV1Schema_def encryptedAttachmentV2Schema_def encryptedAttachmentV3Schema_def

lemma codecs_distinct: "distinct (map fst (codecs sv))"
  by (simp add: codecs_def)

lemma schemas_distinct: "distinct (map snd (schemas sv))"
  by (simp add: schemas_def codecs_def codec_of_def schema_defs)

lemma schemas_plain: "list_all (\<lambda>(k, s). CHR 0x00 \<notin> set s) (schemas sv)"
  by (simp add: schemas_def codecs_def codec_of_def schema_defs)

lemma SupportsSchema_schemas: "SupportsSchema sv kind schema \<longleftrightarrow> (kind, schema) \<in> set (schemas sv)"
proof -
  have "(\<exists>c. (kind, c) \<in> set (codecs sv) \<and> schema \<in> set (co_schema c # map fst (co_legacy c))) \<longleftrightarrow>
    (\<exists>c. map_of (codecs sv) kind = Some c \<and> schema \<in> set (co_schema c # map fst (co_legacy c)))"
    by (simp add: map_of_eq_Some_iff [OF codecs_distinct])
  moreover have "map_of l s \<noteq> None \<longleftrightarrow> s \<in> set (map fst l)" for l :: "(string \<times> (Reader \<Rightarrow> Payload \<times> Reader)) list" and s
    by (simp add: map_of_eq_None_iff)
  ultimately show ?thesis
    by (auto simp: SupportsSchema_def schemas_def split: option.splits)
qed

lemma schema_kind:
  assumes "(k, s) \<in> set (schemas sv)" and "(k', s) \<in> set (schemas sv)"
  shows "k = k'"
  using inj_onD [of snd "set (schemas sv)" "(k, s)" "(k', s)"] assms schemas_distinct [of sv] by (simp add: distinct_map)

lemma DecodeSchema_supported: "DecodeSchema sv kind schema content = Inr p \<Longrightarrow> (kind, schema) \<in> set (schemas sv)"
  unfolding SupportsSchema_schemas [symmetric]
  by (auto simp: DecodeSchema_def decodeSchema_def SupportsSchema_def split: option.splits if_splits)

lemma domainFor_inj:
  assumes "domainFor s @ x = domainFor t @ y" and "CHR 0x00 \<notin> set s" and "CHR 0x00 \<notin> set t"
  shows "s = t"
proof -
  have "s @ CHR 0x00 # x = t @ CHR 0x00 # y" using assms(1) by (simp add: domainFor_def)
  then show ?thesis using assms(2,3)
    by (induction s arbitrary: t) (case_tac t; auto)+
qed

lemma decode_encoded:
  assumes "Encode sv (Some p) = Some (Inr b)" and "within sv p"
  shows "Decode sv (kind_of p) b = Inr p"
proof -
  have v: "Payload_Validate sv p = None" using assms(1) by (auto simp: Encode_def split: option.splits)
  note r = valid_readable [OF v assms(2)]
  have b: "b = domainFor (Payload_Schema p) @ payload_bytes p"
    using assms(1) v encode_readable [OF r] by (simp add: Encode_def)
  have "case p of PEncryptedAttachment v \<Rightarrow> EncryptedAttachment_schema v = [] | _ \<Rightarrow> True"
    using assms(2) by (cases p) (simp_all add: within_def)
  from codecs_complete [OF r this] obtain c where c: "map_of (codecs sv) (kind_of p) = Some c"
    "co_schema c = Payload_Schema p" "completes p (co_decode c)" by blast
  let ?n = "NewReader (domainFor (Payload_Schema p)) b"
  have "rest_of ?n = Some (payload_bytes p @ [])" using b by simp
  with c(3) obtain r' where "co_decode c ?n = (p, r')" "rest_of r' = Some []" unfolding completes_def by blast
  then show ?thesis
    using c v by (simp add: Decode_def decodeSchema_def r_Done_None [THEN iffD2])
qed

lemma ex_text_encodes: "\<exists>b. Encode ex_service (Some ex_text) = Some (Inr b)"
  by (simp add: Encode_def ex_text_def Text_Validate_def thenE_def requireMember_def requireText_def optionalMatch_def
      mediaTypes_def MaxTextBytes_def ascii_utf8 byte_val_def)

lemma ex_text_decodes:
  obtains b where "Encode ex_service (Some ex_text) = Some (Inr b)" "Decode ex_service ''text'' b = Inr ex_text"
    "DecodeSchema ex_service ''text'' Text_Schema b = Inr ex_text"
proof -
  obtain b where b: "Encode ex_service (Some ex_text) = Some (Inr b)" using ex_text_encodes by blast
  have d: "Decode ex_service ''text'' b = Inr ex_text"
    using decode_encoded [OF b] by (simp add: within_def ex_text_def)
  have "map_of (codecs ex_service) ''text'' = Some (codec_of PText Text_Schema decodeText)" by (simp add: codecs_def)
  from Decode_DecodeSchema [OF this] d have "DecodeSchema ex_service ''text'' Text_Schema b = Inr ex_text"
    by (simp add: codec_of_def)
  with b d show thesis by (rule that)
qed

lemma ex_stage: "tokenPattern (replicate 513 (CHR ''a''))"
  by code_simp

section \<open>Properties\<close>

text \<open>
  C26. A body has one encoding. Whatever bytes \<open>DecodeSchema\<close> accepts, under the current or a
  historical schema of a kind, are exactly the bytes \<open>Encode\<close> writes for the body it returns,
  and that body answers to the schema it was read under. So an event identifier, which
  commits the bytes, cannot be given to the same body twice.
\<close>

theorem DecodeSchema_canonical:
  assumes "DecodeSchema sv kind schema content = Inr p"
  shows "Encode sv (Some p) = Some (Inr content) \<and> Payload_Schema p = schema"
  using DecodeSchema_Inr [OF assms] encode_readable [of sv p] by (simp add: Encode_def)

theorem DecodeSchema_canonical_witness:
  "\<exists>b. DecodeSchema ex_service ''text'' Text_Schema b = Inr ex_text \<and> Encode ex_service (Some ex_text) = Some (Inr b)"
proof -
  obtain b where "DecodeSchema ex_service ''text'' Text_Schema b = Inr ex_text" by (rule ex_text_decodes)
  with DecodeSchema_canonical [OF this] show ?thesis by blast
qed

text \<open>
  C27. What is encoded is decoded. Every body \<open>Encode\<close> accepts comes back unchanged from
  \<open>Decode\<close> under its kind, for each of the fifty-three bodies; \<open>within\<close> names the only bodies
  that need more than validation, the ones with a text that validation leaves unbounded or
  unchecked.
\<close>

theorem Encode_Decode:
  assumes "Encode sv (Some p) = Some (Inr b)" and "within sv p"
  shows "Decode sv (kind_of p) b = Inr p"
  by (rule decode_encoded [OF assms])

theorem Encode_Decode_witness:
  "\<exists>b. Encode ex_service (Some ex_text) = Some (Inr b) \<and> Decode ex_service ''text'' b = Inr ex_text"
proof -
  obtain b where b: "Encode ex_service (Some ex_text) = Some (Inr b)" using ex_text_encodes by blast
  with Encode_Decode [OF b] show ?thesis by (auto simp: within_def ex_text_def)
qed

text \<open>
  C28. Bytes cannot be replayed as another kind: content that decodes under a kind and schema
  decodes under no other kind and no other schema.
\<close>

theorem DecodeSchema_one_kind:
  assumes "DecodeSchema sv k s content = Inr p" and "DecodeSchema sv k' s' content = Inr q"
  shows "k = k' \<and> s = s' \<and> p = q"
proof -
  have m: "(k, s) \<in> set (schemas sv)" "(k', s') \<in> set (schemas sv)"
    using assms by (auto dest: DecodeSchema_supported)
  then have "CHR 0x00 \<notin> set s" "CHR 0x00 \<notin> set s'" using schemas_plain [of sv] by (auto simp: list_all_iff)
  then have s: "s = s'"
    using DecodeSchema_Inr [OF assms(1)] DecodeSchema_Inr [OF assms(2)] domainFor_inj by metis
  then have "k = k'" using m schema_kind by metis
  with s assms show ?thesis by simp
qed

theorem DecodeSchema_one_kind_witness:
  "\<exists>b. DecodeSchema ex_service ''text'' Text_Schema b = Inr ex_text \<and>
     \<not> (\<exists>q. DecodeSchema ex_service ''read.ack'' ReadAck_Schema b = Inr q)"
proof -
  obtain b where b: "DecodeSchema ex_service ''text'' Text_Schema b = Inr ex_text" by (rule ex_text_decodes)
  have "\<not> (\<exists>q. DecodeSchema ex_service ''read.ack'' ReadAck_Schema b = Inr q)"
    using DecodeSchema_one_kind [OF b] by fastforce
  with b show ?thesis by blast
qed

text \<open>
  Encoding never panics: validation has refused every network hash the terms encoder
  would panic on before the encoder runs, for any body and also for none.
\<close>

theorem Encode_never_panics: "Encode sv v \<noteq> None"
proof (cases v)
  case (Some p)
  then show ?thesis using encode_valid [of sv p] by (cases "Payload_Validate sv p") (auto simp: Encode_def)
qed (simp add: Encode_def)



end
