(* ===== verification/Identity.thy ===== *)
theory Identity
  imports Codec Amounts
begin

text \<open>
  Messaging Endpoint delegations (\<open>pkg/identity/delegation.go\<close>) and the finalized Agent state
  that gives them authority (\<open>chain.go\<close>). The registry's addressing rules and the resolver
  that reads the chain are parameters; what the standard library makes of JSON text is the
  parameter \<open>json\<close>.
\<close>

section \<open>Finalized state\<close>

text \<open>The records of the service protocol, with the fields the package reads.\<close>

record AgentStateV1 =
  as_AgentId :: string
  as_Tombstoned :: bool
  as_HasPolicy :: bool
  as_DelegationDigests :: "string list"

record ChainReference =
  cr_FinalizedCheckpoint :: u64
  cr_ContractCodeHash :: string
  cr_Account :: string
  cr_TransactionHash :: string

record NativeStateV1 =
  ns_Network :: "NetworkDomain option"
  ns_TvmStateHash :: string
  ns_Reference :: "ChainReference option"
  ns_Agent :: "AgentStateV1 option"

definition MaxRegistryCodeHashes :: nat where
  "MaxRegistryCodeHashes = 8"

definition cellDigestPattern :: "string \<Rightarrow> bool" where
  "cellDigestPattern = prefixed_hex64 ''tvm-cell-sha256:''"

definition chainDigestPattern :: "string \<Rightarrow> bool" where
  "chainDigestPattern s \<longleftrightarrow> prefixed_hex64 ''sha256:'' s \<or> prefixed_hex64 ''tvm-cell-sha256:'' s"

definition account_char :: "char \<Rightarrow> bool" where
  "account_char c \<longleftrightarrow> CHR ''0'' \<le> c \<and> c \<le> CHR ''9'' \<or> CHR ''A'' \<le> c \<and> c \<le> CHR ''Z'' \<or> CHR ''a'' \<le> c \<and> c \<le> CHR ''z'' \<or>
     c \<in> set ''_:+/=-''"

definition chain_accountPattern :: "string \<Rightarrow> bool" where
  "chain_accountPattern s \<longleftrightarrow> 1 \<le> length s \<and> length s \<le> 128 \<and> list_all account_char s"

text \<open>\<open>Locate\<close> of an \<open>AccountLocator\<close>; \<open>None\<close> is a nil locator.\<close>

record ChainPolicy =
  cp_RegistryCodeHashes :: "string list"
  cp_MinFinalizedCheckpoint :: u64
  cp_Locator :: "(string \<Rightarrow> string \<Rightarrow> string res) option"

fun bad_code_hashes :: "string list \<Rightarrow> string list \<Rightarrow> err option" where
  "bad_code_hashes seen [] = None"
| "bad_code_hashes seen (h # hs) =
     (if \<not> cellDigestPattern h then Some (Msg ''invalid registry code hash'')
      else if h \<in> set seen then Some (Msg ''a chain policy cannot name the same registry code twice'')
      else bad_code_hashes (h # seen) hs)"

definition ChainPolicy_Validate :: "ChainPolicy \<Rightarrow> err option" where
  "ChainPolicy_Validate c =
     (if cp_RegistryCodeHashes c = [] \<or> length (cp_RegistryCodeHashes c) > MaxRegistryCodeHashes
      then Some (Msg ''a chain policy must name the registry code it accepts'')
      else thenE (bad_code_hashes [] (cp_RegistryCodeHashes c))
        (failIf (cp_Locator c = None) ''a chain policy must be able to recompute account addresses''))"

definition AcceptsRegistry :: "ChainPolicy \<Rightarrow> string \<Rightarrow> bool" where
  "AcceptsRegistry c hash \<longleftrightarrow> hash \<in> set (cp_RegistryCodeHashes c)"

definition validateNetwork :: "NetworkDomain option \<Rightarrow> err option" where
  "validateNetwork network = (case network of
     None \<Rightarrow> Some (Msg ''invalid delegation network domain'')
   | Some n \<Rightarrow>
       if nd_NetworkId n = [] \<or> length (nd_NetworkId n) > 128 \<or> \<not> HashPattern (nd_GenesisRootHash n) \<or>
         \<not> HashPattern (nd_GenesisFileHash n)
       then Some (Msg ''invalid delegation network domain'') else None)"

definition CheckState :: "ChainPolicy \<Rightarrow> NetworkDomain option \<Rightarrow> string \<Rightarrow> NativeStateV1 option \<Rightarrow> AgentStateV1 res" where
  "CheckState policy network agentID state0 = failE (ChainPolicy_Validate policy) (failE (validateNetwork network)
     (if \<not> ids_Agent agentID then Inl (Msg ''invalid Agent identifier'')
      else case state0 of
        None \<Rightarrow> Inl (Msg ''resolver returned no state'')
      | Some state \<Rightarrow>
        if ns_Network state = None \<or> ns_Network state \<noteq> network then Inl (Msg ''resolver returned state from another network'')
        else if \<not> chainDigestPattern (ns_TvmStateHash state) then Inl (Msg ''resolver returned state with no typed state hash'')
        else (case ns_Reference state of
          None \<Rightarrow> Inl (Msg ''resolver returned state with no chain reference'')
        | Some reference \<Rightarrow>
          if cr_FinalizedCheckpoint reference = 0 then Inl (Msg ''resolver returned state that is not finalized'')
          else if cr_FinalizedCheckpoint reference < cp_MinFinalizedCheckpoint policy
          then Inl (Msg ''resolver returned state older than the operator's known checkpoint'')
          else if \<not> AcceptsRegistry policy (cr_ContractCodeHash reference)
          then Inl (Msg ''resolver returned state from an unrecognised registry contract'')
          else if \<not> chain_accountPattern (cr_Account reference) then Inl (Msg ''resolver returned state with no account'')
          else if \<not> chainDigestPattern (cr_TransactionHash reference)
          then Inl (Msg ''resolver returned state with no transaction hash'')
          else (case the (cp_Locator policy) (cr_ContractCodeHash reference) agentID of
            Inl e \<Rightarrow> Inl (Msg ''could not recompute the Agent account address: '')
          | Inr expected \<Rightarrow>
            if expected \<noteq> cr_Account reference then Inl (Msg ''resolver returned Agent state from the wrong account'')
            else (case ns_Agent state of
              None \<Rightarrow> Inl (Msg ''resolver returned state that is not an Agent'')
            | Some agent \<Rightarrow>
              if as_AgentId agent \<noteq> agentID then Inl (Msg ''resolver returned state for another Agent'')
              else if as_Tombstoned agent \<or> \<not> as_HasPolicy agent then Inl (Msg ''Agent is not finalized and live'')
              else Inr agent)))))"

section \<open>Delegations\<close>

definition delegation_Schema :: string where
  "delegation_Schema = ''tos.messaging.endpoint-delegation.v2''"

definition MaxProtocolVersions :: nat where
  "MaxProtocolVersions = 16"

definition MaxEventClasses :: nat where
  "MaxEventClasses = 64"

definition MaxEventClassBytes :: nat where
  "MaxEventClassBytes = 64"

definition MaxDelegationLifetimeSeconds :: u64 where
  "MaxDelegationLifetimeSeconds = 365 * 24 * 60 * 60"

definition MinSessionLifetimeSeconds :: u64 where
  "MinSessionLifetimeSeconds = 60"

definition MaxSessionLifetimeSeconds :: u64 where
  "MaxSessionLifetimeSeconds = 30 * 24 * 60 * 60"

record Delegation =
  dl_Network :: "NetworkDomain option"
  dl_AgentID :: string
  dl_EndpointID :: string
  dl_IdentityPublicKey :: bytes
  dl_ADNLID :: string
  dl_AllowedProtocolVersions :: "u32 list"
  dl_AllowedOutboundEventClasses :: "string list"
  dl_NotBeforeUnix :: u64
  dl_ExpiresAtUnix :: u64
  dl_MaximumSessionLifetimeSeconds :: u64
  dl_ContactDescriptorPolicyDigest :: string
  dl_InboxAdmissionPolicyDigest :: string

text \<open>\<open>^[a-z][a-z0-9]*(\.[a-z][a-z0-9]*)*$\<close>: whether a label may start, or has started.\<close>

fun class_labels :: "bool \<Rightarrow> string \<Rightarrow> bool" where
  "class_labels started [] = started"
| "class_labels started (c # s) =
     (if CHR ''a'' \<le> c \<and> c \<le> CHR ''z'' then class_labels True s
      else if CHR ''0'' \<le> c \<and> c \<le> CHR ''9'' then started \<and> class_labels True s
      else c = CHR ''.'' \<and> started \<and> class_labels False s)"

definition eventClassPattern :: "string \<Rightarrow> bool" where
  "eventClassPattern s = class_labels False s"

definition validateKey :: "bytes \<Rightarrow> err option" where
  "validateKey key = (if length key \<noteq> 32 \<or> canon_IsZero key then Some (Msg ''invalid delegation identity key'') else None)"

definition domain_bytes :: "NetworkDomain option \<Rightarrow> bytes res" where
  "domain_bytes network =
     bindE (canon_Hash32 (nd_GenesisRootHash (the network))) (\<lambda>root.
     bindE (canon_Hash32 (nd_GenesisFileHash (the network))) (\<lambda>fileHash.
     Inr (canon_Text (nd_NetworkId (the network)) @ root @ fileHash)))"

definition DeriveEndpointID :: "NetworkDomain option \<Rightarrow> string \<Rightarrow> bytes \<Rightarrow> string res" where
  "DeriveEndpointID network agentID key = failE (validateNetwork network)
     (if \<not> ids_Agent agentID then Inl (Msg ''invalid delegation Agent identifier'')
      else failE (validateKey key) (bindE (domain_bytes network) (\<lambda>net.
        Inr (''mep_'' @ hex_encode (sha256 (DomainEndpointID @ net @ canon_Text agentID @ key))))))"

text \<open>The loops over versions and classes; the previous element is \<open>None\<close> at index 0.\<close>

fun bad_versions :: "u32 option \<Rightarrow> u32 list \<Rightarrow> err option" where
  "bad_versions previous [] = None"
| "bad_versions previous (v # vs) =
     (if v = 0 then Some (Msg ''invalid delegation protocol versions'')
      else if (case previous of None \<Rightarrow> False | Some p \<Rightarrow> p \<ge> v)
      then Some (Msg ''delegation protocol versions must be sorted and unique'')
      else bad_versions (Some v) vs)"

definition validateVersions :: "u32 list \<Rightarrow> err option" where
  "validateVersions versions =
     (if versions = [] \<or> length versions > MaxProtocolVersions then Some (Msg ''invalid delegation protocol versions'')
      else bad_versions None versions)"

fun bad_classes :: "string option \<Rightarrow> string list \<Rightarrow> err option" where
  "bad_classes previous [] = None"
| "bad_classes previous (c # cs) =
     (if length c > MaxEventClassBytes \<or> \<not> eventClassPattern c then Some (Msg ''invalid delegation event classes'')
      else if (case previous of None \<Rightarrow> False | Some p \<Rightarrow> p \<ge> c)
      then Some (Msg ''delegation event classes must be sorted and unique'')
      else bad_classes (Some c) cs)"

definition validateEventClasses :: "string list \<Rightarrow> err option" where
  "validateEventClasses classes =
     (if classes = [] \<or> length classes > MaxEventClasses then Some (Msg ''invalid delegation event classes'')
      else bad_classes None classes)"

definition validateWindowFields :: "Delegation \<Rightarrow> err option" where
  "validateWindowFields d =
     (if dl_NotBeforeUnix d = 0 \<or> dl_ExpiresAtUnix d = 0 \<or> dl_ExpiresAtUnix d \<le> dl_NotBeforeUnix d
      then Some (Msg ''invalid delegation validity window'')
      else let lifetime = dl_ExpiresAtUnix d - dl_NotBeforeUnix d in
      if lifetime > MaxDelegationLifetimeSeconds then Some (Msg ''delegation lifetime exceeds its bound'')
      else if dl_MaximumSessionLifetimeSeconds d < MinSessionLifetimeSeconds \<or>
        dl_MaximumSessionLifetimeSeconds d > MaxSessionLifetimeSeconds \<or> dl_MaximumSessionLifetimeSeconds d > lifetime
      then Some (Msg ''invalid delegation session lifetime'')
      else None)"

definition validADNL :: "string \<Rightarrow> bool" where
  "validADNL v \<longleftrightarrow> v = [] \<or> ids_ADNL v \<and> (case hex_decode (drop 5 v) of None \<Rightarrow> False | Some raw \<Rightarrow> \<not> canon_IsZero raw)"

definition Delegation_Validate :: "Delegation \<Rightarrow> err option" where
  "Delegation_Validate d = thenE (validateNetwork (dl_Network d))
     (thenE (failIf (\<not> ids_Agent (dl_AgentID d)) ''invalid delegation Agent identifier'')
     (thenE (validateKey (dl_IdentityPublicKey d))
     (case DeriveEndpointID (dl_Network d) (dl_AgentID d) (dl_IdentityPublicKey d) of
       Inl e \<Rightarrow> Some e
     | Inr derived \<Rightarrow>
       thenE (failIf (\<not> ids_Endpoint (dl_EndpointID d) \<or> dl_EndpointID d \<noteq> derived)
         ''delegation endpoint identifier does not bind its key'')
       (thenE (failIf (\<not> validADNL (dl_ADNLID d)) ''invalid delegation ADNL identifier'')
       (thenE (validateVersions (dl_AllowedProtocolVersions d))
       (thenE (validateEventClasses (dl_AllowedOutboundEventClasses d))
       (thenE (validateWindowFields d)
       (failIf (\<not> ValidDigest (dl_ContactDescriptorPolicyDigest d) \<or> \<not> ValidDigest (dl_InboxAdmissionPolicyDigest d))
         ''invalid delegation policy digest''))))))))"

definition Delegation_CanonicalBytes :: "Delegation \<Rightarrow> bytes res" where
  "Delegation_CanonicalBytes d = failE (Delegation_Validate d) (bindE (domain_bytes (dl_Network d)) (\<lambda>net.
     Inr (DomainEndpointDelegation @ canon_Text delegation_Schema @ net @ canon_Text (dl_AgentID d) @
       canon_Text (dl_EndpointID d) @ dl_IdentityPublicKey d @ canon_Text (dl_ADNLID d) @
       canon_Uint32 (of_nat (length (dl_AllowedProtocolVersions d))) @ concat (map canon_Uint32 (dl_AllowedProtocolVersions d)) @
       canon_Uint32 (of_nat (length (dl_AllowedOutboundEventClasses d))) @
       concat (map canon_Text (dl_AllowedOutboundEventClasses d)) @
       canon_Uint64 (dl_NotBeforeUnix d) @ canon_Uint64 (dl_ExpiresAtUnix d) @
       canon_Uint64 (dl_MaximumSessionLifetimeSeconds d) @ canon_Text (dl_ContactDescriptorPolicyDigest d) @
       canon_Text (dl_InboxAdmissionPolicyDigest d))))"

definition Delegation_Digest :: "Delegation \<Rightarrow> string res" where
  "Delegation_Digest d = bindE (Delegation_CanonicalBytes d) (\<lambda>b. Inr (Digest b))"

section \<open>Wire form\<close>

record wireDelegation =
  wd_Schema :: string
  wd_NetworkID :: string
  wd_GenesisRootHash :: string
  wd_GenesisFileHash :: string
  wd_AgentID :: string
  wd_EndpointID :: string
  wd_IdentityPublicKeyHex :: string
  wd_ADNLID :: string
  wd_AllowedProtocolVersions :: "u32 list"
  wd_AllowedOutboundEventClasses :: "string list"
  wd_NotBeforeUnix :: u64
  wd_ExpiresAtUnix :: u64
  wd_MaximumSessionLifetimeSeconds :: u64
  wd_ContactDescriptorPolicyDigest :: string
  wd_InboxAdmissionPolicyDigest :: string

text \<open>The struct \<open>EncodeJSON\<close> hands to the JSON encoder.\<close>

definition wire_of :: "Delegation \<Rightarrow> wireDelegation res" where
  "wire_of d = failE (Delegation_Validate d) (Inr \<lparr>wd_Schema = delegation_Schema,
     wd_NetworkID = nd_NetworkId (the (dl_Network d)), wd_GenesisRootHash = nd_GenesisRootHash (the (dl_Network d)),
     wd_GenesisFileHash = nd_GenesisFileHash (the (dl_Network d)), wd_AgentID = dl_AgentID d,
     wd_EndpointID = dl_EndpointID d, wd_IdentityPublicKeyHex = hex_encode (dl_IdentityPublicKey d),
     wd_ADNLID = dl_ADNLID d, wd_AllowedProtocolVersions = dl_AllowedProtocolVersions d,
     wd_AllowedOutboundEventClasses = dl_AllowedOutboundEventClasses d, wd_NotBeforeUnix = dl_NotBeforeUnix d,
     wd_ExpiresAtUnix = dl_ExpiresAtUnix d, wd_MaximumSessionLifetimeSeconds = dl_MaximumSessionLifetimeSeconds d,
     wd_ContactDescriptorPolicyDigest = dl_ContactDescriptorPolicyDigest d,
     wd_InboxAdmissionPolicyDigest = dl_InboxAdmissionPolicyDigest d\<rparr>)"

text \<open>What \<open>DecodeJSON\<close> does with the struct the strict decoder returned.\<close>

definition of_wire :: "wireDelegation \<Rightarrow> Delegation res" where
  "of_wire v =
     (if wd_Schema v \<noteq> delegation_Schema then Inl (Msg ''unsupported delegation schema'')
      else case hex_decode (wd_IdentityPublicKeyHex v) of
        None \<Rightarrow> Inl (Msg ''invalid delegation identity key'')
      | Some key \<Rightarrow>
        if length key \<noteq> 32 then Inl (Msg ''invalid delegation identity key'')
        else let d = \<lparr>dl_Network = Some \<lparr>nd_NetworkId = wd_NetworkID v, nd_GenesisRootHash = wd_GenesisRootHash v,
             nd_GenesisFileHash = wd_GenesisFileHash v\<rparr>,
           dl_AgentID = wd_AgentID v, dl_EndpointID = wd_EndpointID v, dl_IdentityPublicKey = key, dl_ADNLID = wd_ADNLID v,
           dl_AllowedProtocolVersions = wd_AllowedProtocolVersions v,
           dl_AllowedOutboundEventClasses = wd_AllowedOutboundEventClasses v, dl_NotBeforeUnix = wd_NotBeforeUnix v,
           dl_ExpiresAtUnix = wd_ExpiresAtUnix v, dl_MaximumSessionLifetimeSeconds = wd_MaximumSessionLifetimeSeconds v,
           dl_ContactDescriptorPolicyDigest = wd_ContactDescriptorPolicyDigest v,
           dl_InboxAdmissionPolicyDigest = wd_InboxAdmissionPolicyDigest v\<rparr> in
        failE (Delegation_Validate d) (Inr d))"

definition Delegation_DecodeJSON :: "(bytes \<Rightarrow> wireDelegation res) \<Rightarrow> bytes \<Rightarrow> Delegation res" where
  "Delegation_DecodeJSON json raw = bindE (json raw) of_wire"

section \<open>Authority\<close>

definition CheckWindow :: "Delegation \<Rightarrow> gotime \<Rightarrow> err option" where
  "CheckWindow d now =
     (if bad_time now then Some (Msg ''invalid delegation time'')
      else if unix now < dl_NotBeforeUnix d then Some (Msg ''delegation is not yet valid'')
      else if unix now \<ge> dl_ExpiresAtUnix d then Some (Msg ''delegation is expired'')
      else None)"

text \<open>\<open>ResolveAgent\<close> of an \<open>AgentResolver\<close>: an error, nothing found, or a state pointer.\<close>

type_synonym AgentResolver = "string \<Rightarrow> NativeStateV1 option option res"

definition VerifyWithCheckpoint :: "(bytes \<Rightarrow> wireDelegation res) \<Rightarrow> AgentResolver option \<Rightarrow> NetworkDomain option \<Rightarrow> ChainPolicy \<Rightarrow>
    bytes \<Rightarrow> gotime \<Rightarrow> (Delegation \<times> u64) res" where
  "VerifyWithCheckpoint json resolver network chain raw now = (case resolver of
     None \<Rightarrow> Inl (Msg ''invalid delegation verification context'')
   | Some ResolveAgent \<Rightarrow>
     if IsZero now then Inl (Msg ''invalid delegation verification context'')
     else failE (validateNetwork network) (bindE (Delegation_DecodeJSON json raw) (\<lambda>d.
       if dl_Network d \<noteq> network then Inl (Msg ''delegation network tuple mismatch'')
       else bindE (ResolveAgent (dl_AgentID d)) (\<lambda>found. case found of
         None \<Rightarrow> Inl (Msg ''delegation Agent is not finalized'')
       | Some state \<Rightarrow> bindE (CheckState chain network (dl_AgentID d) state) (\<lambda>agent.
         bindE (Delegation_Digest d) (\<lambda>digest.
         if digest \<notin> set (as_DelegationDigests agent)
         then Inl (Msg ''delegation is not committed by the finalized Agent'')
         else failE (CheckWindow d now) (Inr (d, cr_FinalizedCheckpoint (the (ns_Reference (the state)))))))))))"

definition identity_Verify :: "(bytes \<Rightarrow> wireDelegation res) \<Rightarrow> AgentResolver option \<Rightarrow> NetworkDomain option \<Rightarrow> ChainPolicy \<Rightarrow>
    bytes \<Rightarrow> gotime \<Rightarrow> Delegation res" where
  "identity_Verify json resolver network chain raw now =
     bindE (VerifyWithCheckpoint json resolver network chain raw now) (\<lambda>(d, _). Inr d)"

definition AllowsEventClass :: "Delegation \<Rightarrow> string \<Rightarrow> bool" where
  "AllowsEventClass d cls \<longleftrightarrow> eventClassPattern cls \<and> cls \<in> set (dl_AllowedOutboundEventClasses d)"

definition AllowsProtocolVersion :: "Delegation \<Rightarrow> u32 \<Rightarrow> bool" where
  "AllowsProtocolVersion d version \<longleftrightarrow> version \<in> set (dl_AllowedProtocolVersions d)"

definition domain_ok :: "NetworkDomain option \<Rightarrow> bool" where
  "domain_ok network = (validateNetwork network = None)"

definition domain_enc :: "NetworkDomain option \<Rightarrow> bytes" where
  "domain_enc network = canon_Text (nd_NetworkId (the network)) @ hash_bytes (nd_GenesisRootHash (the network)) @
     hash_bytes (nd_GenesisFileHash (the network))"

section \<open>Lemmas\<close>

lemma domain_ok_Some: "domain_ok network \<longleftrightarrow> (\<exists>n. network = Some n \<and> nd_NetworkId n \<noteq> [] \<and> length (nd_NetworkId n) \<le> 128 \<and>
    hex64 (nd_GenesisRootHash n) \<and> hex64 (nd_GenesisFileHash n))"
  by (auto simp: domain_ok_def validateNetwork_def HashPattern_def split: option.splits)

lemma domain_bytes_ok: "domain_ok network \<Longrightarrow> domain_bytes network = Inr (domain_enc network)"
  by (auto simp: domain_ok_Some domain_bytes_def domain_enc_def canon_Hash32_ok)

interpretation cdomain: field_codec domain_enc domain_ok
proof
  fix a b x y assume "domain_ok a" "domain_ok b" "domain_enc a @ x = domain_enc b @ y"
  then show "a = b \<and> x = y"
    by (auto simp: domain_ok_Some domain_enc_def ctext.enc_eq rhash.enc_eq short_def)
qed

text \<open>Bytes of one length, written without a prefix.\<close>

interpretation craw: field_codec "\<lambda>k. k" "\<lambda>k. length k = n" for n
  by unfold_locales auto

lemma bad_classes_short: "bad_classes p cs = None \<Longrightarrow> list_all short cs"
  by (induction p cs rule: bad_classes.induct) (auto simp: short_def MaxEventClassBytes_def split: if_splits)

lemma Delegation_valid:
  assumes "Delegation_Validate d = None"
  shows "domain_ok (dl_Network d)" "short (dl_AgentID d)" "short (dl_EndpointID d)" "length (dl_IdentityPublicKey d) = 32"
    "short (dl_ADNLID d)" "length (dl_AllowedProtocolVersions d) < 2 ^ 32" "list_all short (dl_AllowedOutboundEventClasses d)"
    "length (dl_AllowedOutboundEventClasses d) < 2 ^ 32" "short (dl_ContactDescriptorPolicyDigest d)"
    "short (dl_InboxAdmissionPolicyDigest d)"
    "DeriveEndpointID (dl_Network d) (dl_AgentID d) (dl_IdentityPublicKey d) = Inr (dl_EndpointID d)"
proof -
  show "domain_ok (dl_Network d)" using assms by (simp add: Delegation_Validate_def domain_ok_def)
  show "short (dl_AgentID d)" "length (dl_IdentityPublicKey d) = 32"
    using assms by (auto simp: Delegation_Validate_def ids_defs validateKey_def intro: prefixed_hex64_short split: if_splits)
  show "short (dl_EndpointID d)" "short (dl_ContactDescriptorPolicyDigest d)" "short (dl_InboxAdmissionPolicyDigest d)"
    "DeriveEndpointID (dl_Network d) (dl_AgentID d) (dl_IdentityPublicKey d) = Inr (dl_EndpointID d)"
    using assms by (auto simp: Delegation_Validate_def ids_defs intro: prefixed_hex64_short ValidDigest_short split: sum.splits)
  show "short (dl_ADNLID d)"
    using assms by (auto simp: Delegation_Validate_def validADNL_def ids_defs short_def
      dest: prefixed_hex64_length split: sum.splits)
  show "length (dl_AllowedProtocolVersions d) < 2 ^ 32" "length (dl_AllowedOutboundEventClasses d) < 2 ^ 32"
    "list_all short (dl_AllowedOutboundEventClasses d)"
    using assms by (auto simp: Delegation_Validate_def validateVersions_def validateEventClasses_def MaxProtocolVersions_def
      MaxEventClasses_def intro: bad_classes_short split: sum.splits if_splits)
qed

lemma Delegation_CanonicalBytes_Inr:
  "Delegation_CanonicalBytes d = Inr b \<longleftrightarrow> Delegation_Validate d = None \<and> b =
     DomainEndpointDelegation @ canon_Text delegation_Schema @ domain_enc (dl_Network d) @ canon_Text (dl_AgentID d) @
       canon_Text (dl_EndpointID d) @ dl_IdentityPublicKey d @ canon_Text (dl_ADNLID d) @
       (canon_Uint32 (of_nat (length (dl_AllowedProtocolVersions d))) @ concat (map canon_Uint32 (dl_AllowedProtocolVersions d))) @
       (canon_Uint32 (of_nat (length (dl_AllowedOutboundEventClasses d))) @
       concat (map canon_Text (dl_AllowedOutboundEventClasses d))) @
       canon_Uint64 (dl_NotBeforeUnix d) @ canon_Uint64 (dl_ExpiresAtUnix d) @
       canon_Uint64 (dl_MaximumSessionLifetimeSeconds d) @ canon_Text (dl_ContactDescriptorPolicyDigest d) @
       canon_Text (dl_InboxAdmissionPolicyDigest d)"
  using Delegation_valid(1) [of d]
  by (auto simp: Delegation_CanonicalBytes_def failE_eq_Inr bindE_eq_Inr domain_bytes_ok)

lemma delegation_fields:
  assumes "Delegation_CanonicalBytes d = Inr b" and "Delegation_CanonicalBytes e = Inr b"
  shows "d = e"
proof -
  have v: "Delegation_Validate d = None" "Delegation_Validate e = None"
    using assms by (auto simp: Delegation_CanonicalBytes_Inr)
  note D = Delegation_valid [OF v(1)] and E = Delegation_valid [OF v(2)]
  have "dl_Network d = dl_Network e \<and> dl_AgentID d = dl_AgentID e \<and> dl_EndpointID d = dl_EndpointID e \<and>
      dl_IdentityPublicKey d = dl_IdentityPublicKey e \<and> dl_ADNLID d = dl_ADNLID e \<and>
      dl_AllowedProtocolVersions d = dl_AllowedProtocolVersions e \<and>
      dl_AllowedOutboundEventClasses d = dl_AllowedOutboundEventClasses e \<and>
      dl_NotBeforeUnix d = dl_NotBeforeUnix e \<and> dl_ExpiresAtUnix d = dl_ExpiresAtUnix e \<and>
      dl_MaximumSessionLifetimeSeconds d = dl_MaximumSessionLifetimeSeconds e \<and>
      dl_ContactDescriptorPolicyDigest d = dl_ContactDescriptorPolicyDigest e \<and>
      dl_InboxAdmissionPolicyDigest d = dl_InboxAdmissionPolicyDigest e"
    using assms [unfolded Delegation_CanonicalBytes_Inr] D(1-10) E(1-10)
    by (simp add: cdomain.enc_eq ctext.enc_eq craw.enc_eq [of _ 32] cu32s_eq list.pred_True ctexts_eq ru64.enc_eq ctext.enc_last)
  then show ?thesis by (intro Delegation.equality) simp_all
qed


lemma wire_round_trip: "bindE (wire_of d) of_wire = failE (Delegation_Validate d) (Inr d)"
proof (cases "Delegation_Validate d")
  case None
  note D = Delegation_valid [OF None]
  obtain n where n: "dl_Network d = Some n" using D(1) unfolding domain_ok_Some by blast
  have "hex_decode (hex_encode (dl_IdentityPublicKey d)) = Some (dl_IdentityPublicKey d)" by simp
  with None n D(4) show ?thesis by (cases d; cases n) (simp add: wire_of_def of_wire_def Let_def)
qed (simp add: wire_of_def)

text \<open>What a check of finalized state establishes.\<close>

lemma CheckState_Inr:
  assumes "CheckState policy network agentID st = Inr agent"
  obtains state reference locate where "st = Some state" "ns_Network state = network" "ns_Reference state = Some reference"
    "0 < cr_FinalizedCheckpoint reference" "cp_MinFinalizedCheckpoint policy \<le> cr_FinalizedCheckpoint reference"
    "cr_ContractCodeHash reference \<in> set (cp_RegistryCodeHashes policy)" "cp_Locator policy = Some locate"
    "locate (cr_ContractCodeHash reference) agentID = Inr (cr_Account reference)"
    "ns_Agent state = Some agent" "as_AgentId agent = agentID" "\<not> as_Tombstoned agent"
proof -
  have "cp_Locator policy \<noteq> None"
    using assms by (auto simp: CheckState_def failE_eq_Inr ChainPolicy_Validate_def split: if_splits)
  then obtain locate where "cp_Locator policy = Some locate" by blast
  then show thesis using assms that
    unfolding CheckState_def failE_eq_Inr AcceptsRegistry_def
    by (fastforce simp: word_neq_0_conv not_less split: if_splits option.splits sum.splits)
qed

section \<open>Properties\<close>

text \<open>
  C10. A delegation that verifies carries the authority of the finalized chain: the state it was
  checked against is of the configured network, finalized no earlier than the operator's
  checkpoint, read from the account that the registry assigns to the Agent, of a live Agent that
  commits the digest of exactly this delegation; the time is inside its window; and its
  Endpoint identifier is derived from its network, Agent and key.
\<close>

theorem Verify_sound:
  "case identity_Verify json resolver network chain raw now of Inl e \<Rightarrow> True | Inr d \<Rightarrow>
     (\<exists>resolve state reference agent locate. resolver = Some resolve \<and> resolve (dl_AgentID d) = Inr (Some (Some state)) \<and>
        ns_Network state = network \<and> dl_Network d = network \<and> ns_Reference state = Some reference \<and>
        0 < cr_FinalizedCheckpoint reference \<and> cp_MinFinalizedCheckpoint chain \<le> cr_FinalizedCheckpoint reference \<and>
        cr_ContractCodeHash reference \<in> set (cp_RegistryCodeHashes chain) \<and> cp_Locator chain = Some locate \<and>
        locate (cr_ContractCodeHash reference) (dl_AgentID d) = Inr (cr_Account reference) \<and>
        ns_Agent state = Some agent \<and> as_AgentId agent = dl_AgentID d \<and> \<not> as_Tombstoned agent \<and>
        (\<exists>b. Delegation_CanonicalBytes d = Inr b \<and> Digest b \<in> set (as_DelegationDigests agent)) \<and>
        DeriveEndpointID network (dl_AgentID d) (dl_IdentityPublicKey d) = Inr (dl_EndpointID d) \<and>
        dl_NotBeforeUnix d \<le> unix now \<and> unix now < dl_ExpiresAtUnix d)"
proof (cases "identity_Verify json resolver network chain raw now")
  case (Inr d)
  then obtain c where V: "VerifyWithCheckpoint json resolver network chain raw now = Inr (d, c)"
    by (auto simp: identity_Verify_def bindE_eq_Inr)
  then obtain resolve st agent digest where R: "resolver = Some resolve" "dl_Network d = network"
      "resolve (dl_AgentID d) = Inr (Some st)" "CheckState chain network (dl_AgentID d) st = Inr agent"
      "Delegation_Digest d = Inr digest" "digest \<in> set (as_DelegationDigests agent)" "CheckWindow d now = None"
    by (auto simp: VerifyWithCheckpoint_def bindE_eq_Inr failE_eq_Inr split: option.splits if_splits)
  obtain b where b: "Delegation_CanonicalBytes d = Inr b" "digest = Digest b"
    using R(5) by (auto simp: Delegation_Digest_def bindE_eq_Inr)
  then have v: "Delegation_Validate d = None" by (simp add: Delegation_CanonicalBytes_Inr)
  have w: "dl_NotBeforeUnix d \<le> unix now" "unix now < dl_ExpiresAtUnix d"
    using R(7) by (auto simp: CheckWindow_def not_less not_le split: if_splits)
  from R(4) show ?thesis
  proof (cases rule: CheckState_Inr)
    case (1 state reference locate)
    show ?thesis unfolding Inr sum.case
      using R 1 b w Delegation_valid(11) [OF v] by metis
  qed
qed simp

text \<open>
  C37. One digest, one delegation: two valid delegations with the same canonical bytes are equal in
  every field. A delegation decoded from its own wire form is itself.
\<close>

theorem Delegation_canonical:
  "inj_on Delegation_CanonicalBytes {d. Delegation_Validate d = None} \<and>
   bindE (wire_of d) of_wire = failE (Delegation_Validate d) (Inr d)"
proof
  show "inj_on Delegation_CanonicalBytes {d. Delegation_Validate d = None}"
  proof (rule inj_onI)
    fix a b assume a: "a \<in> {d. Delegation_Validate d = None}" and eq: "Delegation_CanonicalBytes a = Delegation_CanonicalBytes b"
    from a obtain p where p: "Delegation_CanonicalBytes a = Inr p" using Delegation_CanonicalBytes_Inr [of a] by blast
    with eq have "Delegation_CanonicalBytes b = Inr p" by simp
    with p show "a = b" by (rule delegation_fields)
  qed
qed (rule wire_round_trip)

end
