(* ===== verification/Devices.thy ===== *)
theory Devices
  imports Identity "HOL-Library.Multiset"
begin

text \<open>
  The public material of device sessions (\<open>pkg/e2ee\<close>): the binding a ciphertext is sealed under,
  prekey bundles and published device sets, first-contact evidence, the succession of device
  sets and the fan-out of one event over devices; and the ledger that remembers each peer's
  devices (\<open>pkg/eventlog/devices.go\<close>). The ratchet itself (the \<open>Suite\<close> interface) is not
  modelled here.
\<close>

section \<open>Suites\<close>

definition MaxSessionStateBytes :: nat where
  "MaxSessionStateBytes = 256 * 1024"

definition suite_char :: "char \<Rightarrow> bool" where
  "suite_char c \<longleftrightarrow> CHR ''a'' \<le> c \<and> c \<le> CHR ''z'' \<or> is_digit c \<or> c = CHR ''-''"

text \<open>\<open>^tos\.messaging\.e2ee\.[a-z0-9-]{1,32}\.v[0-9]{1,3}$\<close>; the suite name holds no dot.\<close>

definition AlgorithmPattern :: "string \<Rightarrow> bool" where
  "AlgorithmPattern s \<longleftrightarrow> take 19 s = ''tos.messaging.e2ee.'' \<and>
     (let name = takeWhile (\<lambda>c. c \<noteq> CHR ''.'') (drop 19 s); version = dropWhile (\<lambda>c. c \<noteq> CHR ''.'') (drop 19 s) in
      1 \<le> length name \<and> length name \<le> 32 \<and> list_all suite_char name \<and>
      take 2 version = ''.v'' \<and> 1 \<le> length (drop 2 version) \<and> length (drop 2 version) \<le> 3 \<and>
      list_all is_digit (drop 2 version))"

definition ValidateAlgorithmID :: "string \<Rightarrow> err option" where
  "ValidateAlgorithmID algorithm = failIf (\<not> AlgorithmPattern algorithm) ''invalid end-to-end encryption algorithm identifier''"

definition ValidateState :: "bytes \<Rightarrow> err option" where
  "ValidateState state =
     (if state = [] then Some (Msg ''session state is unusable'')
      else failIf (length state > MaxSessionStateBytes) ''session state exceeds its bound'')"

section \<open>Bindings\<close>

record Binding =
  bi_Network :: "NetworkDomain option"
  bi_AlgorithmID :: string
  bi_ConversationID :: string
  bi_SenderAgentID :: string
  bi_SenderEndpointID :: string
  bi_SenderDeviceID :: string
  bi_RecipientAgentID :: string
  bi_RecipientEndpointID :: string
  bi_RecipientDeviceID :: string

text \<open>The check of a network pointer the package repeats, with its message.\<close>

definition check_domain :: "string \<Rightarrow> NetworkDomain option \<Rightarrow> err option" where
  "check_domain m network = failIf (validateNetwork network \<noteq> None) m"

definition Binding_Validate :: "Binding \<Rightarrow> err option" where
  "Binding_Validate b = thenE (check_domain ''invalid binding network domain'' (bi_Network b))
     (thenE (ValidateAlgorithmID (bi_AlgorithmID b))
     (thenE (failIf (\<not> ids_Conversation (bi_ConversationID b)) ''invalid binding conversation identifier'')
     (thenE (failIf (\<not> ids_Agent (bi_SenderAgentID b) \<or> \<not> ids_Endpoint (bi_SenderEndpointID b) \<or> \<not> ids_Device (bi_SenderDeviceID b))
       ''invalid binding sender identity'')
     (thenE (failIf (\<not> ids_Agent (bi_RecipientAgentID b) \<or> \<not> ids_Endpoint (bi_RecipientEndpointID b) \<or>
         \<not> ids_Device (bi_RecipientDeviceID b)) ''invalid binding recipient identity'')
       (failIf (bi_SenderDeviceID b = bi_RecipientDeviceID b) ''a device cannot hold a session with itself'')))))"

definition Binding_Bytes :: "Binding \<Rightarrow> bytes res" where
  "Binding_Bytes b = failE (Binding_Validate b) (bindE (domain_bytes (bi_Network b)) (\<lambda>net.
     Inr (DomainE2EEBinding @ net @ canon_Text (bi_AlgorithmID b) @ canon_Text (bi_ConversationID b) @
       canon_Text (bi_SenderAgentID b) @ canon_Text (bi_SenderEndpointID b) @ canon_Text (bi_SenderDeviceID b) @
       canon_Text (bi_RecipientAgentID b) @ canon_Text (bi_RecipientEndpointID b) @ canon_Text (bi_RecipientDeviceID b))))"

definition Reply :: "Binding \<Rightarrow> Binding" where
  "Reply b = \<lparr>bi_Network = bi_Network b, bi_AlgorithmID = bi_AlgorithmID b, bi_ConversationID = bi_ConversationID b,
     bi_SenderAgentID = bi_RecipientAgentID b, bi_SenderEndpointID = bi_RecipientEndpointID b,
     bi_SenderDeviceID = bi_RecipientDeviceID b, bi_RecipientAgentID = bi_SenderAgentID b,
     bi_RecipientEndpointID = bi_SenderEndpointID b, bi_RecipientDeviceID = bi_SenderDeviceID b\<rparr>"

section \<open>Bundles\<close>

definition BundleSchema :: string where
  "BundleSchema = ''tos.messaging.prekey-bundle.v2''"

definition MaxMaterialBytes :: nat where
  "MaxMaterialBytes = 4 * 1024"

definition MaxBundleLifetimeSeconds :: u64 where
  "MaxBundleLifetimeSeconds = 30 * 24 * 60 * 60"

definition MaxDevicesPerSet :: nat where
  "MaxDevicesPerSet = 16"

record Bundle =
  bu_Network :: "NetworkDomain option"
  bu_AgentID :: string
  bu_EndpointID :: string
  bu_DeviceID :: string
  bu_AlgorithmID :: string
  bu_Material :: bytes
  bu_IssuedAtUnix :: u64
  bu_ExpiresAtUnix :: u64
  bu_EndpointSignature :: bytes

definition ValidateBundle :: "Bundle \<Rightarrow> bool \<Rightarrow> err option" where
  "ValidateBundle b is_signed = thenE (check_domain ''invalid bundle network domain'' (bu_Network b))
     (thenE (failIf (\<not> ids_Agent (bu_AgentID b) \<or> \<not> ids_Endpoint (bu_EndpointID b) \<or> \<not> ids_Device (bu_DeviceID b))
       ''invalid bundle identity'')
     (thenE (ValidateAlgorithmID (bu_AlgorithmID b))
     (thenE (failIf (bu_Material b = [] \<or> length (bu_Material b) > MaxMaterialBytes \<or> canon_IsZero (bu_Material b))
       ''invalid bundle material'')
     (thenE (failIf (bu_IssuedAtUnix b = 0 \<or> bu_ExpiresAtUnix b \<le> bu_IssuedAtUnix b \<or>
         bu_ExpiresAtUnix b - bu_IssuedAtUnix b > MaxBundleLifetimeSeconds) ''invalid bundle validity window'')
       (failIf (is_signed \<and> length (bu_EndpointSignature b) \<noteq> 64) ''invalid bundle signature'')))))"

definition BundleSigningBytes :: "Bundle \<Rightarrow> bytes res" where
  "BundleSigningBytes b = failE (ValidateBundle b False) (bindE (domain_bytes (bu_Network b)) (\<lambda>net.
     Inr (DomainPrekeyBundle @ canon_Text BundleSchema @ net @ canon_Text (bu_AgentID b) @ canon_Text (bu_EndpointID b) @
       canon_Text (bu_DeviceID b) @ canon_Text (bu_AlgorithmID b) @ canon_Bytes (bu_Material b) @
       canon_Uint64 (bu_IssuedAtUnix b) @ canon_Uint64 (bu_ExpiresAtUnix b))))"

definition BundleDigest :: "Bundle \<Rightarrow> string res" where
  "BundleDigest b = bindE (BundleSigningBytes b) (\<lambda>p. Inr (Digest p))"

fun bad_bundles :: "Bundle \<Rightarrow> string list \<Rightarrow> Bundle list \<Rightarrow> err option" where
  "bad_bundles first seen [] = None"
| "bad_bundles first seen (b # bs) = thenE (ValidateBundle b True)
     (thenE (failIf (bu_EndpointID b \<noteq> bu_EndpointID first) ''a prekey bundle set belongs to one endpoint'')
     (thenE (failIf (bu_AgentID b \<noteq> bu_AgentID first) ''a prekey bundle set belongs to one Agent'')
     (thenE (failIf (bu_Network b \<noteq> bu_Network first) ''a prekey bundle set belongs to one network'')
     (thenE (failIf (bu_AlgorithmID b \<noteq> bu_AlgorithmID first) ''a prekey bundle set uses one suite'')
     (thenE (failIf (bu_DeviceID b \<in> set seen) ''a prekey bundle set cannot list one device twice'')
       (bad_bundles first (bu_DeviceID b # seen) bs))))))"

definition ValidateSet :: "Bundle list \<Rightarrow> err option" where
  "ValidateSet bundles =
     (if bundles = [] \<or> length bundles > MaxDevicesPerSet then Some (Msg ''invalid prekey bundle set size'')
      else bad_bundles (hd bundles) [] bundles)"

fun bundle_digests :: "Bundle list \<Rightarrow> string list res" where
  "bundle_digests [] = Inr []"
| "bundle_digests (b # bs) = bindE (BundleDigest b) (\<lambda>d. bindE (bundle_digests bs) (\<lambda>ds. Inr (d # ds)))"

definition SetCanonicalBytes :: "Bundle list \<Rightarrow> bytes res" where
  "SetCanonicalBytes bundles = failE (ValidateSet bundles) (bindE (bundle_digests bundles) (\<lambda>ds.
     Inr (DomainPrekeyBundleSet @ canon_Uint32 (of_nat (length ds)) @ concat (map canon_Text (sort ds)))))"

definition SetDigest :: "Bundle list \<Rightarrow> string res" where
  "SetDigest bundles = bindE (SetCanonicalBytes bundles) (\<lambda>p. Inr (Digest p))"

definition MatchesDescriptorDigest :: "string \<Rightarrow> Bundle list \<Rightarrow> err option" where
  "MatchesDescriptorDigest committed bundles =
     (if \<not> ValidDigest committed then Some (Msg ''invalid committed prekey bundle digest'')
      else case SetDigest bundles of
        Inl e \<Rightarrow> Some e
      | Inr digest \<Rightarrow> failIf (digest \<noteq> committed) ''published prekey material does not match the descriptor commitment'')"

definition SignBundleWith :: "Ed25519 \<Rightarrow> Bundle \<Rightarrow> Signer \<Rightarrow> Bundle res" where
  "SignBundleWith ed b signer = (case sg_Public signer of
     None \<Rightarrow> Inl (Msg ''bundle signer is not Ed25519'')
   | Some public \<Rightarrow>
       if length public \<noteq> 32 then Inl (Msg ''bundle signer is not Ed25519'')
       else let b = b\<lparr>bu_EndpointSignature := []\<rparr> in
       bindE (BundleSigningBytes b) (\<lambda>preimage. case sg_Sign signer preimage of
         Inl e \<Rightarrow> Inl (Msg ''sign prekey bundle'')
       | Inr signature \<Rightarrow>
           if length signature \<noteq> 64 \<or> \<not> ed_Verify ed public preimage signature
           then Inl (Msg ''bundle signer returned an invalid signature'')
           else Inr (b\<lparr>bu_EndpointSignature := signature\<rparr>)))"

definition SignBundle :: "Ed25519 \<Rightarrow> Bundle \<Rightarrow> bytes \<Rightarrow> Bundle res" where
  "SignBundle ed b endpointKey =
     (if length endpointKey \<noteq> 64 then Inl (Msg ''invalid bundle signing key'') else SignBundleWith ed b (key_signer ed endpointKey))"

definition BindBundle :: "Ed25519 \<Rightarrow> Delegation \<Rightarrow> Bundle \<Rightarrow> gotime \<Rightarrow> err option" where
  "BindBundle ed d b now =
     (if IsZero now then Some (Msg ''invalid bundle verification time'')
      else thenE (ValidateBundle b True) (thenE (CheckWindow d now)
      (thenE (failIf (bu_AgentID b \<noteq> dl_AgentID d \<or> bu_EndpointID b \<noteq> dl_EndpointID d) ''bundle identity does not match its delegation'')
      (thenE (failIf (bu_Network b \<noteq> dl_Network d) ''bundle network tuple does not match its delegation'')
      (thenE (failIf (bu_ExpiresAtUnix b > dl_ExpiresAtUnix d) ''bundle outlives its delegation'')
      (thenE (failIf (now < 0 \<or> unix now \<ge> bu_ExpiresAtUnix b) ''bundle is expired'')
      (thenE (failIf (unix now < bu_IssuedAtUnix b) ''bundle is not yet issued'')
      (case BundleSigningBytes b of
        Inl e \<Rightarrow> Some e
      | Inr preimage \<Rightarrow> failIf (\<not> ed_Verify ed (dl_IdentityPublicKey d) preimage (bu_EndpointSignature b))
          ''bundle signature is not from the delegated endpoint key''))))))))"

fun bind_bundles :: "Ed25519 \<Rightarrow> Delegation \<Rightarrow> gotime \<Rightarrow> Bundle list \<Rightarrow> err option" where
  "bind_bundles ed d now [] = None"
| "bind_bundles ed d now (b # bs) = thenE (BindBundle ed d b now) (bind_bundles ed d now bs)"

definition BindBundleSet :: "Ed25519 \<Rightarrow> Delegation \<Rightarrow> Bundle list \<Rightarrow> string \<Rightarrow> gotime \<Rightarrow> err option" where
  "BindBundleSet ed d bundles committed now =
     thenE (ValidateSet bundles) (thenE (bind_bundles ed d now bundles) (MatchesDescriptorDigest committed bundles))"

section \<open>First contact\<close>

definition MaxInitialMessageBytes :: nat where
  "MaxInitialMessageBytes = 4 * 1024"

record FirstContact =
  fc_Binding :: Binding
  fc_SenderBundle :: Bundle
  fc_RecipientBundleDigest :: string
  fc_Initial :: bytes

definition ValidateFirstContact :: "FirstContact \<Rightarrow> err option" where
  "ValidateFirstContact v = (case Binding_Bytes (fc_Binding v) of
     Inl e \<Rightarrow> Some e
   | Inr _ \<Rightarrow> thenE (ValidateBundle (fc_SenderBundle v) True)
       (let b = fc_Binding v; bundle = fc_SenderBundle v in
        thenE (failIf (bu_Network bundle \<noteq> bi_Network b \<or> bu_AgentID bundle \<noteq> bi_SenderAgentID b \<or>
            bu_EndpointID bundle \<noteq> bi_SenderEndpointID b \<or> bu_DeviceID bundle \<noteq> bi_SenderDeviceID b \<or>
            bu_AlgorithmID bundle \<noteq> bi_AlgorithmID b) ''first-contact sender bundle does not match its binding'')
        (thenE (failIf (\<not> ValidDigest (fc_RecipientBundleDigest v)) ''invalid first-contact recipient bundle digest'')
          (failIf (fc_Initial v = [] \<or> length (fc_Initial v) > MaxInitialMessageBytes) ''invalid first-contact initial message''))))"

section \<open>Device sets\<close>

record SetSummary =
  ss_Digest :: string
  ss_EndpointID :: string
  ss_DeviceIDs :: "string list"
  ss_BundleDigests :: "string list"
  ss_NewestIssuedAtUnix :: u64

definition no_summary :: SetSummary where
  "no_summary = \<lparr>ss_Digest = [], ss_EndpointID = [], ss_DeviceIDs = [], ss_BundleDigests = [], ss_NewestIssuedAtUnix = 0\<rparr>"

definition Summarize :: "Bundle list \<Rightarrow> SetSummary res" where
  "Summarize bundles = failE (ValidateSet bundles) (bindE (SetDigest bundles) (\<lambda>digest.
     bindE (bundle_digests bundles) (\<lambda>ds.
     Inr \<lparr>ss_Digest = digest, ss_EndpointID = bu_EndpointID (hd bundles), ss_DeviceIDs = sort (map bu_DeviceID bundles),
       ss_BundleDigests = sort ds,
       ss_NewestIssuedAtUnix = fold (\<lambda>b newest. if bu_IssuedAtUnix b > newest then bu_IssuedAtUnix b else newest) bundles 0\<rparr>)))"

record Succession =
  su_Accepted :: SetSummary
  su_Removed :: "string list"

definition missingFrom :: "string list \<Rightarrow> string list \<Rightarrow> string list" where
  "missingFrom current next = filter (\<lambda>device. device \<notin> set next) current"

definition isSubset :: "string list \<Rightarrow> string list \<Rightarrow> bool" where
  "isSubset smaller larger = list_all (\<lambda>digest. digest \<in> set larger) smaller"

definition Succeed :: "SetSummary \<Rightarrow> string list \<Rightarrow> Bundle list \<Rightarrow> Succession res" where
  "Succeed current tombstones next = bindE (Summarize next) (\<lambda>summary.
     if ss_EndpointID current \<noteq> [] \<and> ss_EndpointID summary \<noteq> ss_EndpointID current
     then Inl (Msg ''a device set cannot change whose it is'')
     else if list_ex (\<lambda>device. device \<in> set tombstones) (ss_DeviceIDs summary)
     then Inl (Msg ''a revoked device cannot return to the set'')
     else if ss_Digest current = [] \<or> ss_Digest summary = ss_Digest current
     then Inr \<lparr>su_Accepted = summary, su_Removed = []\<rparr>
     else let removed = missingFrom (ss_DeviceIDs current) (ss_DeviceIDs summary) in
     if ss_NewestIssuedAtUnix summary < ss_NewestIssuedAtUnix current then Inl ErrSetRollback
     else if isSubset (ss_BundleDigests summary) (ss_BundleDigests current) then
       if removed = [] then Inl (Msg ''a successor set must change something'')
       else Inr \<lparr>su_Accepted = summary, su_Removed = removed\<rparr>
     else if ss_NewestIssuedAtUnix summary = ss_NewestIssuedAtUnix current then Inl ErrSetEquivocation
     else Inr \<lparr>su_Accepted = summary, su_Removed = removed\<rparr>)"

definition DeviceSessionID :: "string \<Rightarrow> string \<Rightarrow> string res" where
  "DeviceSessionID deviceA deviceB =
     (if \<not> ids_Device deviceA \<or> \<not> ids_Device deviceB then Inl (Msg ''a device session needs two device identifiers'')
      else if deviceA = deviceB then Inl (Msg ''a device does not hold a session with itself'')
      else let (first, second) = (if deviceB < deviceA then (deviceB, deviceA) else (deviceA, deviceB)) in
      Inr (''ses_'' @ drop 7 (Digest (DomainDeviceSession @ canon_Text first @ canon_Text second))))"

section \<open>Fan-out\<close>

record Target =
  tg_DeviceID :: string
  tg_SessionID :: string
  tg_Bootstrap :: bool
  tg_BundleDigest :: string

record PlanInput =
  pi_SenderDeviceID :: string
  pi_SenderSet :: "Bundle list"
  pi_RecipientSet :: "Bundle list"
  pi_Now :: gotime
  pi_SessionExists :: "(string \<Rightarrow> bool) option"

record PlanResult =
  pr_Recipients :: "Target list"
  pr_SelfCopies :: "Target list"
  pr_Unreachable :: "string list"

text \<open>\<open>appendTarget\<close>: the copy one device gets, \<open>None\<close> where it is unreachable.\<close>

definition target_for :: "PlanInput \<Rightarrow> (string \<Rightarrow> bool) \<Rightarrow> Bundle \<Rightarrow> Target option res" where
  "target_for input exists bundle = bindE (DeviceSessionID (pi_SenderDeviceID input) (bu_DeviceID bundle)) (\<lambda>sessionID.
     if exists sessionID
     then Inr (Some \<lparr>tg_DeviceID = bu_DeviceID bundle, tg_SessionID = sessionID, tg_Bootstrap = False, tg_BundleDigest = []\<rparr>)
     else if unix (pi_Now input) \<ge> bu_ExpiresAtUnix bundle then Inr None
     else bindE (BundleDigest bundle) (\<lambda>digest.
       Inr (Some \<lparr>tg_DeviceID = bu_DeviceID bundle, tg_SessionID = sessionID, tg_Bootstrap = True, tg_BundleDigest = digest\<rparr>)))"

text \<open>The loop over one set: the targets and the unreachable devices.\<close>

fun plan_targets :: "PlanInput \<Rightarrow> (string \<Rightarrow> bool) \<Rightarrow> Bundle list \<Rightarrow> (Target list \<times> string list) res" where
  "plan_targets input exists [] = Inr ([], [])"
| "plan_targets input exists (b # bs) = bindE (target_for input exists b) (\<lambda>t. bindE (plan_targets input exists bs) (\<lambda>(ts, us).
     case t of Some t \<Rightarrow> Inr (t # ts, us) | None \<Rightarrow> Inr (ts, bu_DeviceID b # us)))"

definition FanOut :: "PlanInput \<Rightarrow> PlanResult res" where
  "FanOut input =
     (if \<not> ids_Device (pi_SenderDeviceID input) then Inl (Msg ''a fan-out needs the sending device'')
      else case pi_SessionExists input of
        None \<Rightarrow> Inl (Msg ''a fan-out needs to know which sessions exist'')
      | Some exists \<Rightarrow>
        if bad_time (pi_Now input) then Inl (Msg ''invalid fan-out time'')
        else failE (ValidateSet (pi_RecipientSet input)) (failE (ValidateSet (pi_SenderSet input))
        (if \<not> list_ex (\<lambda>b. bu_DeviceID b = pi_SenderDeviceID input) (pi_SenderSet input)
         then Inl (Msg ''the sending device is not in its own published set'')
         else bindE (plan_targets input exists (pi_RecipientSet input)) (\<lambda>(recipients, us).
           bindE (plan_targets input exists (filter (\<lambda>b. bu_DeviceID b \<noteq> pi_SenderDeviceID input) (pi_SenderSet input)))
             (\<lambda>(copies, vs).
           Inr \<lparr>pr_Recipients = sort_key tg_DeviceID recipients, pr_SelfCopies = sort_key tg_DeviceID copies,
             pr_Unreachable = sort (us @ vs)\<rparr>)))))"

section \<open>Device ledger\<close>

definition DeviceRecordSchema :: string where
  "DeviceRecordSchema = ''tos.messaging.device-ledger.v1''"

definition MaxTombstones :: nat where
  "MaxTombstones = 256"

record DeviceRecord =
  dr_Schema :: string
  dr_EndpointID :: string
  dr_SetDigest :: string
  dr_DeviceIDs :: "string list"
  dr_BundleDigests :: "string list"
  dr_NewestIssuedAtUnix :: u64
  dr_Tombstones :: "string list"
  dr_UpdatedAtUnix :: u64

text \<open>The directory of device records, by file name, and whether its journal is owned.\<close>

record DeviceLedger =
  lg_held :: bool
  lg_files :: "(string, DeviceRecord stored) dir"

definition device_path :: "string \<Rightarrow> string" where
  "device_path endpointID = drop 4 endpointID @ ''.json''"

definition DeviceLedger_read :: "DeviceLedger \<Rightarrow> string \<Rightarrow> DeviceRecord option res" where
  "DeviceLedger_read l endpointID = (case map_of (lg_files l) (device_path endpointID) of
     None \<Rightarrow> Inr None
   | Some Broken \<Rightarrow> Inl (Msg ''invalid device record'')
   | Some (Whole record) \<Rightarrow>
       if dr_Schema record \<noteq> DeviceRecordSchema \<or> dr_EndpointID record \<noteq> endpointID
       then Inl (Msg ''device record describes another endpoint'') else Inr (Some record))"

definition AcceptSet :: "wout \<Rightarrow> string \<Rightarrow> Bundle list \<Rightarrow> gotime \<Rightarrow> DeviceLedger \<Rightarrow> Succession res \<times> DeviceLedger" where
  "AcceptSet w endpointID bundles now l =
     (if \<not> lg_held l then (Inl (Msg ''event journal is not owned by this process''), l)
      else if \<not> ids_Endpoint endpointID then (Inl (Msg ''invalid endpoint identifier''), l)
      else if bad_time now then (Inl (Msg ''invalid time''), l)
      else case DeviceLedger_read l endpointID of
        Inl e \<Rightarrow> (Inl e, l)
      | Inr found \<Rightarrow>
        let current = (case found of None \<Rightarrow> no_summary | Some r \<Rightarrow> \<lparr>ss_Digest = dr_SetDigest r, ss_EndpointID = dr_EndpointID r,
              ss_DeviceIDs = dr_DeviceIDs r, ss_BundleDigests = dr_BundleDigests r, ss_NewestIssuedAtUnix = dr_NewestIssuedAtUnix r\<rparr>);
            tombstones = (case found of None \<Rightarrow> [] | Some r \<Rightarrow> dr_Tombstones r);
            digest = (case found of None \<Rightarrow> [] | Some r \<Rightarrow> dr_SetDigest r) in
        (case Succeed current tombstones bundles of
          Inl e \<Rightarrow> (Inl e, l)
        | Inr succession \<Rightarrow>
          let accepted = su_Accepted succession in
          if ss_EndpointID accepted \<noteq> endpointID then (Inl (Msg ''the set belongs to another endpoint''), l)
          else if ss_Digest accepted = digest then (Inr \<lparr>su_Accepted = accepted, su_Removed = []\<rparr>, l)
          else if length tombstones + length (su_Removed succession) > MaxTombstones
          then (Inl (Msg ''this peer has revoked more devices than a record may carry''), l)
          else let record = \<lparr>dr_Schema = DeviceRecordSchema, dr_EndpointID = endpointID, dr_SetDigest = ss_Digest accepted,
              dr_DeviceIDs = ss_DeviceIDs accepted, dr_BundleDigests = ss_BundleDigests accepted,
              dr_NewestIssuedAtUnix = ss_NewestIssuedAtUnix accepted, dr_Tombstones = tombstones @ su_Removed succession,
              dr_UpdatedAtUnix = unix now\<rparr> in
          (case replace_file w (device_path endpointID) (Whole record) (lg_files l) of
            (Some e, files) \<Rightarrow> (Inl e, l\<lparr>lg_files := files\<rparr>)
          | (None, files) \<Rightarrow> (Inr succession, l\<lparr>lg_files := files\<rparr>))))"

definition AdmitPublishedSet :: "Ed25519 \<Rightarrow> wout \<Rightarrow> Delegation \<Rightarrow> string \<Rightarrow> Bundle list \<Rightarrow> gotime \<Rightarrow> DeviceLedger \<Rightarrow>
    Succession res \<times> DeviceLedger" where
  "AdmitPublishedSet ed w d committedDigest bundles now l = (case BindBundleSet ed d bundles committedDigest now of
     Some e \<Rightarrow> (Inl e, l)
   | None \<Rightarrow> AcceptSet w (dl_EndpointID d) bundles now l)"

datatype DeviceStanding = DeviceCurrent | DeviceRevoked | DeviceUnknown

definition Judge :: "DeviceLedger \<Rightarrow> string \<Rightarrow> string \<Rightarrow> DeviceStanding res" where
  "Judge l endpointID deviceID =
     (if \<not> lg_held l then Inl (Msg ''event journal is not owned by this process'')
      else if \<not> ids_Endpoint endpointID \<or> \<not> ids_Device deviceID then Inl (Msg ''invalid device claim'')
      else bindE (DeviceLedger_read l endpointID) (\<lambda>found. case found of
        None \<Rightarrow> Inr DeviceUnknown
      | Some record \<Rightarrow>
          if deviceID \<in> set (dr_Tombstones record) then Inr DeviceRevoked
          else if deviceID \<in> set (dr_DeviceIDs record) then Inr DeviceCurrent else Inr DeviceUnknown))"

definition DeviceLedger_Record :: "DeviceLedger \<Rightarrow> string \<Rightarrow> DeviceRecord option res" where
  "DeviceLedger_Record l endpointID =
     (if \<not> lg_held l then Inl (Msg ''event journal is not owned by this process'')
      else if \<not> ids_Endpoint endpointID then Inl (Msg ''invalid endpoint identifier'')
      else DeviceLedger_read l endpointID)"

section \<open>Runs of the ledger\<close>

text \<open>Any sequence of published sets, each with what its write does.\<close>

fun ledger_run :: "(wout \<times> string \<times> Bundle list \<times> gotime) list \<Rightarrow> DeviceLedger \<Rightarrow> DeviceLedger" where
  "ledger_run [] l = l"
| "ledger_run ((w, endpointID, bundles, now) # cs) l = ledger_run cs (snd (AcceptSet w endpointID bundles now l))"

definition new_ledger :: DeviceLedger where
  "new_ledger = \<lparr>lg_held = True, lg_files = []\<rparr>"

definition standing_rank :: "DeviceStanding res \<Rightarrow> nat" where
  "standing_rank r = (case r of Inr DeviceRevoked \<Rightarrow> 2 | Inr DeviceCurrent \<Rightarrow> 1 | _ \<Rightarrow> 0)"

definition watermark :: "DeviceLedger \<Rightarrow> string \<Rightarrow> u64" where
  "watermark l endpointID = (case DeviceLedger_read l endpointID of Inr (Some r) \<Rightarrow> dr_NewestIssuedAtUnix r | _ \<Rightarrow> 0)"

text \<open>Every record is whole, under the path of its own endpoint, and names a set.\<close>

definition ledger_ok :: "DeviceLedger \<Rightarrow> bool" where
  "ledger_ok l \<longleftrightarrow> lg_held l \<and> (\<forall>p f. map_of (lg_files l) p = Some f \<longrightarrow> (\<exists>r. f = Whole r \<and> dr_Schema r = DeviceRecordSchema \<and>
     ids_Endpoint (dr_EndpointID r) \<and> p = device_path (dr_EndpointID r) \<and> dr_SetDigest r \<noteq> []))"

text \<open>How a record follows another: nothing revoked is forgotten, nothing current is lost.\<close>

definition advances :: "DeviceRecord \<Rightarrow> DeviceRecord \<Rightarrow> bool" where
  "advances r r' \<longleftrightarrow> set (dr_Tombstones r) \<subseteq> set (dr_Tombstones r') \<and>
     set (dr_DeviceIDs r) \<subseteq> set (dr_DeviceIDs r') \<union> set (dr_Tombstones r') \<and>
     dr_NewestIssuedAtUnix r \<le> dr_NewestIssuedAtUnix r'"

definition ledger_grows :: "DeviceLedger \<Rightarrow> DeviceLedger \<Rightarrow> bool" where
  "ledger_grows l l' \<longleftrightarrow> (\<forall>ep r. ids_Endpoint ep \<longrightarrow> DeviceLedger_read l ep = Inr (Some r) \<longrightarrow>
     (\<exists>r'. DeviceLedger_read l' ep = Inr (Some r') \<and> advances r r'))"

section \<open>Lemmas\<close>

lemma device_path_inj: "ids_Endpoint a \<Longrightarrow> ids_Endpoint b \<Longrightarrow> device_path a = device_path b \<Longrightarrow> a = b"
  by (auto simp: device_path_def ids_defs prefixed_hex64_eq)

lemma ledger_read_ok:
  assumes "ledger_ok l" and "ids_Endpoint ep"
  shows "DeviceLedger_read l ep = Inr (case map_of (lg_files l) (device_path ep) of Some (Whole r) \<Rightarrow> Some r | _ \<Rightarrow> None)"
proof (cases "map_of (lg_files l) (device_path ep)")
  case (Some f)
  with assms(1) obtain r where "f = Whole r" "dr_Schema r = DeviceRecordSchema" "ids_Endpoint (dr_EndpointID r)"
    "device_path ep = device_path (dr_EndpointID r)" unfolding ledger_ok_def by blast
  with Some assms(2) device_path_inj [of ep "dr_EndpointID r"] show ?thesis by (simp add: DeviceLedger_read_def)
qed (simp add: DeviceLedger_read_def)

lemma ledger_read_digest:
  "ledger_ok l \<Longrightarrow> DeviceLedger_read l ep = Inr (Some r) \<Longrightarrow> dr_SetDigest r \<noteq> [] \<and> dr_EndpointID r = ep \<and> ids_Endpoint ep"
  unfolding ledger_ok_def by (auto simp: DeviceLedger_read_def split: option.splits stored.splits if_splits)

lemma Digest_nonempty [simp]: "Digest b \<noteq> []"
  by (simp add: Digest_def)

lemma Succeed_Inr:
  assumes "Succeed current tombstones bundles = Inr s"
  shows "ss_Digest (su_Accepted s) \<noteq> []" and "set tombstones \<inter> set (ss_DeviceIDs (su_Accepted s)) = {}"
    and "ss_Digest current \<noteq> [] \<Longrightarrow> ss_Digest (su_Accepted s) \<noteq> ss_Digest current \<Longrightarrow>
      su_Removed s = missingFrom (ss_DeviceIDs current) (ss_DeviceIDs (su_Accepted s)) \<and>
      ss_NewestIssuedAtUnix current \<le> ss_NewestIssuedAtUnix (su_Accepted s)"
proof -
  show "ss_Digest (su_Accepted s) \<noteq> []"
    using assms by (auto simp: Succeed_def Summarize_def SetDigest_def bindE_eq_Inr failE_eq_Inr Let_def split: if_splits)
  show "set tombstones \<inter> set (ss_DeviceIDs (su_Accepted s)) = {}"
    using assms by (auto simp: Succeed_def bindE_eq_Inr Let_def list_ex_iff split: if_splits)
  show "su_Removed s = missingFrom (ss_DeviceIDs current) (ss_DeviceIDs (su_Accepted s)) \<and>
      ss_NewestIssuedAtUnix current \<le> ss_NewestIssuedAtUnix (su_Accepted s)"
    if "ss_Digest current \<noteq> []" "ss_Digest (su_Accepted s) \<noteq> ss_Digest current"
    using assms that by (auto simp: Succeed_def bindE_eq_Inr Let_def not_less split: if_splits)
qed

text \<open>A call writes at most one record, which follows the one it read.\<close>

lemma AcceptSet_cases:
  assumes "AcceptSet w ep bundles now l = (x, l')" and "ledger_ok l"
  obtains "l' = l"
  | r where "ids_Endpoint ep" "l' = l\<lparr>lg_files := snd (replace_file w (device_path ep) (Whole r) (lg_files l))\<rparr>"
      "dr_Schema r = DeviceRecordSchema" "dr_EndpointID r = ep" "dr_SetDigest r \<noteq> []"
      "\<forall>r0. DeviceLedger_read l ep = Inr (Some r0) \<longrightarrow> advances r0 r"
proof (cases "l' = l")
  case False
  note A = assms(1) [unfolded AcceptSet_def Let_def]
  from False A obtain found where f: "ids_Endpoint ep" "DeviceLedger_read l ep = Inr found"
    by (auto split: if_splits sum.splits)
  show thesis
  proof (cases found)
    case None
    from False A f None obtain s where s: "Succeed no_summary [] bundles = Inr s"
      by (auto split: if_splits sum.splits)
    let ?a = "su_Accepted s"
    let ?r = "\<lparr>dr_Schema = DeviceRecordSchema, dr_EndpointID = ep, dr_SetDigest = ss_Digest ?a, dr_DeviceIDs = ss_DeviceIDs ?a,
      dr_BundleDigests = ss_BundleDigests ?a, dr_NewestIssuedAtUnix = ss_NewestIssuedAtUnix ?a,
      dr_Tombstones = su_Removed s, dr_UpdatedAtUnix = unix now\<rparr>"
    from False A f None s have "l' = l\<lparr>lg_files := snd (replace_file w (device_path ep) (Whole ?r) (lg_files l))\<rparr>"
      by (auto split: if_splits prod.splits option.splits)
    with f None Succeed_Inr(1) [OF s] that(2) [of ?r] show thesis by simp
  next
    case (Some r0)
    have r0: "dr_SetDigest r0 \<noteq> []" "dr_EndpointID r0 = ep" using ledger_read_digest [OF assms(2)] f(2) Some by auto
    let ?cur = "\<lparr>ss_Digest = dr_SetDigest r0, ss_EndpointID = dr_EndpointID r0, ss_DeviceIDs = dr_DeviceIDs r0,
      ss_BundleDigests = dr_BundleDigests r0, ss_NewestIssuedAtUnix = dr_NewestIssuedAtUnix r0\<rparr>"
    from False A f Some obtain s where s: "Succeed ?cur (dr_Tombstones r0) bundles = Inr s"
      by (auto split: if_splits sum.splits)
    note S = Succeed_Inr [OF s]
    let ?a = "su_Accepted s"
    let ?r = "\<lparr>dr_Schema = DeviceRecordSchema, dr_EndpointID = ep, dr_SetDigest = ss_Digest ?a, dr_DeviceIDs = ss_DeviceIDs ?a,
      dr_BundleDigests = ss_BundleDigests ?a, dr_NewestIssuedAtUnix = ss_NewestIssuedAtUnix ?a,
      dr_Tombstones = dr_Tombstones r0 @ su_Removed s, dr_UpdatedAtUnix = unix now\<rparr>"
    from False A f Some s have n: "ss_Digest ?a \<noteq> dr_SetDigest r0"
      and l': "l' = l\<lparr>lg_files := snd (replace_file w (device_path ep) (Whole ?r) (lg_files l))\<rparr>"
      by (auto split: if_splits prod.splits option.splits)
    have "advances r0 ?r" using S(3) r0(1) n by (auto simp: advances_def missingFrom_def)
    with l' f Some S(1) that(2) [of ?r] show thesis by simp
  qed
qed (use that(1) in blast)

lemma AcceptSet_step:
  assumes "AcceptSet w ep bundles now l = (x, l')" and "ledger_ok l"
  shows "ledger_ok l' \<and> ledger_grows l l'"
  using assms
proof (cases rule: AcceptSet_cases)
  case 1
  then show ?thesis using assms(2) by (auto simp: ledger_grows_def advances_def)
next
  case (2 r)
  have ok: "ledger_ok l'"
    using assms(2) 2 files.put_all [of "lg_files l" "\<lambda>p f. \<exists>r. f = Whole r \<and> dr_Schema r = DeviceRecordSchema \<and>
      ids_Endpoint (dr_EndpointID r) \<and> p = device_path (dr_EndpointID r) \<and> dr_SetDigest r \<noteq> []"
      "device_path ep" "Whole r" w] unfolding ledger_ok_def by auto
  have "\<exists>r'. DeviceLedger_read l' e = Inr (Some r') \<and> advances r0 r'"
    if e: "ids_Endpoint e" "DeviceLedger_read l e = Inr (Some r0)" for e r0
  proof (cases "map_of (lg_files l') (device_path e) = map_of (lg_files l) (device_path e)")
    case True
    then show ?thesis using e ledger_read_ok [OF ok e(1)] ledger_read_ok [OF assms(2) e(1)] by (auto simp: advances_def)
  next
    case False
    then have "device_path e = device_path ep"
      using files.put_frame [of "device_path e" "device_path ep" w "Whole r" "lg_files l"] 2(2) by auto
    then have ep: "e = ep" using device_path_inj e(1) 2(1) by blast
    then have "map_of (lg_files l') (device_path e) = Some (Whole r)"
      using files.put_either [of w "device_path ep" "Whole r" "lg_files l"] False 2(2) by auto
    then show ?thesis using ledger_read_ok [OF ok e(1)] 2(6) e(2) ep by simp
  qed
  with ok show ?thesis unfolding ledger_grows_def by blast
qed

lemma ledger_grows_trans: "ledger_grows a b \<Longrightarrow> ledger_grows b c \<Longrightarrow> ledger_grows a c"
  unfolding ledger_grows_def advances_def by (meson order_trans Un_least sup_ge2 subset_trans le_supI1 le_supI2 sup.mono)

lemma ledger_run_grows: "ledger_ok l \<Longrightarrow> ledger_ok (ledger_run cs l) \<and> ledger_grows l (ledger_run cs l)"
proof (induction cs arbitrary: l)
  case Nil
  then show ?case by (auto simp: ledger_grows_def advances_def)
next
  case (Cons c cs)
  obtain w ep bundles now where c: "c = (w, ep, bundles, now)" by (cases c) auto
  obtain x l' where a: "AcceptSet w ep bundles now l = (x, l')" by fastforce
  from AcceptSet_step [OF a Cons.prems] Cons.IH [of l'] a c show ?case by (auto intro: ledger_grows_trans)
qed

lemma ledger_run_append: "ledger_run (cs @ ds) l = ledger_run ds (ledger_run cs l)"
  by (induction cs l rule: ledger_run.induct) auto

lemma Judge_grows:
  assumes "ledger_ok l" and "ledger_ok l'" and "ledger_grows l l'"
  shows "standing_rank (Judge l ep dev) \<le> standing_rank (Judge l' ep dev)" and "watermark l ep \<le> watermark l' ep"
proof -
  have h: "lg_held l" "lg_held l'" using assms by (auto simp: ledger_ok_def)
  show "standing_rank (Judge l ep dev) \<le> standing_rank (Judge l' ep dev)"
  proof (cases "ids_Endpoint ep \<and> (\<exists>r. DeviceLedger_read l ep = Inr (Some r))")
    case True
    then obtain r r' where r: "DeviceLedger_read l ep = Inr (Some r)" "DeviceLedger_read l' ep = Inr (Some r')" "advances r r'"
      using assms(3) unfolding ledger_grows_def by blast
    then show ?thesis using h True by (auto simp: Judge_def standing_rank_def advances_def)
  next
    case False
    then show ?thesis using h ledger_read_ok [OF assms(1), of ep]
      by (auto simp: Judge_def standing_rank_def split: option.splits stored.splits)
  qed
  show "watermark l ep \<le> watermark l' ep"
  proof (cases "\<exists>r. DeviceLedger_read l ep = Inr (Some r)")
    case True
    then obtain r where r: "DeviceLedger_read l ep = Inr (Some r)" by blast
    then have "ids_Endpoint ep" using ledger_read_digest [OF assms(1)] by blast
    then obtain r' where "DeviceLedger_read l' ep = Inr (Some r')" "advances r r'"
      using assms(3) r unfolding ledger_grows_def by blast
    with r show ?thesis by (simp add: watermark_def advances_def)
  qed (auto simp: watermark_def split: sum.splits option.splits)
qed

lemma AlgorithmPattern_short: "AlgorithmPattern s \<Longrightarrow> short s"
proof -
  assume a: "AlgorithmPattern s"
  let ?d = "drop 19 s"
  have "length ?d = length (takeWhile (\<lambda>c. c \<noteq> CHR ''.'') ?d) + length (dropWhile (\<lambda>c. c \<noteq> CHR ''.'') ?d)"
    by (metis length_append takeWhile_dropWhile_id)
  then have "length ?d \<le> 40" using a by (auto simp: AlgorithmPattern_def Let_def)
  then show "short s" by (simp add: short_def)
qed

lemma Binding_valid:
  assumes "Binding_Validate b = None"
  shows "domain_ok (bi_Network b)" "short (bi_AlgorithmID b)" "short (bi_ConversationID b)" "short (bi_SenderAgentID b)"
    "short (bi_SenderEndpointID b)" "short (bi_SenderDeviceID b)" "short (bi_RecipientAgentID b)"
    "short (bi_RecipientEndpointID b)" "short (bi_RecipientDeviceID b)" "bi_SenderDeviceID b \<noteq> bi_RecipientDeviceID b"
  using assms
  by (auto simp: Binding_Validate_def check_domain_def domain_ok_def ValidateAlgorithmID_def ids_defs
    intro: prefixed_hex64_short AlgorithmPattern_short)

lemma Binding_Bytes_Inr:
  "Binding_Bytes b = Inr x \<longleftrightarrow> Binding_Validate b = None \<and> x = DomainE2EEBinding @ domain_enc (bi_Network b) @
     canon_Text (bi_AlgorithmID b) @ canon_Text (bi_ConversationID b) @
     canon_Text (bi_SenderAgentID b) @ canon_Text (bi_SenderEndpointID b) @ canon_Text (bi_SenderDeviceID b) @
     canon_Text (bi_RecipientAgentID b) @ canon_Text (bi_RecipientEndpointID b) @ canon_Text (bi_RecipientDeviceID b)"
  using Binding_valid(1) [of b] by (auto simp: Binding_Bytes_def failE_eq_Inr bindE_eq_Inr domain_bytes_ok)

lemma binding_fields: "Binding_Bytes b = Inr x \<Longrightarrow> Binding_Bytes c = Inr x \<Longrightarrow> b = c"
proof -
  assume a: "Binding_Bytes b = Inr x" "Binding_Bytes c = Inr x"
  note B = Binding_valid [of b] and C = Binding_valid [of c]
  from a B(1-9) C(1-9) show "b = c" unfolding Binding_Bytes_Inr
    by (intro Binding.equality) (simp_all add: cdomain.enc_eq ctext.enc_eq ctext.enc_last)
qed

lemma Reply_Reply: "Reply (Reply b) = b"
  by (simp add: Reply_def)

lemma Reply_valid: "Binding_Validate (Reply b) = None \<longleftrightarrow> Binding_Validate b = None"
  by (auto simp: Binding_Validate_def Reply_def)

text \<open>A session identifier is the same from both ends.\<close>

lemma DeviceSessionID_sym: "DeviceSessionID a b = DeviceSessionID b a"
  by (auto simp: DeviceSessionID_def)

lemma target_for_Inr: "target_for input ex b = Inr (Some t) \<Longrightarrow> tg_DeviceID t = bu_DeviceID b \<and>
    DeviceSessionID (bu_DeviceID b) (pi_SenderDeviceID input) = Inr (tg_SessionID t) \<and>
    (tg_Bootstrap t \<longleftrightarrow> \<not> ex (tg_SessionID t)) \<and> (tg_Bootstrap t \<longrightarrow> unix (pi_Now input) < bu_ExpiresAtUnix b \<and>
      BundleDigest b = Inr (tg_BundleDigest t))"
  by (auto simp: target_for_def bindE_eq_Inr DeviceSessionID_sym [of "bu_DeviceID b"] split: if_splits)

text \<open>Every device of a set is planned for once or reported unreachable.\<close>

lemma plan_targets_Inr:
  "plan_targets input ex bs = Inr (ts, us) \<Longrightarrow> mset (map tg_DeviceID ts) + mset us = mset (map bu_DeviceID bs) \<and>
    (\<forall>t \<in> set ts. \<exists>b \<in> set bs. target_for input ex b = Inr (Some t))"
proof (induction bs arbitrary: ts us)
  case (Cons b bs)
  then obtain t ts' us' where "target_for input ex b = Inr t" "plan_targets input ex bs = Inr (ts', us')"
    "(ts, us) = (case t of Some t \<Rightarrow> (t # ts', us') | None \<Rightarrow> (ts', bu_DeviceID b # us'))"
    by (auto simp: bindE_eq_Inr split: option.splits)
  with Cons.IH [of ts' us'] show ?case by (auto split: option.splits dest: target_for_Inr)
qed simp

section \<open>Properties\<close>

text \<open>
  C11. Over any sequence of published device sets, whatever the writes do, a revoked device stays
  revoked, a device that was current is current or revoked ever after, and the freshness
  watermark of an endpoint never decreases.
\<close>

theorem device_standing_monotone:
  "standing_rank (Judge (ledger_run cs new_ledger) ep dev) \<le> standing_rank (Judge (ledger_run (cs @ ds) new_ledger) ep dev) \<and>
   watermark (ledger_run cs new_ledger) ep \<le> watermark (ledger_run (cs @ ds) new_ledger) ep"
proof -
  have "ledger_ok new_ledger" by (simp add: ledger_ok_def new_ledger_def)
  then have 1: "ledger_ok (ledger_run cs new_ledger)" using ledger_run_grows by blast
  from ledger_run_grows [OF 1, of ds] Judge_grows [OF 1] show ?thesis by (simp add: ledger_run_append)
qed


end
