(* ===== verification/Faults.thy ===== *)
theory Faults
  imports Prelude
begin

text \<open>
  The failure codes of the messenger (\<open>pkg/fault/fault.go\<close>): how each is classified, the
  retry schedule that follows from the classification (\<open>retry.go\<close>), and what of a failure a
  peer is told (\<open>response.go\<close>).
\<close>

section \<open>Codes\<close>

text \<open>A code is its text.\<close>

type_synonym Code = string

datatype Disposition = Permanent | Transient | Refresh | Approval

record fault_spec =
  fs_disposition :: Disposition
  fs_peerVisible :: bool
  fs_retryHint :: bool

definition CodeNetworkMismatch :: Code where
  "CodeNetworkMismatch = ''network-mismatch''"

definition CodeDelegationUncommitted :: Code where
  "CodeDelegationUncommitted = ''delegation-uncommitted''"

definition CodeDelegationExpired :: Code where
  "CodeDelegationExpired = ''delegation-expired''"

definition CodeAgentTombstoned :: Code where
  "CodeAgentTombstoned = ''agent-tombstoned''"

definition CodeDeviceRevoked :: Code where
  "CodeDeviceRevoked = ''device-revoked''"

definition CodeSignatureInvalid :: Code where
  "CodeSignatureInvalid = ''signature-invalid''"

definition CodeSenderMismatch :: Code where
  "CodeSenderMismatch = ''sender-mismatch''"

definition CodeDescriptorExpired :: Code where
  "CodeDescriptorExpired = ''descriptor-expired''"

definition CodeDescriptorUnbound :: Code where
  "CodeDescriptorUnbound = ''descriptor-unbound''"

definition CodeLocatorStale :: Code where
  "CodeLocatorStale = ''locator-stale''"

definition CodeNoRouteAdvertised :: Code where
  "CodeNoRouteAdvertised = ''no-route-advertised''"

definition CodeUnreachable :: Code where
  "CodeUnreachable = ''unreachable''"

definition CodeTimeout :: Code where
  "CodeTimeout = ''timeout''"

definition CodeRateLimited :: Code where
  "CodeRateLimited = ''rate-limited''"

definition CodeOversized :: Code where
  "CodeOversized = ''oversized''"

definition CodeNotAuthentic :: Code where
  "CodeNotAuthentic = ''not-authentic''"

definition CodeReplayed :: Code where
  "CodeReplayed = ''replayed''"

definition CodeSessionExpired :: Code where
  "CodeSessionExpired = ''session-expired''"

definition CodeSuiteUnsupported :: Code where
  "CodeSuiteUnsupported = ''suite-unsupported''"

definition CodeClassNotDelegated :: Code where
  "CodeClassNotDelegated = ''class-not-delegated''"

definition CodeAdmissionRequired :: Code where
  "CodeAdmissionRequired = ''admission-required''"

definition CodeUnknownEventKind :: Code where
  "CodeUnknownEventKind = ''unknown-event-kind''"

definition CodeNotARoomMember :: Code where
  "CodeNotARoomMember = ''not-a-room-member''"

definition CodeContentTooLarge :: Code where
  "CodeContentTooLarge = ''content-too-large''"

definition CodePayloadMalformed :: Code where
  "CodePayloadMalformed = ''payload-malformed''"

definition CodeEventOutsideWindow :: Code where
  "CodeEventOutsideWindow = ''event-outside-window''"

definition CodeApprovalRequired :: Code where
  "CodeApprovalRequired = ''approval-required''"

definition CodeRelayFull :: Code where
  "CodeRelayFull = ''relay-full''"

definition CodeRetentionExceeded :: Code where
  "CodeRetentionExceeded = ''retention-exceeded''"

definition CodeQuotaExceeded :: Code where
  "CodeQuotaExceeded = ''quota-exceeded''"

definition CodeInternal :: Code where
  "CodeInternal = ''internal''"

definition CodeRejected :: Code where
  "CodeRejected = ''rejected''"

definition fault_registry :: "(Code, fault_spec) dir" where
  "fault_registry = [
     (CodeNetworkMismatch, \<lparr>fs_disposition = Permanent, fs_peerVisible = True, fs_retryHint = False\<rparr>),
     (CodeDelegationUncommitted, \<lparr>fs_disposition = Refresh, fs_peerVisible = True, fs_retryHint = False\<rparr>),
     (CodeDelegationExpired, \<lparr>fs_disposition = Refresh, fs_peerVisible = True, fs_retryHint = False\<rparr>),
     (CodeAgentTombstoned, \<lparr>fs_disposition = Permanent, fs_peerVisible = True, fs_retryHint = False\<rparr>),
     (CodeDeviceRevoked, \<lparr>fs_disposition = Permanent, fs_peerVisible = True, fs_retryHint = False\<rparr>),
     (CodeSignatureInvalid, \<lparr>fs_disposition = Permanent, fs_peerVisible = True, fs_retryHint = False\<rparr>),
     (CodeSenderMismatch, \<lparr>fs_disposition = Permanent, fs_peerVisible = True, fs_retryHint = False\<rparr>),
     (CodeDescriptorExpired, \<lparr>fs_disposition = Refresh, fs_peerVisible = True, fs_retryHint = False\<rparr>),
     (CodeDescriptorUnbound, \<lparr>fs_disposition = Permanent, fs_peerVisible = True, fs_retryHint = False\<rparr>),
     (CodeLocatorStale, \<lparr>fs_disposition = Refresh, fs_peerVisible = False, fs_retryHint = False\<rparr>),
     (CodeNoRouteAdvertised, \<lparr>fs_disposition = Permanent, fs_peerVisible = True, fs_retryHint = False\<rparr>),
     (CodeUnreachable, \<lparr>fs_disposition = Transient, fs_peerVisible = False, fs_retryHint = False\<rparr>),
     (CodeTimeout, \<lparr>fs_disposition = Transient, fs_peerVisible = False, fs_retryHint = False\<rparr>),
     (CodeRateLimited, \<lparr>fs_disposition = Transient, fs_peerVisible = True, fs_retryHint = True\<rparr>),
     (CodeOversized, \<lparr>fs_disposition = Permanent, fs_peerVisible = True, fs_retryHint = False\<rparr>),
     (CodeNotAuthentic, \<lparr>fs_disposition = Permanent, fs_peerVisible = False, fs_retryHint = False\<rparr>),
     (CodeReplayed, \<lparr>fs_disposition = Permanent, fs_peerVisible = False, fs_retryHint = False\<rparr>),
     (CodeSessionExpired, \<lparr>fs_disposition = Refresh, fs_peerVisible = True, fs_retryHint = False\<rparr>),
     (CodeSuiteUnsupported, \<lparr>fs_disposition = Permanent, fs_peerVisible = True, fs_retryHint = False\<rparr>),
     (CodeClassNotDelegated, \<lparr>fs_disposition = Permanent, fs_peerVisible = True, fs_retryHint = False\<rparr>),
     (CodeAdmissionRequired, \<lparr>fs_disposition = Refresh, fs_peerVisible = True, fs_retryHint = True\<rparr>),
     (CodeUnknownEventKind, \<lparr>fs_disposition = Permanent, fs_peerVisible = True, fs_retryHint = False\<rparr>),
     (CodeNotARoomMember, \<lparr>fs_disposition = Refresh, fs_peerVisible = True, fs_retryHint = False\<rparr>),
     (CodeContentTooLarge, \<lparr>fs_disposition = Permanent, fs_peerVisible = True, fs_retryHint = False\<rparr>),
     (CodePayloadMalformed, \<lparr>fs_disposition = Permanent, fs_peerVisible = True, fs_retryHint = False\<rparr>),
     (CodeEventOutsideWindow, \<lparr>fs_disposition = Permanent, fs_peerVisible = True, fs_retryHint = False\<rparr>),
     (CodeApprovalRequired, \<lparr>fs_disposition = Approval, fs_peerVisible = False, fs_retryHint = False\<rparr>),
     (CodeRelayFull, \<lparr>fs_disposition = Transient, fs_peerVisible = True, fs_retryHint = True\<rparr>),
     (CodeRetentionExceeded, \<lparr>fs_disposition = Permanent, fs_peerVisible = True, fs_retryHint = False\<rparr>),
     (CodeQuotaExceeded, \<lparr>fs_disposition = Transient, fs_peerVisible = True, fs_retryHint = True\<rparr>),
     (CodeInternal, \<lparr>fs_disposition = Transient, fs_peerVisible = False, fs_retryHint = False\<rparr>),
     (CodeRejected, \<lparr>fs_disposition = Permanent, fs_peerVisible = True, fs_retryHint = False\<rparr>)]"

definition Codes :: "Code list" where
  "Codes = map fst fault_registry"

definition Known :: "Code \<Rightarrow> bool" where
  "Known code \<longleftrightarrow> map_of fault_registry code \<noteq> None"

definition DispositionOf :: "Code \<Rightarrow> Disposition" where
  "DispositionOf code = (case map_of fault_registry code of Some c \<Rightarrow> fs_disposition c | None \<Rightarrow> Permanent)"

definition PeerVisible :: "Code \<Rightarrow> bool" where
  "PeerVisible code = (case map_of fault_registry code of Some c \<Rightarrow> fs_peerVisible c | None \<Rightarrow> False)"

text \<open>
  An \<open>error\<close> as this package sees it: its text, and the fault it is or wraps, if any
  (\<open>errors.As\<close>).
\<close>

record Fault =
  ft_Code :: Code
  ft_Detail :: string

record go_error =
  ge_text :: string
  ge_fault :: "Fault option"

definition Fault_New :: "Code \<Rightarrow> string \<Rightarrow> Fault" where
  "Fault_New code detail = \<lparr>ft_Code = code, ft_Detail = detail\<rparr>"

definition Wrap :: "Code \<Rightarrow> go_error option \<Rightarrow> Fault" where
  "Wrap code cause = \<lparr>ft_Code = code, ft_Detail = (case cause of None \<Rightarrow> [] | Some e \<Rightarrow> ge_text e)\<rparr>"

definition Fault_Error :: "Fault option \<Rightarrow> string" where
  "Fault_Error f = (case f of
     None \<Rightarrow> ''<nil fault>''
   | Some f \<Rightarrow> if ft_Detail f = [] then ft_Code f else ft_Code f @ '': '' @ ft_Detail f)"

definition CodeOf :: "go_error \<Rightarrow> Code" where
  "CodeOf e = (case ge_fault e of Some f \<Rightarrow> ft_Code f | None \<Rightarrow> CodeInternal)"

section \<open>Retries\<close>

definition TransientBase :: duration where
  "TransientBase = Second"

definition TransientCap :: duration where
  "TransientCap = 5 * Minute"

definition TransientAttempts :: int where
  "TransientAttempts = 8"

definition RefreshBase :: duration where
  "RefreshBase = 5 * Second"

definition RefreshCap :: duration where
  "RefreshCap = 15 * Minute"

definition RefreshAttempts :: int where
  "RefreshAttempts = 4"

record Retry =
  ry_Disposition :: Disposition
  ry_Allowed :: bool
  ry_After :: duration
  ry_Final :: bool
  ry_ResolveFirst :: bool

text \<open>The loop of \<open>backoff\<close>, run the given number of times.\<close>

fun backoff_loop :: "duration \<Rightarrow> nat \<Rightarrow> duration \<Rightarrow> duration" where
  "backoff_loop cap 0 delay = (if delay > cap then cap else delay)"
| "backoff_loop cap (Suc n) delay = (if delay > signed_divide cap 2 then cap else backoff_loop cap n (delay * 2))"

definition backoff :: "duration \<Rightarrow> duration \<Rightarrow> int \<Rightarrow> duration" where
  "backoff base cap attempt = backoff_loop cap (nat (attempt - 1)) base"

definition NextCode :: "Code \<Rightarrow> int \<Rightarrow> Retry" where
  "NextCode code attempt0 =
     (let attempt = (if attempt0 < 1 then 1 else attempt0);
          none = \<lparr>ry_Disposition = DispositionOf code, ry_Allowed = False, ry_After = 0, ry_Final = False, ry_ResolveFirst = False\<rparr> in
      case DispositionOf code of
        Transient \<Rightarrow>
          if attempt > TransientAttempts then none\<lparr>ry_Final := True\<rparr>
          else none\<lparr>ry_Allowed := True, ry_After := backoff TransientBase TransientCap attempt\<rparr>
      | Refresh \<Rightarrow>
          if attempt > RefreshAttempts then none\<lparr>ry_Final := True\<rparr>
          else none\<lparr>ry_Allowed := True, ry_After := backoff RefreshBase RefreshCap attempt, ry_ResolveFirst := True\<rparr>
      | Approval \<Rightarrow> none
      | Permanent \<Rightarrow> none\<lparr>ry_Final := True\<rparr>)"

definition fault_Next :: "go_error \<Rightarrow> int \<Rightarrow> Retry" where
  "fault_Next e attempt = NextCode (CodeOf e) attempt"

section \<open>What a peer is told\<close>

definition MaxRetryAfterSeconds :: u32 where
  "MaxRetryAfterSeconds = 24 * 60 * 60"

record Response =
  rs_Code :: Code
  rs_RetryAfterSeconds :: u32

definition PeerCode :: "Code \<Rightarrow> u32 \<Rightarrow> Response" where
  "PeerCode code retryAfterSeconds =
     (if \<not> PeerVisible code then \<lparr>rs_Code = CodeRejected, rs_RetryAfterSeconds = 0\<rparr>
      else if \<not> (case map_of fault_registry code of Some c \<Rightarrow> fs_retryHint c | None \<Rightarrow> False) \<or> retryAfterSeconds = 0
      then \<lparr>rs_Code = code, rs_RetryAfterSeconds = 0\<rparr>
      else \<lparr>rs_Code = code, rs_RetryAfterSeconds =
        (if retryAfterSeconds > MaxRetryAfterSeconds then MaxRetryAfterSeconds else retryAfterSeconds)\<rparr>)"

definition Peer :: "go_error \<Rightarrow> u32 \<Rightarrow> Response" where
  "Peer e retryAfterSeconds = PeerCode (CodeOf e) retryAfterSeconds"

definition ValidateResponse :: "Response \<Rightarrow> err option" where
  "ValidateResponse r = (case map_of fault_registry (rs_Code r) of
     None \<Rightarrow> Some (Msg ''unknown fault code'')
   | Some c \<Rightarrow>
       if \<not> fs_peerVisible c then Some (Msg ''fault code may not be disclosed to a peer'')
       else if rs_RetryAfterSeconds r \<noteq> 0 then
         if \<not> fs_retryHint c then Some (Msg ''fault code carries no retry hint'')
         else if rs_RetryAfterSeconds r > MaxRetryAfterSeconds then Some (Msg ''retry hint exceeds its bound'')
         else None
       else None)"

section \<open>Lemmas\<close>

lemma half_exceeded: "0 \<le> cap \<Longrightarrow> delay > signed_divide cap 2 \<longleftrightarrow> cap < delay * (2 :: int)"
  by (simp add: signed_divide_int_def sgn_if) linarith

lemma backoff_loop_closed:
  "0 < delay \<Longrightarrow> 0 \<le> cap \<Longrightarrow> backoff_loop cap n delay = min cap (delay * 2 ^ n)"
proof (induction n arbitrary: delay)
  case (Suc n)
  have "delay * 2 \<le> delay * (2 * 2 ^ n)" using Suc.prems(1) by simp
  then have "cap < delay * 2 \<Longrightarrow> cap = min cap (delay * (2 * 2 ^ n))" by linarith
  with Suc show ?case by (simp add: half_exceeded mult.assoc)
qed simp

text \<open>A retry is allowed only within the attempts of its class, after a wait within its cap.\<close>

lemma NextCode_Allowed:
  assumes "ry_Allowed (NextCode code attempt)"
  shows "attempt \<le> 8" and "Second \<le> ry_After (NextCode code attempt)" and "ry_After (NextCode code attempt) \<le> 15 * Minute"
    and "DispositionOf code = Transient \<or> DispositionOf code = Refresh"
proof -
  have p: "1 \<le> (2 :: int) ^ n" "1 \<le> 5 * (2 :: int) ^ n" for n by (simp_all add: order_trans [of 1 5])
  show "attempt \<le> 8" "DispositionOf code = Transient \<or> DispositionOf code = Refresh"
    using assms by (auto simp: NextCode_def Let_def TransientAttempts_def RefreshAttempts_def split: Disposition.splits if_splits)
  have b: "Second \<le> backoff TransientBase TransientCap n" "backoff TransientBase TransientCap n \<le> 15 * Minute"
      "Second \<le> backoff RefreshBase RefreshCap n" "backoff RefreshBase RefreshCap n \<le> 15 * Minute" for n
    using p [of "nat (n - 1)"]
    by (simp_all add: backoff_def backoff_loop_closed TransientBase_def TransientCap_def RefreshBase_def RefreshCap_def
      Second_def Minute_def)
  show "Second \<le> ry_After (NextCode code attempt)" "ry_After (NextCode code attempt) \<le> 15 * Minute"
    using assms b by (auto simp: NextCode_def Let_def split: Disposition.splits if_splits)
qed

lemma NextCode_Disposition: "ry_Disposition (NextCode code attempt) = DispositionOf code"
  by (simp add: NextCode_def Let_def split: Disposition.split)

lemma registry_distinct: "distinct (map fst fault_registry)"
  by code_simp

lemma Rejected_visible: "map_of fault_registry CodeRejected = Some \<lparr>fs_disposition = Permanent, fs_peerVisible = True, fs_retryHint = False\<rparr>"
  by code_simp

lemma PeerCode_valid: "ValidateResponse (PeerCode code n) = None"
proof (cases "map_of fault_registry code")
  case (Some c)
  then show ?thesis using Rejected_visible by (auto simp: PeerCode_def ValidateResponse_def PeerVisible_def)
qed (simp add: PeerCode_def ValidateResponse_def PeerVisible_def Rejected_visible)

section \<open>Properties\<close>

text \<open>
  C38. The doubling loop of the retry schedule computes the capped exponential: the wait before
  attempt \<open>n\<close> is the smaller of the cap and \<open>base * 2 ^ (n - 1)\<close>.
\<close>

theorem backoff_closed_form:
  assumes "0 < base" and "0 \<le> cap"
  shows "backoff base cap attempt = min cap (base * 2 ^ nat (attempt - 1))"
  using assms by (simp add: backoff_def backoff_loop_closed)

theorem backoff_closed_form_witness:
  "0 < TransientBase \<and> 0 \<le> TransientCap \<and> backoff TransientBase TransientCap 4 = min TransientCap (TransientBase * 2 ^ nat (4 - 1))"
proof -
  have "0 < TransientBase" "0 \<le> TransientCap" by (simp_all add: TransientBase_def TransientCap_def Second_def Minute_def)
  with backoff_closed_form [OF this] show ?thesis by simp
qed

text \<open>
  C39. Whatever failed and whatever wait is asked for, what a peer is told is a valid response,
  and every failure that is not for peers is told in the same way, so that a sender cannot
  tell a replay from a forgery or learn that an owner is deciding.
\<close>

theorem peers_told_safely:
  "ValidateResponse (PeerCode code n) = None \<and>
   (PeerVisible code \<or> PeerCode code n = PeerCode CodeReplayed 0) \<and>
   \<not> PeerVisible CodeReplayed \<and> \<not> PeerVisible CodeNotAuthentic \<and> \<not> PeerVisible CodeApprovalRequired"
proof -
  have h: "\<not> PeerVisible CodeReplayed" "\<not> PeerVisible CodeNotAuthentic" "\<not> PeerVisible CodeApprovalRequired"
    by code_simp+
  then have "PeerVisible code \<or> PeerCode code n = PeerCode CodeReplayed 0" by (simp add: PeerCode_def)
  then show ?thesis using h PeerCode_valid by blast
qed

end
