(* ===== verification/EventJournal.thy ===== *)
theory EventJournal
  imports Devices Faults PayloadMore
begin

text \<open>
  The durable single-writer journal (\<open>pkg/eventlog\<close>): inbound events with their admission,
  crypto and application dimensions (\<open>journal.go\<close>), the bounds on what waits for an owner
  (\<open>quota.go\<close>), session states and the ordered commits (\<open>session.go\<close>), outbound deliveries
  (\<open>delivery.go\<close>) and the removal of finished records (\<open>prune.go\<close>).

  The state is what is on disk: a directory of records per kind, by file name, each decoded or
  \<open>Broken\<close>. Fields the program keeps in base64 are held as the bytes they encode. A write is
  given its outcome: the record is durable, or nothing happened, or the rename happened and
  its sync failed, or the process died and left its temporary file behind, whole or torn,
  which a directory listing then finds. Reads succeed. The bound on the JSON text of a record
  is one of the reasons for which a write does nothing.
\<close>

section \<open>Files\<close>

datatype 'v found = Missing | Invalid | Found 'v

definition read_file :: "('v \<Rightarrow> bool) \<Rightarrow> (string, 'v stored) dir \<Rightarrow> string \<Rightarrow> 'v found" where
  "read_file valid d name = (case map_of d name of
     None \<Rightarrow> Missing
   | Some Broken \<Rightarrow> Invalid
   | Some (Whole v) \<Rightarrow> if valid v then Found v else Invalid)"

text \<open>\<open>Journal.replace\<close>; \<open>Leftover\<close> is a death that leaves the temporary file.\<close>

datatype jout = Wrote wout | Leftover string bool

definition replace :: "jout \<Rightarrow> string \<Rightarrow> 'v \<Rightarrow> (string, 'v stored) dir \<Rightarrow> err option \<times> (string, 'v stored) dir" where
  "replace w name v d = (case w of
     Wrote o' \<Rightarrow> replace_file o' name (Whole v) d
   | Leftover temp whole \<Rightarrow> (Some (Msg ''died''),
       if map_of d (''.transition-'' @ temp) = None
       then (''.transition-'' @ temp, if whole then Whole v else Broken) # d else d))"

text \<open>A file created exclusively and then written.\<close>

datatype jcreate = CreateOk | CreateFailed | CreateDied bool

definition create_record :: "jcreate \<Rightarrow> string \<Rightarrow> 'v \<Rightarrow> (string, 'v stored) dir \<Rightarrow> err option \<times> (string, 'v stored) dir" where
  "create_record c name v d = (case c of
     CreateOk \<Rightarrow> (None, (name, Whole v) # d)
   | CreateFailed \<Rightarrow> (Some (Msg ''write event record''), d)
   | CreateDied whole \<Rightarrow> (Some (Msg ''died''), (name, if whole then Whole v else Broken) # d))"

section \<open>Records\<close>

definition event_Schema :: string where
  "event_Schema = ''tos.messaging.event-journal.v1''"

definition MaxPayloadBytes :: nat where
  "MaxPayloadBytes = 160 * 1024"

definition MaxCiphertextBytes :: nat where
  "MaxCiphertextBytes = MaxPayloadBytes + 4 * 1024"

definition MinLeaseSeconds :: int where
  "MinLeaseSeconds = 1"

definition MaxLeaseSeconds :: int where
  "MaxLeaseSeconds = 60 * 60"

text \<open>The string enumerations; the last constructor of each is any other text.\<close>

datatype AdmissionState = AdmissionAdmitted | AdmissionPending | AdmissionDenied | AdmissionOther string

datatype CryptoState = CryptoUnbound | CryptoStaged | CryptoCommitted | CryptoAbandoned | CryptoOther string

datatype ApplicationState = StateQueued | StateClaimed | StateApplied | StateRejected | ApplicationOther string

definition leasePattern :: "string \<Rightarrow> bool" where
  "leasePattern = prefixed_hex64 ''lease_''"

definition attemptPattern :: "string \<Rightarrow> bool" where
  "attemptPattern = prefixed_hex64 ''send_''"

definition sessionPattern :: "string \<Rightarrow> bool" where
  "sessionPattern = prefixed_hex64 ''ses_''"

record SessionAuthority =
  sy_LocalAgentID :: string
  sy_LocalEndpointID :: string
  sy_LocalDeviceID :: string
  sy_PeerAgentID :: string
  sy_PeerEndpointID :: string
  sy_PeerDeviceID :: string

record Transition =
  tr_SessionID :: string
  tr_Algorithm :: string
  tr_ExpectedGeneration :: u64
  tr_NextState :: bytes
  tr_Authority :: "SessionAuthority option"

record Entry =
  en_EventID :: string
  en_SenderEndpointID :: string
  en_ConversationID :: string
  en_Payload :: bytes
  en_Admission :: AdmissionState
  en_ReceivedAtUnix :: u64
  en_ExpiresAtUnix :: u64
  en_Transition :: "Transition option"

record Record =
  rc_Schema :: string
  rc_EventID :: string
  rc_SenderEndpointID :: string
  rc_ConversationID :: string
  rc_Admission :: AdmissionState
  rc_AdmissionAtUnix :: u64
  rc_AdmissionCode :: Code
  rc_Payload :: bytes
  rc_PayloadDigest :: string
  rc_ReceivedAtUnix :: u64
  rc_EventExpiresAt :: u64
  rc_Crypto :: CryptoState
  rc_CryptoAtUnix :: u64
  rc_SessionID :: string
  rc_AlgorithmID :: string
  rc_ExpectedGen :: u64
  rc_NextState :: bytes
  rc_NextStateDigest :: string
  rc_SessionAuthority :: "SessionAuthority option"
  rc_Application :: ApplicationState
  rc_LeaseID :: string
  rc_LeaseExpiresAt :: u64
  rc_AppliedAtUnix :: u64
  rc_RejectedAtUnix :: u64
  rc_RejectionCode :: Code
  rc_ReadAtUnix :: u64

definition SessionAuthority_validate :: "SessionAuthority \<Rightarrow> string \<Rightarrow> err option" where
  "SessionAuthority_validate a sessionID =
     (if \<not> ids_Agent (sy_LocalAgentID a) \<or> \<not> ids_Endpoint (sy_LocalEndpointID a) \<or> \<not> ids_Device (sy_LocalDeviceID a) \<or>
         \<not> ids_Agent (sy_PeerAgentID a) \<or> \<not> ids_Endpoint (sy_PeerEndpointID a) \<or> \<not> ids_Device (sy_PeerDeviceID a)
      then Some (Msg ''invalid session authority'')
      else failIf (DeviceSessionID (sy_LocalDeviceID a) (sy_PeerDeviceID a) \<noteq> Inr sessionID)
        ''session authority belongs to another device pair'')"

text \<open>\<open>Record.Payload\<close> and \<open>Record.NextState\<close>.\<close>

definition Record_Payload :: "Record \<Rightarrow> bytes res" where
  "Record_Payload r = (if Digest (rc_Payload r) \<noteq> rc_PayloadDigest r
     then Inl (Msg ''stored event payload does not match its digest'') else Inr (rc_Payload r))"

definition Record_NextState :: "Record \<Rightarrow> bytes res" where
  "Record_NextState r =
     (if rc_NextState r = [] then Inl (Msg ''record carries no session transition'')
      else if Digest (rc_NextState r) \<noteq> rc_NextStateDigest r
      then Inl (Msg ''stored session transition does not match its digest'') else Inr (rc_NextState r))"

definition Deliverable :: "Record \<Rightarrow> bool" where
  "Deliverable r \<longleftrightarrow> rc_Crypto r = CryptoCommitted \<or> rc_Crypto r = CryptoUnbound"

definition Terminal :: "Record \<Rightarrow> bool" where
  "Terminal r \<longleftrightarrow> rc_Application r = StateApplied \<or> rc_Application r = StateRejected"

text \<open>The checks of \<open>readRecord\<close> on a decoded record.\<close>

definition valid_record :: "Record \<Rightarrow> bool" where
  "valid_record r \<longleftrightarrow> rc_Admission r \<in> {AdmissionAdmitted, AdmissionPending, AdmissionDenied} \<and>
     (rc_AdmissionCode r = [] \<or> Known (rc_AdmissionCode r)) \<and>
     rc_Schema r = event_Schema \<and> ids_Event (rc_EventID r) \<and> ids_Endpoint (rc_SenderEndpointID r) \<and>
     ids_Conversation (rc_ConversationID r) \<and> rc_ReceivedAtUnix r \<noteq> 0 \<and> ValidDigest (rc_PayloadDigest r) \<and>
     rc_Application r \<in> {StateQueued, StateClaimed, StateApplied, StateRejected} \<and>
     (rc_Application r = StateClaimed \<longrightarrow> leasePattern (rc_LeaseID r) \<and> rc_LeaseExpiresAt r \<noteq> 0) \<and>
     (rc_RejectionCode r = [] \<or> Known (rc_RejectionCode r)) \<and>
     Record_Payload r = Inr (rc_Payload r) \<and>
     (case rc_SessionAuthority r of None \<Rightarrow> True | Some a \<Rightarrow> SessionAuthority_validate a (rc_SessionID r) = None)"

definition readRecord :: "(string, Record stored) dir \<Rightarrow> string \<Rightarrow> Record found" where
  "readRecord = read_file valid_record"

section \<open>Sessions\<close>

definition SessionSchema :: string where
  "SessionSchema = ''tos.messaging.session-state.v1''"

record SessionRecord =
  se_Schema :: string
  se_Generation :: u64
  se_SessionID :: string
  se_AlgorithmID :: string
  se_State :: bytes
  se_StateDigest :: string
  se_UpdatedAtUnix :: u64
  se_LastInboundEventID :: string
  se_Bootstrap :: "FirstContact option"
  se_Authority :: "SessionAuthority option"

definition SessionRecord_State :: "SessionRecord \<Rightarrow> bytes res" where
  "SessionRecord_State s = (if Digest (se_State s) \<noteq> se_StateDigest s
     then Inl (Msg ''persisted session state does not match its digest'') else Inr (se_State s))"

definition authorityFromBinding :: "Binding \<Rightarrow> bool \<Rightarrow> SessionAuthority" where
  "authorityFromBinding b initiator =
     (if initiator then \<lparr>sy_LocalAgentID = bi_SenderAgentID b, sy_LocalEndpointID = bi_SenderEndpointID b,
        sy_LocalDeviceID = bi_SenderDeviceID b, sy_PeerAgentID = bi_RecipientAgentID b,
        sy_PeerEndpointID = bi_RecipientEndpointID b, sy_PeerDeviceID = bi_RecipientDeviceID b\<rparr>
      else \<lparr>sy_LocalAgentID = bi_RecipientAgentID b, sy_LocalEndpointID = bi_RecipientEndpointID b,
        sy_LocalDeviceID = bi_RecipientDeviceID b, sy_PeerAgentID = bi_SenderAgentID b,
        sy_PeerEndpointID = bi_SenderEndpointID b, sy_PeerDeviceID = bi_SenderDeviceID b\<rparr>)"

definition valid_session :: "SessionRecord \<Rightarrow> bool" where
  "valid_session s \<longleftrightarrow> se_Schema s = SessionSchema \<and> sessionPattern (se_SessionID s) \<and> se_Generation s \<noteq> 0 \<and>
     se_UpdatedAtUnix s \<noteq> 0 \<and> ValidDigest (se_StateDigest s) \<and> ValidateAlgorithmID (se_AlgorithmID s) = None \<and>
     SessionRecord_State s = Inr (se_State s) \<and>
     (case se_Bootstrap s of None \<Rightarrow> True | Some c \<Rightarrow> ValidateFirstContact c = None) \<and>
     (case se_Authority s of None \<Rightarrow> True | Some a \<Rightarrow> SessionAuthority_validate a (se_SessionID s) = None)"

definition readSession :: "(string, SessionRecord stored) dir \<Rightarrow> string \<Rightarrow> SessionRecord found" where
  "readSession = read_file valid_session"

definition validateSessionInput :: "string \<Rightarrow> string \<Rightarrow> bytes \<Rightarrow> gotime \<Rightarrow> err option" where
  "validateSessionInput sessionID algorithm state now =
     thenE (failIf (\<not> sessionPattern sessionID) ''invalid session identifier'')
     (thenE (ValidateAlgorithmID algorithm) (thenE (ValidateState state)
     (failIf (bad_time now) ''invalid session commit time'')))"

section \<open>Deliveries\<close>

definition DeliverySchema :: string where
  "DeliverySchema = ''tos.messaging.delivery-journal.v1''"

definition deliveryCopyPattern :: "string \<Rightarrow> bool" where
  "deliveryCopyPattern = prefixed_hex64 ''cpy_''"

datatype DeliveryState = StatePending | StateHeld | StateDelivered | StateAbandoned | DeliveryOther string

record Delivery =
  de_Schema :: string
  de_DeliveryID :: string
  de_EventID :: string
  de_SessionID :: string
  de_Payload :: bytes
  de_PayloadDigest :: string
  de_Ciphertext :: bytes
  de_CiphertextDigest :: string
  de_AttemptID :: string
  de_AttemptExpiresAt :: u64
  de_RecipientEndpointID :: string
  de_RecipientDeviceID :: string
  de_ConversationID :: string
  de_State :: DeliveryState
  de_Attempts :: u32
  de_LastCode :: Code
  de_NextAttemptAtUnix :: u64
  de_CreatedAtUnix :: u64
  de_ExpiresAtUnix :: u64
  de_SettledAtUnix :: u64

record Outbound =
  ob_DeliveryID :: string
  ob_EventID :: string
  ob_SessionID :: string
  ob_RecipientEndpointID :: string
  ob_RecipientDeviceID :: string
  ob_ConversationID :: string
  ob_Payload :: bytes
  ob_CreatedAtUnix :: u64
  ob_ExpiresAtUnix :: u64

definition Delivery_Payload :: "Delivery \<Rightarrow> bytes res" where
  "Delivery_Payload d = (if Digest (de_Payload d) \<noteq> de_PayloadDigest d
     then Inl (Msg ''queued event payload does not match its digest'') else Inr (de_Payload d))"

definition Delivery_Ciphertext :: "Delivery \<Rightarrow> bytes res" where
  "Delivery_Ciphertext d = (if de_Ciphertext d = [] then Inr []
     else if Digest (de_Ciphertext d) \<noteq> de_CiphertextDigest d
     then Inl (Msg ''sealed ciphertext does not match its digest'') else Inr (de_Ciphertext d))"

definition valid_delivery :: "Delivery \<Rightarrow> bool" where
  "valid_delivery d \<longleftrightarrow> de_Schema d = DeliverySchema \<and> ids_Event (de_EventID d) \<and> ids_Endpoint (de_RecipientEndpointID d) \<and>
     ids_Conversation (de_ConversationID d) \<and> de_CreatedAtUnix d \<noteq> 0 \<and> de_CreatedAtUnix d < de_ExpiresAtUnix d \<and>
     ValidDigest (de_PayloadDigest d) \<and>
     (de_DeliveryID d \<noteq> [] \<longrightarrow> deliveryCopyPattern (de_DeliveryID d) \<and> ids_Device (de_RecipientDeviceID d)) \<and>
     (de_DeliveryID d = [] \<and> de_RecipientDeviceID d \<noteq> [] \<longrightarrow> ids_Device (de_RecipientDeviceID d)) \<and>
     sessionPattern (de_SessionID d) \<and> Delivery_Payload d = Inr (de_Payload d) \<and>
     Delivery_Ciphertext d = Inr (de_Ciphertext d) \<and>
     de_State d \<in> {StatePending, StateHeld, StateDelivered, StateAbandoned} \<and>
     (de_LastCode d = [] \<or> Known (de_LastCode d))"

definition readDelivery :: "(string, Delivery stored) dir \<Rightarrow> string \<Rightarrow> Delivery found" where
  "readDelivery = read_file valid_delivery"

definition Delivery_Key :: "Delivery \<Rightarrow> string" where
  "Delivery_Key d = (if de_DeliveryID d \<noteq> [] then de_DeliveryID d else de_EventID d)"

definition validDeliveryID :: "string \<Rightarrow> bool" where
  "validDeliveryID v \<longleftrightarrow> ids_Event v \<or> deliveryCopyPattern v"

definition NewDeliveryCopyID :: "string \<Rightarrow> string \<Rightarrow> string \<Rightarrow> string res" where
  "NewDeliveryCopyID eventID endpointID deviceID =
     (if \<not> ids_Event eventID \<or> \<not> ids_Endpoint endpointID \<or> \<not> ids_Device deviceID
      then Inl (Msg ''invalid delivery copy authority'')
      else Inr (''cpy_'' @ drop 7 (Digest (DomainDeliveryCopy @ canon_Text eventID @ canon_Text endpointID @ canon_Text deviceID))))"

definition validateOutbound :: "Outbound \<Rightarrow> err option" where
  "validateOutbound r =
     thenE (failIf (\<not> ids_Event (ob_EventID r)) ''invalid event identifier'')
     (thenE (failIf (ob_DeliveryID r \<noteq> [] \<and> \<not> deliveryCopyPattern (ob_DeliveryID r)) ''invalid delivery copy identifier'')
     (thenE (failIf (\<not> ids_Endpoint (ob_RecipientEndpointID r)) ''invalid delivery recipient endpoint'')
     (thenE (failIf (ob_DeliveryID r \<noteq> [] \<and> \<not> ids_Device (ob_RecipientDeviceID r)) ''a delivery copy needs a recipient device'')
     (thenE (failIf (ob_DeliveryID r = [] \<and> ob_RecipientDeviceID r \<noteq> [] \<and> \<not> ids_Device (ob_RecipientDeviceID r))
       ''invalid delivery recipient device'')
     (thenE (failIf (\<not> ids_Conversation (ob_ConversationID r)) ''invalid delivery conversation identifier'')
     (thenE (failIf (\<not> sessionPattern (ob_SessionID r)) ''invalid delivery session identifier'')
     (thenE (failIf (ob_Payload r = [] \<or> length (ob_Payload r) > MaxPayloadBytes) ''invalid queued event payload'')
       (failIf (ob_CreatedAtUnix r = 0 \<or> ob_ExpiresAtUnix r \<le> ob_CreatedAtUnix r) ''invalid delivery validity window''))))))))"

section \<open>The journal\<close>

record Quota =
  qu_MaxPendingAdmissions :: int
  qu_MaxPendingPerSender :: int
  qu_MaxPendingBytes :: int
  qu_MaxPendingAge :: duration

definition DefaultMaxPendingAdmissions :: int where
  "DefaultMaxPendingAdmissions = 256"

definition DefaultMaxPendingPerSender :: int where
  "DefaultMaxPendingPerSender = 16"

definition DefaultMaxPendingBytes :: int where
  "DefaultMaxPendingBytes = 32 * 1024 * 1024"

definition DefaultMaxPendingAge :: duration where
  "DefaultMaxPendingAge = 7 * 24 * Hour"

definition DefaultQuota :: Quota where
  "DefaultQuota = \<lparr>qu_MaxPendingAdmissions = DefaultMaxPendingAdmissions, qu_MaxPendingPerSender = DefaultMaxPendingPerSender,
     qu_MaxPendingBytes = DefaultMaxPendingBytes, qu_MaxPendingAge = DefaultMaxPendingAge\<rparr>"

definition Quota_Validate :: "Quota \<Rightarrow> err option" where
  "Quota_Validate q =
     (if qu_MaxPendingAdmissions q \<le> 0 \<or> qu_MaxPendingPerSender q \<le> 0
      then Some (Msg ''a pending quota must bound how many events may wait'')
      else if qu_MaxPendingPerSender q > qu_MaxPendingAdmissions q
      then Some (Msg ''a per-sender bound above the total bounds nothing'')
      else if qu_MaxPendingBytes q \<le> 0 then Some (Msg ''a pending quota must bound how much may wait'')
      else failIf (qu_MaxPendingAge q \<le> 0) ''a pending quota must bound how long an undecided event is kept'')"

definition ModerationRecordSchema :: string where
  "ModerationRecordSchema = ''tos.messaging.room-moderation-record.v1''"

record ModerationDecision =
  md_Schema :: string
  md_RoomID :: string
  md_TargetEventID :: string
  md_DecisionEventID :: string
  md_DecisionRevision :: u64
  md_MembershipEpoch :: u64
  md_RolePolicyRevision :: u64
  md_ActorAgentID :: string
  md_Action :: string
  md_Reason :: string
  md_DecidedAtUnix :: u64

record Journal =
  jn_held :: bool
  jn_quota :: Quota
  jn_inbound :: "(string, Record stored) dir"
  jn_outbound :: "(string, Delivery stored) dir"
  jn_sessions :: "(string, SessionRecord stored) dir"
  jn_moderation :: "(string, ModerationDecision stored) dir"

definition journal_usable :: "Journal \<Rightarrow> err option" where
  "journal_usable s = failIf (\<not> jn_held s) ''event journal is not owned by this process''"

text \<open>
  The name of a record's file: \<open>Journal.path\<close>, \<open>Journal.deliveryPath\<close>, \<open>Journal.sessionPath\<close>
  and \<open>ModerationLedger.path\<close> cut the four characters of the identifier's kind.
\<close>

definition file_name :: "string \<Rightarrow> string" where
  "file_name i = drop 4 i @ ''.json''"

text \<open>\<open>os.ReadDir\<close>: the names, sorted.\<close>

definition listing :: "(string, 'v) dir \<Rightarrow> string list" where
  "listing d = sort (map fst d)"

section \<open>Inbound events\<close>

definition validateEntry :: "Entry \<Rightarrow> err option" where
  "validateEntry e =
     thenE (failIf (\<not> ids_Event (en_EventID e)) ''invalid event identifier'')
     (thenE (failIf (\<not> ids_Endpoint (en_SenderEndpointID e)) ''invalid event sender endpoint'')
     (thenE (failIf (\<not> ids_Conversation (en_ConversationID e)) ''invalid event conversation identifier'')
     (thenE (failIf (en_Payload e = [] \<or> length (en_Payload e) > MaxPayloadBytes) ''invalid stored event payload'')
     (thenE (failIf (en_ReceivedAtUnix e = 0) ''invalid event receipt time'')
       (failIf (en_Admission e \<notin> {AdmissionAdmitted, AdmissionPending, AdmissionDenied}) ''an entry must say whether it was admitted'')))))"

definition Record_expired :: "Record \<Rightarrow> Quota \<Rightarrow> u64 \<Rightarrow> bool" where
  "Record_expired r quota seconds \<longleftrightarrow>
     rc_EventExpiresAt r \<noteq> 0 \<and> rc_EventExpiresAt r \<le> seconds \<or>
     rc_ReceivedAtUnix r \<noteq> 0 \<and> rc_ReceivedAtUnix r + word_of_int (in_seconds (qu_MaxPendingAge quota)) \<le> seconds"

text \<open>The readable records of a directory, in the order of their names.\<close>

definition readable :: "('v \<Rightarrow> bool) \<Rightarrow> (string, 'v stored) dir \<Rightarrow> 'v list" where
  "readable valid d = List.map_filter (\<lambda>name. case read_file valid d name of Found v \<Rightarrow> Some v | _ \<Rightarrow> None) (listing d)"

text \<open>The length of \<open>PayloadBase64\<close>.\<close>

definition base64_length :: "bytes \<Rightarrow> int" where
  "base64_length b = 4 * ((int (length b) + 2) div 3)"

definition waiting :: "Quota \<Rightarrow> u64 \<Rightarrow> (string, Record stored) dir \<Rightarrow> Record list" where
  "waiting quota seconds d =
     filter (\<lambda>r. rc_Admission r = AdmissionPending \<and> \<not> Record_expired r quota seconds) (readable valid_record d)"

definition pendingCapacity :: "string \<Rightarrow> int \<Rightarrow> u64 \<Rightarrow> Journal \<Rightarrow> err option" where
  "pendingCapacity sender n seconds s =
     (let w = waiting (jn_quota s) seconds (jn_inbound s) in
      if int (length w) \<ge> qu_MaxPendingAdmissions (jn_quota s) then Some ErrPendingFull
      else if int (length (filter (\<lambda>r. rc_SenderEndpointID r = sender) w)) \<ge> qu_MaxPendingPerSender (jn_quota s) then Some ErrPendingFull
      else if n + sum_list (map (\<lambda>r. base64_length (rc_Payload r)) w) > qu_MaxPendingBytes (jn_quota s) then Some ErrPendingFull
      else None)"

text \<open>The record \<open>Accept\<close> writes.\<close>

definition entry_record :: "Entry \<Rightarrow> Record" where
  "entry_record e =
     (let r = \<lparr>rc_Schema = event_Schema, rc_EventID = en_EventID e, rc_SenderEndpointID = en_SenderEndpointID e,
        rc_ConversationID = en_ConversationID e, rc_Admission = en_Admission e, rc_AdmissionAtUnix = 0, rc_AdmissionCode = [],
        rc_Payload = en_Payload e, rc_PayloadDigest = Digest (en_Payload e), rc_ReceivedAtUnix = en_ReceivedAtUnix e,
        rc_EventExpiresAt = en_ExpiresAtUnix e, rc_Crypto = CryptoUnbound, rc_CryptoAtUnix = 0, rc_SessionID = [],
        rc_AlgorithmID = [], rc_ExpectedGen = 0, rc_NextState = [], rc_NextStateDigest = [], rc_SessionAuthority = None,
        rc_Application = StateQueued, rc_LeaseID = [], rc_LeaseExpiresAt = 0, rc_AppliedAtUnix = 0, rc_RejectedAtUnix = 0,
        rc_RejectionCode = [], rc_ReadAtUnix = 0\<rparr> in
      case en_Transition e of None \<Rightarrow> r
      | Some t \<Rightarrow> r\<lparr>rc_Crypto := CryptoStaged, rc_SessionID := tr_SessionID t, rc_AlgorithmID := tr_Algorithm t,
          rc_ExpectedGen := tr_ExpectedGeneration t, rc_NextState := tr_NextState t, rc_NextStateDigest := Digest (tr_NextState t),
          rc_SessionAuthority := tr_Authority t, rc_CryptoAtUnix := en_ReceivedAtUnix e\<rparr>)"

definition Accept :: "jcreate \<Rightarrow> Entry \<Rightarrow> Journal \<Rightarrow> (bool \<times> Record) res \<times> Journal" where
  "Accept c e s =
     (case thenE (journal_usable s) (thenE (validateEntry e)
        (if en_Admission e = AdmissionPending
         then pendingCapacity (en_SenderEndpointID e) (int (length (en_Payload e))) (en_ReceivedAtUnix e) s else None)) of
        Some x \<Rightarrow> (Inl x, s)
      | None \<Rightarrow> (case readRecord (jn_inbound s) (file_name (en_EventID e)) of
          Missing \<Rightarrow> (case create_record c (file_name (en_EventID e)) (entry_record e) (jn_inbound s) of
              (None, d) \<Rightarrow> (Inr (True, entry_record e), s\<lparr>jn_inbound := d\<rparr>)
            | (Some x, d) \<Rightarrow> (Inl x, s\<lparr>jn_inbound := d\<rparr>))
        | Invalid \<Rightarrow> (Inl (Msg ''invalid event journal record''), s)
        | Found r \<Rightarrow> if rc_SenderEndpointID r \<noteq> en_SenderEndpointID e \<or> rc_ConversationID r \<noteq> en_ConversationID e \<or>
              rc_PayloadDigest r \<noteq> Digest (en_Payload e) then (Inl ErrConflict, s) else (Inr (False, r), s)))"

text \<open>\<open>Journal.commit\<close>, and the read, change and commit every later operation on a record is.\<close>

definition journal_commit :: "jout \<Rightarrow> string \<Rightarrow> Record \<Rightarrow> Journal \<Rightarrow> Record res \<times> Journal" where
  "journal_commit w name r s = (case replace w name r (jn_inbound s) of
     (None, d) \<Rightarrow> (Inr r, s\<lparr>jn_inbound := d\<rparr>) | (Some x, d) \<Rightarrow> (Inl x, s\<lparr>jn_inbound := d\<rparr>))"

definition change_record :: "jout \<Rightarrow> string \<Rightarrow> (Record \<Rightarrow> Record res) \<Rightarrow> Journal \<Rightarrow> Record res \<times> Journal" where
  "change_record w eventID f s = (case readRecord (jn_inbound s) (file_name eventID) of
     Missing \<Rightarrow> (Inl ErrUnknown, s)
   | Invalid \<Rightarrow> (Inl (Msg ''invalid event journal record''), s)
   | Found r \<Rightarrow> (case f r of Inl x \<Rightarrow> (Inl x, s) | Inr r' \<Rightarrow> journal_commit w (file_name eventID) r' s))"

text \<open>What a record says of an event still to be processed, whatever its admission.\<close>

definition unclaimed :: "u64 \<Rightarrow> Record \<Rightarrow> bool" where
  "unclaimed seconds r \<longleftrightarrow> rc_Application r = StateQueued \<or> rc_Application r = StateClaimed \<and> rc_LeaseExpiresAt r \<le> seconds"

definition decision_body :: "ModerationDecision \<Rightarrow> RoomModeration" where
  "decision_body d = \<lparr>RoomModeration_RoomID = md_RoomID d, RoomModeration_MembershipEpoch = md_MembershipEpoch d,
     RoomModeration_RolePolicyRevision = md_RolePolicyRevision d, RoomModeration_TargetEventID = md_TargetEventID d,
     RoomModeration_DecisionRevision = md_DecisionRevision d, RoomModeration_Action = md_Action d,
     RoomModeration_Reason = md_Reason d\<rparr>"

definition Moderation_read :: "Journal \<Rightarrow> string \<Rightarrow> ModerationDecision found" where
  "Moderation_read s target = read_file (\<lambda>d. md_Schema d = ModerationRecordSchema \<and> md_TargetEventID d = target \<and>
     ids_Event (md_DecisionEventID d) \<and> ids_Agent (md_ActorAgentID d) \<and> md_DecidedAtUnix d \<noteq> 0 \<and>
     RoomModeration_Validate (decision_body d) = None) (jn_moderation s) (file_name target)"

definition Visibility :: "Journal \<Rightarrow> string \<Rightarrow> (bool \<times> ModerationDecision option) res" where
  "Visibility s target =
     failE (journal_usable s) (failE (failIf (\<not> ids_Event target) ''invalid moderation target'')
     (case Moderation_read s target of
        Missing \<Rightarrow> Inr (True, None)
      | Invalid \<Rightarrow> Inl (Msg ''invalid moderation record'')
      | Found d \<Rightarrow> Inr (md_Action d = ''restore'', Some d)))"

text \<open>The loop of \<open>ListPending\<close>; a decision that cannot be read fails the listing.\<close>

fun pending_loop :: "Journal \<Rightarrow> u64 \<Rightarrow> Record list \<Rightarrow> Record list res" where
  "pending_loop s seconds [] = Inr []"
| "pending_loop s seconds (r # rs) =
     (if rc_Admission r \<noteq> AdmissionAdmitted \<or> \<not> Deliverable r \<or> \<not> unclaimed seconds r then pending_loop s seconds rs
      else case Moderation_read s (rc_EventID r) of
        Invalid \<Rightarrow> Inl (Msg ''invalid moderation record'')
      | Missing \<Rightarrow> bindE (pending_loop s seconds rs) (\<lambda>l. Inr (r # l))
      | Found d \<Rightarrow> if md_Action d = ''hide'' then pending_loop s seconds rs
          else bindE (pending_loop s seconds rs) (\<lambda>l. Inr (r # l)))"

definition by_receipt :: "Record list \<Rightarrow> Record list" where
  "by_receipt l = sort_key rc_ReceivedAtUnix (sort_key rc_EventID l)"

definition cut :: "int \<Rightarrow> 'a list \<Rightarrow> 'a list" where
  "cut limit l = (if limit > 0 \<and> int (length l) > limit then take (nat limit) l else l)"

definition ListPending :: "gotime \<Rightarrow> int \<Rightarrow> Journal \<Rightarrow> Record list res" where
  "ListPending now limit s =
     failE (journal_usable s) (failE (failIf (bad_time now) ''invalid pending sweep time'')
     (bindE (pending_loop s (unix now) (readable valid_record (jn_inbound s))) (\<lambda>l. Inr (cut limit (by_receipt l)))))"

definition ListAwaitingAdmission :: "gotime \<Rightarrow> int \<Rightarrow> Journal \<Rightarrow> Record list res" where
  "ListAwaitingAdmission now limit s =
     failE (journal_usable s) (Inr (cut limit (by_receipt (waiting (jn_quota s) (unix now) (jn_inbound s)))))"

text \<open>The kind the JSON text of a stored event names, \<open>None\<close> where it does not parse, is a parameter.\<close>

definition check_kind :: "(bytes \<Rightarrow> string option) \<Rightarrow> string \<Rightarrow> string list \<Rightarrow> string list \<Rightarrow> Record \<Rightarrow> err option" where
  "check_kind kind_of required excluded allowed r =
     (if required = [] \<and> excluded = [] \<and> allowed = [] then None
      else case Record_Payload r of Inl x \<Rightarrow> Some x
      | Inr payload \<Rightarrow> (case kind_of payload of
          None \<Rightarrow> Some (Msg ''stored event has no application kind'')
        | Some kind \<Rightarrow> if kind = [] then Some (Msg ''stored event has no application kind'')
            else if required \<noteq> [] \<and> kind \<noteq> required then Some ErrApplicationKind
            else if kind \<in> set excluded then Some ErrApplicationKind
            else if allowed \<noteq> [] \<and> kind \<notin> set allowed then Some ErrApplicationKind else None))"

definition claim_change :: "(bytes \<Rightarrow> string option) \<Rightarrow> string \<Rightarrow> gotime \<Rightarrow> int \<Rightarrow> string \<Rightarrow> string list \<Rightarrow> string list \<Rightarrow> Record \<Rightarrow> Record res" where
  "claim_change kind_of leaseID now seconds required excluded allowed r =
     failE (check_kind kind_of required excluded allowed r)
     (if rc_Admission r \<noteq> AdmissionAdmitted then Inl ErrNotAdmitted
      else if rc_Application r = StateClaimed \<and> rc_LeaseExpiresAt r > unix now then Inl ErrLeaseMismatch
      else if rc_Application r \<noteq> StateQueued \<and> rc_Application r \<noteq> StateClaimed then Inl ErrNotPending
      else if rc_LeaseID r = leaseID then Inl (Msg ''application lease identifier was reused'')
      else Inr (r\<lparr>rc_Application := StateClaimed, rc_LeaseID := leaseID,
        rc_LeaseExpiresAt := unix now + word_of_int seconds\<rparr>))"

definition claimForApplicationKind :: "(bytes \<Rightarrow> string option) \<Rightarrow> jout \<Rightarrow> string \<Rightarrow> string \<Rightarrow> gotime \<Rightarrow> duration \<Rightarrow>
    string \<Rightarrow> string list \<Rightarrow> string list \<Rightarrow> Journal \<Rightarrow> Record res \<times> Journal" where
  "claimForApplicationKind kind_of w eventID leaseID now lease required excluded allowed s =
     (case thenE (journal_usable s)
        (thenE (failIf (\<not> ids_Event eventID) ''invalid event identifier'')
        (thenE (failIf (\<not> leasePattern leaseID) ''invalid application lease identifier'')
        (thenE (failIf (bad_time now) ''invalid application claim time'')
          (failIf (in_seconds lease < MinLeaseSeconds \<or> in_seconds lease > MaxLeaseSeconds) ''application lease is outside its bounds'')))) of
        Some x \<Rightarrow> (Inl x, s)
      | None \<Rightarrow> change_record w eventID (claim_change kind_of leaseID now (in_seconds lease) required excluded allowed) s)"

definition ClaimForApplication :: "jout \<Rightarrow> string \<Rightarrow> string \<Rightarrow> gotime \<Rightarrow> duration \<Rightarrow> Journal \<Rightarrow> Record res \<times> Journal" where
  "ClaimForApplication w eventID leaseID now lease s = claimForApplicationKind (\<lambda>_. None) w eventID leaseID now lease [] [] [] s"

definition ClaimForApplicationKind :: "(bytes \<Rightarrow> string option) \<Rightarrow> jout \<Rightarrow> string \<Rightarrow> string \<Rightarrow> gotime \<Rightarrow> duration \<Rightarrow> string \<Rightarrow> Journal \<Rightarrow> Record res \<times> Journal" where
  "ClaimForApplicationKind kind_of w eventID leaseID now lease kind s =
     (if kind = [] then (Inl (Msg ''application event kind is required''), s)
      else claimForApplicationKind kind_of w eventID leaseID now lease kind [] [] s)"

text \<open>The lists of kinds two claims take: not empty, bounded, of distinct kinds.\<close>

fun bad_kinds :: "string \<Rightarrow> string list \<Rightarrow> string list \<Rightarrow> err option" where
  "bad_kinds which seen [] = None"
| "bad_kinds which seen (k # ks) =
     (if k = [] then Some (Msg (which @ '' application event kind is required''))
      else if k \<in> set seen then Some (Msg (which @ '' application event kinds must be unique''))
      else bad_kinds which (k # seen) ks)"

definition check_kinds :: "string \<Rightarrow> string list \<Rightarrow> err option" where
  "check_kinds which kinds = (if kinds = [] \<or> length kinds > 32
     then Some (Msg (which @ '' application event kinds are required and bounded'')) else bad_kinds which [] kinds)"

definition ClaimForApplicationKinds :: "(bytes \<Rightarrow> string option) \<Rightarrow> jout \<Rightarrow> string \<Rightarrow> string \<Rightarrow> gotime \<Rightarrow> duration \<Rightarrow> string list \<Rightarrow> Journal \<Rightarrow> Record res \<times> Journal" where
  "ClaimForApplicationKinds kind_of w eventID leaseID now lease kinds s = (case check_kinds ''allowed'' kinds of
     Some x \<Rightarrow> (Inl x, s) | None \<Rightarrow> claimForApplicationKind kind_of w eventID leaseID now lease [] [] kinds s)"

definition ClaimForApplicationExceptKinds :: "(bytes \<Rightarrow> string option) \<Rightarrow> jout \<Rightarrow> string \<Rightarrow> string \<Rightarrow> gotime \<Rightarrow> duration \<Rightarrow> string list \<Rightarrow> Journal \<Rightarrow> Record res \<times> Journal" where
  "ClaimForApplicationExceptKinds kind_of w eventID leaseID now lease kinds s = (case check_kinds ''excluded'' kinds of
     Some x \<Rightarrow> (Inl x, s) | None \<Rightarrow> claimForApplicationKind kind_of w eventID leaseID now lease [] kinds [] s)"

definition ClaimForApplicationExceptKind :: "(bytes \<Rightarrow> string option) \<Rightarrow> jout \<Rightarrow> string \<Rightarrow> string \<Rightarrow> gotime \<Rightarrow> duration \<Rightarrow> string \<Rightarrow> Journal \<Rightarrow> Record res \<times> Journal" where
  "ClaimForApplicationExceptKind kind_of w eventID leaseID now lease kind s =
     (if kind = [] then (Inl (Msg ''excluded application event kind is required''), s)
      else ClaimForApplicationExceptKinds kind_of w eventID leaseID now lease [kind] s)"

definition finish_change :: "string \<Rightarrow> ApplicationState \<Rightarrow> Code \<Rightarrow> gotime \<Rightarrow> Record \<Rightarrow> Record res" where
  "finish_change leaseID state code now r =
     (if rc_Application r \<noteq> StateClaimed then Inl ErrNotPending
      else if rc_LeaseID r \<noteq> leaseID then Inl ErrLeaseMismatch
      else let r' = r\<lparr>rc_Application := state, rc_LeaseID := [], rc_LeaseExpiresAt := 0\<rparr> in
        Inr (if state = StateApplied then r'\<lparr>rc_AppliedAtUnix := unix now\<rparr>
             else r'\<lparr>rc_RejectedAtUnix := unix now, rc_RejectionCode := code\<rparr>))"

definition finish :: "jout \<Rightarrow> string \<Rightarrow> string \<Rightarrow> ApplicationState \<Rightarrow> Code \<Rightarrow> gotime \<Rightarrow> Journal \<Rightarrow> Record res \<times> Journal" where
  "finish w eventID leaseID state code now s =
     (case thenE (journal_usable s)
        (thenE (failIf (\<not> ids_Event eventID) ''invalid event identifier'')
        (thenE (failIf (\<not> leasePattern leaseID) ''invalid application lease identifier'')
          (failIf (bad_time now) ''invalid application completion time''))) of
        Some x \<Rightarrow> (Inl x, s)
      | None \<Rightarrow> change_record w eventID (finish_change leaseID state code now) s)"

definition CompleteApplication :: "jout \<Rightarrow> string \<Rightarrow> string \<Rightarrow> gotime \<Rightarrow> Journal \<Rightarrow> Record res \<times> Journal" where
  "CompleteApplication w eventID leaseID now s = finish w eventID leaseID StateApplied [] now s"

definition RejectApplication :: "jout \<Rightarrow> string \<Rightarrow> string \<Rightarrow> Code \<Rightarrow> gotime \<Rightarrow> Journal \<Rightarrow> Record res \<times> Journal" where
  "RejectApplication w eventID leaseID code now s =
     (if code \<noteq> [] \<and> \<not> Known code then (Inl (Msg ''unknown rejection code''), s)
      else finish w eventID leaseID StateRejected code now s)"

definition MarkRead :: "jout \<Rightarrow> string \<Rightarrow> gotime \<Rightarrow> Journal \<Rightarrow> Record res \<times> Journal" where
  "MarkRead w eventID now s =
     (case thenE (journal_usable s)
        (thenE (failIf (\<not> ids_Event eventID) ''invalid event identifier'') (failIf (bad_time now) ''invalid read time'')) of
        Some x \<Rightarrow> (Inl x, s)
      | None \<Rightarrow> (case readRecord (jn_inbound s) (file_name eventID) of
          Missing \<Rightarrow> (Inl ErrUnknown, s)
        | Invalid \<Rightarrow> (Inl (Msg ''invalid event journal record''), s)
        | Found r \<Rightarrow> if rc_ReadAtUnix r \<noteq> 0 then (Inr r, s)
            else if unix now < rc_ReceivedAtUnix r then (Inl (Msg ''event read before it was received''), s)
            else journal_commit w (file_name eventID) (r\<lparr>rc_ReadAtUnix := unix now\<rparr>) s))"

definition Lookup :: "string \<Rightarrow> Journal \<Rightarrow> Record option res" where
  "Lookup eventID s =
     failE (journal_usable s) (failE (failIf (\<not> ids_Event eventID) ''invalid event identifier'')
     (case readRecord (jn_inbound s) (file_name eventID) of
        Missing \<Rightarrow> Inr None | Invalid \<Rightarrow> Inl (Msg ''invalid event journal record'') | Found r \<Rightarrow> Inr (Some r)))"

definition NewAttemptID :: "bytes \<Rightarrow> string res" where
  "NewAttemptID raw = ids_Format ''send_'' raw"

definition NewLeaseID :: "bytes \<Rightarrow> string res" where
  "NewLeaseID raw = ids_Format ''lease_'' raw"

definition NewSessionID :: "bytes \<Rightarrow> string res" where
  "NewSessionID raw = ids_Format ''ses_'' raw"

definition decide_change :: "AdmissionState \<Rightarrow> Code \<Rightarrow> gotime \<Rightarrow> Record \<Rightarrow> Record res" where
  "decide_change state code now r =
     (if rc_Admission r \<noteq> AdmissionPending then Inl ErrNotPending
      else let r' = r\<lparr>rc_Admission := state, rc_AdmissionAtUnix := unix now, rc_AdmissionCode := code\<rparr> in
        Inr (if state = AdmissionDenied
             then r'\<lparr>rc_Application := StateRejected, rc_RejectedAtUnix := unix now,
               rc_RejectionCode := if rc_RejectionCode r = [] then code else rc_RejectionCode r\<rparr>
             else r'))"

definition decideAdmission :: "jout \<Rightarrow> string \<Rightarrow> AdmissionState \<Rightarrow> Code \<Rightarrow> gotime \<Rightarrow> Journal \<Rightarrow> Record res \<times> Journal" where
  "decideAdmission w eventID state code now s =
     (case thenE (journal_usable s)
        (thenE (failIf (\<not> ids_Event eventID) ''invalid event identifier'') (failIf (bad_time now) ''invalid admission time'')) of
        Some x \<Rightarrow> (Inl x, s)
      | None \<Rightarrow> change_record w eventID (decide_change state code now) s)"

definition AdmitEvent :: "jout \<Rightarrow> string \<Rightarrow> gotime \<Rightarrow> Journal \<Rightarrow> Record res \<times> Journal" where
  "AdmitEvent w eventID now s = decideAdmission w eventID AdmissionAdmitted [] now s"

definition DenyEvent :: "jout \<Rightarrow> string \<Rightarrow> Code \<Rightarrow> gotime \<Rightarrow> Journal \<Rightarrow> Record res \<times> Journal" where
  "DenyEvent w eventID code now s =
     (if code \<noteq> [] \<and> \<not> Known code then (Inl (Msg ''unknown admission code''), s)
      else decideAdmission w eventID AdmissionDenied code now s)"

definition expiredCode :: Code where
  "expiredCode = CodeEventOutsideWindow"

text \<open>A loop over a directory that rewrites some of its records; \<open>ws\<close> gives the outcome of each write.\<close>

fun expire_loop :: "(string \<Rightarrow> jout) \<Rightarrow> u64 \<Rightarrow> string list \<Rightarrow> nat \<Rightarrow> Journal \<Rightarrow> (nat \<times> err option) \<times> Journal" where
  "expire_loop ws seconds [] n s = ((n, None), s)"
| "expire_loop ws seconds (name # names) n s = (case readRecord (jn_inbound s) name of
     Found r \<Rightarrow> if rc_Admission r = AdmissionPending \<and> Record_expired r (jn_quota s) seconds
       then (case journal_commit (ws name) name (r\<lparr>rc_Admission := AdmissionDenied, rc_AdmissionAtUnix := seconds,
               rc_AdmissionCode := expiredCode, rc_Application := StateRejected, rc_RejectedAtUnix := seconds,
               rc_RejectionCode := expiredCode\<rparr>) s of
             (Inl x, s') \<Rightarrow> ((n, Some x), s')
           | (Inr _, s') \<Rightarrow> expire_loop ws seconds names (n + 1) s')
       else expire_loop ws seconds names n s
   | _ \<Rightarrow> expire_loop ws seconds names n s)"

definition ExpirePendingAdmissions :: "(string \<Rightarrow> jout) \<Rightarrow> gotime \<Rightarrow> Journal \<Rightarrow> (nat \<times> err option) \<times> Journal" where
  "ExpirePendingAdmissions ws now s =
     (case thenE (journal_usable s) (failIf (bad_time now) ''invalid expiry time'') of
        Some x \<Rightarrow> ((0, Some x), s)
      | None \<Rightarrow> expire_loop ws (unix now) (listing (jn_inbound s)) 0 s)"

section \<open>Session commits\<close>

definition SessionState :: "string \<Rightarrow> Journal \<Rightarrow> SessionRecord option res" where
  "SessionState sessionID s =
     failE (journal_usable s) (failE (failIf (\<not> sessionPattern sessionID) ''invalid session identifier'')
     (case readSession (jn_sessions s) (file_name sessionID) of
        Missing \<Rightarrow> Inr None | Invalid \<Rightarrow> Inl (Msg ''invalid session record'') | Found r \<Rightarrow> Inr (Some r)))"

text \<open>The generation of a session as the commits read it: zero where there is no record.\<close>

definition generation :: "Journal \<Rightarrow> string \<Rightarrow> u64 res" where
  "generation s sessionID = (case readSession (jn_sessions s) (file_name sessionID) of
     Missing \<Rightarrow> Inr 0 | Invalid \<Rightarrow> Inl (Msg ''invalid session record'') | Found r \<Rightarrow> Inr (se_Generation r))"

definition put_session :: "jout \<Rightarrow> SessionRecord \<Rightarrow> Journal \<Rightarrow> err option \<times> Journal" where
  "put_session w r s = (case replace w (file_name (se_SessionID r)) r (jn_sessions s) of (x, d) \<Rightarrow> (x, s\<lparr>jn_sessions := d\<rparr>))"

definition writeSessionInbound :: "jout \<Rightarrow> string \<Rightarrow> string \<Rightarrow> u64 \<Rightarrow> bytes \<Rightarrow> string \<Rightarrow> SessionAuthority option \<Rightarrow> u64 \<Rightarrow> Journal \<Rightarrow> err option \<times> Journal" where
  "writeSessionInbound w sessionID algorithm gen state inboundEventID authority seconds s =
     (let r = \<lparr>se_Schema = SessionSchema, se_Generation = gen, se_SessionID = sessionID, se_AlgorithmID = algorithm,
        se_State = state, se_StateDigest = Digest state, se_UpdatedAtUnix = seconds, se_LastInboundEventID = inboundEventID,
        se_Bootstrap = None, se_Authority = authority\<rparr> in
      case readSession (jn_sessions s) (file_name sessionID) of
        Missing \<Rightarrow> put_session w r s
      | Invalid \<Rightarrow> (Some (Msg ''invalid session record''), s)
      | Found current \<Rightarrow> (case (authority, se_Authority current) of
          (None, _) \<Rightarrow> put_session w (r\<lparr>se_Bootstrap := se_Bootstrap current, se_Authority := se_Authority current\<rparr>) s
        | (Some a, None) \<Rightarrow> put_session w (r\<lparr>se_Bootstrap := se_Bootstrap current\<rparr>) s
        | (Some a, Some b) \<Rightarrow> if b \<noteq> a then (Some (Msg ''session authority cannot change''), s)
            else put_session w (r\<lparr>se_Bootstrap := se_Bootstrap current\<rparr>) s))"

definition writeSessionAt :: "jout \<Rightarrow> string \<Rightarrow> string \<Rightarrow> u64 \<Rightarrow> bytes \<Rightarrow> gotime \<Rightarrow> Journal \<Rightarrow> err option \<times> Journal" where
  "writeSessionAt w sessionID algorithm gen state now s = writeSessionInbound w sessionID algorithm gen state [] None (unix now) s"

definition writeSession :: "jout \<Rightarrow> string \<Rightarrow> string \<Rightarrow> bytes \<Rightarrow> gotime \<Rightarrow> Journal \<Rightarrow> err option \<times> Journal" where
  "writeSession w sessionID algorithm state now s = (case generation s sessionID of
     Inl x \<Rightarrow> (Some x, s) | Inr g \<Rightarrow> writeSessionAt w sessionID algorithm (g + 1) state now s)"

definition PutSessionState :: "jout \<Rightarrow> string \<Rightarrow> string \<Rightarrow> bytes \<Rightarrow> gotime \<Rightarrow> Journal \<Rightarrow> err option \<times> Journal" where
  "PutSessionState w sessionID algorithm state now s =
     (case thenE (journal_usable s) (validateSessionInput sessionID algorithm state now) of
        Some x \<Rightarrow> (Some x, s) | None \<Rightarrow> writeSession w sessionID algorithm state now s)"

definition belongs :: "FirstContact \<Rightarrow> string \<Rightarrow> err option" where
  "belongs bootstrap sessionID = failIf (DeviceSessionID (bi_SenderDeviceID (fc_Binding bootstrap)) (bi_RecipientDeviceID (fc_Binding bootstrap)) \<noteq> Inr sessionID)
     ''first-contact bootstrap belongs to another session''"

definition PutBootstrappedSessionState :: "jout \<Rightarrow> string \<Rightarrow> bytes \<Rightarrow> FirstContact \<Rightarrow> gotime \<Rightarrow> Journal \<Rightarrow> err option \<times> Journal" where
  "PutBootstrappedSessionState w sessionID state bootstrap now s =
     (case thenE (journal_usable s)
        (thenE (validateSessionInput sessionID (bi_AlgorithmID (fc_Binding bootstrap)) state now)
        (thenE (ValidateFirstContact bootstrap) (belongs bootstrap sessionID))) of
        Some x \<Rightarrow> (Some x, s)
      | None \<Rightarrow> (case readSession (jn_sessions s) (file_name sessionID) of
          Found _ \<Rightarrow> (Some ErrSessionConflict, s)
        | Invalid \<Rightarrow> (Some (Msg ''invalid session record''), s)
        | Missing \<Rightarrow> put_session w \<lparr>se_Schema = SessionSchema, se_Generation = 1, se_SessionID = sessionID,
            se_AlgorithmID = bi_AlgorithmID (fc_Binding bootstrap), se_State = state, se_StateDigest = Digest state,
            se_UpdatedAtUnix = unix now, se_LastInboundEventID = [], se_Bootstrap = Some bootstrap,
            se_Authority = Some (authorityFromBinding (fc_Binding bootstrap) True)\<rparr> s))"

definition advanceSession :: "jout \<Rightarrow> string \<Rightarrow> string \<Rightarrow> u64 \<Rightarrow> bytes \<Rightarrow> gotime \<Rightarrow> Journal \<Rightarrow> err option \<times> Journal" where
  "advanceSession w sessionID algorithm expected state now s = (case generation s sessionID of
     Inl x \<Rightarrow> (Some x, s)
   | Inr g \<Rightarrow> if g \<noteq> expected then (Some ErrSessionConflict, s)
       else writeSessionAt w sessionID algorithm (expected + 1) state now s)"

text \<open>
  \<open>commitInbound\<close> holds the lock twice: once inside \<open>Accept\<close>, and once for the session and the
  marker of the record. Other operations can run between the two, so each is a definition.
\<close>

record Inbound =
  ib_SessionID :: string
  ib_Algorithm :: string
  ib_ExpectedGeneration :: u64
  ib_Next :: bytes
  ib_Entry :: Entry
  ib_Authority :: "SessionAuthority option"
  ib_Now :: gotime

definition stage_inbound :: "jcreate \<Rightarrow> Inbound \<Rightarrow> Journal \<Rightarrow> (bool \<times> Record) res \<times> Journal" where
  "stage_inbound c i s =
     (case thenE (journal_usable s) (validateSessionInput (ib_SessionID i) (ib_Algorithm i) (ib_Next i) (ib_Now i)) of
        Some x \<Rightarrow> (Inl x, s)
      | None \<Rightarrow> Accept c ((ib_Entry i)\<lparr>en_Transition := Some \<lparr>tr_SessionID = ib_SessionID i, tr_Algorithm = ib_Algorithm i,
          tr_ExpectedGeneration = ib_ExpectedGeneration i, tr_NextState = ib_Next i, tr_Authority = ib_Authority i\<rparr>\<rparr>) s)"

definition advance_inbound :: "jout \<Rightarrow> jout \<Rightarrow> Inbound \<Rightarrow> bool \<Rightarrow> Record \<Rightarrow> Journal \<Rightarrow> (bool \<times> Record) res \<times> Journal" where
  "advance_inbound ws wr i fresh r s =
     (case generation s (ib_SessionID i) of
        Inl x \<Rightarrow> (Inl x, s)
      | Inr g \<Rightarrow> if g \<noteq> ib_ExpectedGeneration i
          then (case journal_commit wr (file_name (en_EventID (ib_Entry i))) (r\<lparr>rc_Crypto := CryptoAbandoned\<rparr>) s of
              (Inl x, s') \<Rightarrow> (Inl x, s') | (Inr _, s') \<Rightarrow> (Inl ErrSessionConflict, s'))
          else (case writeSessionInbound ws (ib_SessionID i) (ib_Algorithm i) (ib_ExpectedGeneration i + 1) (ib_Next i)
                  (en_EventID (ib_Entry i)) (ib_Authority i) (unix (ib_Now i)) s of
              (Some x, s') \<Rightarrow> (Inl x, s')
            | (None, s') \<Rightarrow> (case journal_commit wr (file_name (en_EventID (ib_Entry i)))
                  (r\<lparr>rc_Crypto := CryptoCommitted, rc_CryptoAtUnix := unix (ib_Now i)\<rparr>) s' of
                (Inl x, s'') \<Rightarrow> (Inl x, s'') | (Inr r', s'') \<Rightarrow> (Inr (fresh, r'), s''))))"

definition commitInbound :: "jcreate \<Rightarrow> jout \<Rightarrow> jout \<Rightarrow> Inbound \<Rightarrow> Journal \<Rightarrow> (bool \<times> Record) res \<times> Journal" where
  "commitInbound c ws wr i s = (case stage_inbound c i s of
     (Inl x, s') \<Rightarrow> (Inl x, s')
   | (Inr (fresh, r), s') \<Rightarrow> if \<not> fresh \<and> rc_Crypto r = CryptoCommitted then (Inr (False, r), s')
       else advance_inbound ws wr i fresh r s')"

definition CommitInbound :: "jcreate \<Rightarrow> jout \<Rightarrow> jout \<Rightarrow> string \<Rightarrow> string \<Rightarrow> u64 \<Rightarrow> bytes \<Rightarrow> Entry \<Rightarrow> gotime \<Rightarrow> Journal \<Rightarrow> (bool \<times> Record) res \<times> Journal" where
  "CommitInbound c ws wr sessionID algorithm expected nxt entry now s =
     commitInbound c ws wr \<lparr>ib_SessionID = sessionID, ib_Algorithm = algorithm, ib_ExpectedGeneration = expected,
       ib_Next = nxt, ib_Entry = entry, ib_Authority = None, ib_Now = now\<rparr> s"

definition CommitInboundFirstContact :: "jcreate \<Rightarrow> jout \<Rightarrow> jout \<Rightarrow> string \<Rightarrow> string \<Rightarrow> bytes \<Rightarrow> Entry \<Rightarrow> FirstContact \<Rightarrow> gotime \<Rightarrow> Journal \<Rightarrow> (bool \<times> Record) res \<times> Journal" where
  "CommitInboundFirstContact c ws wr sessionID algorithm nxt entry bootstrap now s =
     (case thenE (ValidateFirstContact bootstrap) (belongs bootstrap sessionID) of
        Some x \<Rightarrow> (Inl x, s)
      | None \<Rightarrow> commitInbound c ws wr \<lparr>ib_SessionID = sessionID, ib_Algorithm = algorithm, ib_ExpectedGeneration = 0,
          ib_Next = nxt, ib_Entry = entry, ib_Authority = Some (authorityFromBinding (fc_Binding bootstrap) False), ib_Now = now\<rparr> s)"

section \<open>Recovery\<close>

definition resolveStaged :: "jout \<Rightarrow> jout \<Rightarrow> string \<Rightarrow> Record \<Rightarrow> Journal \<Rightarrow> err option \<times> Journal" where
  "resolveStaged ws wr name r s =
     (let mark = (\<lambda>c s. case journal_commit wr name (r\<lparr>rc_Crypto := c\<rparr>) s of (Inl x, s') \<Rightarrow> (Some x, s') | (Inr _, s') \<Rightarrow> (None, s')) in
      if \<not> sessionPattern (rc_SessionID r) then mark CryptoAbandoned s
      else case generation s (rc_SessionID r) of
        Inl x \<Rightarrow> (Some x, s)
      | Inr g \<Rightarrow> if g = rc_ExpectedGen r
          then (case Record_NextState r of
              Inl _ \<Rightarrow> mark CryptoAbandoned s
            | Inr nxt \<Rightarrow> (case writeSessionInbound ws (rc_SessionID r) (rc_AlgorithmID r) (rc_ExpectedGen r + 1) nxt
                  (rc_EventID r) (rc_SessionAuthority r) (rc_CryptoAtUnix r) s of
                (Some x, s') \<Rightarrow> (Some x, s') | (None, s') \<Rightarrow> mark CryptoCommitted s'))
          else if g = rc_ExpectedGen r + 1 \<and>
              (case readSession (jn_sessions s) (file_name (rc_SessionID r)) of
                 Found current \<Rightarrow> se_LastInboundEventID current = rc_EventID r | _ \<Rightarrow> rc_EventID r = [])
          then mark CryptoCommitted s else mark CryptoAbandoned s)"

fun recover_loop :: "(string \<Rightarrow> jout \<times> jout) \<Rightarrow> string list \<Rightarrow> Journal \<Rightarrow> err option \<times> Journal" where
  "recover_loop ws [] s = (None, s)"
| "recover_loop ws (name # names) s = (case readRecord (jn_inbound s) name of
     Found r \<Rightarrow> if rc_Crypto r = CryptoStaged
       then (case resolveStaged (fst (ws name)) (snd (ws name)) name r s of
           (Some x, s') \<Rightarrow> (Some x, s') | (None, s') \<Rightarrow> recover_loop ws names s')
       else recover_loop ws names s
   | _ \<Rightarrow> recover_loop ws names s)"

definition recoverStaged :: "(string \<Rightarrow> jout \<times> jout) \<Rightarrow> Journal \<Rightarrow> err option \<times> Journal" where
  "recoverStaged ws s = recover_loop ws (listing (jn_inbound s)) s"

text \<open>
  Opening takes the lock, which the process then holds, and finishes what a crash interrupted.
  The repair of budgets and negotiations that follows is \<open>reconcileCommerce\<close> of the theory
  \<open>Commerce\<close>, on other directories.
\<close>

definition openJournalAt :: "(string \<Rightarrow> jout \<times> jout) \<Rightarrow> Quota \<Rightarrow> Journal \<Rightarrow> err option \<times> Journal" where
  "openJournalAt ws quota s = (case recoverStaged ws (s\<lparr>jn_held := True, jn_quota := quota\<rparr>) of
     (None, s') \<Rightarrow> (None, s') | (Some x, s') \<Rightarrow> (Some x, s'\<lparr>jn_held := False\<rparr>))"

definition OpenWith :: "(string \<Rightarrow> jout \<times> jout) \<Rightarrow> Quota \<Rightarrow> Journal \<Rightarrow> err option \<times> Journal" where
  "OpenWith ws quota s = (case Quota_Validate quota of Some x \<Rightarrow> (Some x, s) | None \<Rightarrow> openJournalAt ws quota s)"

definition journal_Open :: "(string \<Rightarrow> jout \<times> jout) \<Rightarrow> Journal \<Rightarrow> err option \<times> Journal" where
  "journal_Open ws s = OpenWith ws DefaultQuota s"

definition journal_Close :: "Journal \<Rightarrow> Journal" where
  "journal_Close s = s\<lparr>jn_held := False\<rparr>"

section \<open>Outbound events\<close>

definition outbound_delivery :: "Outbound \<Rightarrow> Delivery" where
  "outbound_delivery r = \<lparr>de_Schema = DeliverySchema, de_DeliveryID = ob_DeliveryID r, de_EventID = ob_EventID r,
     de_SessionID = ob_SessionID r, de_Payload = ob_Payload r, de_PayloadDigest = Digest (ob_Payload r), de_Ciphertext = [],
     de_CiphertextDigest = [], de_AttemptID = [], de_AttemptExpiresAt = 0, de_RecipientEndpointID = ob_RecipientEndpointID r,
     de_RecipientDeviceID = ob_RecipientDeviceID r, de_ConversationID = ob_ConversationID r, de_State = StatePending,
     de_Attempts = 0, de_LastCode = [], de_NextAttemptAtUnix = ob_CreatedAtUnix r, de_CreatedAtUnix = ob_CreatedAtUnix r,
     de_ExpiresAtUnix = ob_ExpiresAtUnix r, de_SettledAtUnix = 0\<rparr>"

definition Enqueue :: "jcreate \<Rightarrow> Outbound \<Rightarrow> Journal \<Rightarrow> (bool \<times> Delivery) res \<times> Journal" where
  "Enqueue c r s =
     (case thenE (journal_usable s) (validateOutbound r) of
        Some x \<Rightarrow> (Inl x, s)
      | None \<Rightarrow> (let name = file_name (if ob_DeliveryID r = [] then ob_EventID r else ob_DeliveryID r) in
          case readDelivery (jn_outbound s) name of
            Missing \<Rightarrow> (case create_record c name (outbound_delivery r) (jn_outbound s) of
                (None, d) \<Rightarrow> (Inr (True, outbound_delivery r), s\<lparr>jn_outbound := d\<rparr>)
              | (Some x, d) \<Rightarrow> (Inl x, s\<lparr>jn_outbound := d\<rparr>))
          | Invalid \<Rightarrow> (Inl (Msg ''invalid delivery record''), s)
          | Found e \<Rightarrow> if de_RecipientEndpointID e \<noteq> ob_RecipientEndpointID r \<or> de_RecipientDeviceID e \<noteq> ob_RecipientDeviceID r \<or>
                de_ConversationID e \<noteq> ob_ConversationID r \<or> de_SessionID e \<noteq> ob_SessionID r \<or>
                de_PayloadDigest e \<noteq> Digest (ob_Payload r) then (Inl ErrConflict, s) else (Inr (False, e), s)))"

definition due :: "u64 \<Rightarrow> Delivery \<Rightarrow> bool" where
  "due seconds d \<longleftrightarrow> de_State d = StatePending \<and> seconds < de_ExpiresAtUnix d \<and> de_NextAttemptAtUnix d \<le> seconds \<and>
     de_AttemptExpiresAt d \<le> seconds"

definition Due :: "gotime \<Rightarrow> Journal \<Rightarrow> Delivery list res" where
  "Due now s =
     failE (journal_usable s) (failE (failIf (bad_time now) ''invalid delivery sweep time'')
     (Inr (sort_key de_NextAttemptAtUnix (sort_key Delivery_Key (filter (due (unix now)) (readable valid_delivery (jn_outbound s)))))))"

definition commitDelivery :: "jout \<Rightarrow> string \<Rightarrow> Delivery \<Rightarrow> Journal \<Rightarrow> Delivery res \<times> Journal" where
  "commitDelivery w name d s = (case replace w name d (jn_outbound s) of
     (None, o') \<Rightarrow> (Inr d, s\<lparr>jn_outbound := o'\<rparr>) | (Some x, o') \<Rightarrow> (Inl x, s\<lparr>jn_outbound := o'\<rparr>))"

definition change_delivery :: "jout \<Rightarrow> string \<Rightarrow> (Delivery \<Rightarrow> Delivery res) \<Rightarrow> Journal \<Rightarrow> Delivery res \<times> Journal" where
  "change_delivery w deliveryID f s = (case readDelivery (jn_outbound s) (file_name deliveryID) of
     Missing \<Rightarrow> (Inl ErrUnknown, s)
   | Invalid \<Rightarrow> (Inl (Msg ''invalid delivery record''), s)
   | Found d \<Rightarrow> (case f d of Inl x \<Rightarrow> (Inl x, s) | Inr d' \<Rightarrow> commitDelivery w (file_name deliveryID) d' s))"

definition ClaimForSend :: "jout \<Rightarrow> string \<Rightarrow> string \<Rightarrow> gotime \<Rightarrow> duration \<Rightarrow> Journal \<Rightarrow> Delivery res \<times> Journal" where
  "ClaimForSend w deliveryID attemptID now lease s =
     (case thenE (journal_usable s)
        (thenE (failIf (\<not> validDeliveryID deliveryID) ''invalid delivery identifier'')
        (thenE (failIf (\<not> attemptPattern attemptID) ''invalid send attempt identifier'')
        (thenE (failIf (bad_time now) ''invalid send claim time'')
          (failIf (in_seconds lease < MinLeaseSeconds \<or> in_seconds lease > MaxLeaseSeconds) ''send lease is outside its bounds'')))) of
        Some x \<Rightarrow> (Inl x, s)
      | None \<Rightarrow> change_delivery w deliveryID (\<lambda>d.
          if de_State d \<noteq> StatePending then Inl ErrNotPending
          else if de_AttemptExpiresAt d > unix now \<and> de_AttemptID d \<noteq> attemptID then Inl ErrLeaseMismatch
          else Inr (d\<lparr>de_AttemptID := attemptID, de_AttemptExpiresAt := unix now + word_of_int (in_seconds lease)\<rparr>)) s)"

definition holdsAttempt :: "Delivery \<Rightarrow> string \<Rightarrow> err option" where
  "holdsAttempt d attemptID = (if de_AttemptID d = [] \<or> de_AttemptID d \<noteq> attemptID then Some ErrLeaseMismatch else None)"

definition failed_change :: "string \<Rightarrow> Code \<Rightarrow> u64 \<Rightarrow> Delivery \<Rightarrow> Delivery res" where
  "failed_change attemptID code seconds d =
     (if de_State d \<noteq> StatePending then Inl ErrNotPending
      else failE (holdsAttempt d attemptID)
        (let d' = d\<lparr>de_Attempts := de_Attempts d + 1, de_AttemptID := [], de_AttemptExpiresAt := 0, de_LastCode := code\<rparr>;
             retry = NextCode code (uint (de_Attempts d'));
             abandoned = d'\<lparr>de_State := StateAbandoned, de_NextAttemptAtUnix := 0, de_SettledAtUnix := seconds\<rparr>;
             nxt = seconds + word_of_int (in_seconds (ry_After retry)) in
         Inr (if de_ExpiresAtUnix d \<le> seconds then abandoned
              else if ry_Allowed retry then (if de_ExpiresAtUnix d \<le> nxt then abandoned else d'\<lparr>de_NextAttemptAtUnix := nxt\<rparr>)
              else if ry_Disposition retry = Approval then d'\<lparr>de_State := StateHeld, de_NextAttemptAtUnix := 0\<rparr>
              else abandoned)))"

definition Failed :: "jout \<Rightarrow> string \<Rightarrow> string \<Rightarrow> Code \<Rightarrow> gotime \<Rightarrow> Journal \<Rightarrow> Delivery res \<times> Journal" where
  "Failed w deliveryID attemptID code now s =
     (case thenE (journal_usable s)
        (thenE (failIf (\<not> validDeliveryID deliveryID) ''invalid delivery identifier'')
          (failIf (bad_time now) ''invalid delivery attempt time'')) of
        Some x \<Rightarrow> (Inl x, s)
      | None \<Rightarrow> change_delivery w deliveryID (failed_change attemptID code (unix now)) s)"

definition settle_change :: "string \<Rightarrow> DeliveryState \<Rightarrow> u64 \<Rightarrow> Delivery \<Rightarrow> Delivery res" where
  "settle_change attemptID state seconds d =
     (if de_State d \<noteq> StatePending \<and> de_State d \<noteq> StateHeld then Inl ErrNotPending
      else failE (if attemptID \<noteq> [] then holdsAttempt d attemptID else None)
        (Inr (d\<lparr>de_State := state, de_NextAttemptAtUnix := 0, de_AttemptID := [], de_AttemptExpiresAt := 0, de_SettledAtUnix := seconds\<rparr>)))"

definition delivery_settle :: "jout \<Rightarrow> string \<Rightarrow> string \<Rightarrow> DeliveryState \<Rightarrow> gotime \<Rightarrow> Journal \<Rightarrow> Delivery res \<times> Journal" where
  "delivery_settle w deliveryID attemptID state now s =
     (case thenE (journal_usable s)
        (thenE (failIf (\<not> validDeliveryID deliveryID) ''invalid delivery identifier'')
          (failIf (bad_time now) ''invalid delivery settle time'')) of
        Some x \<Rightarrow> (Inl x, s)
      | None \<Rightarrow> change_delivery w deliveryID (settle_change attemptID state (unix now)) s)"

definition Delivered :: "jout \<Rightarrow> string \<Rightarrow> string \<Rightarrow> gotime \<Rightarrow> Journal \<Rightarrow> Delivery res \<times> Journal" where
  "Delivered w deliveryID attemptID now s = delivery_settle w deliveryID attemptID StateDelivered now s"

definition Abandon :: "jout \<Rightarrow> string \<Rightarrow> gotime \<Rightarrow> Journal \<Rightarrow> Delivery res \<times> Journal" where
  "Abandon w deliveryID now s = delivery_settle w deliveryID [] StateAbandoned now s"

definition Resume :: "jout \<Rightarrow> string \<Rightarrow> gotime \<Rightarrow> Journal \<Rightarrow> Delivery res \<times> Journal" where
  "Resume w deliveryID now s =
     (case thenE (journal_usable s)
        (thenE (failIf (\<not> validDeliveryID deliveryID) ''invalid delivery identifier'')
          (failIf (bad_time now) ''invalid delivery resume time'')) of
        Some x \<Rightarrow> (Inl x, s)
      | None \<Rightarrow> change_delivery w deliveryID (\<lambda>d.
          if de_State d \<noteq> StateHeld then Inl ErrNotPending
          else if de_ExpiresAtUnix d \<le> unix now then Inl (Msg ''delivery expired while it was held'')
          else Inr (d\<lparr>de_State := StatePending, de_NextAttemptAtUnix := unix now, de_AttemptID := [], de_AttemptExpiresAt := 0\<rparr>)) s)"

definition lookupDelivery :: "string \<Rightarrow> Journal \<Rightarrow> Delivery option res" where
  "lookupDelivery deliveryID s =
     failE (journal_usable s) (failE (failIf (\<not> validDeliveryID deliveryID) ''invalid delivery identifier'')
     (case readDelivery (jn_outbound s) (file_name deliveryID) of
        Missing \<Rightarrow> Inr None | Invalid \<Rightarrow> Inl (Msg ''invalid delivery record'') | Found d \<Rightarrow> Inr (Some d)))"

definition LookupDeliveryCopy :: "string \<Rightarrow> Journal \<Rightarrow> Delivery option res" where
  "LookupDeliveryCopy deliveryID s =
     failE (failIf (\<not> deliveryCopyPattern deliveryID) ''invalid delivery copy identifier'') (lookupDelivery deliveryID s)"

fun expire_deliveries_loop :: "(string \<Rightarrow> jout) \<Rightarrow> u64 \<Rightarrow> string list \<Rightarrow> nat \<Rightarrow> Journal \<Rightarrow> (nat \<times> err option) \<times> Journal" where
  "expire_deliveries_loop ws seconds [] n s = ((n, None), s)"
| "expire_deliveries_loop ws seconds (name # names) n s = (case readDelivery (jn_outbound s) name of
     Found d \<Rightarrow> if (de_State d = StatePending \<or> de_State d = StateHeld) \<and> de_ExpiresAtUnix d \<le> seconds
       then (case commitDelivery (ws name) name (d\<lparr>de_State := StateAbandoned, de_NextAttemptAtUnix := 0, de_AttemptID := [],
               de_AttemptExpiresAt := 0, de_SettledAtUnix := seconds,
               de_LastCode := if de_LastCode d = [] then CodeTimeout else de_LastCode d\<rparr>) s of
             (Inl x, s') \<Rightarrow> ((n, Some x), s')
           | (Inr _, s') \<Rightarrow> expire_deliveries_loop ws seconds names (n + 1) s')
       else expire_deliveries_loop ws seconds names n s
   | _ \<Rightarrow> expire_deliveries_loop ws seconds names n s)"

definition ExpireDeliveries :: "(string \<Rightarrow> jout) \<Rightarrow> gotime \<Rightarrow> Journal \<Rightarrow> (nat \<times> err option) \<times> Journal" where
  "ExpireDeliveries ws now s =
     (case thenE (journal_usable s) (failIf (bad_time now) ''invalid delivery expiry time'') of
        Some x \<Rightarrow> ((0, Some x), s)
      | None \<Rightarrow> expire_deliveries_loop ws (unix now) (listing (jn_outbound s)) 0 s)"

definition CommitSealed :: "jout \<Rightarrow> jout \<Rightarrow> string \<Rightarrow> string \<Rightarrow> u64 \<Rightarrow> bytes \<Rightarrow> string \<Rightarrow> string \<Rightarrow> bytes \<Rightarrow> gotime \<Rightarrow> Journal \<Rightarrow> Delivery res \<times> Journal" where
  "CommitSealed ws wd sessionID algorithm expected nxt deliveryID attemptID ciphertext now s =
     (case thenE (journal_usable s)
        (thenE (validateSessionInput sessionID algorithm nxt now)
        (thenE (failIf (\<not> validDeliveryID deliveryID) ''invalid delivery identifier'')
        (thenE (failIf (\<not> attemptPattern attemptID) ''invalid send attempt identifier'')
          (failIf (ciphertext = [] \<or> length ciphertext > MaxCiphertextBytes) ''invalid sealed ciphertext'')))) of
        Some x \<Rightarrow> (Inl x, s)
      | None \<Rightarrow> (case readDelivery (jn_outbound s) (file_name deliveryID) of
          Missing \<Rightarrow> (Inl ErrUnknown, s)
        | Invalid \<Rightarrow> (Inl (Msg ''invalid delivery record''), s)
        | Found d \<Rightarrow>
            if de_State d \<noteq> StatePending then (Inl ErrNotPending, s)
            else if de_SessionID d \<noteq> sessionID then (Inl (Msg ''sealed message belongs to another session''), s)
            else if de_AttemptID d \<noteq> attemptID then (Inl ErrLeaseMismatch, s)
            else if de_AttemptExpiresAt d \<noteq> 0 \<and> de_AttemptExpiresAt d \<le> unix now then (Inl ErrLeaseMismatch, s)
            else if de_Ciphertext d \<noteq> [] then (Inl ErrAlreadySealed, s)
            else (case advanceSession ws sessionID algorithm expected nxt now s of
                (Some x, s') \<Rightarrow> (Inl x, s')
              | (None, s') \<Rightarrow> commitDelivery wd (file_name deliveryID)
                  (d\<lparr>de_Ciphertext := ciphertext, de_CiphertextDigest := Digest ciphertext\<rparr>) s')))"

section \<open>Removal of finished records\<close>

definition MinClaimRetention :: duration where
  "MinClaimRetention = 30 * 24 * 60 * 60 * Second"

record PruneReport =
  pn_ClaimsRemoved :: nat
  pn_DeliveriesRemoved :: nat
  pn_Unreadable :: "string list"

text \<open>\<open>ok name\<close> is whether the file could be removed; \<open>synced\<close> whether the directory was synced.\<close>

fun sweep_loop :: "('v \<Rightarrow> bool) \<Rightarrow> ('v \<Rightarrow> bool) \<Rightarrow> (string \<Rightarrow> bool) \<Rightarrow> string list \<Rightarrow> nat \<Rightarrow> string list \<Rightarrow>
    (string, 'v stored) dir \<Rightarrow> (nat \<times> string list) res \<times> (string, 'v stored) dir" where
  "sweep_loop valid expired ok [] n un d = (Inr (n, un), d)"
| "sweep_loop valid expired ok (name # names) n un d = (case read_file valid d name of
     Found v \<Rightarrow> if expired v
       then (if ok name then sweep_loop valid expired ok names (n + 1) un (AList.delete name d)
             else (Inl (Msg ''remove event journal record''), d))
       else sweep_loop valid expired ok names n un d
   | _ \<Rightarrow> sweep_loop valid expired ok names n (un @ [name]) d)"

definition sweep :: "('v \<Rightarrow> bool) \<Rightarrow> ('v \<Rightarrow> bool) \<Rightarrow> (string \<Rightarrow> bool) \<Rightarrow> bool \<Rightarrow> (string, 'v stored) dir \<Rightarrow>
    (nat \<times> string list) res \<times> (string, 'v stored) dir" where
  "sweep valid expired ok synced d = (case sweep_loop valid expired ok (listing d) 0 [] d of
     (Inl x, d') \<Rightarrow> (Inl x, d')
   | (Inr (n, un), d') \<Rightarrow> if n > 0 \<and> \<not> synced then (Inl (Msg ''sync event journal directory''), d') else (Inr (n, un), d'))"

definition claim_expired :: "u64 \<Rightarrow> u64 \<Rightarrow> Record \<Rightarrow> bool" where
  "claim_expired horizon seconds r \<longleftrightarrow> Terminal r \<and> rc_ReceivedAtUnix r + horizon \<le> seconds"

definition delivery_expired :: "u64 \<Rightarrow> u64 \<Rightarrow> Delivery \<Rightarrow> bool" where
  "delivery_expired horizon seconds d \<longleftrightarrow> (de_State d = StateDelivered \<or> de_State d = StateAbandoned) \<and>
     (if de_SettledAtUnix d = 0 then de_CreatedAtUnix d else de_SettledAtUnix d) + horizon \<le> seconds"

definition Prune :: "(string \<Rightarrow> bool) \<Rightarrow> bool \<Rightarrow> (string \<Rightarrow> bool) \<Rightarrow> bool \<Rightarrow> gotime \<Rightarrow> duration \<Rightarrow> Journal \<Rightarrow> PruneReport res \<times> Journal" where
  "Prune oki si oko so now retention s =
     (case thenE (journal_usable s)
        (thenE (failIf (bad_time now) ''invalid prune time'')
          (failIf (retention < MinClaimRetention) ''retention is shorter than the replay window it must cover'')) of
        Some x \<Rightarrow> (Inl x, s)
      | None \<Rightarrow> (let horizon = word_of_int (in_seconds retention) in
          case sweep valid_record (claim_expired horizon (unix now)) oki si (jn_inbound s) of
            (Inl x, d) \<Rightarrow> (Inl x, s\<lparr>jn_inbound := d\<rparr>)
          | (Inr (n, un), d) \<Rightarrow> (case sweep valid_delivery (delivery_expired horizon (unix now)) oko so (jn_outbound s) of
              (Inl x, o') \<Rightarrow> (Inl x, s\<lparr>jn_inbound := d, jn_outbound := o'\<rparr>)
            | (Inr (m, un'), o') \<Rightarrow> (Inr \<lparr>pn_ClaimsRemoved = n, pn_DeliveriesRemoved = m,
                pn_Unreadable = sort (un @ un' @ filter (\<lambda>name. case readSession (jn_sessions s) name of Found _ \<Rightarrow> False | _ \<Rightarrow> True)
                  (listing (jn_sessions s)))\<rparr>, s\<lparr>jn_inbound := d, jn_outbound := o'\<rparr>))))"

end
