(* ===== verification/JournalInbox.thy ===== *)
theory JournalInbox
  imports EventJournal
begin

text \<open>
  What the inbound half of the journal promises: an abstract inbox in which each event is
  stored once, leased to one worker at a time and settled once, and the refinement that every
  run of the journal's operations, with any failing or half-done writes and any number of
  deaths and restarts, is a run of that inbox. Pruning, which forgets settled events after the
  replay window, is left out of the runs. Inbound commits are taken one after another here;
  the last theorem shows what happens when two of them overlap.
\<close>

section \<open>The abstract inbox\<close>

datatype phase = Absent | Blocked | Queued | Taken string u64 | Applied | Rejected

datatype label = Stored string | Leased string string u64 u64 | Done string string | Refused string string

type_synonym inbox = "string \<Rightarrow> phase"

inductive move :: "inbox \<Rightarrow> label \<Rightarrow> inbox \<Rightarrow> bool" where
  store: "b e = Absent \<Longrightarrow> move b (Stored e) (b(e := Queued))"
| lease: "b e = Queued \<Longrightarrow> move b (Leased e l now x) (b(e := Taken l x))"
| take_over: "b e = Taken l' x' \<Longrightarrow> x' \<le> now \<Longrightarrow> l' \<noteq> l \<Longrightarrow> move b (Leased e l now x) (b(e := Taken l x))"
| complete: "b e = Taken l x \<Longrightarrow> move b (Done e l) (b(e := Applied))"
| refuse: "b e = Taken l x \<Longrightarrow> move b (Refused e l) (b(e := Rejected))"

text \<open>
  What happens without a report: a move whose writer was told of a failure, an owner's denial or
  an expiry, and a record torn while it was created.
\<close>

inductive silent :: "inbox \<Rightarrow> inbox \<Rightarrow> bool" where
  unreported: "move b l c \<Longrightarrow> silent b c"
| denied: "b e = Queued \<Longrightarrow> silent b (b(e := Rejected))"
| torn: "b e = Absent \<Longrightarrow> silent b (b(e := Blocked))"

inductive inbox_run :: "inbox \<Rightarrow> label list \<Rightarrow> inbox \<Rightarrow> bool" where
  start: "inbox_run b [] b"
| quiet: "inbox_run a ls b \<Longrightarrow> silent b c \<Longrightarrow> inbox_run a ls c"
| told: "inbox_run a ls b \<Longrightarrow> move b l c \<Longrightarrow> inbox_run a (ls @ [l]) c"

definition completes :: "string \<Rightarrow> label \<Rightarrow> bool" where
  "completes e l \<longleftrightarrow> (case l of Done e' _ \<Rightarrow> e' = e | _ \<Rightarrow> False)"

section \<open>Runs of the journal\<close>

datatype jop =
    OpAccept jcreate Entry
  | OpInbound jcreate jout jout Inbound
  | OpClaim "bytes \<Rightarrow> string option" jout string string gotime duration string "string list" "string list"
  | OpComplete jout string string gotime
  | OpReject jout string string Code gotime
  | OpRead jout string gotime
  | OpAdmit jout string gotime
  | OpDeny jout string Code gotime
  | OpExpire "string \<Rightarrow> jout" gotime
  | OpReopen "string \<Rightarrow> jout \<times> jout" Quota
  | OpClose
  | OpPutSession jout string string bytes gotime
  | OpBootstrap jout string bytes FirstContact gotime
  | OpSealed jout jout string string u64 bytes string string bytes gotime
  | OpEnqueue jcreate Outbound
  | OpSend jout string string gotime duration
  | OpFailed jout string string Code gotime
  | OpDelivered jout string string gotime
  | OpAbandon jout string gotime
  | OpResume jout string gotime
  | OpExpireDeliveries "string \<Rightarrow> jout" gotime

fun journal_do :: "jop \<Rightarrow> Journal \<Rightarrow> label list \<times> Journal" where
  "journal_do (OpAccept c e) s = (case Accept c e s of (Inr (True, r), s') \<Rightarrow> ([Stored (en_EventID e)], s') | (_, s') \<Rightarrow> ([], s'))"
| "journal_do (OpInbound c ws wr i) s = (case commitInbound c ws wr i s of
     (Inr (True, r), s') \<Rightarrow> ([Stored (en_EventID (ib_Entry i))], s') | (_, s') \<Rightarrow> ([], s'))"
| "journal_do (OpClaim kind_of w e l now d req ex al) s = (case claimForApplicationKind kind_of w e l now d req ex al s of
     (Inr r, s') \<Rightarrow> ([Leased e l (unix now) (rc_LeaseExpiresAt r)], s') | (Inl _, s') \<Rightarrow> ([], s'))"
| "journal_do (OpComplete w e l now) s = (case CompleteApplication w e l now s of (Inr r, s') \<Rightarrow> ([Done e l], s') | (Inl _, s') \<Rightarrow> ([], s'))"
| "journal_do (OpReject w e l code now) s = (case RejectApplication w e l code now s of (Inr r, s') \<Rightarrow> ([Refused e l], s') | (Inl _, s') \<Rightarrow> ([], s'))"
| "journal_do (OpRead w e now) s = ([], snd (MarkRead w e now s))"
| "journal_do (OpAdmit w e now) s = ([], snd (AdmitEvent w e now s))"
| "journal_do (OpDeny w e code now) s = ([], snd (DenyEvent w e code now s))"
| "journal_do (OpExpire ws now) s = ([], snd (ExpirePendingAdmissions ws now s))"
| "journal_do (OpReopen ws q) s = ([], snd (OpenWith ws q s))"
| "journal_do OpClose s = ([], journal_Close s)"
| "journal_do (OpPutSession w i a st now) s = ([], snd (PutSessionState w i a st now s))"
| "journal_do (OpBootstrap w i st fc now) s = ([], snd (PutBootstrappedSessionState w i st fc now s))"
| "journal_do (OpSealed ws wd i a g st di at c now) s = ([], snd (CommitSealed ws wd i a g st di at c now s))"
| "journal_do (OpEnqueue c r) s = ([], snd (Enqueue c r s))"
| "journal_do (OpSend w di at now d) s = ([], snd (ClaimForSend w di at now d s))"
| "journal_do (OpFailed w di at code now) s = ([], snd (Failed w di at code now s))"
| "journal_do (OpDelivered w di at now) s = ([], snd (Delivered w di at now s))"
| "journal_do (OpAbandon w di now) s = ([], snd (Abandon w di now s))"
| "journal_do (OpResume w di now) s = ([], snd (Resume w di now s))"
| "journal_do (OpExpireDeliveries ws now) s = ([], snd (ExpireDeliveries ws now s))"

fun journal_run :: "jop list \<Rightarrow> Journal \<Rightarrow> label list \<times> Journal" where
  "journal_run [] s = ([], s)"
| "journal_run (op # ops) s = (case journal_do op s of (ls, s') \<Rightarrow> (case journal_run ops s' of (ls', s'') \<Rightarrow> (ls @ ls', s'')))"

definition new_journal :: "Quota \<Rightarrow> Journal" where
  "new_journal q = \<lparr>jn_held = True, jn_quota = q, jn_inbound = [], jn_outbound = [], jn_sessions = [], jn_moderation = []\<rparr>"

text \<open>The inbox a journal stands for.\<close>

definition record_phase :: "Record \<Rightarrow> phase" where
  "record_phase r = (case rc_Application r of StateQueued \<Rightarrow> Queued | StateClaimed \<Rightarrow> Taken (rc_LeaseID r) (rc_LeaseExpiresAt r)
     | StateApplied \<Rightarrow> Applied | StateRejected \<Rightarrow> Rejected | ApplicationOther _ \<Rightarrow> Blocked)"

definition file_phase :: "Record stored option \<Rightarrow> phase" where
  "file_phase f = (case f of None \<Rightarrow> Absent | Some Broken \<Rightarrow> Blocked | Some (Whole r) \<Rightarrow> record_phase r)"

definition inbox_of :: "Journal \<Rightarrow> inbox" where
  "inbox_of s e = (if ids_Event e then file_phase (map_of (jn_inbound s) (file_name e)) else Absent)"

definition undecided_waits :: "Record \<Rightarrow> bool" where
  "undecided_waits r \<longleftrightarrow> (rc_Admission r = AdmissionPending \<longrightarrow> rc_Application r = StateQueued)"

definition inbox_ok :: "Journal \<Rightarrow> bool" where
  "inbox_ok s \<longleftrightarrow> (\<forall>name r. map_of (jn_inbound s) name = Some (Whole r) \<longrightarrow> undecided_waits r)"

section \<open>Overlapping commits\<close>

text \<open>
  Two commits of the same message that both stage it before either advances the session, and a
  commit between whose halves the owner denies the event. Every write succeeds.
\<close>

definition overlap :: "Inbound \<Rightarrow> Journal \<Rightarrow> ((bool \<times> Record) res \<times> (bool \<times> Record) res \<times> Journal) option" where
  "overlap i s = (case stage_inbound CreateOk i s of
     (Inr (f, r), s1) \<Rightarrow> (case stage_inbound CreateOk i s1 of
       (Inr (f', r'), s2) \<Rightarrow> (case advance_inbound (Wrote Synced) (Wrote Synced) i f r s2 of
         (x, s3) \<Rightarrow> (case advance_inbound (Wrote Synced) (Wrote Synced) i f' r' s3 of (y, s4) \<Rightarrow> Some (x, y, s4)))
     | _ \<Rightarrow> None) | _ \<Rightarrow> None)"

definition decided_between :: "Inbound \<Rightarrow> gotime \<Rightarrow> Journal \<Rightarrow> (Record res \<times> (bool \<times> Record) res \<times> Journal) option" where
  "decided_between i now s = (case stage_inbound CreateOk i s of
     (Inr (f, r), s1) \<Rightarrow> (case DenyEvent (Wrote Synced) (en_EventID (ib_Entry i)) [] now s1 of
       (x, s2) \<Rightarrow> (case advance_inbound (Wrote Synced) (Wrote Synced) i f r s2 of (y, s3) \<Rightarrow> Some (x, y, s3)))
   | _ \<Rightarrow> None)"

definition ex_event :: string where
  "ex_event = ''evt_'' @ replicate 64 (CHR ''b'')"

definition ex_session :: string where
  "ex_session = ''ses_'' @ replicate 64 (CHR ''a'')"

definition ex_arrival :: "AdmissionState \<Rightarrow> Inbound" where
  "ex_arrival a = \<lparr>ib_SessionID = ex_session, ib_Algorithm = ''tos.messaging.e2ee.x.v1'',
     ib_ExpectedGeneration = 0, ib_Next = ''p'',
     ib_Entry = \<lparr>en_EventID = ex_event, en_SenderEndpointID = ''mep_'' @ replicate 64 (CHR ''c''),
       en_ConversationID = ''conv_'' @ replicate 64 (CHR ''d''), en_Payload = ''p'', en_Admission = a, en_ReceivedAtUnix = 5,
       en_ExpiresAtUnix = 0, en_Transition = None\<rparr>,
     ib_Authority = None, ib_Now = 5\<rparr>"

definition ex_staged :: "AdmissionState \<Rightarrow> Record" where
  "ex_staged a = entry_record ((ib_Entry (ex_arrival a))\<lparr>en_Transition := Some \<lparr>tr_SessionID = ib_SessionID (ex_arrival a),
     tr_Algorithm = ib_Algorithm (ex_arrival a), tr_ExpectedGeneration = 0, tr_NextState = ''p'', tr_Authority = None\<rparr>\<rparr>)"

definition ex_state :: "Record \<Rightarrow> (string, SessionRecord stored) dir \<Rightarrow> Journal" where
  "ex_state r se = (new_journal DefaultQuota)\<lparr>jn_inbound := [(file_name ex_event, Whole r)], jn_sessions := se\<rparr>"

definition ex_advanced :: "AdmissionState \<Rightarrow> SessionRecord" where
  "ex_advanced a = \<lparr>se_Schema = SessionSchema, se_Generation = 1, se_SessionID = ex_session,
     se_AlgorithmID = ib_Algorithm (ex_arrival a), se_State = ''p'', se_StateDigest = Digest ''p'', se_UpdatedAtUnix = 5,
     se_LastInboundEventID = ex_event, se_Bootstrap = None, se_Authority = None\<rparr>"

section \<open>Names\<close>

lemma file_name_event: "ids_Event e \<Longrightarrow> ids_Event e' \<Longrightarrow> file_name e = file_name e' \<longleftrightarrow> e = e'"
  by (auto simp: ids_Event_def prefixed_hex64_eq file_name_def)

lemma file_name_temp: "ids_Event e \<Longrightarrow> file_name e \<noteq> ''.transition-'' @ t"
proof -
  have "\<not> is_hex (CHR ''.'')" by code_simp
  then show "ids_Event e \<Longrightarrow> file_name e \<noteq> ''.transition-'' @ t"
    by (auto simp: ids_Event_def prefixed_hex64_eq file_name_def hex64_def append_eq_Cons_conv)
qed

section \<open>Writes\<close>

lemma replace_None: "replace w name v d = (None, d') \<Longrightarrow> map_of d' = (map_of d)(name \<mapsto> Whole v)"
  by (auto simp: replace_def replace_file_def update_conv' split: jout.splits wout.splits if_splits)

lemma replace_cases:
  assumes "replace w name v d = (x, d')"
  obtains (same) "map_of d' = map_of d" "x \<noteq> None"
    | (written) "map_of d' = (map_of d)(name \<mapsto> Whole v)"
    | (temp) t f where "map_of d' = (map_of d)(''.transition-'' @ t \<mapsto> f)" "f = Whole v \<or> f = Broken" "x \<noteq> None"
  using assms by (auto simp: replace_def replace_file_def update_conv' split: jout.splits wout.splits if_splits)

lemma create_cases:
  assumes "create_record c name v d = (x, d')"
  obtains (same) "d' = d" "x \<noteq> None"
    | (written) "map_of d' = (map_of d)(name \<mapsto> Whole v)"
    | (broken) "map_of d' = (map_of d)(name \<mapsto> Broken)" "x \<noteq> None"
  using assms by (auto simp: create_record_def fun_upd_def split: jcreate.splits if_splits)

lemma readRecord_Found: "readRecord d name = Found r \<longleftrightarrow> map_of d name = Some (Whole r) \<and> valid_record r"
  by (auto simp: readRecord_def read_file_def split: option.splits stored.splits)

lemma readRecord_Missing: "readRecord d name = Missing \<longleftrightarrow> map_of d name = None"
  by (auto simp: readRecord_def read_file_def split: option.splits stored.splits if_splits)

lemma valid_marks [simp]:
  "valid_record (r\<lparr>rc_Crypto := c\<rparr>) = valid_record r" "valid_record (r\<lparr>rc_Crypto := c, rc_CryptoAtUnix := t\<rparr>) = valid_record r"
  by (cases "rc_SessionAuthority r"; simp add: valid_record_def Record_Payload_def)+

lemma inbox_event: "ids_Event e \<Longrightarrow> map_of d' = (map_of (jn_inbound s))(file_name e \<mapsto> f) \<Longrightarrow>
    inbox_of (s\<lparr>jn_inbound := d'\<rparr>) = (inbox_of s)(e := file_phase (Some f))"
  by (auto simp: inbox_of_def fun_eq_iff file_name_event)

lemma inbox_other: "\<forall>e. ids_Event e \<longrightarrow> file_name e \<noteq> k \<Longrightarrow> map_of d' = (map_of (jn_inbound s))(k \<mapsto> f) \<Longrightarrow>
    inbox_of (s\<lparr>jn_inbound := d'\<rparr>) = inbox_of s"
  by (auto simp: inbox_of_def fun_eq_iff)

lemma inbox_same: "map_of (jn_inbound s') = map_of (jn_inbound s) \<Longrightarrow> inbox_of s' = inbox_of s \<and> inbox_ok s' = inbox_ok s"
  by (auto simp: inbox_of_def inbox_ok_def fun_eq_iff)

lemma inbox_ok_upd: "inbox_ok s \<Longrightarrow> map_of d' = (map_of (jn_inbound s))(k \<mapsto> f) \<Longrightarrow>
    (case f of Whole r \<Rightarrow> undecided_waits r | Broken \<Rightarrow> True) \<Longrightarrow> inbox_ok (s\<lparr>jn_inbound := d'\<rparr>)"
  by (auto simp: inbox_ok_def split: if_splits stored.splits)

section \<open>Simulation\<close>

definition simulates :: "Journal \<Rightarrow> label list \<Rightarrow> Journal \<Rightarrow> bool" where
  "simulates s ls s' \<longleftrightarrow> (inbox_ok s \<longrightarrow> inbox_ok s' \<and> (\<forall>a ms. inbox_run a ms (inbox_of s) \<longrightarrow> inbox_run a (ms @ ls) (inbox_of s')))"

lemma simulates_trans: "simulates s ls s' \<Longrightarrow> simulates s' ls' s'' \<Longrightarrow> simulates s (ls @ ls') s''"
  by (auto simp: simulates_def simp flip: append_assoc)

lemma simulates_quiet: "simulates s [] s' \<Longrightarrow> simulates s' [] s'' \<Longrightarrow> simulates s [] s''"
  using simulates_trans by fastforce

lemma simulates_same: "jn_inbound s' = jn_inbound s \<Longrightarrow> simulates s [] s'"
  using inbox_same [of s' s] by (simp add: simulates_def)

lemma simulatesI:
  assumes "inbox_ok s \<Longrightarrow> inbox_ok s'"
    and "inbox_ok s \<Longrightarrow> inbox_of s' = inbox_of s \<and> ls = [] \<or> (\<exists>l. move (inbox_of s) l (inbox_of s') \<and> (ls = [] \<or> ls = [l])) \<or> silent (inbox_of s) (inbox_of s') \<and> ls = []"
  shows "simulates s ls s'"
  unfolding simulates_def using assms by (fastforce intro: inbox_run.intros silent.unreported)

text \<open>A record rewritten where its phase stays, or where an undecided event is denied.\<close>

definition quiet_change :: "Record \<Rightarrow> Record \<Rightarrow> bool" where
  "quiet_change r r' \<longleftrightarrow> undecided_waits r \<longrightarrow> undecided_waits r' \<and>
     (record_phase r' = record_phase r \<or> record_phase r = Queued \<and> record_phase r' = Rejected)"

lemma quiet_marks [simp]:
  "quiet_change r (r\<lparr>rc_Crypto := c\<rparr>)" "quiet_change r (r\<lparr>rc_Crypto := c, rc_CryptoAtUnix := t\<rparr>)" "quiet_change r (r\<lparr>rc_ReadAtUnix := t\<rparr>)"
  by (cases "rc_Application r"; simp add: quiet_change_def undecided_waits_def record_phase_def)+

text \<open>What a commit does to the inbox: for the record of an event, and for any other name.\<close>

lemma commit_inbox:
  assumes c: "journal_commit w name r s = (x, s')" and ok: "inbox_ok s" and u: "undecided_waits r"
  shows "inbox_ok s' \<and> (inbox_of s' = inbox_of s \<and> (isl x \<or> (\<forall>e. ids_Event e \<longrightarrow> file_name e \<noteq> name)) \<or>
    (\<exists>e. ids_Event e \<and> name = file_name e \<and> inbox_of s' = (inbox_of s)(e := record_phase r)))"
proof -
  obtain y d' where R: "replace w name r (jn_inbound s) = (y, d')" by fastforce
  then have s': "s' = s\<lparr>jn_inbound := d'\<rparr>" and x: "y \<noteq> None \<Longrightarrow> isl x" using c by (auto simp: journal_commit_def split: option.splits)
  from R show ?thesis
  proof (cases rule: replace_cases)
    case same
    then show ?thesis using inbox_same [of s' s] s' ok x by simp
  next
    case written
    have "inbox_ok s'" unfolding s' using inbox_ok_upd [OF ok written] u by simp
    moreover have "inbox_of s' = (inbox_of s)(e := record_phase r)" if "ids_Event e" "name = file_name e" for e
      using inbox_event [OF that(1) written [unfolded that(2)]] by (simp add: s' file_phase_def)
    moreover have "inbox_of s' = inbox_of s" if "\<forall>e. ids_Event e \<longrightarrow> file_name e \<noteq> name"
      unfolding s' using inbox_other [OF that written] .
    ultimately show ?thesis by metis
  next
    case (temp t f)
    have "inbox_ok s'" unfolding s'
      by (rule inbox_ok_upd [OF ok temp(1)]) (use u temp(2) in \<open>auto split: stored.splits\<close>)
    then show ?thesis using inbox_other [OF _ temp(1)] file_name_temp s' x [OF temp(3)] by blast
  qed
qed

lemma journal_commit_Inr: "journal_commit w name r s = (Inr r', s') \<Longrightarrow> r' = r"
  by (auto simp: journal_commit_def split: prod.splits option.splits)

lemma commit_quiet:
  assumes c: "journal_commit w name r' s = (x, s')" and m: "map_of (jn_inbound s) name = Some (Whole r)" and q: "quiet_change r r'"
  shows "simulates s [] s'"
proof (cases "inbox_ok s")
  case True
  then have "undecided_waits r" using m by (simp add: inbox_ok_def)
  with q have u: "undecided_waits r'" and p: "record_phase r' = record_phase r \<or> record_phase r = Queued \<and> record_phase r' = Rejected"
    by (auto simp: quiet_change_def)
  have "inbox_of s' = inbox_of s \<or> silent (inbox_of s) (inbox_of s')"
    if "ids_Event e" "name = file_name e" "inbox_of s' = (inbox_of s)(e := record_phase r')" for e
  proof -
    have "inbox_of s e = record_phase r" using m that by (simp add: inbox_of_def file_phase_def)
    then show ?thesis using p that(3) silent.denied [of "inbox_of s" e] by (auto simp: fun_upd_idem)
  qed
  then have "inbox_ok s' \<and> (inbox_of s' = inbox_of s \<or> silent (inbox_of s) (inbox_of s'))"
    using commit_inbox [OF c True u] by blast
  then show ?thesis by (auto intro: simulatesI)
qed (simp add: simulates_def)

text \<open>A record changed by a move of the inbox, which is reported exactly when the write succeeded.\<close>

lemma change_sim:
  assumes c: "change_record w e f s = (x, s')" and e: "ids_Event e"
    and f: "\<And>r r'. f r = Inr r' \<Longrightarrow> undecided_waits r \<Longrightarrow> undecided_waits r' \<and>
      (\<forall>b. b e = record_phase r \<longrightarrow> move b (l r') (b(e := record_phase r')))"
  shows "simulates s (case x of Inl _ \<Rightarrow> [] | Inr r' \<Rightarrow> [l r']) s'"
proof (cases "\<exists>r r'. readRecord (jn_inbound s) (file_name e) = Found r \<and> f r = Inr r'")
  case True
  then obtain r r' where r: "readRecord (jn_inbound s) (file_name e) = Found r" "f r = Inr r'" by blast
  then have m: "map_of (jn_inbound s) (file_name e) = Some (Whole r)" by (simp add: readRecord_Found)
  from c r have j: "journal_commit w (file_name e) r' s = (x, s')" by (simp add: change_record_def)
  show ?thesis
  proof (cases "inbox_ok s")
    case ok: True
    then have "undecided_waits r" using m by (simp add: inbox_ok_def)
    from f [OF r(2) this] have u: "undecided_waits r'"
      and mv: "inbox_of s e = record_phase r \<Longrightarrow> move (inbox_of s) (l r') ((inbox_of s)(e := record_phase r'))" by auto
    have "inbox_of s e = record_phase r" using m e by (simp add: inbox_of_def file_phase_def)
    from mv [OF this] commit_inbox [OF j ok u] e
    have "inbox_ok s' \<and> (inbox_of s' = inbox_of s \<and> isl x \<or> move (inbox_of s) (l r') (inbox_of s'))"
      by (auto simp: file_name_event)
    then show ?thesis using journal_commit_Inr [of w "file_name e" r' s] j
      by (intro simulatesI) (auto split: sum.splits)
  qed (simp add: simulates_def)
next
  case False
  then have "s' = s \<and> isl x" using c by (cases "readRecord (jn_inbound s) (file_name e)") (auto simp: change_record_def split: sum.splits dest!: sym [of "Inl _"])
  then show ?thesis by (auto split: sum.splits intro: simulates_same)
qed

lemma change_quiet:
  assumes c: "change_record w e f s = (x, s')" and f: "\<And>r r'. f r = Inr r' \<Longrightarrow> quiet_change r r'"
  shows "simulates s [] s'"
proof (cases "\<exists>r r'. readRecord (jn_inbound s) (file_name e) = Found r \<and> f r = Inr r'")
  case True
  then obtain r r' where r: "readRecord (jn_inbound s) (file_name e) = Found r" "f r = Inr r'" by blast
  then have "journal_commit w (file_name e) r' s = (x, s')" using c by (simp add: change_record_def)
  then show ?thesis using r f by (auto simp: readRecord_Found intro: commit_quiet)
next
  case False
  then have "s' = s" using c by (auto simp: change_record_def split: found.splits sum.splits)
  then show ?thesis by (auto intro: simulates_same)
qed


section \<open>The operations on inbound records\<close>

lemma claim_simulates:
  assumes "claimForApplicationKind kind_of w e l now d req ex al s = (x, s')"
  shows "simulates s (case x of Inl _ \<Rightarrow> [] | Inr r \<Rightarrow> [Leased e l (unix now) (rc_LeaseExpiresAt r)]) s'"
proof (cases "ids_Event e \<and> change_record w e (claim_change kind_of l now (in_seconds d) req ex al) s = (x, s')")
  case True
  then show ?thesis
  proof (intro change_sim [of w e, where l = "\<lambda>r. Leased e l (unix now) (rc_LeaseExpiresAt r)"])
    fix r r' assume "claim_change kind_of l now (in_seconds d) req ex al r = Inr r'"
    then show "undecided_waits r' \<and> (\<forall>b. b e = record_phase r \<longrightarrow>
        move b (Leased e l (unix now) (rc_LeaseExpiresAt r')) (b(e := record_phase r')))"
      by (auto simp: claim_change_def failE_eq_Inr undecided_waits_def record_phase_def not_less split: if_splits
          intro: move.lease move.take_over)
  qed auto
next
  case False
  then have "s' = s \<and> isl x" using assms by (auto simp: claimForApplicationKind_def isl_def thenE_def failIf_def split: option.splits if_splits)
  then show ?thesis by (auto split: sum.splits intro: simulates_same)
qed

lemma finish_simulates:
  assumes "finish w e l state code now s = (x, s')" and st: "state = StateApplied \<and> m = Done e l \<or> state = StateRejected \<and> m = Refused e l"
  shows "simulates s (case x of Inl _ \<Rightarrow> [] | Inr r \<Rightarrow> [m]) s'"
proof (cases "ids_Event e \<and> change_record w e (finish_change l state code now) s = (x, s')")
  case True
  then show ?thesis
  proof (intro change_sim [of w e, where l = "\<lambda>r. m"])
    fix r r' assume "finish_change l state code now r = Inr r'"
    then show "undecided_waits r \<Longrightarrow> undecided_waits r' \<and> (\<forall>b. b e = record_phase r \<longrightarrow> move b m (b(e := record_phase r')))"
      using st by (auto simp: finish_change_def Let_def undecided_waits_def record_phase_def split: if_splits intro: move.complete move.refuse)
  qed auto
next
  case False
  then have "s' = s \<and> isl x" using assms(1) by (auto simp: finish_def isl_def thenE_def failIf_def split: option.splits if_splits)
  then show ?thesis by (auto split: sum.splits intro: simulates_same)
qed

lemma decide_simulates: "simulates s [] (snd (decideAdmission w e state code now s))"
proof -
  have "simulates s [] (snd (change_record w e (decide_change state code now) s))"
    by (rule change_quiet [OF prod.collapse [symmetric]])
      (auto simp: decide_change_def Let_def quiet_change_def undecided_waits_def record_phase_def split: if_splits)
  then show ?thesis by (auto simp: decideAdmission_def intro: simulates_same split: option.splits)
qed

lemma MarkRead_simulates: "simulates s [] (snd (MarkRead w e now s))"
proof -
  have "simulates s [] (snd (journal_commit w (file_name e) (r\<lparr>rc_ReadAtUnix := unix now\<rparr>) s))"
    if "readRecord (jn_inbound s) (file_name e) = Found r" for r
    by (rule commit_quiet [OF prod.collapse [symmetric], where r = r])
      (use that in \<open>auto simp: readRecord_Found\<close>)
  then show ?thesis by (auto simp: MarkRead_def intro: simulates_same split: option.splits found.splits)
qed

lemma expire_simulates: "simulates s [] (snd (expire_loop ws seconds names n s))"
proof (induction names arbitrary: n s)
  case (Cons name names)
  show ?case
  proof (cases "\<exists>r. readRecord (jn_inbound s) name = Found r \<and> rc_Admission r = AdmissionPending \<and> Record_expired r (jn_quota s) seconds")
    case True
    then obtain r where r: "readRecord (jn_inbound s) name = Found r" "rc_Admission r = AdmissionPending" "Record_expired r (jn_quota s) seconds"
      by blast
    let ?r = "r\<lparr>rc_Admission := AdmissionDenied, rc_AdmissionAtUnix := seconds, rc_AdmissionCode := expiredCode,
      rc_Application := StateRejected, rc_RejectedAtUnix := seconds, rc_RejectionCode := expiredCode\<rparr>"
    obtain x s1 where j: "journal_commit (ws name) name ?r s = (x, s1)" by fastforce
    have 1: "simulates s [] s1"
      by (rule commit_quiet [OF j, where r = r])
        (use r in \<open>auto simp: readRecord_Found quiet_change_def undecided_waits_def record_phase_def\<close>)
    show ?thesis
    proof (cases x)
      case (Inr y)
      then show ?thesis using r j simulates_quiet [OF 1 Cons] by auto
    qed (use 1 r j in auto)
  next
    case False
    with Cons show ?thesis by (auto split: found.splits)
  qed
qed (simp add: simulates_same)

lemma Accept_simulates:
  assumes "Accept c e s = (x, s')"
  shows "simulates s [] s' \<and> (\<forall>r. x = Inr (True, r) \<longrightarrow> simulates s [Stored (en_EventID e)] s')"
proof (cases "readRecord (jn_inbound s) (file_name (en_EventID e)) = Missing \<and> s' \<noteq> s \<and> ids_Event (en_EventID e)")
  case True
  then have new: "inbox_of s (en_EventID e) = Absent" by (simp add: readRecord_Missing inbox_of_def file_phase_def)
  obtain y d' where c: "create_record c (file_name (en_EventID e)) (entry_record e) (jn_inbound s) = (y, d')" by fastforce
  have s': "s' = s\<lparr>jn_inbound := d'\<rparr>" and x: "y \<noteq> None \<Longrightarrow> isl x"
    using assms c True by (auto simp: Accept_def split: option.splits)
  have u: "undecided_waits (entry_record e)" and q: "record_phase (entry_record e) = Queued"
    by (auto simp: entry_record_def Let_def undecided_waits_def record_phase_def split: option.splits)
  from c show ?thesis
  proof (cases rule: create_cases)
    case same
    then show ?thesis using True s' by simp
  next
    case written
    have "inbox_of s' = (inbox_of s)(en_EventID e := Queued)"
      using inbox_event [OF _ written] True q by (simp add: s' file_phase_def)
    then have "move (inbox_of s) (Stored (en_EventID e)) (inbox_of s')" using move.store [of "inbox_of s" "en_EventID e"] new by simp
    moreover have "inbox_ok s \<Longrightarrow> inbox_ok s'" unfolding s' using inbox_ok_upd [OF _ written] u by simp
    ultimately show ?thesis by (auto intro!: simulatesI)
  next
    case broken
    have "inbox_of s' = (inbox_of s)(en_EventID e := Blocked)"
      using inbox_event [OF _ broken(1)] True by (simp add: s' file_phase_def)
    then have "silent (inbox_of s) (inbox_of s')" using silent.torn [of "inbox_of s" "en_EventID e"] new by simp
    moreover have "inbox_ok s \<Longrightarrow> inbox_ok s'" unfolding s' using inbox_ok_upd [OF _ broken(1)] by simp
    ultimately show ?thesis using x [OF broken(2)] by (auto intro!: simulatesI)
  qed
next
  case False
  have "s\<lparr>jn_inbound := y # jn_inbound s\<rparr> \<noteq> s" for y by (cases s) simp
  with False have "s' = s \<and> (\<forall>r. x \<noteq> Inr (True, r))" using assms
    by (auto simp: Accept_def create_record_def validateEntry_def thenE_def failIf_def split: option.splits found.splits if_splits prod.splits jcreate.splits)
  then show ?thesis by (auto intro: simulates_same)
qed


lemma Accept_stored:
  assumes "Accept c e s = (Inr (fresh, r), s')"
  shows "map_of (jn_inbound s') (file_name (en_EventID e)) = Some (Whole r) \<and> ids_Event (en_EventID e) \<and> (fresh \<longrightarrow> r = entry_record e)"
proof -
  have "ids_Event (en_EventID e)" using assms by (auto simp: Accept_def validateEntry_def thenE_def failIf_def split: option.splits if_splits)
  with assms show ?thesis
    by (auto simp: Accept_def readRecord_Found create_record_def split: option.splits found.splits if_splits prod.splits jcreate.splits)
qed


text \<open>The session writes do not touch the inbound records.\<close>

lemma session_frame:
  "jn_inbound (snd (writeSessionInbound w i a g st ev au sec s)) = jn_inbound s"
  by (auto simp: writeSessionInbound_def put_session_def Let_def split: found.splits option.splits prod.splits)

lemma advance_simulates:
  assumes m: "map_of (jn_inbound s) (file_name (en_EventID (ib_Entry i))) = Some (Whole r)"
  shows "simulates s [] (snd (advance_inbound ws wr i fresh r s))"
proof -
  let ?name = "file_name (en_EventID (ib_Entry i))"
  have q: "simulates s' [] (snd (journal_commit wr ?name (f r) s'))"
    if "jn_inbound s' = jn_inbound s" "quiet_change r (f r)" for s' f
    by (rule commit_quiet [OF prod.collapse [symmetric], where r = r]) (use m that in auto)
  let ?w = "writeSessionInbound ws (ib_SessionID i) (ib_Algorithm i) (ib_ExpectedGeneration i + 1) (ib_Next i)
    (en_EventID (ib_Entry i)) (ib_Authority i) (unix (ib_Now i)) s"
  have f: "jn_inbound (snd ?w) = jn_inbound s" by (rule session_frame)
  have 1: "simulates s [] (snd (journal_commit wr ?name (r\<lparr>rc_Crypto := CryptoAbandoned\<rparr>) s))"
    using q [of s "\<lambda>r. r\<lparr>rc_Crypto := CryptoAbandoned\<rparr>"] by simp
  have 2: "simulates s [] (snd (journal_commit wr ?name (r\<lparr>rc_Crypto := CryptoCommitted, rc_CryptoAtUnix := unix (ib_Now i)\<rparr>) (snd ?w)))"
    using simulates_quiet [OF simulates_same [OF f] q [OF f, of "\<lambda>r. r\<lparr>rc_Crypto := CryptoCommitted, rc_CryptoAtUnix := unix (ib_Now i)\<rparr>"]]
    by simp
  obtain y t where yt: "?w = (y, t)" by fastforce
  show ?thesis using 1 2 simulates_same [OF f] simulates_same [of s s]
    by (auto simp: advance_inbound_def yt split: sum.splits option.splits prod.splits)
qed

lemma commitInbound_simulates:
  assumes "commitInbound c ws wr i s = (x, s')"
  shows "simulates s (case x of Inr (True, r) \<Rightarrow> [Stored (en_EventID (ib_Entry i))] | _ \<Rightarrow> []) s'"
proof -
  obtain y s1 where S: "stage_inbound c i s = (y, s1)" by fastforce
  let ?e = "en_EventID (ib_Entry i)"
  show ?thesis
  proof (cases y)
    case (Inl z)
    have "simulates s [] s1" using S by (auto simp: stage_inbound_def intro: simulates_same dest!: Accept_simulates split: option.splits)
    moreover have "x = Inl z" "s' = s1" using assms S Inl by (simp_all add: commitInbound_def)
    ultimately show ?thesis by simp
  next
    case (Inr p)
    obtain fresh r where p: "p = (fresh, r)" by fastforce
    obtain entry where A: "Accept c entry s = (Inr (fresh, r), s1)" and e: "en_EventID entry = ?e"
      using S Inr p by (auto simp: stage_inbound_def split: option.splits)
    have m: "map_of (jn_inbound s1) (file_name ?e) = Some (Whole r)" using Accept_stored [OF A] e by simp
    have 1: "simulates s (if fresh then [Stored ?e] else []) s1" "simulates s [] s1" using Accept_simulates [OF A] e by auto
    show ?thesis
    proof (cases "\<not> fresh \<and> rc_Crypto r = CryptoCommitted")
      case True
      then show ?thesis using assms S Inr p 1 by (auto simp: commitInbound_def)
    next
      case False
      then have A: "advance_inbound ws wr i fresh r s1 = (x, s')" using assms S Inr p by (auto simp: commitInbound_def)
      have 2: "simulates s1 [] s'" using advance_simulates [OF m, of ws wr fresh] A by simp
      have "x = Inr (b, r') \<Longrightarrow> b = fresh" for b r'
        using A by (auto simp: advance_inbound_def split: sum.splits prod.splits option.splits if_splits)
      then have "(case x of Inr (True, r) \<Rightarrow> [Stored ?e] | _ \<Rightarrow> []) = [] \<or>
          (case x of Inr (True, r) \<Rightarrow> [Stored ?e] | _ \<Rightarrow> []) = (if fresh then [Stored ?e] else [])"
        by (auto split: sum.splits bool.splits)
      then show ?thesis using simulates_trans [OF 1(1) 2] simulates_trans [OF 1(2) 2] by auto
    qed
  qed
qed

lemma resolve_simulates:
  assumes "map_of (jn_inbound s) name = Some (Whole r)"
  shows "simulates s [] (snd (resolveStaged ws wr name r s))"
proof -
  have q: "simulates s' [] (snd (journal_commit wr name (r\<lparr>rc_Crypto := c\<rparr>) s'))" if "jn_inbound s' = jn_inbound s" for s' c
    by (rule commit_quiet [OF prod.collapse [symmetric], where r = r]) (use assms that in auto)
  let ?w = "\<lambda>nxt. writeSessionInbound ws (rc_SessionID r) (rc_AlgorithmID r) (rc_ExpectedGen r + 1) nxt (rc_EventID r)
    (rc_SessionAuthority r) (rc_CryptoAtUnix r) s"
  have f: "jn_inbound (snd (?w nxt)) = jn_inbound s" for nxt by (rule session_frame)
  have 1: "simulates s [] (snd (journal_commit wr name (r\<lparr>rc_Crypto := c\<rparr>) s))" for c by (rule q) simp
  have 2: "simulates s [] (snd (journal_commit wr name (r\<lparr>rc_Crypto := CryptoCommitted\<rparr>) (snd (?w nxt))))" for nxt
    by (rule simulates_quiet [OF simulates_same [OF f] q [OF f]])
  have 3: "simulates s [] (snd (?w nxt))" for nxt by (rule simulates_same [OF f])
  have mark: "snd (case journal_commit wr name r' t of (Inl x, s') \<Rightarrow> (Some x, s') | (Inr _, s') \<Rightarrow> (None, s')) = snd (journal_commit wr name r' t)" for r' t
    by (simp split: prod.splits sum.splits)
  show ?thesis using 1 2 3 simulates_same [of s s]
    by (simp add: resolveStaged_def Let_def mark case_prod_unfold split: sum.splits option.splits if_splits)
qed


lemma recover_simulates: "simulates s [] (snd (recover_loop ws names s))"
proof (induction names arbitrary: s)
  case (Cons name names)
  show ?case
  proof (cases "\<exists>r. readRecord (jn_inbound s) name = Found r \<and> rc_Crypto r = CryptoStaged")
    case True
    then obtain r where r: "readRecord (jn_inbound s) name = Found r" "rc_Crypto r = CryptoStaged" by blast
    obtain x s1 where R: "resolveStaged (fst (ws name)) (snd (ws name)) name r s = (x, s1)" by fastforce
    have 1: "simulates s [] s1"
      using resolve_simulates [of s name r "fst (ws name)" "snd (ws name)"] r R by (simp add: readRecord_Found)
    then show ?thesis using r R simulates_quiet [OF 1 Cons] by (cases x) auto
  next
    case False
    with Cons show ?thesis by (auto split: found.splits)
  qed
qed (simp add: simulates_same)

lemma OpenWith_simulates: "simulates s [] (snd (OpenWith ws q s))"
proof -
  let ?t = "s\<lparr>jn_held := True, jn_quota := q\<rparr>"
  obtain x s1 where R: "recoverStaged ws ?t = (x, s1)" by fastforce
  then have "simulates ?t [] s1" using recover_simulates [of ?t ws "listing (jn_inbound ?t)"] by (simp add: recoverStaged_def)
  then have "simulates s [] s1" using simulates_quiet [OF simulates_same [of ?t s]] by simp
  moreover have "simulates s1 [] (s1\<lparr>jn_held := False\<rparr>)" by (rule simulates_same) simp
  ultimately have "simulates s [] s1" "simulates s [] (s1\<lparr>jn_held := False\<rparr>)" by (auto intro: simulates_quiet)
  then show ?thesis using R simulates_same [of s s] by (auto simp: OpenWith_def openJournalAt_def split: option.splits)
qed

text \<open>The operations on sessions and deliveries leave the inbound records alone.\<close>

lemma change_delivery_frame: "jn_inbound (snd (change_delivery w i f s)) = jn_inbound s"
  by (auto simp: change_delivery_def commitDelivery_def split: found.splits sum.splits prod.splits option.splits)

lemma writeSessionAt_frame: "jn_inbound (snd (writeSessionAt w i a g st now s)) = jn_inbound s"
  by (simp add: writeSessionAt_def session_frame)

lemma advanceSession_frame: "jn_inbound (snd (advanceSession w i a g st now s)) = jn_inbound s"
  by (auto simp: advanceSession_def writeSessionAt_frame split: sum.splits)

lemma outbound_frames:
  "jn_inbound (snd (PutSessionState w i a st now s)) = jn_inbound s"
  "jn_inbound (snd (PutBootstrappedSessionState w i st fc now s)) = jn_inbound s"
  "jn_inbound (snd (Enqueue c r s)) = jn_inbound s"
  "jn_inbound (snd (ClaimForSend w i at now lease s)) = jn_inbound s"
  "jn_inbound (snd (Failed w i at code now s)) = jn_inbound s"
  "jn_inbound (snd (Delivered w i at now s)) = jn_inbound s"
  "jn_inbound (snd (Abandon w i now s)) = jn_inbound s"
  "jn_inbound (snd (Resume w i now s)) = jn_inbound s"
  by (auto simp: PutSessionState_def writeSession_def writeSessionAt_frame PutBootstrappedSessionState_def put_session_def
      Enqueue_def ClaimForSend_def Failed_def Delivered_def Abandon_def delivery_settle_def Resume_def change_delivery_frame Let_def
      split: option.splits sum.splits found.splits prod.splits)

lemma CommitSealed_frame: "jn_inbound (snd (CommitSealed ws wd i a g st di at c now s)) = jn_inbound s"
proof -
  obtain x t where A: "advanceSession ws i a g st now s = (x, t)" by fastforce
  with advanceSession_frame [of ws i a g st now s] show ?thesis
    by (auto simp: CommitSealed_def commitDelivery_def split: option.splits found.splits prod.splits)
qed

lemma expire_deliveries_frame: "jn_inbound (snd (expire_deliveries_loop ws seconds names n s)) = jn_inbound s"
proof (induction names arbitrary: n s)
  case (Cons name names)
  have c: "jn_inbound (snd (commitDelivery w nm d s)) = jn_inbound s" for w nm d
    by (auto simp: commitDelivery_def split: prod.splits option.splits)
  have "jn_inbound t = jn_inbound s" if "commitDelivery w nm d s = (y, t)" for w nm d y t using c [of w nm d] that by simp
  with Cons show ?case by (fastforce split: found.splits sum.splits prod.splits)
qed simp

lemma journal_do_simulates: "simulates s (fst (journal_do op s)) (snd (journal_do op s))"
proof (cases op)
  case (OpAccept c e)
  then show ?thesis using Accept_simulates [OF surjective_pairing [of "Accept c e s"]]
    by (auto split: prod.splits sum.splits bool.splits)
next
  case (OpInbound c ws wr i)
  then show ?thesis using commitInbound_simulates [OF surjective_pairing [of "commitInbound c ws wr i s"]]
    by (auto split: prod.splits sum.splits bool.splits)
next
  case (OpClaim kind_of w e l now d req ex al)
  then show ?thesis using claim_simulates [OF surjective_pairing [of "claimForApplicationKind kind_of w e l now d req ex al s"]]
    by (auto split: prod.splits sum.splits)
next
  case (OpComplete w e l now)
  then show ?thesis using finish_simulates [OF surjective_pairing [of "finish w e l StateApplied [] now s"], of "Done e l"]
    by (auto simp: CompleteApplication_def split: prod.splits sum.splits)
next
  case (OpReject w e l code now)
  then show ?thesis using finish_simulates [OF surjective_pairing [of "finish w e l StateRejected code now s"], of "Refused e l"] simulates_same [of s s]
    by (auto simp: RejectApplication_def split: prod.splits sum.splits)
next
  case (OpSealed ws wd i a g st di at c now)
  then show ?thesis using CommitSealed_frame by (auto intro: simulates_same)
next
  case (OpExpireDeliveries ws now)
  then show ?thesis using expire_deliveries_frame by (auto simp: ExpireDeliveries_def intro!: simulates_same split: option.splits)
qed (auto simp: MarkRead_simulates AdmitEvent_def DenyEvent_def decide_simulates ExpirePendingAdmissions_def expire_simulates
    OpenWith_simulates journal_Close_def outbound_frames intro!: simulates_same split: option.splits)

lemma journal_run_simulates: "journal_run ops s = (ls, s') \<Longrightarrow> simulates s ls s'"
proof (induction ops arbitrary: s ls)
  case (Cons op ops)
  then obtain l1 s1 l2 where "journal_do op s = (l1, s1)" "journal_run ops s1 = (l2, s')" "ls = l1 @ l2"
    by (auto split: prod.splits)
  then show ?case using Cons.IH simulates_trans journal_do_simulates [of s op] by fastforce
qed (simp add: simulates_same)

lemma settled_once:
  "inbox_run a ls b \<Longrightarrow> length (filter (completes e) ls) \<le> 1 \<and> (list_ex (completes e) ls \<longrightarrow> b e = Applied)"
proof (induction rule: inbox_run.induct)
  case (quiet a ls b c)
  then have "b e = Applied \<longrightarrow> c e = Applied" by (auto elim!: silent.cases move.cases)
  with quiet show ?case by blast
next
  case (told a ls b l c)
  then have "(b e = Applied \<longrightarrow> c e = Applied \<and> \<not> completes e l) \<and> (completes e l \<longrightarrow> c e = Applied)"
    by (auto elim!: move.cases simp: completes_def)
  with told show ?case by (auto simp: filter_empty_conv list_ex_iff)
qed simp


section \<open>Properties\<close>

lemma new_journal_inbox: "inbox_of (new_journal q) = (\<lambda>e. Absent) \<and> inbox_ok (new_journal q)"
  by (auto simp: inbox_of_def new_journal_def file_phase_def inbox_ok_def)

lemma runs_inbox: "journal_run ops (new_journal q) = (ls, s) \<Longrightarrow> inbox_run (\<lambda>e. Absent) ls (inbox_of s)"
  using journal_run_simulates [of ops "new_journal q" ls s] new_journal_inbox [of q] inbox_run.start [of "\<lambda>e. Absent"]
  unfolding simulates_def by fastforce




lemma ex_ids:
  "sessionPattern (ib_SessionID (ex_arrival a))" "AlgorithmPattern (ib_Algorithm (ex_arrival a))"
  "ids_Event (en_EventID (ib_Entry (ex_arrival a)))" "ids_Endpoint (en_SenderEndpointID (ib_Entry (ex_arrival a)))"
  "ids_Conversation (en_ConversationID (ib_Entry (ex_arrival a)))"
  by (simp_all add: ex_arrival_def) code_simp+


lemma ex_arrival_fields [simp]:
  "ib_SessionID (ex_arrival a) = ex_session" "en_EventID (ib_Entry (ex_arrival a)) = ex_event"
  "ib_ExpectedGeneration (ex_arrival a) = 0" "ib_Next (ex_arrival a) = ''p''" "ib_Authority (ex_arrival a) = None" "ib_Now (ex_arrival a) = 5"
  "en_Payload (ib_Entry (ex_arrival a)) = ''p''" "en_Admission (ib_Entry (ex_arrival a)) = a" "en_ReceivedAtUnix (ib_Entry (ex_arrival a)) = 5"
  by (simp_all add: ex_arrival_def)

lemma ex_staged_fields:
  "rc_EventID (ex_staged a) = ex_event" "rc_Admission (ex_staged a) = a" "rc_Crypto (ex_staged a) = CryptoStaged"
  "rc_Application (ex_staged a) = StateQueued" "rc_SessionID (ex_staged a) = ex_session" "rc_ExpectedGen (ex_staged a) = 0"
  "rc_SenderEndpointID (ex_staged a) = en_SenderEndpointID (ib_Entry (ex_arrival a))" "rc_RejectionCode (ex_staged a) = []"
  "rc_ConversationID (ex_staged a) = en_ConversationID (ib_Entry (ex_arrival a))" "rc_PayloadDigest (ex_staged a) = Digest ''p''"
  by (simp_all add: ex_staged_def entry_record_def Let_def)

lemma ex_payload_digest: "ValidDigest (Digest ''p'')"
  by code_simp

lemma ex_staged_valid: "a \<in> {AdmissionAdmitted, AdmissionPending} \<Longrightarrow> valid_record (ex_staged a)"
  using ex_ids [of a] by (auto simp: ex_staged_def entry_record_def Let_def valid_record_def Record_Payload_def ex_payload_digest)

lemma ex_inputs:
  "validateSessionInput ex_session (ib_Algorithm (ex_arrival a)) ''p'' 5 = None"
  "a \<in> {AdmissionAdmitted, AdmissionPending} \<Longrightarrow> validateEntry (en_Transition_update f (ib_Entry (ex_arrival a))) = None"
  using ex_ids [of a] by (auto simp: validateSessionInput_def validateEntry_def thenE_def failIf_def ValidateAlgorithmID_def
      ValidateState_def MaxSessionStateBytes_def MaxPayloadBytes_def bad_time_def IsZero_def)

lemma ex_capacity: "pendingCapacity e 1 5 (new_journal DefaultQuota) = None"
  by (simp add: pendingCapacity_def new_journal_def waiting_def readable_def listing_def DefaultQuota_def Let_def map_filter_def
      DefaultMaxPendingAdmissions_def DefaultMaxPendingPerSender_def DefaultMaxPendingBytes_def)

lemma ex_staging:
  assumes "a \<in> {AdmissionAdmitted, AdmissionPending}"
  shows "stage_inbound CreateOk (ex_arrival a) (new_journal DefaultQuota) = (Inr (True, ex_staged a), ex_state (ex_staged a) [])"
  using assms ex_inputs [of a] ex_capacity
  by (simp add: stage_inbound_def Accept_def journal_usable_def failIf_def new_journal_def readRecord_def read_file_def
      create_record_def ex_staged_def ex_state_def thenE_def)

lemma ex_stage_again:
  "stage_inbound CreateOk (ex_arrival AdmissionAdmitted) (ex_state (ex_staged AdmissionAdmitted) []) =
    (Inr (False, ex_staged AdmissionAdmitted), ex_state (ex_staged AdmissionAdmitted) [])"
  using ex_inputs [of AdmissionAdmitted] ex_staged_valid [of AdmissionAdmitted]
  by (simp add: stage_inbound_def Accept_def journal_usable_def failIf_def new_journal_def readRecord_def read_file_def
      ex_state_def thenE_def ex_staged_fields)

lemma ex_advanced_valid: "valid_session (ex_advanced a)"
  using ex_ids [of a] ex_payload_digest by (simp add: ex_advanced_def valid_session_def SessionRecord_State_def ValidateAlgorithmID_def failIf_def)

lemma unix_5: "unix 5 = 5"
  by (simp add: unix_def)

lemma ex_advance_ok:
  "advance_inbound (Wrote Synced) (Wrote Synced) (ex_arrival a) f r (ex_state r' []) =
    (Inr (f, r\<lparr>rc_Crypto := CryptoCommitted, rc_CryptoAtUnix := 5\<rparr>),
     ex_state (r\<lparr>rc_Crypto := CryptoCommitted, rc_CryptoAtUnix := 5\<rparr>) [(file_name ex_session, Whole (ex_advanced a))])"
  by (simp add: advance_inbound_def ex_state_def new_journal_def generation_def readSession_def read_file_def writeSessionInbound_def
      put_session_def replace_def replace_file_def journal_commit_def ex_advanced_def unix_5)

lemma ex_advance_late:
  "advance_inbound (Wrote Synced) (Wrote Synced) (ex_arrival a) f r (ex_state r' [(file_name ex_session, Whole (ex_advanced a))]) =
    (Inl ErrSessionConflict, ex_state (r\<lparr>rc_Crypto := CryptoAbandoned\<rparr>) [(file_name ex_session, Whole (ex_advanced a))])"
proof -
  have "generation (ex_state r' [(file_name ex_session, Whole (ex_advanced a))]) ex_session = Inr 1"
    using ex_advanced_valid [of a] by (simp add: generation_def ex_state_def readSession_def read_file_def) (simp add: ex_advanced_def)
  then show ?thesis
    by (simp add: advance_inbound_def journal_commit_def replace_def replace_file_def) (simp add: ex_state_def)
qed

lemma ex_overlap:
  "overlap (ex_arrival AdmissionAdmitted) (new_journal DefaultQuota) =
    Some (Inr (True, (ex_staged AdmissionAdmitted)\<lparr>rc_Crypto := CryptoCommitted, rc_CryptoAtUnix := 5\<rparr>), Inl ErrSessionConflict,
      ex_state ((ex_staged AdmissionAdmitted)\<lparr>rc_Crypto := CryptoAbandoned\<rparr>) [(file_name ex_session, Whole (ex_advanced AdmissionAdmitted))])"
  using ex_staging [of AdmissionAdmitted] ex_stage_again by (simp add: overlap_def ex_advance_ok ex_advance_late)


lemma ex_denied:
  "DenyEvent (Wrote Synced) ex_event [] 7 (ex_state (ex_staged AdmissionPending) []) =
    (Inr ((ex_staged AdmissionPending)\<lparr>rc_Admission := AdmissionDenied, rc_AdmissionAtUnix := 7, rc_AdmissionCode := [],
       rc_Application := StateRejected, rc_RejectedAtUnix := 7, rc_RejectionCode := []\<rparr>),
     ex_state ((ex_staged AdmissionPending)\<lparr>rc_Admission := AdmissionDenied, rc_AdmissionAtUnix := 7, rc_AdmissionCode := [],
       rc_Application := StateRejected, rc_RejectedAtUnix := 7, rc_RejectionCode := []\<rparr>) [])"
proof -
  have "readRecord (jn_inbound (ex_state (ex_staged AdmissionPending) [])) (file_name ex_event) = Found (ex_staged AdmissionPending)"
    using ex_staged_valid [of AdmissionPending] by (simp add: readRecord_Found ex_state_def)
  moreover have "unix 7 = 7" by (simp add: unix_def)
  ultimately show ?thesis using ex_ids(3) [of AdmissionPending]
    by (simp add: DenyEvent_def decideAdmission_def change_record_def decide_change_def Let_def ex_staged_fields journal_commit_def
        replace_def replace_file_def journal_usable_def failIf_def thenE_def bad_time_def IsZero_def) (simp add: ex_state_def new_journal_def)
qed

lemma ex_offered:
  assumes "rc_Crypto r \<noteq> CryptoCommitted \<and> rc_Crypto r \<noteq> CryptoUnbound" and "\<not> bad_time now"
  shows "ListPending now limit (ex_state r se) = Inr []"
proof -
  have "pending_loop t x (readable valid_record (jn_inbound (ex_state r se))) = Inr []" for t x
    using assms(1) by (auto simp: readable_def listing_def ex_state_def read_file_def map_filter_def Deliverable_def)
  then show ?thesis using assms(2) by (simp add: ListPending_def ex_state_def new_journal_def journal_usable_def failIf_def by_receipt_def cut_def)
qed


end
