(* ===== verification/JournalSessions.thy ===== *)
theory JournalSessions
  imports JournalInbox
begin

text \<open>
  What the session half of the journal promises: the state of a session only moves forward, so
  that no generation of a ratchet is ever written twice, and recovery finishes every staged
  event one way or the other.
\<close>

section \<open>Definitions\<close>

text \<open>
  How far a session is: nothing, a generation, or a file that cannot be read and that no
  operation replaces.
\<close>

definition session_rank :: "Journal \<Rightarrow> string \<Rightarrow> nat" where
  "session_rank s i = (case readSession (jn_sessions s) (file_name i) of
     Missing \<Rightarrow> 0 | Found r \<Rightarrow> unat (se_Generation r) | Invalid \<Rightarrow> 2 ^ 64)"

definition session_file :: "Journal \<Rightarrow> string \<Rightarrow> SessionRecord stored option" where
  "session_file s i = map_of (jn_sessions s) (file_name i)"

definition forward :: "Journal \<Rightarrow> Journal \<Rightarrow> bool" where
  "forward s s' \<longleftrightarrow> (\<forall>i. sessionPattern i \<longrightarrow>
     session_rank s i < session_rank s' i \<or> session_rank s' i = session_rank s i \<and> session_file s' i = session_file s i)"

text \<open>
  The generations of sessions that callers were told they advanced from: one key of the ratchet
  is spent by each.
\<close>

fun spends :: "jop \<Rightarrow> Journal \<Rightarrow> (string \<times> u64) list" where
  "spends (OpSealed ws wd i a g st di at c now) s =
     (case fst (CommitSealed ws wd i a g st di at c now s) of Inr _ \<Rightarrow> [(i, g)] | Inl _ \<Rightarrow> [])"
| "spends (OpInbound c ws wr i) s =
     (case fst (commitInbound c ws wr i s) of Inr (True, _) \<Rightarrow> [(ib_SessionID i, ib_ExpectedGeneration i)] | _ \<Rightarrow> [])"
| "spends _ s = []"

fun spent :: "jop list \<Rightarrow> Journal \<Rightarrow> (string \<times> u64) list" where
  "spent [] s = []"
| "spent (op # ops) s = spends op s @ spent ops (snd (journal_do op s))"

text \<open>
  What recovery is for: the writes succeed, and a staged record becomes committed or abandoned
  and nothing else of it changes. A record recovery can finish is one the journal's own commits
  stage.
\<close>

definition good_writes :: "string \<Rightarrow> jout \<times> jout" where
  "good_writes name = (Wrote Synced, Wrote Synced)"

definition recovered :: "Journal \<Rightarrow> Journal \<Rightarrow> string \<Rightarrow> bool" where
  "recovered s s' name = (case readRecord (jn_inbound s) name of
     Found r \<Rightarrow> if rc_Crypto r = CryptoStaged
       then readRecord (jn_inbound s') name = Found (r\<lparr>rc_Crypto := CryptoAbandoned\<rparr>) \<or>
         readRecord (jn_inbound s') name = Found (r\<lparr>rc_Crypto := CryptoCommitted\<rparr>) \<and>
         sessionPattern (rc_SessionID r) \<and> unat (rc_ExpectedGen r) < session_rank s' (rc_SessionID r)
       else readRecord (jn_inbound s') name = Found r
   | x \<Rightarrow> readRecord (jn_inbound s') name = x)"

definition well_staged :: "Record \<Rightarrow> bool" where
  "well_staged r \<longleftrightarrow> ValidateAlgorithmID (rc_AlgorithmID r) = None \<and> rc_CryptoAtUnix r \<noteq> 0 \<and> rc_ExpectedGen r + 1 \<noteq> 0 \<and>
     ValidDigest (rc_NextStateDigest r) \<and> (rc_SessionAuthority r = None \<or> rc_ExpectedGen r = 0)"

definition session_ok :: "Journal \<Rightarrow> string \<Rightarrow> bool" where
  "session_ok s i \<longleftrightarrow> \<not> sessionPattern i \<or>
     (case readSession (jn_sessions s) (file_name i) of Missing \<Rightarrow> True | Found c \<Rightarrow> se_SessionID c = i | Invalid \<Rightarrow> False)"

definition recoverable :: "Journal \<Rightarrow> bool" where
  "recoverable s \<longleftrightarrow> list_all (\<lambda>r. rc_Crypto r \<noteq> CryptoStaged \<or> well_staged r \<and> session_ok s (rc_SessionID r)) (readable valid_record (jn_inbound s))"

section \<open>Sessions move forward\<close>

lemma session_names: "sessionPattern i \<Longrightarrow> sessionPattern i' \<Longrightarrow> file_name i = file_name i' \<longleftrightarrow> i = i'"
  by (auto simp: sessionPattern_def prefixed_hex64_eq file_name_def)

lemma session_temp: "sessionPattern i \<Longrightarrow> file_name i \<noteq> ''.transition-'' @ t"
proof -
  have "\<not> is_hex (CHR ''.'')" by code_simp
  then show "sessionPattern i \<Longrightarrow> file_name i \<noteq> ''.transition-'' @ t"
    by (auto simp: sessionPattern_def prefixed_hex64_eq file_name_def hex64_def append_eq_Cons_conv)
qed

lemma forward_refl [simp]: "forward s s"
  by (simp add: forward_def)

lemma forward_trans: "forward s t \<Longrightarrow> forward t u \<Longrightarrow> forward s u"
  unfolding forward_def by (metis less_trans)

lemma forward_same: "jn_sessions s' = jn_sessions s \<Longrightarrow> forward s s'"
  by (simp add: forward_def session_rank_def session_file_def)

lemma rank_cong: "session_file s' i = session_file s i \<Longrightarrow> session_rank s' i = session_rank s i"
  by (simp add: session_rank_def session_file_def readSession_def read_file_def)

lemma generation_rank: "generation s i = Inr g \<Longrightarrow> session_rank s i = unat g"
  by (auto simp: generation_def session_rank_def split: found.splits)

lemma put_session_forward:
  assumes p: "put_session w r s = (x, s')" and i: "sessionPattern (se_SessionID r)" and g: "generation s (se_SessionID r) = Inr g"
    and n: "se_Generation r = g + 1"
  shows "forward s s' \<and> (x = None \<longrightarrow> session_rank s (se_SessionID r) < session_rank s' (se_SessionID r))"
proof -
  obtain d' where R: "replace w (file_name (se_SessionID r)) r (jn_sessions s) = (x, d')" and s': "s' = s\<lparr>jn_sessions := d'\<rparr>"
    using p by (auto simp: put_session_def split: prod.splits)
  have up: "session_rank s (se_SessionID r) < session_rank s' (se_SessionID r)"
    if m: "map_of d' (file_name (se_SessionID r)) = Some (Whole r)"
  proof (cases "valid_session r")
    case True
    then have "g + 1 \<noteq> 0" using n by (auto simp: valid_session_def)
    then have "unat (g + 1) = unat g + 1" using unatSuc [of g] by (simp add: add.commute)
    with True n generation_rank [OF g] show ?thesis by (simp add: session_rank_def s' readSession_def read_file_def m)
  next
    case False
    with generation_rank [OF g] show ?thesis using unsigned_less [of g] by (simp add: session_rank_def s' readSession_def read_file_def m)
  qed
  from R show ?thesis
  proof (cases rule: replace_cases)
    case same
    then show ?thesis by (auto simp: forward_def session_file_def s' intro: rank_cong)
  next
    case written
    have "session_file s' j = session_file s j" if "sessionPattern j" "j \<noteq> se_SessionID r" for j
      using written that i by (simp add: session_file_def s' session_names)
    then show ?thesis using up written by (auto simp: forward_def intro: rank_cong)
  next
    case (temp t f)
    have "session_file s' j = session_file s j" if "sessionPattern j" for j
      using temp that session_temp by (auto simp: session_file_def s')
    then show ?thesis using temp(3) by (auto simp: forward_def intro: rank_cong)
  qed
qed

lemma write_forward:
  assumes "writeSessionInbound w i a (g + 1) st ev au sec s = (x, s')" and "sessionPattern i" and "generation s i = Inr g"
  shows "forward s s' \<and> (x = None \<longrightarrow> session_rank s i < session_rank s' i)"
proof (cases "s' = s \<and> x \<noteq> None")
  case False
  then obtain r where "put_session w r s = (x, s')" "se_SessionID r = i" "se_Generation r = g + 1"
    using assms(1) by (auto simp: writeSessionInbound_def Let_def split: found.splits option.splits if_splits)
  then show ?thesis using put_session_forward [of w r s x s' g] assms by simp
qed simp


lemma writeSessionAt_forward:
  "writeSessionAt w i a (g + 1) st now s = (x, s') \<Longrightarrow> sessionPattern i \<Longrightarrow> generation s i = Inr g \<Longrightarrow>
    forward s s' \<and> (x = None \<longrightarrow> session_rank s i < session_rank s' i)"
  unfolding writeSessionAt_def by (rule write_forward)

lemma advanceSession_forward:
  assumes "advanceSession w i a g st now s = (x, s')" and "sessionPattern i"
  shows "forward s s' \<and> (x = None \<longrightarrow> session_rank s i = unat g \<and> unat g < session_rank s' i)"
proof (cases "generation s i = Inr g")
  case True
  then show ?thesis using assms writeSessionAt_forward [of w i a g st now s x s'] generation_rank [OF True] by (simp add: advanceSession_def)
next
  case False
  then show ?thesis using assms by (auto simp: advanceSession_def split: sum.splits if_splits)
qed

lemma validateSessionInput_pattern: "validateSessionInput i a st now = None \<Longrightarrow> sessionPattern i"
  by (auto simp: validateSessionInput_def thenE_def failIf_def split: option.splits if_splits)

lemma commit_sessions: "journal_commit w name r s = (x, s') \<Longrightarrow> jn_sessions s' = jn_sessions s"
  by (auto simp: journal_commit_def split: prod.splits option.splits)

lemma commitDelivery_sessions: "commitDelivery w name d s = (x, s') \<Longrightarrow> jn_sessions s' = jn_sessions s"
  by (auto simp: commitDelivery_def split: prod.splits option.splits)

lemma CommitSealed_forward:
  assumes "CommitSealed ws wd i a g st di at c now s = (x, s')"
  shows "forward s s' \<and> (\<forall>d. x = Inr d \<longrightarrow> sessionPattern i \<and> session_rank s i = unat g \<and> unat g < session_rank s' i)"
proof (cases "s' = s \<and> isl x")
  case False
  obtain y t where A: "advanceSession ws i a g st now s = (y, t)" by fastforce
  from False assms A have i: "sessionPattern i"
    by (auto simp: CommitSealed_def isl_def thenE_def split: option.splits found.splits if_splits dest: validateSessionInput_pattern)
  have "y \<noteq> None \<and> s' = t \<and> isl x \<or> y = None \<and> jn_sessions s' = jn_sessions t"
    using False assms A by (auto simp: CommitSealed_def isl_def split: option.splits found.splits if_splits dest: commitDelivery_sessions)
  then show ?thesis
  proof
    assume "y \<noteq> None \<and> s' = t \<and> isl x"
    then show ?thesis using advanceSession_forward [OF A i] by auto
  next
    assume t: "y = None \<and> jn_sessions s' = jn_sessions t"
    then have "forward t s'" "session_rank s' i = session_rank t i" by (auto intro: forward_same rank_cong simp: session_file_def)
    then show ?thesis using advanceSession_forward [OF A i] t i forward_trans [of s t s'] by auto
  qed
qed auto

lemma Accept_sessions: "Accept c e s = (x, s') \<Longrightarrow> jn_sessions s' = jn_sessions s"
  by (auto simp: Accept_def split: option.splits found.splits prod.splits if_splits)

lemma advance_inbound_forward:
  assumes "advance_inbound ws wr i f r s = (x, s')" and p: "sessionPattern (ib_SessionID i)"
  shows "forward s s' \<and> (\<forall>y. x = Inr y \<longrightarrow> session_rank s (ib_SessionID i) = unat (ib_ExpectedGeneration i) \<and>
    unat (ib_ExpectedGeneration i) < session_rank s' (ib_SessionID i))"
proof (cases "generation s (ib_SessionID i) = Inr (ib_ExpectedGeneration i)")
  case True
  obtain y t where W: "writeSessionInbound ws (ib_SessionID i) (ib_Algorithm i) (ib_ExpectedGeneration i + 1) (ib_Next i)
      (en_EventID (ib_Entry i)) (ib_Authority i) (unix (ib_Now i)) s = (y, t)" by fastforce
  note F = write_forward [OF W p True] generation_rank [OF True]
  have "y \<noteq> None \<and> s' = t \<and> isl x \<or> y = None \<and> jn_sessions s' = jn_sessions t"
    using assms(1) True W by (auto simp: advance_inbound_def split: option.splits sum.splits prod.splits dest: commit_sessions)
  then show ?thesis
  proof
    assume t: "y = None \<and> jn_sessions s' = jn_sessions t"
    then have "forward t s'" "session_rank s' (ib_SessionID i) = session_rank t (ib_SessionID i)"
      by (auto intro: forward_same rank_cong simp: session_file_def)
    then show ?thesis using F t forward_trans [of s t s'] by auto
  qed (use F in auto)
next
  case False
  then have "jn_sessions s' = jn_sessions s \<and> isl x"
    using assms(1) by (auto simp: advance_inbound_def split: sum.splits prod.splits if_splits dest: commit_sessions)
  then show ?thesis by (auto intro: forward_same)
qed

lemma commitInbound_forward:
  assumes "commitInbound c ws wr i s = (x, s')"
  shows "forward s s' \<and> (\<forall>r. x = Inr (True, r) \<longrightarrow> sessionPattern (ib_SessionID i) \<and>
    session_rank s (ib_SessionID i) = unat (ib_ExpectedGeneration i) \<and> unat (ib_ExpectedGeneration i) < session_rank s' (ib_SessionID i))"
proof -
  obtain y t where S: "stage_inbound c i s = (y, t)" by fastforce
  have t: "jn_sessions t = jn_sessions s" using S by (auto simp: stage_inbound_def dest: Accept_sessions split: option.splits)
  then have f: "forward s t" and k: "session_rank t j = session_rank s j" for j
    by (auto intro: forward_same rank_cong simp: session_file_def)
  show ?thesis
  proof (cases "\<exists>fr r. y = Inr (fr, r) \<and> advance_inbound ws wr i fr r t = (x, s')")
    case True
    then obtain fr r where r: "y = Inr (fr, r)" "advance_inbound ws wr i fr r t = (x, s')" by blast
    have p: "sessionPattern (ib_SessionID i)"
      using S r(1) by (auto simp: stage_inbound_def thenE_def split: option.splits dest: validateSessionInput_pattern)
    show ?thesis using advance_inbound_forward [OF r(2) p] f p k forward_trans [of s t s'] by auto
  next
    case False
    then have "s' = t \<and> (\<forall>r. x \<noteq> Inr (True, r))" using assms S by (auto simp: commitInbound_def split: sum.splits if_splits)
    then show ?thesis using f by auto
  qed
qed


lemma resolve_forward:
  assumes "resolveStaged ws wr name r s = (x, s')"
  shows "forward s s'"
proof (cases "\<exists>nxt. sessionPattern (rc_SessionID r) \<and> generation s (rc_SessionID r) = Inr (rc_ExpectedGen r) \<and> Record_NextState r = Inr nxt")
  case True
  then obtain nxt where n: "sessionPattern (rc_SessionID r)" "generation s (rc_SessionID r) = Inr (rc_ExpectedGen r)" "Record_NextState r = Inr nxt" by blast
  obtain y t where W: "writeSessionInbound ws (rc_SessionID r) (rc_AlgorithmID r) (rc_ExpectedGen r + 1) nxt
      (rc_EventID r) (rc_SessionAuthority r) (rc_CryptoAtUnix r) s = (y, t)" by fastforce
  have "s' = t \<or> jn_sessions s' = jn_sessions t"
    using assms n W by (auto simp: resolveStaged_def Let_def split: option.splits prod.splits sum.splits dest: commit_sessions)
  then show ?thesis using write_forward [OF W n(1) n(2)] forward_trans [of s t s'] forward_same [of s' t] by auto
next
  case False
  then have "jn_sessions s' = jn_sessions s" using assms
    by (auto simp: resolveStaged_def Let_def split: if_splits prod.splits sum.splits dest: commit_sessions)
  then show ?thesis by (rule forward_same)
qed

lemma recover_forward: "forward s (snd (recover_loop ws names s))"
proof (induction names arbitrary: s)
  case (Cons name names)
  show ?case
  proof (cases "\<exists>r. readRecord (jn_inbound s) name = Found r \<and> rc_Crypto r = CryptoStaged")
    case True
    then obtain r where r: "readRecord (jn_inbound s) name = Found r" "rc_Crypto r = CryptoStaged" by blast
    obtain x t where R: "resolveStaged (fst (ws name)) (snd (ws name)) name r s = (x, t)" by fastforce
    show ?thesis using r R forward_trans [OF resolve_forward [OF R] Cons] resolve_forward [OF R] by (cases x) auto
  next
    case False
    with Cons show ?thesis by (auto split: found.splits)
  qed
qed simp

lemma OpenWith_forward: "forward s (snd (OpenWith ws q s))"
proof -
  let ?t = "s\<lparr>jn_held := True, jn_quota := q\<rparr>"
  obtain x u where R: "recoverStaged ws ?t = (x, u)" by fastforce
  then have "forward ?t u" using recover_forward [of ?t ws "listing (jn_inbound ?t)"] by (simp add: recoverStaged_def)
  then have "forward s u" using forward_trans [OF forward_same [of ?t s]] by simp
  moreover have "forward u (u\<lparr>jn_held := False\<rparr>)" by (rule forward_same) simp
  ultimately have "forward s u" "forward s (u\<lparr>jn_held := False\<rparr>)" by (auto intro: forward_trans)
  then show ?thesis using R by (auto simp: OpenWith_def openJournalAt_def split: option.splits)
qed

lemma PutSession_forward: "forward s (snd (PutSessionState w i a st now s))"
proof (cases "\<exists>g. validateSessionInput i a st now = None \<and> generation s i = Inr g")
  case True
  then obtain g where g: "validateSessionInput i a st now = None" "generation s i = Inr g" by blast
  obtain x t where W: "writeSessionAt w i a (g + 1) st now s = (x, t)" by fastforce
  show ?thesis using writeSessionAt_forward [OF W validateSessionInput_pattern [OF g(1)] g(2)] g W
    by (auto simp: PutSessionState_def writeSession_def thenE_def split: option.splits)
next
  case False
  then show ?thesis by (auto simp: PutSessionState_def writeSession_def thenE_def split: option.splits sum.splits)
qed

lemma Bootstrap_forward: "forward s (snd (PutBootstrappedSessionState w i st fc now s))"
proof (cases "sessionPattern i \<and> readSession (jn_sessions s) (file_name i) = Missing")
  case True
  then have g: "generation s i = Inr 0" by (simp add: generation_def)
  have "forward s (snd (put_session w r s))" if "se_SessionID r = i" "se_Generation r = 1" for r
    using put_session_forward [OF surjective_pairing [of "put_session w r s"], of 0] that True g by simp
  then show ?thesis using True by (auto simp: PutBootstrappedSessionState_def split: option.splits)
next
  case False
  then show ?thesis
    by (auto simp: PutBootstrappedSessionState_def thenE_def split: option.splits found.splits dest: validateSessionInput_pattern)
qed

lemma change_sessions: "jn_sessions (snd (change_record w e f s)) = jn_sessions s" "jn_sessions (snd (change_delivery w i h s)) = jn_sessions s"
  by (auto simp: change_record_def change_delivery_def journal_commit_def commitDelivery_def
      split: found.splits sum.splits prod.splits option.splits)

lemma expire_sessions:
  "jn_sessions (snd (expire_loop ws seconds names n s)) = jn_sessions s"
  "jn_sessions (snd (expire_deliveries_loop ws seconds names n s)) = jn_sessions s"
proof (induction names arbitrary: n s)
  case (Cons name names)
  {
    case 1
    show ?case using Cons(1) by (auto split: found.splits sum.splits prod.splits dest!: commit_sessions)
  next
    case 2
    show ?case using Cons(2) by (auto split: found.splits sum.splits prod.splits dest!: commitDelivery_sessions)
  }
qed simp_all

lemma record_frames:
  "jn_sessions (snd (claimForApplicationKind kind_of w e l now d req ex al s)) = jn_sessions s"
  "jn_sessions (snd (finish w e l st code now s)) = jn_sessions s"
  "jn_sessions (snd (MarkRead w e now s)) = jn_sessions s"
  "jn_sessions (snd (decideAdmission w e ad code now s)) = jn_sessions s"
  by (auto simp: claimForApplicationKind_def finish_def MarkRead_def decideAdmission_def change_sessions
      split: option.splits found.splits) (auto simp: journal_commit_def split: prod.splits option.splits)

lemma delivery_frames:
  "jn_sessions (snd (Enqueue c r s)) = jn_sessions s"
  "jn_sessions (snd (ClaimForSend w i at now lease s)) = jn_sessions s"
  "jn_sessions (snd (Failed w i at code now s)) = jn_sessions s"
  "jn_sessions (snd (delivery_settle w i at st now s)) = jn_sessions s"
  "jn_sessions (snd (Resume w i now s)) = jn_sessions s"
  by (auto simp: Enqueue_def ClaimForSend_def Failed_def delivery_settle_def Resume_def change_sessions Let_def
      split: option.splits found.splits prod.splits)


lemma journal_do_forward: "forward s (snd (journal_do op s))"
proof (cases op)
  case (OpAccept c e)
  then show ?thesis using Accept_sessions [OF surjective_pairing [of "Accept c e s"]]
    by (auto intro!: forward_same split: prod.splits sum.splits bool.splits)
next
  case (OpInbound c ws wr i)
  then show ?thesis using commitInbound_forward [OF surjective_pairing [of "commitInbound c ws wr i s"]]
    by (auto split: prod.splits sum.splits bool.splits)
next
  case (OpClaim kind_of w e l now d req ex al)
  then show ?thesis using record_frames(1) [of kind_of w e l now d req ex al s] by (auto intro!: forward_same split: prod.splits sum.splits)
next
  case (OpComplete w e l now)
  then show ?thesis using record_frames(2) [of w e l StateApplied "[]" now s]
    by (auto simp: CompleteApplication_def intro!: forward_same split: prod.splits sum.splits)
next
  case (OpReject w e l code now)
  then show ?thesis using record_frames(2) [of w e l StateRejected code now s]
    by (auto simp: RejectApplication_def intro!: forward_same split: prod.splits sum.splits)
next
  case (OpSealed ws wd i a g st di at c now)
  then show ?thesis using CommitSealed_forward [OF surjective_pairing [of "CommitSealed ws wd i a g st di at c now s"]] by simp
qed (auto simp: record_frames AdmitEvent_def DenyEvent_def ExpirePendingAdmissions_def expire_sessions OpenWith_forward PutSession_forward
    Bootstrap_forward journal_Close_def delivery_frames Delivered_def Abandon_def ExpireDeliveries_def intro!: forward_same split: option.splits)

lemma journal_run_forward: "forward s (snd (journal_run ops s))"
proof (induction ops arbitrary: s)
  case (Cons op ops)
  show ?case using forward_trans [OF journal_do_forward [of s op] Cons] by (simp add: case_prod_unfold)
qed simp

lemma journal_run_append: "snd (journal_run (ops @ after) s) = snd (journal_run after (snd (journal_run ops s)))"
  by (induction ops arbitrary: s) (simp_all add: case_prod_unfold)

lemma spends_rank:
  assumes "(i, g) \<in> set (spends op s)"
  shows "spends op s = [(i, g)] \<and> sessionPattern i \<and> session_rank s i = unat g \<and> unat g < session_rank (snd (journal_do op s)) i"
proof (cases op)
  case (OpInbound c ws wr j)
  then show ?thesis using assms commitInbound_forward [OF surjective_pairing [of "commitInbound c ws wr j s"]]
    by (auto split: prod.splits sum.splits bool.splits)
next
  case (OpSealed ws wd j a h st di at c now)
  then show ?thesis using assms CommitSealed_forward [OF surjective_pairing [of "CommitSealed ws wd j a h st di at c now s"]]
    by (auto split: sum.splits)
qed (use assms in auto)

lemma spent_rank: "(i, g) \<in> set (spent ops s) \<Longrightarrow> sessionPattern i \<and> session_rank s i \<le> unat g"
proof (induction ops arbitrary: s)
  case (Cons op ops)
  then consider "(i, g) \<in> set (spends op s)" | "(i, g) \<in> set (spent ops (snd (journal_do op s)))" by auto
  then show ?case
  proof cases
    case 2
    with Cons.IH journal_do_forward [of s op] show ?thesis unfolding forward_def by fastforce
  qed (use spends_rank in fastforce)
qed simp

lemma spent_distinct: "distinct (spent ops s)"
proof (induction ops arbitrary: s)
  case (Cons op ops)
  have "(i, g) \<notin> set (spent ops (snd (journal_do op s)))" if "(i, g) \<in> set (spends op s)" for i g
    using spends_rank [OF that] spent_rank [of i g ops "snd (journal_do op s)"] by auto
  moreover have "distinct (spends op s)"
  proof (cases "spends op s")
    case (Cons p ps)
    then have "(fst p, snd p) \<in> set (spends op s)" by simp
    from spends_rank [OF this] show ?thesis by simp
  qed simp
  ultimately show ?case using Cons by auto
qed simp

section \<open>Recovery\<close>

lemma commit_synced: "journal_commit (Wrote Synced) name r s = (x, s') \<longleftrightarrow> x = Inr r \<and> s' = s\<lparr>jn_inbound := AList.update name (Whole r) (jn_inbound s)\<rparr>"
  by (auto simp: journal_commit_def replace_def replace_file_def)

lemma readRecord_update: "readRecord (AList.update name (Whole r) d) name' = (if name' = name then (if valid_record r then Found r else Invalid) else readRecord d name')"
  by (auto simp: readRecord_def read_file_def update_conv')

lemma resolve_synced:
  assumes R: "resolveStaged (Wrote Synced) (Wrote Synced) name r s = (None, s')" and v: "valid_record r"
  obtains c where "jn_inbound s' = AList.update name (Whole (r\<lparr>rc_Crypto := c\<rparr>)) (jn_inbound s)"
    "c = CryptoAbandoned \<or> c = CryptoCommitted \<and> sessionPattern (rc_SessionID r) \<and> unat (rc_ExpectedGen r) < session_rank s' (rc_SessionID r)"
proof (cases "\<exists>nxt. sessionPattern (rc_SessionID r) \<and> generation s (rc_SessionID r) = Inr (rc_ExpectedGen r) \<and> Record_NextState r = Inr nxt")
  case True
  then obtain nxt where n: "sessionPattern (rc_SessionID r)" "generation s (rc_SessionID r) = Inr (rc_ExpectedGen r)" "Record_NextState r = Inr nxt" by blast
  obtain y t where W: "writeSessionInbound (Wrote Synced) (rc_SessionID r) (rc_AlgorithmID r) (rc_ExpectedGen r + 1) nxt
      (rc_EventID r) (rc_SessionAuthority r) (rc_CryptoAtUnix r) s = (y, t)" by fastforce
  have t: "y = None" "s' = t\<lparr>jn_inbound := AList.update name (Whole (r\<lparr>rc_Crypto := CryptoCommitted\<rparr>)) (jn_inbound t)\<rparr>"
    using R n W by (auto simp: resolveStaged_def Let_def commit_synced split: option.splits prod.splits sum.splits)
  have "jn_inbound t = jn_inbound s" using session_frame W by (metis snd_conv)
  moreover have "session_rank s' (rc_SessionID r) = session_rank t (rc_SessionID r)" using t by (intro rank_cong) (simp add: session_file_def)
  ultimately show thesis using that [of CryptoCommitted] t n write_forward [OF W n(1) n(2)] generation_rank [OF n(2)] by simp
next
  case False
  have e: "rc_EventID r \<noteq> []" using v by (auto simp: valid_record_def ids_Event_def prefixed_hex64_eq)
  show thesis
  proof (cases "sessionPattern (rc_SessionID r) \<and> generation s (rc_SessionID r) = Inr (rc_ExpectedGen r + 1) \<and> rc_ExpectedGen r + 1 \<noteq> 0")
    case True
    then have "unat (rc_ExpectedGen r) < session_rank s (rc_SessionID r)"
      using generation_rank unatSuc [of "rc_ExpectedGen r"] by (simp add: add.commute)
    moreover have "session_rank (s\<lparr>jn_inbound := d\<rparr>) i = session_rank s i" for d i by (simp add: session_rank_def)
    ultimately show thesis using that R True False
      by (auto simp: resolveStaged_def Let_def commit_synced split: prod.splits sum.splits if_splits)
  next
    case no: False
    have "g \<noteq> 0 \<or> readSession (jn_sessions s) (file_name i) = Missing" if "generation s i = Inr g" for i g
      using that by (auto simp: generation_def readSession_def read_file_def valid_session_def split: found.splits option.splits stored.splits if_splits)
    then show thesis using that [of CryptoAbandoned] R no False e
      by (auto simp: resolveStaged_def Let_def commit_synced split: prod.splits sum.splits if_splits found.splits)
  qed
qed

lemma good_writes_sel: "fst (good_writes n) = Wrote Synced" "snd (good_writes n) = Wrote Synced"
  by (simp_all add: good_writes_def)

lemma recover_loop_settles:
  "recover_loop good_writes names s = (None, s') \<Longrightarrow>
    (name \<in> set names \<longrightarrow> recovered s s' name) \<and> (name \<notin> set names \<longrightarrow> readRecord (jn_inbound s') name = readRecord (jn_inbound s) name)"
proof (induction names arbitrary: s)
  case (Cons n names)
  show ?case
  proof (cases "\<exists>r. readRecord (jn_inbound s) n = Found r \<and> rc_Crypto r = CryptoStaged")
    case True
    then obtain r where r: "readRecord (jn_inbound s) n = Found r" "rc_Crypto r = CryptoStaged" by blast
    then obtain t where T: "resolveStaged (Wrote Synced) (Wrote Synced) n r s = (None, t)" "recover_loop good_writes names t = (None, s')"
      using Cons.prems by (auto simp: good_writes_sel split: prod.splits option.splits)
    have v: "valid_record r" using r by (simp add: readRecord_Found)
    note IH = Cons.IH [OF T(2)]
    from T(1) v obtain c where c: "jn_inbound t = AList.update n (Whole (r\<lparr>rc_Crypto := c\<rparr>)) (jn_inbound s)"
        "c = CryptoAbandoned \<or> c = CryptoCommitted \<and> sessionPattern (rc_SessionID r) \<and> unat (rc_ExpectedGen r) < session_rank t (rc_SessionID r)"
      by (rule resolve_synced)
    have read: "readRecord (jn_inbound t) nm = (if nm = n then Found (r\<lparr>rc_Crypto := c\<rparr>) else readRecord (jn_inbound s) nm)" for nm
      using v by (simp add: c(1) readRecord_update)
    show ?thesis
    proof (cases "name = n")
      case n: True
      have "readRecord (jn_inbound s') n = Found (r\<lparr>rc_Crypto := c\<rparr>)" using IH c(2) n by (auto simp: recovered_def read)
      moreover have "session_rank t (rc_SessionID r) \<le> session_rank s' (rc_SessionID r)" if "sessionPattern (rc_SessionID r)"
        using recover_forward [of t good_writes names] T(2) that by (auto simp: forward_def)
      ultimately show ?thesis using c(2) n r by (auto simp: recovered_def)
    qed (use IH in \<open>simp add: recovered_def read\<close>)
  next
    case False
    then have L: "recover_loop good_writes names s = (None, s')" using Cons.prems by (auto split: found.splits if_splits)
    show ?thesis using Cons.IH [OF L] False by (auto simp: recovered_def split: found.splits)
  qed
qed simp

text \<open>Where it succeeds.\<close>

lemma recoverable_record:
  assumes "recoverable s" and r: "readRecord (jn_inbound s) name = Found r" "rc_Crypto r = CryptoStaged"
  shows "well_staged r \<and> session_ok s (rc_SessionID r)"
proof -
  have "map_of (jn_inbound s) name = Some (Whole r)" using r by (simp add: readRecord_Found)
  then have "name \<in> set (listing (jn_inbound s))" by (force simp: listing_def dest: map_of_SomeD)
  then have "r \<in> set (readable valid_record (jn_inbound s))" using r(1) by (force simp: readable_def readRecord_def map_filter_def)
  then show ?thesis using assms by (auto simp: recoverable_def list_all_iff)
qed

lemma valid_session_written:
  assumes "well_staged r" and "sessionPattern i" and "Digest nxt = rc_NextStateDigest r"
    and "case b of None \<Rightarrow> True | Some c \<Rightarrow> ValidateFirstContact c = None"
    and "case au of None \<Rightarrow> True | Some a \<Rightarrow> SessionAuthority_validate a i = None"
  shows "valid_session \<lparr>se_Schema = SessionSchema, se_Generation = rc_ExpectedGen r + 1, se_SessionID = i, se_AlgorithmID = rc_AlgorithmID r,
    se_State = nxt, se_StateDigest = Digest nxt, se_UpdatedAtUnix = rc_CryptoAtUnix r, se_LastInboundEventID = ev,
    se_Bootstrap = b, se_Authority = au\<rparr>"
  using assms by (simp add: valid_session_def well_staged_def SessionRecord_State_def split: option.splits)

lemma put_session_ok:
  assumes "valid_session r" and i: "sessionPattern (se_SessionID r)"
  shows "\<exists>t. put_session (Wrote Synced) r s = (None, t) \<and> (\<forall>j. session_ok s j \<longrightarrow> session_ok t j)"
proof -
  have "session_ok (s\<lparr>jn_sessions := AList.update (file_name (se_SessionID r)) (Whole r) (jn_sessions s)\<rparr>) j"
    if "session_ok s j" for j
    using that assms session_names [OF i, of j] by (auto simp: session_ok_def readSession_def read_file_def update_conv')
  then show ?thesis by (simp add: put_session_def replace_def replace_file_def)
qed

lemma write_succeeds:
  assumes k: "session_ok s (rc_SessionID r)" and g: "generation s (rc_SessionID r) = Inr (rc_ExpectedGen r)" and w: "well_staged r"
    and i: "sessionPattern (rc_SessionID r)" and a: "valid_record r" and n: "Record_NextState r = Inr nxt"
  shows "\<exists>t. writeSessionInbound (Wrote Synced) (rc_SessionID r) (rc_AlgorithmID r) (rc_ExpectedGen r + 1) nxt ev (rc_SessionAuthority r) (rc_CryptoAtUnix r) s = (None, t) \<and>
    (\<forall>j. session_ok s j \<longrightarrow> session_ok t j)"
proof -
  have d: "Digest nxt = rc_NextStateDigest r" using n by (auto simp: Record_NextState_def split: if_splits)
  have au: "case rc_SessionAuthority r of None \<Rightarrow> True | Some x \<Rightarrow> SessionAuthority_validate x (rc_SessionID r) = None"
    using a by (simp add: valid_record_def)
  show ?thesis
  proof (cases "readSession (jn_sessions s) (file_name (rc_SessionID r))")
    case Missing
    show ?thesis using put_session_ok [OF valid_session_written [OF w i d, of None "rc_SessionAuthority r" ev]] au i Missing
      by (simp add: writeSessionInbound_def)
  next
    case Invalid
    then show ?thesis using k i by (simp add: session_ok_def)
  next
    case (Found c)
    then have c: "valid_session c" "se_SessionID c = rc_SessionID r" "se_Generation c = rc_ExpectedGen r"
      using k g i by (auto simp: session_ok_def generation_def readSession_def read_file_def split: option.splits stored.splits if_splits)
    then have no: "rc_SessionAuthority r = None" using w by (auto simp: valid_session_def well_staged_def)
    have "valid_session \<lparr>se_Schema = SessionSchema, se_Generation = rc_ExpectedGen r + 1, se_SessionID = rc_SessionID r,
      se_AlgorithmID = rc_AlgorithmID r, se_State = nxt, se_StateDigest = Digest nxt, se_UpdatedAtUnix = rc_CryptoAtUnix r,
      se_LastInboundEventID = ev, se_Bootstrap = se_Bootstrap c, se_Authority = se_Authority c\<rparr>"
      by (rule valid_session_written [OF w i d]) (use c in \<open>auto simp: valid_session_def split: option.splits\<close>)
    from put_session_ok [OF this] show ?thesis using i Found no by (simp add: writeSessionInbound_def)
  qed
qed

lemma resolve_succeeds:
  assumes k: "session_ok s (rc_SessionID r)" and w: "well_staged r" and v: "valid_record r"
  shows "\<exists>t. resolveStaged (Wrote Synced) (Wrote Synced) name r s = (None, t) \<and> (\<forall>j. session_ok s j \<longrightarrow> session_ok t j)"
proof (cases "\<exists>nxt. sessionPattern (rc_SessionID r) \<and> generation s (rc_SessionID r) = Inr (rc_ExpectedGen r) \<and> Record_NextState r = Inr nxt")
  case True
  then obtain nxt where n: "sessionPattern (rc_SessionID r)" "generation s (rc_SessionID r) = Inr (rc_ExpectedGen r)" "Record_NextState r = Inr nxt" by blast
  then obtain t where t: "writeSessionInbound (Wrote Synced) (rc_SessionID r) (rc_AlgorithmID r) (rc_ExpectedGen r + 1) nxt
      (rc_EventID r) (rc_SessionAuthority r) (rc_CryptoAtUnix r) s = (None, t)" "\<forall>j. session_ok s j \<longrightarrow> session_ok t j"
    using write_succeeds [OF k _ w _ v] by blast
  have "session_ok (t\<lparr>jn_inbound := d\<rparr>) j = session_ok t j" for d j by (simp add: session_ok_def)
  then show ?thesis using n t by (simp add: resolveStaged_def Let_def journal_commit_def replace_def replace_file_def)
next
  case False
  have "session_ok (s\<lparr>jn_inbound := d\<rparr>) j = session_ok s j" for d j by (simp add: session_ok_def)
  moreover have "sessionPattern (rc_SessionID r) \<Longrightarrow> \<exists>g. generation s (rc_SessionID r) = Inr g" using k by (auto simp: session_ok_def generation_def split: found.splits)
  ultimately show ?thesis using False
    by (auto simp: resolveStaged_def Let_def journal_commit_def replace_def replace_file_def split: sum.splits)
qed

lemma recover_loop_succeeds:
  "distinct names \<Longrightarrow> (\<And>name r. name \<in> set names \<Longrightarrow> readRecord (jn_inbound s) name = Found r \<Longrightarrow> rc_Crypto r = CryptoStaged \<Longrightarrow>
      well_staged r \<and> session_ok s (rc_SessionID r)) \<Longrightarrow> fst (recover_loop good_writes names s) = None"
proof (induction names arbitrary: s)
  case (Cons n names)
  show ?case
  proof (cases "\<exists>r. readRecord (jn_inbound s) n = Found r \<and> rc_Crypto r = CryptoStaged")
    case True
    then obtain r where r: "readRecord (jn_inbound s) n = Found r" "rc_Crypto r = CryptoStaged" by blast
    have v: "valid_record r" using r by (simp add: readRecord_Found)
    have "session_ok s (rc_SessionID r)" "well_staged r" using Cons.prems(2) [of n r] r by auto
    then obtain t where t: "resolveStaged (Wrote Synced) (Wrote Synced) n r s = (None, t)" "\<forall>j. session_ok s j \<longrightarrow> session_ok t j"
      using resolve_succeeds [OF _ _ v] by blast
    obtain c where c: "jn_inbound t = AList.update n (Whole (r\<lparr>rc_Crypto := c\<rparr>)) (jn_inbound s)" using resolve_synced [OF t(1) v] .
    have "fst (recover_loop good_writes names t) = None"
    proof (rule Cons.IH)
      fix name ra assume a: "name \<in> set names" "readRecord (jn_inbound t) name = Found ra" "rc_Crypto ra = CryptoStaged"
      then have "readRecord (jn_inbound s) name = Found ra" using Cons.prems(1) by (auto simp: c readRecord_update split: if_splits)
      then show "well_staged ra \<and> session_ok t (rc_SessionID ra)" using Cons.prems(2) [of name ra] a t(2) by simp
    qed (use Cons.prems(1) in simp)
    then show ?thesis using r t by (simp add: good_writes_sel)
  next
    case False
    then show ?thesis using Cons by (auto split: found.splits)
  qed
qed simp

section \<open>Properties\<close>

text \<open>
  C3. No key of a ratchet is spent twice. In any run of the journal's
  operations, one after another, no two callers are told that
  they advanced one session from the same generation, by sealing or by opening; and the file of
  a session only changes to a later generation, whatever the writes do and however often the
  process dies.
\<close>

theorem no_key_spent_twice:
  "distinct (spent ops s) \<and>
   (if sessionPattern i \<and> session_rank (snd (journal_run (ops @ after) s)) i \<le> session_rank (snd (journal_run ops s)) i
    then session_file (snd (journal_run (ops @ after) s)) i = session_file (snd (journal_run ops s)) i else True)"
proof -
  have "forward (snd (journal_run ops s)) (snd (journal_run (ops @ after) s))"
    using journal_run_forward by (simp add: journal_run_append)
  then show ?thesis using spent_distinct by (auto simp: forward_def)
qed




end
