(* ===== verification/JournalDelivery.thy ===== *)
theory JournalDelivery
  imports JournalInbox
begin

text \<open>
  What the outbound half of the journal promises: an event is not tried for ever. And the one
  failure report that makes a delivery unreadable.
\<close>

section \<open>Definitions\<close>

text \<open>How often the delivery kept under a name has failed, and the failures after which it is tried again.\<close>

definition attempts_at :: "string \<Rightarrow> Journal \<Rightarrow> nat" where
  "attempts_at name s = (case map_of (jn_outbound s) name of Some (Whole d) \<Rightarrow> unat (de_Attempts d) | _ \<Rightarrow> 0)"

fun retried :: "string \<Rightarrow> jop \<Rightarrow> Journal \<Rightarrow> nat" where
  "retried name (OpFailed w di at code now) s =
     (case fst (Failed w di at code now s) of
        Inr d \<Rightarrow> if de_State d = StatePending \<and> file_name di = name then 1 else 0
      | Inl _ \<Rightarrow> 0)"
| "retried name _ s = 0"

fun retries :: "string \<Rightarrow> jop list \<Rightarrow> Journal \<Rightarrow> nat" where
  "retries name [] s = 0"
| "retries name (op # ops) s = retried name op s + retries name ops (snd (journal_do op s))"

section \<open>Attempts\<close>

lemma delivery_temp: "validDeliveryID i \<Longrightarrow> file_name i \<noteq> ''.transition-'' @ t"
proof -
  have "\<not> is_hex (CHR ''.'')" by code_simp
  then show "validDeliveryID i \<Longrightarrow> file_name i \<noteq> ''.transition-'' @ t"
    by (auto simp: validDeliveryID_def ids_Event_def deliveryCopyPattern_def prefixed_hex64_eq file_name_def hex64_def append_eq_Cons_conv)
qed

lemma readDelivery_Found: "readDelivery d name = Found r \<longleftrightarrow> map_of d name = Some (Whole r) \<and> valid_delivery r"
  by (auto simp: readDelivery_def read_file_def split: option.splits stored.splits)

lemma commitDelivery_attempts:
  assumes "commitDelivery w name d s = (x, s')" and "validDeliveryID i"
  shows "attempts_at (file_name i) s' = attempts_at (file_name i) s \<and> (isl x \<or> name \<noteq> file_name i) \<or>
    name = file_name i \<and> attempts_at (file_name i) s' = unat (de_Attempts d)"
proof -
  obtain y o' where R: "replace w name d (jn_outbound s) = (y, o')" by fastforce
  then have s': "s' = s\<lparr>jn_outbound := o'\<rparr>" and x: "y \<noteq> None \<Longrightarrow> isl x" using assms(1) by (auto simp: commitDelivery_def split: option.splits)
  from R show ?thesis
  proof (cases rule: replace_cases)
    case (temp t f)
    then show ?thesis using delivery_temp [OF assms(2), of t] x by (auto simp: attempts_at_def s')
  qed (use x in \<open>auto simp: attempts_at_def s'\<close>)
qed

lemma commitDelivery_Inr: "commitDelivery w name d s = (Inr d', s') \<Longrightarrow> d' = d"
  by (auto simp: commitDelivery_def split: prod.splits option.splits)

lemma change_delivery_attempts:
  assumes "validDeliveryID i" and "\<And>d d'. f d = Inr d' \<Longrightarrow> de_Attempts d' = de_Attempts d"
  shows "attempts_at (file_name i) (snd (change_delivery w j f s)) = attempts_at (file_name i) s"
proof (cases "\<exists>d d'. readDelivery (jn_outbound s) (file_name j) = Found d \<and> f d = Inr d'")
  case True
  then obtain d d' where d: "readDelivery (jn_outbound s) (file_name j) = Found d" "f d = Inr d'" by blast
  then have "attempts_at (file_name j) s = unat (de_Attempts d')" using assms(2) by (simp add: readDelivery_Found attempts_at_def)
  then show ?thesis using commitDelivery_attempts [OF surjective_pairing [of "commitDelivery w (file_name j) d' s"] assms(1)] d
    by (auto simp: change_delivery_def)
next
  case False
  then show ?thesis by (auto simp: change_delivery_def split: found.splits sum.splits)
qed

lemma same_outbound: "jn_outbound s' = jn_outbound s \<Longrightarrow> attempts_at n s' = attempts_at n s"
  by (simp add: attempts_at_def)

lemma failed_change_Inr:
  assumes "failed_change at code sec d = Inr d'"
  shows "de_Attempts d' = de_Attempts d + 1 \<and> (de_State d' = StatePending \<longrightarrow> unat (de_Attempts d') \<le> 8)"
proof -
  have "ry_Allowed (NextCode code (uint a)) \<Longrightarrow> unat a \<le> 8" for a :: u32
  proof -
    assume "ry_Allowed (NextCode code (uint a))"
    then have "nat (uint a) \<le> 8" using NextCode_Allowed(1) [of code "uint a"] by linarith
    then show "unat a \<le> 8" by simp
  qed
  then show ?thesis using assms by (auto simp: failed_change_def Let_def failE_eq_Inr split: if_splits)
qed


lemma Failed_attempts:
  assumes i: "validDeliveryID i"
  shows "attempts_at (file_name i) (snd (Failed w j at code now s)) = attempts_at (file_name i) s \<and> retried (file_name i) (OpFailed w j at code now) s = 0 \<or>
    (Suc (attempts_at (file_name i) s) < 2 ^ 32 \<longrightarrow> attempts_at (file_name i) (snd (Failed w j at code now s)) = Suc (attempts_at (file_name i) s) \<and>
      (retried (file_name i) (OpFailed w j at code now) s = 0 \<or>
       retried (file_name i) (OpFailed w j at code now) s = 1 \<and> Suc (attempts_at (file_name i) s) \<le> 8))"
proof (cases "\<exists>d d'. readDelivery (jn_outbound s) (file_name j) = Found d \<and> failed_change at code (unix now) d = Inr d' \<and>
    Failed w j at code now s = commitDelivery w (file_name j) d' s")
  case True
  then obtain d d' where d: "readDelivery (jn_outbound s) (file_name j) = Found d" "failed_change at code (unix now) d = Inr d'"
    "Failed w j at code now s = commitDelivery w (file_name j) d' s" by blast
  obtain x t where C: "commitDelivery w (file_name j) d' s = (x, t)" by fastforce
  have a: "attempts_at (file_name j) s = unat (de_Attempts d)" using d by (simp add: readDelivery_Found attempts_at_def)
  have n: "unat (de_Attempts d') = Suc (unat (de_Attempts d))" if "Suc (unat (de_Attempts d)) < 2 ^ 32"
  proof -
    have "de_Attempts d' = de_Attempts d + 1" using failed_change_Inr [OF d(2)] by simp
    then show ?thesis using that by (simp add: unat_word_ariths(1))
  qed
  have x: "x' = d'" if "x = Inr x'" for x' using commitDelivery_Inr [of w "file_name j" d' s x' t] C that by simp
  have r: "retried (file_name i) (OpFailed w j at code now) s =
      (if \<not> isl x \<and> de_State d' = StatePending \<and> file_name j = file_name i then 1 else 0)"
    using d(3) C x by (cases x) auto
  have s': "snd (Failed w j at code now s) = t" using d(3) C by simp
  from commitDelivery_attempts [OF C i] show ?thesis
  proof
    assume "attempts_at (file_name i) t = attempts_at (file_name i) s \<and> (isl x \<or> file_name j \<noteq> file_name i)"
    then show ?thesis unfolding r s' by auto
  next
    assume t: "file_name j = file_name i \<and> attempts_at (file_name i) t = unat (de_Attempts d')"
    have "attempts_at (file_name i) t = Suc (attempts_at (file_name i) s) \<and> (de_State d' = StatePending \<longrightarrow> Suc (attempts_at (file_name i) s) \<le> 8)"
      if "Suc (attempts_at (file_name i) s) < 2 ^ 32"
    proof -
      have "unat (de_Attempts d') = Suc (attempts_at (file_name i) s)" using n that a t by simp
      with conjunct2 [OF failed_change_Inr [OF d(2)]] show ?thesis using t by simp
    qed
    then show ?thesis unfolding r s' by auto
  qed
next
  case False
  then have "snd (Failed w j at code now s) = s \<and> isl (fst (Failed w j at code now s))"
    by (auto simp: Failed_def change_delivery_def thenE_def failIf_def split: option.splits found.splits sum.splits if_splits)
  then show ?thesis by (auto split: sum.splits)
qed

text \<open>The operations on inbound records and sessions leave the deliveries alone.\<close>

lemma commit_out: "jn_outbound (snd (journal_commit w name r s)) = jn_outbound s"
  by (auto simp: journal_commit_def split: prod.splits option.splits)

lemma change_out: "jn_outbound (snd (change_record w e f s)) = jn_outbound s"
  by (auto simp: change_record_def commit_out split: found.splits sum.splits)

lemma write_out: "jn_outbound (snd (writeSessionInbound w i a g st ev au sec s)) = jn_outbound s"
  by (auto simp: writeSessionInbound_def put_session_def Let_def split: found.splits option.splits prod.splits)

lemma Accept_out: "jn_outbound (snd (Accept c e s)) = jn_outbound s"
  by (auto simp: Accept_def split: option.splits found.splits prod.splits)

lemma stage_out: "jn_outbound (snd (stage_inbound c i s)) = jn_outbound s"
  by (auto simp: stage_inbound_def Accept_out split: option.splits)

lemma advance_out: "jn_outbound (snd (advance_inbound ws wr i f r s)) = jn_outbound s"
proof -
  obtain y t where W: "writeSessionInbound ws (ib_SessionID i) (ib_Algorithm i) (ib_ExpectedGeneration i + 1) (ib_Next i)
      (en_EventID (ib_Entry i)) (ib_Authority i) (unix (ib_Now i)) s = (y, t)" by fastforce
  then have "jn_outbound t = jn_outbound s" using write_out by (metis snd_conv)
  moreover have "jn_outbound u' = jn_outbound u" if "journal_commit wr n r' u = (x, u')" for n r' u x u'
    using commit_out [of wr n r' u] that by simp
  ultimately show ?thesis by (auto simp: advance_inbound_def W split: sum.splits option.splits prod.splits)
qed

lemma commitInbound_out: "jn_outbound (snd (commitInbound c ws wr i s)) = jn_outbound s"
proof -
  obtain y t where S: "stage_inbound c i s = (y, t)" by fastforce
  then have "jn_outbound t = jn_outbound s" using stage_out by (metis snd_conv)
  then show ?thesis using advance_out by (auto simp: commitInbound_def S split: sum.splits)
qed

lemma resolve_out: "jn_outbound (snd (resolveStaged ws wr name r s)) = jn_outbound s"
proof -
  have w: "jn_outbound t = jn_outbound s" if "writeSessionInbound ws (rc_SessionID r) (rc_AlgorithmID r) (rc_ExpectedGen r + 1) nxt
      (rc_EventID r) (rc_SessionAuthority r) (rc_CryptoAtUnix r) s = (y, t)" for nxt y t using write_out that by (metis snd_conv)
  have c: "jn_outbound u' = jn_outbound u" if "journal_commit wr name r' u = (x, u')" for r' u x u'
    using commit_out [of wr name r' u] that by simp
  show ?thesis by (auto simp: resolveStaged_def Let_def split: sum.splits option.splits prod.splits if_splits dest!: w c)
qed

lemma recover_out: "jn_outbound (snd (recover_loop ws names s)) = jn_outbound s"
proof (induction names arbitrary: s)
  case (Cons n names)
  have "jn_outbound t = jn_outbound s" if "resolveStaged a b n r s = (x, t)" for a b r x t using resolve_out that by (metis snd_conv)
  then show ?case using Cons by (auto split: found.splits prod.splits option.splits)
qed simp

lemma expire_out: "jn_outbound (snd (expire_loop ws seconds names n s)) = jn_outbound s"
proof (induction names arbitrary: n s)
  case (Cons name names)
  have "jn_outbound u' = jn_outbound u" if "journal_commit w nm r' u = (x, u')" for w nm r' u x u'
    using commit_out [of w nm r' u] that by simp
  then show ?case using Cons by (auto split: found.splits sum.splits prod.splits)
qed simp

lemma OpenWith_out: "jn_outbound (snd (OpenWith ws q s)) = jn_outbound s"
proof -
  obtain x t where R: "recoverStaged ws (s\<lparr>jn_held := True, jn_quota := q\<rparr>) = (x, t)" by fastforce
  then have "jn_outbound t = jn_outbound s"
    using recover_out [of ws "listing (jn_inbound s)" "s\<lparr>jn_held := True, jn_quota := q\<rparr>"] by (simp add: recoverStaged_def)
  then show ?thesis using R by (auto simp: OpenWith_def openJournalAt_def split: option.splits)
qed


lemma inbound_outs:
  "jn_outbound (snd (claimForApplicationKind kind_of w e l now d req ex al s)) = jn_outbound s"
  "jn_outbound (snd (finish w e l st code now s)) = jn_outbound s"
  "jn_outbound (snd (MarkRead w e now s)) = jn_outbound s"
  "jn_outbound (snd (decideAdmission w e ad code now s)) = jn_outbound s"
  "jn_outbound (snd (PutSessionState w i a sta now s)) = jn_outbound s"
  "jn_outbound (snd (PutBootstrappedSessionState w i sta fc now s)) = jn_outbound s"
  by (auto simp: claimForApplicationKind_def finish_def MarkRead_def decideAdmission_def change_out commit_out PutSessionState_def
      writeSession_def writeSessionAt_def write_out PutBootstrappedSessionState_def put_session_def
      split: option.splits found.splits sum.splits prod.splits)

lemma Enqueue_attempts: "attempts_at n (snd (Enqueue c r s)) = attempts_at n s"
proof (cases "\<exists>name x o'. readDelivery (jn_outbound s) name = Missing \<and> create_record c name (outbound_delivery r) (jn_outbound s) = (x, o') \<and>
    snd (Enqueue c r s) = s\<lparr>jn_outbound := o'\<rparr>")
  case True
  then obtain name x o' where c: "readDelivery (jn_outbound s) name = Missing" "create_record c name (outbound_delivery r) (jn_outbound s) = (x, o')"
    "snd (Enqueue c r s) = s\<lparr>jn_outbound := o'\<rparr>" by blast
  have "map_of (jn_outbound s) name = None" using c(1) by (auto simp: readDelivery_def read_file_def split: option.splits stored.splits if_splits)
  with c(2) show ?thesis unfolding c(3) by (cases rule: create_cases) (auto simp: attempts_at_def outbound_delivery_def)
next
  case False
  obtain y where y: "thenE (journal_usable s) (validateOutbound r) = y" by blast
  have "snd (Enqueue c r s) = s"
    using False by (cases y; cases "readDelivery (jn_outbound s) (file_name (if ob_DeliveryID r = [] then ob_EventID r else ob_DeliveryID r))")
      (auto simp: Enqueue_def Let_def y split: prod.splits option.splits)
  then show ?thesis by simp
qed

lemma CommitSealed_attempts:
  assumes "validDeliveryID i"
  shows "attempts_at (file_name i) (snd (CommitSealed ws wd j a g st di at c now s)) = attempts_at (file_name i) s"
proof -
  obtain y t where A: "advanceSession ws j a g st now s = (y, t)" by fastforce
  have t: "jn_outbound t = jn_outbound s"
    using A by (auto simp: advanceSession_def writeSessionAt_def split: sum.splits if_splits dest!: arg_cong [of _ _ "jn_outbound o snd"]) (simp add: write_out)
  have "attempts_at (file_name i) (snd (commitDelivery wd (file_name di) (d\<lparr>de_Ciphertext := c, de_CiphertextDigest := Digest c\<rparr>) t)) = attempts_at (file_name i) s"
    if "readDelivery (jn_outbound s) (file_name di) = Found d" for d
    using commitDelivery_attempts [OF surjective_pairing [of "commitDelivery wd (file_name di) (d\<lparr>de_Ciphertext := c, de_CiphertextDigest := Digest c\<rparr>) t"] assms]
      that same_outbound [OF t] by (auto simp: readDelivery_Found attempts_at_def t)
  then show ?thesis using same_outbound [OF t] by (auto simp: CommitSealed_def A split: option.splits found.splits)
qed

lemma expire_attempts:
  assumes "validDeliveryID i"
  shows "attempts_at (file_name i) (snd (expire_deliveries_loop ws seconds names n s)) = attempts_at (file_name i) s"
proof (induction names arbitrary: n s)
  case (Cons name names)
  have "attempts_at (file_name i) t = attempts_at (file_name i) s"
    if "readDelivery (jn_outbound s) name = Found d" "commitDelivery w name d' s = (x, t)" "de_Attempts d' = de_Attempts d" for d d' w x t
    using commitDelivery_attempts [OF that(2) assms] that(1,3) by (auto simp: readDelivery_Found attempts_at_def)
  then show ?case using Cons by (auto split: found.splits sum.splits prod.splits)
qed simp

lemma change_kinds:
  assumes i: "validDeliveryID i"
  shows "attempts_at (file_name i) (snd (ClaimForSend w j at now lease s)) = attempts_at (file_name i) s"
    and "attempts_at (file_name i) (snd (Resume w j now s)) = attempts_at (file_name i) s"
    and "attempts_at (file_name i) (snd (delivery_settle w j at st now s)) = attempts_at (file_name i) s"
  unfolding ClaimForSend_def Resume_def delivery_settle_def
  by (auto simp: settle_change_def failE_eq_Inr split: option.splits if_splits intro!: change_delivery_attempts [OF i])

lemma quiet_attempts:
  assumes i: "validDeliveryID i" and f: "\<And>w j at code now. op \<noteq> OpFailed w j at code now"
  shows "attempts_at (file_name i) (snd (journal_do op s)) = attempts_at (file_name i) s"
proof (cases op)
  case (OpAccept c e)
  then show ?thesis using same_outbound [OF Accept_out [of c e s]] by (auto split: prod.splits sum.splits bool.splits)
next
  case (OpInbound c ws wr j)
  then show ?thesis using same_outbound [OF commitInbound_out [of c ws wr j s]] by (auto split: prod.splits sum.splits bool.splits)
next
  case (OpClaim kind_of w e l now d req ex al)
  then show ?thesis using same_outbound [OF inbound_outs(1) [of kind_of w e l now d req ex al s]] by (auto split: prod.splits sum.splits)
next
  case (OpComplete w e l now)
  then show ?thesis using same_outbound [OF inbound_outs(2) [of w e l StateApplied "[]" now s]]
    by (auto simp: CompleteApplication_def split: prod.splits sum.splits)
next
  case (OpReject w e l code now)
  then show ?thesis using same_outbound [OF inbound_outs(2) [of w e l StateRejected code now s]]
    by (auto simp: RejectApplication_def split: prod.splits sum.splits)
next
  case OpClose
  then show ?thesis by (simp add: journal_Close_def attempts_at_def)
qed (use f in \<open>auto simp: inbound_outs [THEN same_outbound] AdmitEvent_def DenyEvent_def ExpirePendingAdmissions_def expire_out [THEN same_outbound]
    OpenWith_out [THEN same_outbound] CommitSealed_attempts Enqueue_attempts ExpireDeliveries_def expire_attempts Delivered_def Abandon_def change_kinds i
    split: option.splits\<close>)

lemma op_attempts:
  assumes i: "validDeliveryID i" and b: "Suc (attempts_at (file_name i) s) < 2 ^ 32"
  shows "attempts_at (file_name i) s \<le> attempts_at (file_name i) (snd (journal_do op s)) \<and>
    attempts_at (file_name i) (snd (journal_do op s)) \<le> Suc (attempts_at (file_name i) s) \<and>
    (retried (file_name i) op s = 0 \<or> retried (file_name i) op s = 1 \<and> Suc (attempts_at (file_name i) s) \<le> 8 \<and>
      attempts_at (file_name i) (snd (journal_do op s)) = Suc (attempts_at (file_name i) s))"
proof (cases "\<exists>w j at code now. op = OpFailed w j at code now")
  case True
  then obtain w j at code now where "op = OpFailed w j at code now" by blast
  then show ?thesis using Failed_attempts [OF i, of w j at code now s] b by auto
next
  case False
  then have "retried (file_name i) op s = 0" by (cases op) auto
  then show ?thesis using quiet_attempts [OF i, of op s] False by auto
qed

lemma retries_bound:
  assumes i: "validDeliveryID i"
  shows "attempts_at (file_name i) s + length ops < 2 ^ 32 \<Longrightarrow> retries (file_name i) ops s \<le> 8 - attempts_at (file_name i) s"
proof (induction ops arbitrary: s)
  case (Cons op ops)
  have "Suc (attempts_at (file_name i) s) < 2 ^ 32" using Cons.prems by simp
  note a = op_attempts [OF i this, of op]
  moreover have "attempts_at (file_name i) (snd (journal_do op s)) + length ops < 2 ^ 32" using Cons.prems a by simp
  note Cons.IH [OF this]
  ultimately show ?case by auto
qed simp

text \<open>\<open>Failed\<close> does not check its code as the other refusals do: a code outside the registry is recorded, and the record cannot be read again.\<close>

lemma Failed_unknown_code:
  assumes "Failed w i at code now s = (Inr d, s')" and "code \<noteq> []" and "\<not> Known code"
  shows "readDelivery (jn_outbound s') (file_name i) = Invalid"
proof -
  from assms(1) obtain e where e: "failed_change at code (unix now) e = Inr d" and c: "commitDelivery w (file_name i) d s = (Inr d, s')"
    using commitDelivery_Inr by (fastforce simp: Failed_def change_delivery_def split: option.splits found.splits sum.splits)
  have "de_LastCode d = code" using e by (auto simp: failed_change_def Let_def failE_eq_Inr split: if_splits)
  then have v: "\<not> valid_delivery d" using assms(2,3) by (simp add: valid_delivery_def)
  obtain o' where "replace w (file_name i) d (jn_outbound s) = (None, o')" "s' = s\<lparr>jn_outbound := o'\<rparr>"
    using c by (auto simp: commitDelivery_def split: prod.splits option.splits)
  then show ?thesis using replace_None [of w "file_name i" d "jn_outbound s" o'] v by (simp add: readDelivery_def read_file_def)
qed

section \<open>Properties\<close>



end
