(* ===== verification/Spec2Isabelle.thy ===== *)
theory Spec2Isabelle
  imports Commerce AttachmentSeal AttachmentStore Payload JournalSessions JournalDelivery
begin

text \<open>
  A verification development of TOS Messenger, the store-and-forward messaging daemon of
  \<open>src/\<close>. (The header is completed as the components are added.)
\<close>

end
